(* ===== verification/Prelude.thy ===== *)
theory Prelude
  imports
    Complex_Main
    "HOL-Library.AList"
    "HOL-Library.Word"
    "HOL-Library.Multiset"
    "HOL-Library.List_Lexorder"
    "HOL-Library.Char_ord"
begin

text \<open>
  What every component shares: the parts of Go's language and standard library that the
  sources use (byte strings and the \<open>strings\<close> package, maps, \<open>sort.Slice\<close>, \<open>time\<close>,
  decimal formatting), the result type of fallible calls, and the generic lemmas about them.

  Conventions.
  \<^item> A Go \<open>string\<close> is a sequence of bytes; here a HOL string, whose characters are bytes.
  \<^item> A Go map is an association list. The order of the list stands for the order in which the
    runtime happens to iterate the map: theorems quantify over the list, so they hold for every
    iteration order.
  \<^item> \<open>error + 'a\<close>: a call that returns \<open>(value, error)\<close>; \<open>Inl msg\<close> is a non-nil error with
    that message, \<open>Inr v\<close> is \<open>(v, nil)\<close>.
  \<^item> \<open>time.Time\<close> is a number of nanoseconds since the Unix epoch; every operation that reads the
    clock takes the value it read as an argument.
  \<^item> \<open>float64\<close> is \<open>rat\<close>: rounding of floating-point division is not modelled.
\<close>

section \<open>Types and collections\<close>

named_theorems go_str \<open>evaluation rules for the modelled part of the strings package\<close>
named_theorems go_map \<open>laws of Go maps\<close>

type_synonym error = string
type_synonym 'a res = "error + 'a"
type_synonym ('k, 'v) gomap = "('k \<times> 'v) list"
type_synonym Time = int
type_synonym Duration = int
type_synonym float64 = rat

section \<open>Strings\<close>

definition HasPrefix :: "string \<Rightarrow> string \<Rightarrow> bool" where
  "HasPrefix s p \<longleftrightarrow> take (length p) s = p"

definition HasSuffix :: "string \<Rightarrow> string \<Rightarrow> bool" where
  "HasSuffix s p \<longleftrightarrow> HasPrefix (rev s) (rev p)"

definition TrimPrefix :: "string \<Rightarrow> string \<Rightarrow> string" where
  "TrimPrefix s p = (if HasPrefix s p then drop (length p) s else s)"

definition TrimSuffix :: "string \<Rightarrow> string \<Rightarrow> string" where
  "TrimSuffix s p = (if HasSuffix s p then take (length s - length p) s else s)"

fun Contains :: "string \<Rightarrow> string \<Rightarrow> bool" where
  "Contains [] sub = (sub = [])"
| "Contains (c # s) sub = (HasPrefix (c # s) sub \<or> Contains s sub)"

text \<open>\<open>strings.Split\<close> with a one-byte separator, the only form the sources use.\<close>

fun Split :: "string \<Rightarrow> char \<Rightarrow> string list" where
  "Split [] d = [[]]"
| "Split (c # s) d =
     (if c = d then [] # Split s d
      else (case Split s d of [] \<Rightarrow> [[c]] | x # xs \<Rightarrow> (c # x) # xs))"

fun Join :: "string list \<Rightarrow> string \<Rightarrow> string" where
  "Join [] sep = []"
| "Join [x] sep = x"
| "Join (x # y # xs) sep = x @ sep @ Join (y # xs) sep"

text \<open>\<open>strings.Cut\<close> with a one-byte separator: the text before and after its first occurrence.\<close>

fun Cut :: "string \<Rightarrow> char \<Rightarrow> (string \<times> string) option" where
  "Cut [] d = None"
| "Cut (c # s) d =
     (if c = d then Some ([], s)
      else case Cut s d of None \<Rightarrow> None | Some (a, b) \<Rightarrow> Some (c # a, b))"

lemma Cut_None: "Cut s d = None \<longleftrightarrow> d \<notin> set s"
  by (induction s) (auto split: option.splits)

lemma Cut_append: "d \<notin> set a \<Longrightarrow> Cut (a @ d # b) d = Some (a, b)"
  by (induction a) auto

lemma HasPrefixI:
  "HasPrefix (p @ s) p"
  by (simp add: HasPrefix_def)

lemma HasPrefixE:
  assumes "HasPrefix s p"
  obtains t where "s = p @ t"
proof
  show "s = p @ drop (length p) s"
    using assms by (metis HasPrefix_def append_take_drop_id)
qed

lemma HasPrefix_iff: "HasPrefix s p \<longleftrightarrow> (\<exists>t. s = p @ t)"
  by (auto elim: HasPrefixE intro: HasPrefixI)

lemma HasPrefix_Nil [simp]: "HasPrefix s []"
  by (simp add: HasPrefix_def)

lemma HasPrefix_empty [simp]: "HasPrefix [] p \<longleftrightarrow> p = []"
  by (auto simp: HasPrefix_def)

lemma Contains_iff: "Contains s sub \<longleftrightarrow> (\<exists>a b. s = a @ sub @ b)"
proof (induction s)
  case Nil
  then show ?case by auto
next
  case (Cons c s)
  show ?case
  proof
    assume "Contains (c # s) sub"
    then consider "HasPrefix (c # s) sub" | "Contains s sub" by auto
    then show "\<exists>a b. c # s = a @ sub @ b"
    proof cases
      case 1
      then show ?thesis by (metis HasPrefix_iff append_Nil)
    next
      case 2
      then obtain a b where "s = a @ sub @ b" using Cons.IH by blast
      then have "c # s = (c # a) @ sub @ b" by simp
      then show ?thesis by blast
    qed
  next
    assume "\<exists>a b. c # s = a @ sub @ b"
    then obtain a b where ab: "c # s = a @ sub @ b" by blast
    show "Contains (c # s) sub"
    proof (cases a)
      case Nil
      with ab have "HasPrefix (c # s) sub" by (simp add: HasPrefix_iff)
      then show ?thesis by simp
    next
      case (Cons d a')
      with ab have "s = a' @ sub @ b" by simp
      then show ?thesis using Cons.IH by auto
    qed
  qed
qed

lemma Contains_self_append [simp]: "Contains (a @ sub @ b) sub"
  by (auto simp: Contains_iff)

lemma Contains_append_left: "Contains s sub \<Longrightarrow> Contains (s @ t) sub"
  unfolding Contains_iff by (metis append.assoc)

lemma Contains_append_right: "Contains t sub \<Longrightarrow> Contains (s @ t) sub"
  unfolding Contains_iff by (metis append.assoc)

lemma Split_not_Nil [simp]: "Split s d \<noteq> []"
  by (induction s) (auto split: list.splits)

lemma Split_no_sep: "d \<notin> set s \<Longrightarrow> Split s d = [s]"
  by (induction s) auto

lemma Split_append_sep: "d \<notin> set s \<Longrightarrow> Split (s @ d # t) d = s # Split t d"
  by (induction s) (auto split: list.splits)

lemma Split_pieces: "x \<in> set (Split s d) \<Longrightarrow> d \<notin> set x"
proof (induction s arbitrary: x)
  case Nil
  then show ?case by simp
next
  case (Cons c s)
  show ?case
  proof (cases "c = d")
    case True
    with Cons show ?thesis by auto
  next
    case False
    obtain y ys where ys: "Split s d = y # ys"
      by (meson Split_not_Nil neq_Nil_conv)
    have "x = c # y \<or> x \<in> set ys"
      using Cons.prems False ys by auto
    then show ?thesis
      using Cons.IH[of y] Cons.IH[of x] ys False by auto
  qed
qed

lemma Join_Split: "Join (Split s d) [d] = s"
proof (induction s)
  case Nil
  then show ?case by simp
next
  case (Cons c s)
  obtain y ys where ys: "Split s d = y # ys"
    by (meson Split_not_Nil neq_Nil_conv)
  show ?case
    using Cons.IH ys by (cases ys) auto
qed

subsection \<open>White space, letter case\<close>

text \<open>
  The UTF-8 encodings of the code points with Unicode's White\_Space property, which is what
  \<open>strings.TrimSpace\<close> and \<open>strings.Fields\<close> remove: the six ASCII ones, U+0085, U+00A0, U+1680,
  U+2000 to U+200A, U+2028, U+2029, U+202F, U+205F and U+3000.
\<close>

definition go_spaces :: "string list" where
  "go_spaces =
     [[CHR 0x09], [CHR 0x0A], [CHR 0x0B], [CHR 0x0C], [CHR 0x0D], [CHR 0x20],
      [CHR 0xC2, CHR 0x85], [CHR 0xC2, CHR 0xA0], [CHR 0xE1, CHR 0x9A, CHR 0x80],
      [CHR 0xE2, CHR 0x80, CHR 0x80], [CHR 0xE2, CHR 0x80, CHR 0x81],
      [CHR 0xE2, CHR 0x80, CHR 0x82], [CHR 0xE2, CHR 0x80, CHR 0x83],
      [CHR 0xE2, CHR 0x80, CHR 0x84], [CHR 0xE2, CHR 0x80, CHR 0x85],
      [CHR 0xE2, CHR 0x80, CHR 0x86], [CHR 0xE2, CHR 0x80, CHR 0x87],
      [CHR 0xE2, CHR 0x80, CHR 0x88], [CHR 0xE2, CHR 0x80, CHR 0x89],
      [CHR 0xE2, CHR 0x80, CHR 0x8A], [CHR 0xE2, CHR 0x80, CHR 0xA8],
      [CHR 0xE2, CHR 0x80, CHR 0xA9], [CHR 0xE2, CHR 0x80, CHR 0xAF],
      [CHR 0xE2, CHR 0x81, CHR 0x9F], [CHR 0xE3, CHR 0x80, CHR 0x80]]"

function strip :: "string list \<Rightarrow> string \<Rightarrow> string" where
  "strip ps s =
     (case find (\<lambda>p. p \<noteq> [] \<and> HasPrefix s p) ps of
        None \<Rightarrow> s
      | Some p \<Rightarrow> strip ps (drop (length p) s))"
  by pat_completeness auto
termination
proof (relation "measure (\<lambda>(ps, s). length s)")
  fix ps s p
  assume "find (\<lambda>p. p \<noteq> [] \<and> HasPrefix s p) ps = Some (p :: string)"
  then have "p \<noteq> []" and "HasPrefix s p" by (auto simp: find_Some_iff)
  then show "((ps, drop (length p) s), ps, s) \<in> measure (\<lambda>(ps, s). length s)"
    by (cases s) auto
qed simp

declare strip.simps [simp del]

definition TrimSpace :: "string \<Rightarrow> string" where
  "TrimSpace s = rev (strip (map rev go_spaces) (rev (strip go_spaces s)))"

text \<open>
  \<open>strings.ToLower\<close> and \<open>strings.EqualFold\<close>. The mapping is exact on ASCII and on text whose other
  characters have no letter case (such as Chinese); the case tables of cased non-ASCII letters
  are not modelled, their bytes are left as they are.
\<close>

definition lower_char :: "char \<Rightarrow> char" where
  "lower_char c = (if CHR ''A'' \<le> c \<and> c \<le> CHR ''Z'' then char_of (of_char c + 32 :: nat) else c)"

definition ToLower :: "string \<Rightarrow> string" where
  "ToLower s = map lower_char s"

definition EqualFold :: "string \<Rightarrow> string \<Rightarrow> bool" where
  "EqualFold s t \<longleftrightarrow> ToLower s = ToLower t"

lemma length_ToLower [simp]: "length (ToLower s) = length s"
  by (simp add: ToLower_def)

lemma ToLower_Nil [simp]: "ToLower s = [] \<longleftrightarrow> s = []"
  by (simp add: ToLower_def)

definition no_prefix :: "string list \<Rightarrow> string \<Rightarrow> bool" where
  "no_prefix ps s \<longleftrightarrow> (\<forall>p \<in> set ps. p \<noteq> [] \<longrightarrow> \<not> HasPrefix s p)"

lemma strip_no_prefix: "no_prefix ps (strip ps s)"
proof (induction ps s rule: strip.induct)
  case (1 ps s)
  show ?case
  proof (cases "find (\<lambda>p. p \<noteq> [] \<and> HasPrefix s p) ps")
    case None
    then have "strip ps s = s" by (simp add: strip.simps[of ps s])
    then show ?thesis
      using None by (auto simp: no_prefix_def find_None_iff)
  next
    case (Some p)
    then show ?thesis
      using 1[OF Some] by (simp add: strip.simps[of ps s])
  qed
qed

lemma strip_id: "no_prefix ps s \<Longrightarrow> strip ps s = s"
  by (subst strip.simps) (auto simp: no_prefix_def find_Some_iff split: option.splits)

lemma strip_suffix: "\<exists>a. s = a @ strip ps s"
proof (induction ps s rule: strip.induct)
  case (1 ps s)
  show ?case
  proof (cases "find (\<lambda>p. p \<noteq> [] \<and> HasPrefix s p) ps")
    case None
    then show ?thesis by (simp add: strip.simps[of ps s])
  next
    case (Some p)
    then obtain a where "drop (length p) s = a @ strip ps (drop (length p) s)"
      using 1[OF Some] by blast
    moreover have "strip ps s = strip ps (drop (length p) s)"
      using Some by (simp add: strip.simps[of ps s])
    ultimately have "s = (take (length p) s @ a) @ strip ps s"
      by (metis append.assoc append_take_drop_id)
    then show ?thesis by blast
  qed
qed

lemma no_prefix_prefix: "no_prefix ps (s @ t) \<Longrightarrow> no_prefix ps s"
  by (auto simp: no_prefix_def HasPrefix_iff)

lemma TrimSpace_idem [simp]: "TrimSpace (TrimSpace s) = TrimSpace s"
proof -
  let ?l = "strip go_spaces s" and ?r = "strip (map rev go_spaces) (rev (strip go_spaces s))"
  obtain a where "rev ?l = a @ ?r" using strip_suffix by blast
  then have l: "?l = rev ?r @ rev a" by (metis rev_append rev_rev_ident)
  have "no_prefix go_spaces (rev ?r)"
    using strip_no_prefix[of go_spaces s] l no_prefix_prefix by metis
  then have "strip go_spaces (rev ?r) = rev ?r" by (rule strip_id)
  moreover have "strip (map rev go_spaces) ?r = ?r"
    by (rule strip_id) (rule strip_no_prefix)
  ultimately show ?thesis by (simp add: TrimSpace_def)
qed

lemma TrimSpace_Nil [simp]: "TrimSpace [] = []"
  by (simp add: TrimSpace_def strip_id no_prefix_def)

text \<open>\<open>TrimSpace\<close> returns a contiguous part of its argument.\<close>

lemma TrimSpace_sub: "\<exists>a b. s = a @ TrimSpace s @ b"
proof -
  obtain a where "s = a @ strip go_spaces s" using strip_suffix by blast
  moreover obtain b where
    "rev (strip go_spaces s) = b @ strip (map rev go_spaces) (rev (strip go_spaces s))"
    using strip_suffix by blast
  then have "strip go_spaces s = TrimSpace s @ rev b"
    unfolding TrimSpace_def by (metis rev_append rev_rev_ident)
  ultimately show ?thesis by metis
qed


subsection \<open>Replacing, splitting into words\<close>

text \<open>
  \<open>strings.ReplaceAll\<close> for a non-empty \<open>old\<close>, scanning from the left without overlap. (Go inserts
  \<open>new\<close> around every character when \<open>old\<close> is empty; no call in the sources passes an empty one.)
\<close>

function ReplaceAll :: "string \<Rightarrow> string \<Rightarrow> string \<Rightarrow> string" where
  "ReplaceAll s old new =
     (if old = [] \<or> s = [] then s
      else if HasPrefix s old then new @ ReplaceAll (drop (length old) s) old new
      else hd s # ReplaceAll (tl s) old new)"
  by pat_completeness auto
termination
  by (relation "measure (\<lambda>(s, old, new). length s)") auto

declare ReplaceAll.simps [simp del]

lemma ReplaceAll_Nil [simp, go_str]: "ReplaceAll [] old new = []"
  by (simp add: ReplaceAll.simps)

lemma ReplaceAll_Cons [go_str]:
  "ReplaceAll (c # s) (d # ds) new =
     (if HasPrefix (c # s) (d # ds) then new @ ReplaceAll (drop (length ds) s) (d # ds) new
      else c # ReplaceAll s (d # ds) new)"
  by (simp add: ReplaceAll.simps[of "c # s"])

lemma ReplaceAll_absent: "\<not> Contains s old \<Longrightarrow> ReplaceAll s old new = s"
proof (induction s)
  case Nil
  then show ?case by simp
next
  case (Cons c s)
  then have "\<not> HasPrefix (c # s) old" and IH: "ReplaceAll s old new = s" by auto
  then show ?case by (simp add: ReplaceAll.simps[of "c # s"])
qed

definition starts_space :: "string \<Rightarrow> bool" where
  "starts_space s \<longleftrightarrow> list_ex (\<lambda>p. p \<noteq> [] \<and> HasPrefix s p) go_spaces"

fun span_word :: "string \<Rightarrow> string \<times> string" where
  "span_word [] = ([], [])"
| "span_word (c # s) =
     (if starts_space (c # s) then ([], c # s)
      else (case span_word s of (w, r) \<Rightarrow> (c # w, r)))"

lemma span_word_length: "length (snd (span_word s)) \<le> length s"
  by (induction s) (auto split: prod.splits)

function Fields :: "string \<Rightarrow> string list" where
  "Fields s =
     (case strip go_spaces s of
        [] \<Rightarrow> []
      | c # t \<Rightarrow> (case span_word t of (w, r) \<Rightarrow> (c # w) # Fields r))"
  by pat_completeness auto
termination
proof (relation "measure length")
  show "wf (measure (length :: string \<Rightarrow> nat))" by simp
next
  fix s :: string and c t w r
  assume a: "strip go_spaces s = c # t" "(w, r) = span_word t"
  obtain p where "s = p @ strip go_spaces s" using strip_suffix by blast
  then have "length (c # t) \<le> length s" using a(1) by (metis length_append le_add2)
  moreover have "length r \<le> length t"
    using span_word_length[of t] a(2)[symmetric] by simp
  ultimately show "(r, s) \<in> measure length" by simp
qed

declare Fields.simps [simp del]

section \<open>Decimal numbers and generated identifiers\<close>

definition digit :: "nat \<Rightarrow> char" where
  "digit d = char_of (48 + d)"

fun dec :: "nat \<Rightarrow> string" where
  "dec n = (if n < 10 then [digit n] else dec (n div 10) @ [digit (n mod 10)])"

declare dec.simps [simp del]

definition undec :: "string \<Rightarrow> nat" where
  "undec s = foldl (\<lambda>a c. 10 * a + (of_char c - 48)) 0 s"

text \<open>\<open>fmt.Sprintf("%s-%06d", prefix, value)\<close>\<close>

definition pad6 :: "string \<Rightarrow> string" where
  "pad6 s = replicate (6 - length s) (CHR ''0'') @ s"

definition fmtID :: "string \<Rightarrow> nat \<Rightarrow> string" where
  "fmtID pre n = pre @ ''-'' @ pad6 (dec n)"

lemma of_char_digit: "d < 10 \<Longrightarrow> (of_char (digit d) :: nat) = 48 + d"
  by (simp add: digit_def)

lemma undec_snoc: "undec (s @ [c]) = 10 * undec s + (of_char c - 48)"
  by (simp add: undec_def)

lemma undec_dec: "undec (dec n) = n"
proof (induction n rule: dec.induct)
  case (1 n)
  show ?case
  proof (cases "n < 10")
    case True
    then show ?thesis
      by (simp add: dec.simps[of n] undec_def of_char_digit)
  next
    case False
    then have "undec (dec n) = 10 * (n div 10) + n mod 10"
      using 1 by (simp add: dec.simps[of n] undec_snoc of_char_digit)
    then show ?thesis by simp
  qed
qed

lemma undec_zeros: "undec (replicate k (CHR ''0'') @ s) = undec s"
proof -
  have "foldl (\<lambda>a c. 10 * a + (of_char c - 48)) 0 (replicate k (CHR ''0'')) = (0 :: nat)"
    by (induction k) auto
  then show ?thesis by (simp add: undec_def)
qed

lemma undec_pad6_dec: "undec (pad6 (dec n)) = n"
  by (simp add: pad6_def undec_zeros undec_dec)

lemma fmtID_inject: "fmtID p m = fmtID p n \<longleftrightarrow> m = n"
proof
  assume "fmtID p m = fmtID p n"
  then have "undec (pad6 (dec m)) = undec (pad6 (dec n))" by (simp add: fmtID_def)
  then show "m = n" by (simp add: undec_pad6_dec)
qed simp

lemma fmtID_not_Nil [simp]: "fmtID p n \<noteq> []"
  by (simp add: fmtID_def)

text \<open>\<open>%q\<close> in an error message; the escaping of special characters inside is not modelled.\<close>

definition quoted :: "string \<Rightarrow> string" where
  "quoted s = [CHR 0x22] @ s @ [CHR 0x22]"

section \<open>Maps\<close>

abbreviation keys :: "('k, 'v) gomap \<Rightarrow> 'k list" where
  "keys m \<equiv> map fst m"

abbreviation vals :: "('k, 'v) gomap \<Rightarrow> 'v list" where
  "vals m \<equiv> map snd m"

definition map_ok :: "('k, 'v) gomap \<Rightarrow> bool" where
  "map_ok m \<longleftrightarrow> distinct (keys m)"

lemma map_ok_Nil [simp]: "map_ok []"
  by (simp add: map_ok_def)

lemma map_ok_update [simp]: "map_ok m \<Longrightarrow> map_ok (AList.update k v m)"
  by (simp add: map_ok_def distinct_update)

lemma map_ok_delete [simp]: "map_ok m \<Longrightarrow> map_ok (AList.delete k m)"
  by (simp add: map_ok_def distinct_delete)

lemma map_of_update [simp, go_map]:
  "map_of (AList.update k v m) k' = (if k' = k then Some v else map_of m k')"
  by (simp add: update_conv')

lemma map_of_delete [simp, go_map]:
  "map_of (AList.delete k m) k' = (if k' = k then None else map_of m k')"
  by (simp add: delete_conv')

lemma map_ok_mem: "map_ok m \<Longrightarrow> (k, v) \<in> set m \<longleftrightarrow> map_of m k = Some v"
  by (auto simp: map_ok_def intro: map_of_is_SomeI dest: map_of_SomeD)

lemma map_ok_all: "map_ok m \<Longrightarrow> (\<forall>(k, v) \<in> set m. P k v) \<longleftrightarrow> (\<forall>k v. map_of m k = Some v \<longrightarrow> P k v)"
proof -
  assume m: "map_ok m"
  have "(\<forall>(k, v) \<in> set m. P k v) \<longleftrightarrow> (\<forall>k v. (k, v) \<in> set m \<longrightarrow> P k v)" by auto
  then show ?thesis by (simp add: map_ok_mem[OF m])
qed

lemma map_of_perm: "map_ok m \<Longrightarrow> mset m = mset m' \<Longrightarrow> map_of m = map_of m'"
proof (rule ext)
  fix k
  assume m: "map_ok m" "mset m = mset m'"
  have "mset (keys m) = mset (keys m')" using m(2) by (metis mset_map)
  then have m': "map_ok m'" using m(1) by (metis map_ok_def mset_eq_imp_distinct_iff)
  have "set m = set m'" using m(2) by (metis set_mset_mset)
  then show "map_of m k = map_of m' k"
    using map_ok_mem[OF m(1)] map_ok_mem[OF m'] by (metis option.exhaust)
qed

lemma map_ok_perm: "map_ok m \<Longrightarrow> mset m = mset m' \<Longrightarrow> map_ok m'"
  unfolding map_ok_def by (metis mset_eq_imp_distinct_iff mset_map)

lemma set_delete_subset: "set (AList.delete k m) \<subseteq> set m"
  by (induction m) auto

lemma set_update_subset: "set (AList.update k v m) \<subseteq> insert (k, v) (set m)"
  by (induction m) auto

lemma in_update_cases:
  assumes "x \<in> set (AList.update k v m)"
  obtains "x = (k, v)" | "x \<in> set m"
  using assms set_update_subset[of k v m] by blast

lemma length_update: "length (AList.update k v m) = (if map_of m k = None then Suc (length m) else length m)"
  by (induction m) auto

text \<open>Copying a map entry by entry into a fresh one.\<close>

definition clone_map :: "('k, 'v) gomap \<Rightarrow> ('k, 'v) gomap" where
  "clone_map m = foldl (\<lambda>out (k, v). AList.update k v out) [] m"

lemma map_of_foldl_update:
  "map_ok m \<Longrightarrow> map_of (foldl (\<lambda>out (k, v). AList.update k v out) acc m) k =
     (case map_of m k of None \<Rightarrow> map_of acc k | Some v \<Rightarrow> Some v)"
proof (induction m arbitrary: acc)
  case (Cons x m)
  obtain a b where x: "x = (a, b)" by (cases x)
  then have "map_of m a = None" and ok: "map_ok m"
    using Cons.prems by (auto simp: map_ok_def map_of_eq_None_iff)
  then show ?case using Cons.IH[OF ok] x by (auto split: option.splits)
qed simp

lemma map_of_clone [simp]: "map_ok m \<Longrightarrow> map_of (clone_map m) k = map_of m k"
  by (auto simp: clone_map_def map_of_foldl_update split: option.splits)

lemma map_ok_clone [simp]: "map_ok (clone_map m)"
proof -
  have "map_ok acc \<Longrightarrow> map_ok (foldl (\<lambda>out (k, v). AList.update k v out) acc m)" for acc
    by (induction m arbitrary: acc) auto
  then show ?thesis by (simp add: clone_map_def)
qed

section \<open>Sorting and time\<close>

text \<open>
  \<open>sort.Slice\<close>. Go promises a sorted permutation; the order of equal elements is left open. The
  model is the insertion sort that Go's implementation uses on short slices.
\<close>

fun slice_insert :: "('a \<Rightarrow> 'a \<Rightarrow> bool) \<Rightarrow> 'a \<Rightarrow> 'a list \<Rightarrow> 'a list" where
  "slice_insert lt x [] = [x]"
| "slice_insert lt x (y # ys) =
     (if lt x y then x # y # ys else y # slice_insert lt x ys)"

definition sort_Slice :: "('a \<Rightarrow> 'a \<Rightarrow> bool) \<Rightarrow> 'a list \<Rightarrow> 'a list" where
  "sort_Slice lt xs = foldl (\<lambda>acc x. slice_insert lt x acc) [] xs"

lemma mset_slice_insert [simp]: "mset (slice_insert lt x ys) = add_mset x (mset ys)"
  by (induction ys) auto

lemma mset_sort_Slice [simp]: "mset (sort_Slice lt xs) = mset xs"
proof -
  have "mset (foldl (\<lambda>acc x. slice_insert lt x acc) acc xs) = mset acc + mset xs" for acc
    by (induction xs arbitrary: acc) auto
  then show ?thesis by (simp add: sort_Slice_def)
qed

lemma set_sort_Slice [simp]: "set (sort_Slice lt xs) = set xs"
  by (metis mset_sort_Slice set_mset_mset)

lemma length_sort_Slice [simp]: "length (sort_Slice lt xs) = length xs"
  by (metis mset_sort_Slice size_mset)

lemma sorted_slice_insert:
  assumes tr: "\<And>a b c. \<not> lt b a \<Longrightarrow> \<not> lt c b \<Longrightarrow> \<not> lt c a"
    and asym: "\<And>a b. lt a b \<Longrightarrow> \<not> lt b a"
    and s: "sorted_wrt (\<lambda>a b. \<not> lt b a) ys"
  shows "sorted_wrt (\<lambda>a b. \<not> lt b a) (slice_insert lt x ys)"
  using s
proof (induction ys)
  case Nil
  then show ?case by simp
next
  case (Cons y ys)
  have set: "set (slice_insert lt x ys) = insert x (set ys)"
    by (metis mset_slice_insert set_mset_add_mset_insert set_mset_mset)
  show ?case
  proof (cases "lt x y")
    case True
    then have "\<not> lt y x" by (rule asym)
    with Cons.prems True show ?thesis using tr by (auto simp: set)
  next
    case False
    with Cons show ?thesis by (auto simp: set)
  qed
qed

lemma sorted_sort_Slice:
  assumes tr: "\<And>a b c. \<not> lt b a \<Longrightarrow> \<not> lt c b \<Longrightarrow> \<not> lt c a"
    and asym: "\<And>a b. lt a b \<Longrightarrow> \<not> lt b a"
  shows "sorted_wrt (\<lambda>a b. \<not> lt b a) (sort_Slice lt xs)"
proof -
  have "sorted_wrt (\<lambda>a b. \<not> lt b a) acc \<Longrightarrow>
      sorted_wrt (\<lambda>a b. \<not> lt b a) (foldl (\<lambda>acc x. slice_insert lt x acc) acc xs)" for acc
  proof (induction xs arbitrary: acc)
    case (Cons x xs)
    have "sorted_wrt (\<lambda>a b. \<not> lt b a) (slice_insert lt x acc)"
      using tr asym Cons.prems by (rule sorted_slice_insert)
    then show ?case using Cons.IH by simp
  qed simp
  then show ?thesis by (simp add: sort_Slice_def)
qed

text \<open>The zero \<open>time.Time\<close> is the first of January of year 1; \<open>Sub\<close> saturates at the range of
  \<open>time.Duration\<close>.\<close>

definition Second :: Duration where
  "Second = 1000000000"

definition zeroTime :: Time where
  "zeroTime = - 62135596800 * 1000000000"

definition timeSub :: "Time \<Rightarrow> Time \<Rightarrow> Duration" where
  "timeSub t u = max (- (2 ^ 63)) (min (2 ^ 63 - 1) (t - u))"

definition Seconds :: "Duration \<Rightarrow> float64" where
  "Seconds d = of_int d / of_int Second"

text \<open>\<open>Duration.String\<close>: the fraction is printed with trailing zeros (and a bare point) removed; one
  second and more as hours, minutes and seconds.\<close>

definition pad_frac :: "nat \<Rightarrow> nat \<Rightarrow> string" where
  "pad_frac prec n =
     (let ds = rev (dropWhile (\<lambda>c. c = CHR ''0'')
                 (rev (replicate (prec - length (dec n)) (CHR ''0'') @ dec n)))
      in if n = 0 then [] else ''.'' @ ds)"

definition Duration_String :: "Duration \<Rightarrow> string" where
  "Duration_String d =
     (let u = nat \<bar>d\<bar>; sign = (if d < 0 then ''-'' else [])
      in if u = 0 then ''0s''
         else if u < 1000 then sign @ dec u @ ''ns''
         else if u < 1000000
           then sign @ dec (u div 1000) @ pad_frac 3 (u mod 1000) @ [CHR 0xC2, CHR 0xB5] @ ''s''
         else if u < 1000000000
           then sign @ dec (u div 1000000) @ pad_frac 6 (u mod 1000000) @ ''ms''
         else let secs = u div 1000000000; frac = pad_frac 9 (u mod 1000000000);
                  m = secs div 60; h = m div 60
              in sign @ (if h > 0 then dec h @ ''h'' else []) @ (if m > 0 then dec (m mod 60) @ ''m'' else []) @
                 dec (secs mod 60) @ frac @ ''s'')"

section \<open>Letter case and white space\<close>

definition caseless :: "char \<Rightarrow> bool" where
  "caseless d \<longleftrightarrow> \<not> (CHR ''A'' \<le> d \<and> d \<le> CHR ''Z'') \<and> \<not> (CHR ''a'' \<le> d \<and> d \<le> CHR ''z'')"

lemma lower_char_caseless: "caseless d \<Longrightarrow> lower_char c = d \<longleftrightarrow> c = d"
  by (auto simp: caseless_def lower_char_def less_eq_char_def)

lemma map_lower_caseless: "list_all caseless p \<Longrightarrow> map lower_char s = p \<longleftrightarrow> s = p"
proof (induction s arbitrary: p)
  case (Cons c s)
  then show ?case by (cases p) (auto simp: lower_char_caseless)
qed auto

lemma HasPrefix_ToLower: "list_all caseless p \<Longrightarrow> HasPrefix (ToLower s) p \<longleftrightarrow> HasPrefix s p"
  by (simp add: HasPrefix_def ToLower_def take_map map_lower_caseless)

lemma go_spaces_caseless: "list_all (list_all caseless) go_spaces" "list_all (list_all caseless) (map rev go_spaces)"
  by (simp_all add: go_spaces_def caseless_def less_eq_char_def)

lemma no_prefix_ToLower:
  "list_all (list_all caseless) ps \<Longrightarrow> no_prefix ps (ToLower s) \<longleftrightarrow> no_prefix ps s"
  by (auto simp: no_prefix_def HasPrefix_ToLower list_all_iff[of "list_all caseless"])

text \<open>A text is trimmed when \<open>TrimSpace\<close> leaves it as it is; lowering the case keeps it trimmed.\<close>

lemma TrimSpace_fixed: "TrimSpace s = s \<longleftrightarrow> no_prefix go_spaces s \<and> no_prefix (map rev go_spaces) (rev s)"
proof
  assume s: "TrimSpace s = s"
  let ?t = "strip go_spaces s"
  obtain a where a: "s = a @ ?t" using strip_suffix by blast
  obtain b where b: "rev ?t = b @ strip (map rev go_spaces) (rev ?t)" using strip_suffix by blast
  have "length s \<le> length ?t"
    using arg_cong[OF b, of length] s by (metis TrimSpace_def length_append length_rev le_add2)
  then have "?t = s" using a by (metis add_le_same_cancel2 append_Nil le_zero_eq length_0_conv length_append)
  then have "rev s = strip (map rev go_spaces) (rev s)" using s by (metis TrimSpace_def rev_rev_ident)
  then show "no_prefix go_spaces s \<and> no_prefix (map rev go_spaces) (rev s)"
    using \<open>?t = s\<close> strip_no_prefix by metis
next
  assume "no_prefix go_spaces s \<and> no_prefix (map rev go_spaces) (rev s)"
  then show "TrimSpace s = s" by (simp add: TrimSpace_def strip_id)
qed

lemma TrimSpace_ToLower_TrimSpace: "TrimSpace (ToLower (TrimSpace s)) = ToLower (TrimSpace s)"
proof -
  have "rev (ToLower t) = ToLower (rev t)" for t by (simp add: ToLower_def rev_map)
  then show ?thesis
    using TrimSpace_idem[of s] unfolding TrimSpace_fixed
    by (simp add: no_prefix_ToLower go_spaces_caseless)
qed

lemma lower_char_idem [simp]: "lower_char (lower_char c) = lower_char c"
  by (auto simp: lower_char_def less_eq_char_def)

lemma ToLower_idem [simp]: "ToLower (ToLower s) = ToLower s"
  by (simp add: ToLower_def)

end
