(* ===== verification/Domain_Model.thy ===== *)
theory Domain_Model
  imports Prelude
begin

text \<open>
  The data model of \<open>internal/domain/model\<close>: one record per struct that the modelled components
  use, one constant per named string constant, and the routing rule of \<open>worker\_type.go\<close>. A field
  carries the name of its struct first (\<open>Job\_Status\<close> for \<open>Job.Status\<close>); a nil pointer is \<open>None\<close>;
  a nil slice or map is the empty list. \<open>zero\_T\<close> is the zero value of the struct \<open>T\<close>.
\<close>

section \<open>Users, workers, hosts\<close>

record User =
  User_Username :: string
  User_Role :: string

definition zero_User :: User where
  "zero_User = \<lparr>User_Username = [], User_Role = []\<rparr>"

type_synonym WorkerStatus = string

definition WorkerStatusOnline :: WorkerStatus where
  "WorkerStatusOnline = ''online''"

definition WorkerStatusOffline :: WorkerStatus where
  "WorkerStatusOffline = ''offline''"

record HostInfo =
  HostInfo_Hostname :: string
  HostInfo_IPAddress :: string
  HostInfo_CPUUsage :: float64
  HostInfo_StorageUsage :: float64

definition zero_HostInfo :: HostInfo where
  "zero_HostInfo = \<lparr>HostInfo_Hostname = [], HostInfo_IPAddress = [], HostInfo_CPUUsage = 0,
     HostInfo_StorageUsage = 0\<rparr>"

record Worker =
  Worker_ID :: string
  Worker_Name :: string
  Worker_WorkerType :: string
  Worker_Status :: WorkerStatus
  Worker_HostInfo :: HostInfo
  Worker_LastHeartbeatAt :: Time
  Worker_CreatedAt :: Time
  Worker_UpdatedAt :: Time

definition zero_Worker :: Worker where
  "zero_Worker = \<lparr>Worker_ID = [], Worker_Name = [], Worker_WorkerType = [], Worker_Status = [],
     Worker_HostInfo = zero_HostInfo, Worker_LastHeartbeatAt = zeroTime,
     Worker_CreatedAt = zeroTime, Worker_UpdatedAt = zeroTime\<rparr>"

section \<open>Jobs\<close>

type_synonym JobStatus = string
type_synonym ApprovalStatus = string
type_synonym RiskLevel = string

definition JobStatusPending :: JobStatus where "JobStatusPending = ''pending''"
definition JobStatusWaitingApproval :: JobStatus where
  "JobStatusWaitingApproval = ''waiting_approval''"
definition JobStatusQueued :: JobStatus where "JobStatusQueued = ''queued''"
definition JobStatusRunning :: JobStatus where "JobStatusRunning = ''running''"
definition JobStatusSuccess :: JobStatus where "JobStatusSuccess = ''success''"
definition JobStatusFailed :: JobStatus where "JobStatusFailed = ''failed''"
definition JobStatusCancelled :: JobStatus where "JobStatusCancelled = ''cancelled''"

definition ApprovalStatusNotRequired :: ApprovalStatus where
  "ApprovalStatusNotRequired = ''not_required''"
definition ApprovalStatusPending :: ApprovalStatus where "ApprovalStatusPending = ''pending''"
definition ApprovalStatusApproved :: ApprovalStatus where "ApprovalStatusApproved = ''approved''"
definition ApprovalStatusRejected :: ApprovalStatus where "ApprovalStatusRejected = ''rejected''"

definition RiskLevelLow :: RiskLevel where "RiskLevelLow = ''low''"
definition RiskLevelMedium :: RiskLevel where "RiskLevelMedium = ''medium''"
definition RiskLevelHigh :: RiskLevel where "RiskLevelHigh = ''high''"

record Job =
  Job_ID :: string
  Job_Name :: string
  Job_WorkerType :: string
  Job_Command :: string
  Job_Status :: JobStatus
  Job_RiskLevel :: RiskLevel
  Job_ApprovalRequired :: bool
  Job_ApprovalStatus :: ApprovalStatus
  Job_ApprovalComment :: string
  Job_ApprovedBy :: string
  Job_ApprovedAt :: "Time option"
  Job_RejectedBy :: string
  Job_RejectedAt :: "Time option"
  Job_TemplateCode :: string
  Job_Parameters :: "(string, string) gomap"
  Job_SourceType :: string
  Job_SourceID :: string
  Job_IdempotencyKey :: string
  Job_AssignedWorkerID :: string
  Job_Output :: string
  Job_CreatedAt :: Time
  Job_UpdatedAt :: Time
  Job_StartedAt :: "Time option"
  Job_FinishedAt :: "Time option"

definition zero_Job :: Job where
  "zero_Job = \<lparr>Job_ID = [], Job_Name = [], Job_WorkerType = [], Job_Command = [], Job_Status = [],
     Job_RiskLevel = [], Job_ApprovalRequired = False, Job_ApprovalStatus = [],
     Job_ApprovalComment = [], Job_ApprovedBy = [], Job_ApprovedAt = None, Job_RejectedBy = [],
     Job_RejectedAt = None, Job_TemplateCode = [], Job_Parameters = [], Job_SourceType = [],
     Job_SourceID = [], Job_IdempotencyKey = [], Job_AssignedWorkerID = [], Job_Output = [],
     Job_CreatedAt = zeroTime, Job_UpdatedAt = zeroTime, Job_StartedAt = None,
     Job_FinishedAt = None\<rparr>"

lemmas job_status_defs = JobStatusPending_def JobStatusWaitingApproval_def JobStatusQueued_def
  JobStatusRunning_def JobStatusSuccess_def JobStatusFailed_def JobStatusCancelled_def

lemmas approval_status_defs = ApprovalStatusNotRequired_def ApprovalStatusPending_def
  ApprovalStatusApproved_def ApprovalStatusRejected_def

lemmas risk_defs = RiskLevelLow_def RiskLevelMedium_def RiskLevelHigh_def

lemma job_status_neq [simp]:
  "JobStatusPending \<noteq> JobStatusWaitingApproval" "JobStatusWaitingApproval \<noteq> JobStatusPending"
  "JobStatusPending \<noteq> JobStatusQueued" "JobStatusQueued \<noteq> JobStatusPending"
  "JobStatusPending \<noteq> JobStatusRunning" "JobStatusRunning \<noteq> JobStatusPending"
  "JobStatusPending \<noteq> JobStatusSuccess" "JobStatusSuccess \<noteq> JobStatusPending"
  "JobStatusPending \<noteq> JobStatusFailed" "JobStatusFailed \<noteq> JobStatusPending"
  "JobStatusPending \<noteq> JobStatusCancelled" "JobStatusCancelled \<noteq> JobStatusPending"
  "JobStatusWaitingApproval \<noteq> JobStatusQueued" "JobStatusQueued \<noteq> JobStatusWaitingApproval"
  "JobStatusWaitingApproval \<noteq> JobStatusRunning" "JobStatusRunning \<noteq> JobStatusWaitingApproval"
  "JobStatusWaitingApproval \<noteq> JobStatusSuccess" "JobStatusSuccess \<noteq> JobStatusWaitingApproval"
  "JobStatusWaitingApproval \<noteq> JobStatusFailed" "JobStatusFailed \<noteq> JobStatusWaitingApproval"
  "JobStatusWaitingApproval \<noteq> JobStatusCancelled" "JobStatusCancelled \<noteq> JobStatusWaitingApproval"
  "JobStatusQueued \<noteq> JobStatusRunning" "JobStatusRunning \<noteq> JobStatusQueued"
  "JobStatusQueued \<noteq> JobStatusSuccess" "JobStatusSuccess \<noteq> JobStatusQueued"
  "JobStatusQueued \<noteq> JobStatusFailed" "JobStatusFailed \<noteq> JobStatusQueued"
  "JobStatusQueued \<noteq> JobStatusCancelled" "JobStatusCancelled \<noteq> JobStatusQueued"
  "JobStatusRunning \<noteq> JobStatusSuccess" "JobStatusSuccess \<noteq> JobStatusRunning"
  "JobStatusRunning \<noteq> JobStatusFailed" "JobStatusFailed \<noteq> JobStatusRunning"
  "JobStatusRunning \<noteq> JobStatusCancelled" "JobStatusCancelled \<noteq> JobStatusRunning"
  "JobStatusSuccess \<noteq> JobStatusFailed" "JobStatusFailed \<noteq> JobStatusSuccess"
  "JobStatusSuccess \<noteq> JobStatusCancelled" "JobStatusCancelled \<noteq> JobStatusSuccess"
  "JobStatusFailed \<noteq> JobStatusCancelled" "JobStatusCancelled \<noteq> JobStatusFailed"
  by (simp_all add: job_status_defs)

lemma job_status_not_Nil [simp]:
  "JobStatusPending \<noteq> []" "JobStatusWaitingApproval \<noteq> []" "JobStatusQueued \<noteq> []"
  "JobStatusRunning \<noteq> []" "JobStatusSuccess \<noteq> []" "JobStatusFailed \<noteq> []"
  "JobStatusCancelled \<noteq> []"
  by (simp_all add: job_status_defs)

lemma approval_status_neq [simp]:
  "ApprovalStatusNotRequired \<noteq> ApprovalStatusPending"
  "ApprovalStatusPending \<noteq> ApprovalStatusNotRequired"
  "ApprovalStatusNotRequired \<noteq> ApprovalStatusApproved"
  "ApprovalStatusApproved \<noteq> ApprovalStatusNotRequired"
  "ApprovalStatusPending \<noteq> ApprovalStatusApproved"
  "ApprovalStatusApproved \<noteq> ApprovalStatusPending"
  "ApprovalStatusRejected \<noteq> ApprovalStatusApproved"
  "ApprovalStatusApproved \<noteq> ApprovalStatusRejected"
  "ApprovalStatusNotRequired \<noteq> []" "ApprovalStatusPending \<noteq> []"
  "ApprovalStatusApproved \<noteq> []" "ApprovalStatusRejected \<noteq> []"
  by (simp_all add: approval_status_defs)

section \<open>Routing: which worker type may run which job type\<close>

definition NormalizeWorkerType :: "string \<Rightarrow> string" where
  "NormalizeWorkerType value = ToLower (TrimSpace value)"

definition WorkerCanRunType :: "string \<Rightarrow> string \<Rightarrow> bool" where
  "WorkerCanRunType workerType jobType =
     (let workerType = NormalizeWorkerType workerType;
          jobType = NormalizeWorkerType jobType
      in workerType = ''shell'' \<or> (workerType \<noteq> [] \<and> workerType = jobType))"

lemma NormalizeWorkerType_Nil [simp]: "NormalizeWorkerType [] = []"
  by (simp add: NormalizeWorkerType_def)

lemma WorkerCanRunType_Nil [simp]: "\<not> WorkerCanRunType [] t"
  by (simp add: WorkerCanRunType_def)

section \<open>Dynamically typed values\<close>

record TemplateParam =
  TemplateParam_Name :: string
  TemplateParam_Description :: string
  TemplateParam_Required :: bool
  TemplateParam_Default :: string

text \<open>
  Values of static type \<open>any\<close> that the program builds: audit details, tool results, event data.
  The constructors are the dynamic types the code distinguishes. \<open>VNamed\<close> is a value of a named
  string type such as \<open>model.JobStatus\<close>, which a type switch on \<open>string\<close> does not match;
  \<open>VHostInfo\<close>, \<open>VParams\<close> and \<open>VCounts\<close> are the struct, slice and \<open>map[string]int\<close> the agent's tools return;
  \<open>VOther\<close> stands for every other type, identified by a printed form.
\<close>

datatype goval =
    VNil
  | VBool bool
  | VInt int
  | VStr string
  | VNamed string
  | VTime Time
  | VStrs "string list"
  | VMap "(string \<times> goval) list"
  | VMaps "(string \<times> goval) list list"
  | VList "goval list"
  | VHostInfo HostInfo
  | VParams "TemplateParam list"
  | VCounts "(string \<times> int) list"
  | VOther string

type_synonym details = "(string, goval) gomap"

section \<open>Templates, diagnosis plans, audit records, incident cases\<close>

record CommandTemplate =
  CommandTemplate_Code :: string
  CommandTemplate_Name :: string
  CommandTemplate_Description :: string
  CommandTemplate_ToolType :: string
  CommandTemplate_Command :: string
  CommandTemplate_Parameters :: "TemplateParam list"
  CommandTemplate_RiskLevel :: RiskLevel

record TaskIntent =
  TaskIntent_Intent :: string
  TaskIntent_TargetType :: string
  TaskIntent_Schedule :: string
  TaskIntent_RiskLevel :: RiskLevel
  TaskIntent_Parameters :: "(string, string) gomap"
  TaskIntent_MatchedTemplate :: string
  TaskIntent_ParseSource :: string
  TaskIntent_ParseWarning :: string

type_synonym PlanStatus = string

record StepResult =
  StepResult_Stdout :: string
  StepResult_Stderr :: string
  StepResult_ExitCode :: int
  StepResult_Success :: bool
  StepResult_Summary :: string

record DiagnosisStep =
  DiagnosisStep_StepNo :: int
  DiagnosisStep_Name :: string
  DiagnosisStep_Description :: string
  DiagnosisStep_TemplateCode :: string
  DiagnosisStep_Parameters :: "(string, string) gomap"
  DiagnosisStep_TimeoutSec :: int
  DiagnosisStep_Status :: JobStatus
  DiagnosisStep_JobID :: string
  DiagnosisStep_Result :: "StepResult option"

record DiagnosisPlan =
  DiagnosisPlan_ID :: string
  DiagnosisPlan_Title :: string
  DiagnosisPlan_Description :: string
  DiagnosisPlan_TriggerType :: string
  DiagnosisPlan_Steps :: "DiagnosisStep list"
  DiagnosisPlan_Status :: PlanStatus
  DiagnosisPlan_CreatedAt :: Time
  DiagnosisPlan_UpdatedAt :: Time

definition zero_DiagnosisPlan :: DiagnosisPlan where
  "zero_DiagnosisPlan = \<lparr>DiagnosisPlan_ID = [], DiagnosisPlan_Title = [],
     DiagnosisPlan_Description = [], DiagnosisPlan_TriggerType = [], DiagnosisPlan_Steps = [],
     DiagnosisPlan_Status = [], DiagnosisPlan_CreatedAt = zeroTime,
     DiagnosisPlan_UpdatedAt = zeroTime\<rparr>"

record AuditLog =
  AuditLog_ID :: string
  AuditLog_ActorType :: string
  AuditLog_ActorID :: string
  AuditLog_Action :: string
  AuditLog_ResourceType :: string
  AuditLog_ResourceID :: string
  AuditLog_Details :: details
  AuditLog_CreatedAt :: Time

record IncidentCase =
  IncidentCase_ID :: string
  IncidentCase_Title :: string
  IncidentCase_TriggerType :: string
  IncidentCase_FaultType :: string
  IncidentCase_Summary :: string
  IncidentCase_PossibleCauses :: "string list"
  IncidentCase_Suggestions :: "string list"
  IncidentCase_Confidence :: float64
  IncidentCase_SourcePlanID :: string
  IncidentCase_CreatedAt :: Time
  IncidentCase_UpdatedAt :: Time
  IncidentCase_AlertSymptoms :: string
  IncidentCase_EnvironmentTags :: "string list"
  IncidentCase_EvidenceSummary :: string
  IncidentCase_RootCause :: string
  IncidentCase_ResolutionSteps :: "string list"
  IncidentCase_ResolutionResult :: string

definition zero_IncidentCase :: IncidentCase where
  "zero_IncidentCase = \<lparr>IncidentCase_ID = [], IncidentCase_Title = [],
     IncidentCase_TriggerType = [], IncidentCase_FaultType = [], IncidentCase_Summary = [],
     IncidentCase_PossibleCauses = [], IncidentCase_Suggestions = [], IncidentCase_Confidence = 0,
     IncidentCase_SourcePlanID = [], IncidentCase_CreatedAt = zeroTime,
     IncidentCase_UpdatedAt = zeroTime, IncidentCase_AlertSymptoms = [],
     IncidentCase_EnvironmentTags = [], IncidentCase_EvidenceSummary = [],
     IncidentCase_RootCause = [], IncidentCase_ResolutionSteps = [],
     IncidentCase_ResolutionResult = []\<rparr>"

record AnalysisReport =
  AnalysisReport_PlanID :: string
  AnalysisReport_FaultType :: string
  AnalysisReport_PossibleCauses :: "string list"
  AnalysisReport_Suggestions :: "string list"
  AnalysisReport_Confidence :: float64
  AnalysisReport_RawAnalysis :: string
  AnalysisReport_ReferenceCases :: "IncidentCase list"
  AnalysisReport_HistoricalHints :: "string list"
  AnalysisReport_CreatedAt :: Time
  AnalysisReport_AlertSymptoms :: string
  AnalysisReport_EnvironmentTags :: "string list"
  AnalysisReport_EvidenceSummary :: string
  AnalysisReport_RootCause :: string
  AnalysisReport_ResolutionSteps :: "string list"
  AnalysisReport_ResolutionResult :: string

definition zero_AnalysisReport :: AnalysisReport where
  "zero_AnalysisReport = \<lparr>AnalysisReport_PlanID = [], AnalysisReport_FaultType = [],
     AnalysisReport_PossibleCauses = [], AnalysisReport_Suggestions = [],
     AnalysisReport_Confidence = 0, AnalysisReport_RawAnalysis = [],
     AnalysisReport_ReferenceCases = [], AnalysisReport_HistoricalHints = [],
     AnalysisReport_CreatedAt = zeroTime, AnalysisReport_AlertSymptoms = [],
     AnalysisReport_EnvironmentTags = [], AnalysisReport_EvidenceSummary = [],
     AnalysisReport_RootCause = [], AnalysisReport_ResolutionSteps = [],
     AnalysisReport_ResolutionResult = []\<rparr>"

record IncidentCaseFilter =
  IncidentCaseFilter_Query :: string
  IncidentCaseFilter_TriggerType :: string
  IncidentCaseFilter_FaultType :: string
  IncidentCaseFilter_EnvironmentTags :: "string list"
  IncidentCaseFilter_Limit :: int

record MetricsSnapshot =
  MetricsSnapshot_JobsTotal :: nat
  MetricsSnapshot_JobsSuccess :: nat
  MetricsSnapshot_JobsFailed :: nat
  MetricsSnapshot_JobsWaitingApproval :: nat
  MetricsSnapshot_WorkersOnline :: nat
  MetricsSnapshot_IncidentCasesTotal :: nat
  MetricsSnapshot_JobSuccessRate :: float64
  MetricsSnapshot_JobFailureRate :: float64
  MetricsSnapshot_AvgScheduleLatencySeconds :: float64

section \<open>Agent runs, conversations, managed configuration\<close>

type_synonym AgentRunStatus = string

definition AgentRunStatusQueued :: AgentRunStatus where "AgentRunStatusQueued = ''queued''"
definition AgentRunStatusRunning :: AgentRunStatus where "AgentRunStatusRunning = ''running''"
definition AgentRunStatusWaitingApproval :: AgentRunStatus where
  "AgentRunStatusWaitingApproval = ''waiting_approval''"
definition AgentRunStatusCompleted :: AgentRunStatus where
  "AgentRunStatusCompleted = ''completed''"
definition AgentRunStatusFailed :: AgentRunStatus where "AgentRunStatusFailed = ''failed''"
definition AgentRunStatusCancelled :: AgentRunStatus where
  "AgentRunStatusCancelled = ''cancelled''"
definition AgentRunStatusTimedOut :: AgentRunStatus where
  "AgentRunStatusTimedOut = ''timed_out''"

lemmas run_status_defs = AgentRunStatusQueued_def AgentRunStatusRunning_def
  AgentRunStatusWaitingApproval_def AgentRunStatusCompleted_def AgentRunStatusFailed_def
  AgentRunStatusCancelled_def AgentRunStatusTimedOut_def

record AgentRun =
  AgentRun_ID :: string
  AgentRun_Input :: string
  AgentRun_ConversationID :: string
  AgentRun_Status :: AgentRunStatus
  AgentRun_TraceID :: string
  AgentRun_PolicyVersion :: string
  AgentRun_PromptVersion :: string
  AgentRun_Transcript :: string
  AgentRun_NextStep :: int
  AgentRun_Answer :: string
  AgentRun_Error :: string
  AgentRun_CreatedAt :: Time
  AgentRun_UpdatedAt :: Time

definition zero_AgentRun :: AgentRun where
  "zero_AgentRun = \<lparr>AgentRun_ID = [], AgentRun_Input = [], AgentRun_ConversationID = [],
     AgentRun_Status = [], AgentRun_TraceID = [], AgentRun_PolicyVersion = [], AgentRun_PromptVersion = [],
     AgentRun_Transcript = [], AgentRun_NextStep = 0, AgentRun_Answer = [], AgentRun_Error = [],
     AgentRun_CreatedAt = zeroTime, AgentRun_UpdatedAt = zeroTime\<rparr>"

record AgentEvent =
  AgentEvent_ID :: int
  AgentEvent_RunID :: string
  AgentEvent_Step :: int
  AgentEvent_Type :: string
  AgentEvent_Name :: string
  AgentEvent_Data :: details
  AgentEvent_CreatedAt :: Time

definition zero_AgentEvent :: AgentEvent where
  "zero_AgentEvent = \<lparr>AgentEvent_ID = 0, AgentEvent_RunID = [], AgentEvent_Step = 0, AgentEvent_Type = [],
     AgentEvent_Name = [], AgentEvent_Data = [], AgentEvent_CreatedAt = zeroTime\<rparr>"

record AgentToolCall =
  AgentToolCall_ID :: string
  AgentToolCall_RunID :: string
  AgentToolCall_Step :: int
  AgentToolCall_ToolName :: string
  AgentToolCall_Arguments :: string
  AgentToolCall_Result :: string
  AgentToolCall_Error :: string
  AgentToolCall_Status :: string
  AgentToolCall_CreatedAt :: Time
  AgentToolCall_CompletedAt :: "Time option"

definition zero_AgentToolCall :: AgentToolCall where
  "zero_AgentToolCall = \<lparr>AgentToolCall_ID = [], AgentToolCall_RunID = [], AgentToolCall_Step = 0,
     AgentToolCall_ToolName = [], AgentToolCall_Arguments = [], AgentToolCall_Result = [], AgentToolCall_Error = [],
     AgentToolCall_Status = [], AgentToolCall_CreatedAt = zeroTime, AgentToolCall_CompletedAt = None\<rparr>"

record JobYAML =
  JobYAML_ID :: string
  JobYAML_Name :: string
  JobYAML_Description :: string
  JobYAML_YAMLContent :: string
  JobYAML_Source :: string
  JobYAML_CreatedAt :: Time
  JobYAML_UpdatedAt :: Time

record WorkerLog =
  WorkerLog_ID :: int
  WorkerLog_WorkerID :: string
  WorkerLog_JobID :: string
  WorkerLog_Command :: string
  WorkerLog_Progress :: string
  WorkerLog_Result :: string
  WorkerLog_Success :: bool
  WorkerLog_CreatedAt :: Time

record ManagedConfig =
  ManagedConfig_ID :: string
  ManagedConfig_Kind :: string
  ManagedConfig_Name :: string
  ManagedConfig_YAMLContent :: string
  ManagedConfig_Active :: bool
  ManagedConfig_CreatedAt :: Time
  ManagedConfig_UpdatedAt :: Time

record Conversation =
  Conversation_ID :: string
  Conversation_Title :: string
  Conversation_CreatedAt :: Time
  Conversation_UpdatedAt :: Time

record ConversationMessage =
  ConversationMessage_ID :: int
  ConversationMessage_ConversationID :: string
  ConversationMessage_Role :: string
  ConversationMessage_Content :: string
  ConversationMessage_ToolName :: string
  ConversationMessage_ToolData :: details
  ConversationMessage_Step :: int
  ConversationMessage_CreatedAt :: Time

definition conversation_message :: "string \<Rightarrow> string \<Rightarrow> string \<Rightarrow> ConversationMessage" where
  "conversation_message convID role content = \<lparr>ConversationMessage_ID = 0, ConversationMessage_ConversationID = convID,
     ConversationMessage_Role = role, ConversationMessage_Content = content, ConversationMessage_ToolName = [],
     ConversationMessage_ToolData = [], ConversationMessage_Step = 0, ConversationMessage_CreatedAt = zeroTime\<rparr>"

end
