(* ===== verification/Id_Source.thy ===== *)
theory Id_Source
  imports Prelude
begin

text \<open>
  The contract of the identifier generators (\<open>scheduler.Store.newID\<close>,
  \<open>PostgresRepository.genID\<close>, the sequence counters of \<open>MemoryRepository\<close>): while the counter has
  not reached the end of its range, a generated identifier is one that was never issued before
  under the same prefix. Tables keyed by generated identifiers are stated over it.
\<close>

section \<open>Counters\<close>

definition issued_ids :: "string \<Rightarrow> nat \<Rightarrow> string set" where
  "issued_ids pre n = fmtID pre ` {1..n}"

lemma issued_ids_Suc: "issued_ids pre (Suc n) = insert (fmtID pre (Suc n)) (issued_ids pre n)"
  by (auto simp: issued_ids_def atLeastAtMostSuc_conv)

lemma issued_ids_mono: "m \<le> n \<Longrightarrow> issued_ids pre m \<subseteq> issued_ids pre n"
  by (auto simp: issued_ids_def)

lemma fresh_id: "fmtID pre (Suc n) \<notin> issued_ids pre n"
  by (auto simp: issued_ids_def fmtID_inject)

lemma Nil_not_issued [simp]: "[] \<notin> issued_ids pre n"
  by (auto simp: issued_ids_def fmtID_def)

lemma word_counter: "c \<noteq> - 1 \<Longrightarrow> unat (c + 1 :: 64 word) = Suc (unat c)"
proof -
  assume "c \<noteq> - 1"
  then have "1 + c \<noteq> 0"
    by (metis add.commute eq_neg_iff_add_eq_0)
  then show ?thesis
    using unatSuc[of c] by (simp add: add.commute)
qed

section \<open>The interface\<close>

locale id_source =
  fixes alloc :: "string \<Rightarrow> 's \<Rightarrow> string \<times> 's"
    and counter :: "'s \<Rightarrow> nat"
    and room :: "'s \<Rightarrow> bool"
  assumes alloc_id: "room s \<Longrightarrow> fst (alloc pre s) = fmtID pre (Suc (counter s))"
    and alloc_counter: "room s \<Longrightarrow> counter (snd (alloc pre s)) = Suc (counter s)"
begin

lemma alloc_fresh: "room s \<Longrightarrow> fst (alloc pre s) \<notin> issued_ids pre (counter s)"
  by (simp add: alloc_id fresh_id)

lemma alloc_issued:
  "room s \<Longrightarrow>
   issued_ids pre (counter (snd (alloc pre s))) = insert (fst (alloc pre s)) (issued_ids pre (counter s))"
  by (simp add: alloc_id alloc_counter issued_ids_Suc)

lemma alloc_distinct:
  assumes "room s" "room (snd (alloc pre s))"
  shows "fst (alloc pre (snd (alloc pre s))) \<noteq> fst (alloc pre s)"
  using assms by (simp add: alloc_id alloc_counter fmtID_inject)

end

section \<open>Tables keyed by generated identifiers\<close>

definition table_ok :: "string \<Rightarrow> ('v \<Rightarrow> string) \<Rightarrow> nat \<Rightarrow> (string, 'v) gomap \<Rightarrow> bool" where
  "table_ok pre ident n m \<longleftrightarrow>
     map_ok m \<and> (\<forall>(k, v) \<in> set m. ident v = k \<and> k \<in> issued_ids pre n)"

lemma table_ok_Nil [simp]: "table_ok pre ident n []"
  by (simp add: table_ok_def)

lemma table_ok_mono: "table_ok pre ident n m \<Longrightarrow> n \<le> n' \<Longrightarrow> table_ok pre ident n' m"
  unfolding table_ok_def using issued_ids_mono[of n n' pre] by auto

lemma table_ok_update:
  "table_ok pre ident n m \<Longrightarrow> ident v = k \<Longrightarrow> k \<in> issued_ids pre n \<Longrightarrow>
   table_ok pre ident n (AList.update k v m)"
  unfolding table_ok_def by (auto elim!: in_update_cases)

lemma table_ok_delete: "table_ok pre ident n m \<Longrightarrow> table_ok pre ident n (AList.delete k m)"
  unfolding table_ok_def using map_ok_delete[of m k] set_delete_subset[of k m] by auto

lemma table_ok_lookup:
  "table_ok pre ident n m \<Longrightarrow> map_of m k = Some v \<Longrightarrow> ident v = k \<and> k \<in> issued_ids pre n"
  unfolding table_ok_def by (auto dest: map_of_SomeD)

lemma table_ok_mem:
  "table_ok pre ident n m \<Longrightarrow> (k, v) \<in> set m \<Longrightarrow> ident v = k \<and> map_of m k = Some v"
  unfolding table_ok_def using map_ok_mem by fastforce

lemma table_ok_perm:
  "table_ok pre ident n m \<Longrightarrow> mset m = mset m' \<Longrightarrow> table_ok pre ident n m'"
  unfolding table_ok_def using map_ok_perm[of m m'] mset_eq_setD[of m m'] by simp

lemma table_ok_fresh:
  "table_ok pre ident n m \<Longrightarrow> k \<notin> issued_ids pre n \<Longrightarrow> map_of m k = None"
  unfolding table_ok_def by (fastforce simp: map_of_eq_None_iff)

lemma table_ok_map_ok [dest]: "table_ok pre ident n m \<Longrightarrow> map_ok m"
  by (simp add: table_ok_def)

end
