(* ===== verification/Scheduler_Store.thy ===== *)
theory Scheduler_Store
  imports Domain_Model Id_Source
begin

text \<open>
  \<open>internal/infrastructure/scheduler/store.go\<close>: the in-memory store of workers, jobs, audit records
  and incident cases. Every method holds the store's lock for its whole effect, so a method is one
  function on the state; methods that read the clock take the time they read as \<open>now\<close>.
\<close>

section \<open>State\<close>

record Store =
  Store_workers :: "(string, Worker) gomap"
  Store_jobs :: "(string, Job) gomap"
  Store_auditLogs :: "AuditLog list"
  Store_incidentCases :: "(string, IncidentCase) gomap"
  Store_incidentByPlan :: "(string, string) gomap"
  Store_nextID :: "64 word"

definition workerOnlineThreshold :: Duration where
  "workerOnlineThreshold = 30 * Second"

record CreateJobOptions =
  Opt_Status :: JobStatus
  Opt_RiskLevel :: RiskLevel
  Opt_ApprovalRequired :: bool
  Opt_ApprovalStatus :: ApprovalStatus
  Opt_ApprovalComment :: string
  Opt_TemplateCode :: string
  Opt_Parameters :: "(string, string) gomap"
  Opt_SourceType :: string
  Opt_SourceID :: string
  Opt_AssignedWorkerID :: string

definition zero_CreateJobOptions :: CreateJobOptions where
  "zero_CreateJobOptions = \<lparr>Opt_Status = [], Opt_RiskLevel = [], Opt_ApprovalRequired = False,
     Opt_ApprovalStatus = [], Opt_ApprovalComment = [], Opt_TemplateCode = [], Opt_Parameters = [],
     Opt_SourceType = [], Opt_SourceID = [], Opt_AssignedWorkerID = []\<rparr>"

definition NewStore :: Store where
  "NewStore = \<lparr>Store_workers = [], Store_jobs = [], Store_auditLogs = [],
     Store_incidentCases = [], Store_incidentByPlan = [], Store_nextID = 0\<rparr>"

definition newID :: "string \<Rightarrow> Store \<Rightarrow> string \<times> Store" where
  "newID pre s =
     (let value = Store_nextID s + 1
      in (fmtID pre (unat value), s\<lparr>Store_nextID := value\<rparr>))"

section \<open>Workers\<close>

definition RegisterWorker :: "Time \<Rightarrow> string \<Rightarrow> string \<Rightarrow> Store \<Rightarrow> Worker \<times> Store" where
  "RegisterWorker now name workerType s =
     (let (wid, s) = newID ''worker'' s;
          worker = \<lparr>Worker_ID = wid, Worker_Name = name, Worker_WorkerType = workerType,
            Worker_Status = WorkerStatusOnline, Worker_HostInfo = zero_HostInfo,
            Worker_LastHeartbeatAt = now, Worker_CreatedAt = now, Worker_UpdatedAt = now\<rparr>
      in (worker, s\<lparr>Store_workers := AList.update wid worker (Store_workers s)\<rparr>))"

definition HeartbeatWorker :: "Time \<Rightarrow> string \<Rightarrow> Store \<Rightarrow> Worker option \<times> Store" where
  "HeartbeatWorker now wid s =
     (case map_of (Store_workers s) wid of
        None \<Rightarrow> (None, s)
      | Some worker \<Rightarrow>
          let worker = worker\<lparr>Worker_LastHeartbeatAt := now, Worker_Status := WorkerStatusOnline,
                Worker_UpdatedAt := now\<rparr>
          in (Some worker, s\<lparr>Store_workers := AList.update wid worker (Store_workers s)\<rparr>))"

definition ListWorkers :: "Store \<Rightarrow> Worker list" where
  "ListWorkers s = vals (Store_workers s)"

section \<open>Jobs\<close>

definition cloneStringMap :: "(string, string) gomap \<Rightarrow> (string, string) gomap" where
  "cloneStringMap m = (if length m = 0 then [] else clone_map m)"

definition CreateJobWithOptions ::
  "Time \<Rightarrow> string \<Rightarrow> string \<Rightarrow> string \<Rightarrow> CreateJobOptions \<Rightarrow> Store \<Rightarrow> Job \<times> Store" where
  "CreateJobWithOptions now name workerType command opts s =
     (let status = (if Opt_Status opts = [] then JobStatusPending else Opt_Status opts);
          approvalStatus = Opt_ApprovalStatus opts;
          approvalStatus = (if Opt_ApprovalRequired opts \<and> approvalStatus = []
                            then ApprovalStatusPending else approvalStatus);
          approvalStatus = (if \<not> Opt_ApprovalRequired opts \<and> approvalStatus = []
                            then ApprovalStatusNotRequired else approvalStatus);
          (jid, s) = newID ''job'' s;
          job = zero_Job\<lparr>Job_ID := jid, Job_Name := name, Job_WorkerType := workerType,
            Job_Command := command, Job_Status := status, Job_RiskLevel := Opt_RiskLevel opts,
            Job_ApprovalRequired := Opt_ApprovalRequired opts,
            Job_ApprovalStatus := approvalStatus, Job_ApprovalComment := Opt_ApprovalComment opts,
            Job_TemplateCode := Opt_TemplateCode opts,
            Job_Parameters := cloneStringMap (Opt_Parameters opts),
            Job_SourceType := Opt_SourceType opts, Job_SourceID := Opt_SourceID opts,
            Job_AssignedWorkerID := Opt_AssignedWorkerID opts,
            Job_CreatedAt := now, Job_UpdatedAt := now\<rparr>
      in (job, s\<lparr>Store_jobs := AList.update jid job (Store_jobs s)\<rparr>))"

definition CreateJob :: "Time \<Rightarrow> string \<Rightarrow> string \<Rightarrow> string \<Rightarrow> Store \<Rightarrow> Job \<times> Store" where
  "CreateJob now name workerType command s =
     CreateJobWithOptions now name workerType command zero_CreateJobOptions s"

definition ListJobs :: "Store \<Rightarrow> Job list" where
  "ListJobs s = sort_Slice (\<lambda>i j. Job_CreatedAt i > Job_CreatedAt j) (vals (Store_jobs s))"

definition GetJob :: "string \<Rightarrow> Store \<Rightarrow> Job option" where
  "GetJob jid s = map_of (Store_jobs s) jid"

text \<open>The test at the head of the selection loop of \<open>AssignNextJob\<close>, and the loop.\<close>

definition assignable :: "Worker \<Rightarrow> Job \<Rightarrow> bool" where
  "assignable worker job \<longleftrightarrow>
     (Job_Status job = JobStatusQueued \<or> Job_Status job = JobStatusPending) \<and>
     WorkerCanRunType (Worker_WorkerType worker) (Job_WorkerType job)"

definition job_before :: "Job \<Rightarrow> Job \<Rightarrow> bool" where
  "job_before job sel \<longleftrightarrow> Job_CreatedAt job < Job_CreatedAt sel \<or>
     (Job_CreatedAt job = Job_CreatedAt sel \<and> Job_ID job < Job_ID sel)"

fun select_next :: "Worker \<Rightarrow> (string \<times> Job) list \<Rightarrow> (string \<times> Job) option \<Rightarrow> (string \<times> Job) option" where
  "select_next worker [] selected = selected"
| "select_next worker ((jid, job) # rest) selected =
     (if \<not> assignable worker job then select_next worker rest selected
      else case selected of
        None \<Rightarrow> select_next worker rest (Some (jid, job))
      | Some (selectedID, selectedJob) \<Rightarrow>
          if job_before job selectedJob then select_next worker rest (Some (jid, job))
          else select_next worker rest selected)"

definition start_job :: "Time \<Rightarrow> string \<Rightarrow> Job \<Rightarrow> Job" where
  "start_job now workerID job = job\<lparr>Job_Status := JobStatusRunning,
     Job_AssignedWorkerID := workerID, Job_StartedAt := Some now, Job_UpdatedAt := now\<rparr>"

definition AssignNextJob :: "Time \<Rightarrow> string \<Rightarrow> Store \<Rightarrow> Job option \<times> Store" where
  "AssignNextJob now workerID s =
     (case map_of (Store_workers s) workerID of
        None \<Rightarrow> (None, s)
      | Some worker \<Rightarrow>
          (case select_next worker (Store_jobs s) None of
             None \<Rightarrow> (None, s)
           | Some (selectedID, selectedJob) \<Rightarrow>
               let job = start_job now workerID selectedJob
               in (Some job, s\<lparr>Store_jobs := AList.update selectedID job (Store_jobs s)\<rparr>)))"

definition CompleteJob ::
  "Time \<Rightarrow> string \<Rightarrow> string \<Rightarrow> string \<Rightarrow> bool \<Rightarrow> Store \<Rightarrow> Job res \<times> Store" where
  "CompleteJob now workerID jobID output success s =
     (case map_of (Store_jobs s) jobID of
        None \<Rightarrow> (Inl ''job not found'', s)
      | Some job \<Rightarrow>
          if Job_AssignedWorkerID job \<noteq> workerID then (Inl ''job is not assigned to worker'', s)
          else let job = job\<lparr>Job_Output := output, Job_FinishedAt := Some now, Job_UpdatedAt := now,
                     Job_Status := (if success then JobStatusSuccess else JobStatusFailed)\<rparr>
            in (Inr job, s\<lparr>Store_jobs := AList.update jobID job (Store_jobs s)\<rparr>))"

definition AssignJobToWorker :: "Time \<Rightarrow> string \<Rightarrow> string \<Rightarrow> Store \<Rightarrow> Job res \<times> Store" where
  "AssignJobToWorker now jobID workerID s =
     (case map_of (Store_workers s) workerID of
        None \<Rightarrow> (Inl ''worker not found'', s)
      | Some worker \<Rightarrow>
          (case map_of (Store_jobs s) jobID of
             None \<Rightarrow> (Inl ''job not found'', s)
           | Some job \<Rightarrow>
               if \<not> WorkerCanRunType (Worker_WorkerType worker) (Job_WorkerType job)
               then (Inl ''worker type does not match job type'', s)
               else let job = start_job now workerID job
                 in (Inr job, s\<lparr>Store_jobs := AList.update jobID job (Store_jobs s)\<rparr>)))"

definition ListPendingApprovalJobs :: "Store \<Rightarrow> Job list" where
  "ListPendingApprovalJobs s =
     filter (\<lambda>job. Job_Status job = JobStatusWaitingApproval) (vals (Store_jobs s))"

definition ApproveJob :: "Time \<Rightarrow> string \<Rightarrow> string \<Rightarrow> string \<Rightarrow> Store \<Rightarrow> Job res \<times> Store" where
  "ApproveJob now jobID approvedBy comment s =
     (case map_of (Store_jobs s) jobID of
        None \<Rightarrow> (Inl ''job not found'', s)
      | Some job \<Rightarrow>
          if Job_Status job \<noteq> JobStatusWaitingApproval
          then (Inl ''job is not waiting for approval'', s)
          else let job = job\<lparr>Job_Status := JobStatusPending,
                     Job_ApprovalStatus := ApprovalStatusApproved, Job_ApprovedBy := approvedBy,
                     Job_ApprovedAt := Some now, Job_ApprovalComment := comment,
                     Job_UpdatedAt := now\<rparr>
            in (Inr job, s\<lparr>Store_jobs := AList.update jobID job (Store_jobs s)\<rparr>))"

definition RejectJob :: "Time \<Rightarrow> string \<Rightarrow> string \<Rightarrow> string \<Rightarrow> Store \<Rightarrow> Job res \<times> Store" where
  "RejectJob now jobID rejectedBy reason s =
     (case map_of (Store_jobs s) jobID of
        None \<Rightarrow> (Inl ''job not found'', s)
      | Some job \<Rightarrow>
          if Job_Status job \<noteq> JobStatusWaitingApproval
          then (Inl ''job is not waiting for approval'', s)
          else let job = job\<lparr>Job_Status := JobStatusCancelled,
                     Job_ApprovalStatus := ApprovalStatusRejected, Job_RejectedBy := rejectedBy,
                     Job_RejectedAt := Some now, Job_ApprovalComment := reason,
                     Job_UpdatedAt := now\<rparr>
            in (Inr job, s\<lparr>Store_jobs := AList.update jobID job (Store_jobs s)\<rparr>))"

section \<open>Audit records\<close>

definition AddAuditLog ::
  "Time \<Rightarrow> string \<Rightarrow> string \<Rightarrow> string \<Rightarrow> string \<Rightarrow> string \<Rightarrow> details \<Rightarrow> Store \<Rightarrow> AuditLog \<times> Store" where
  "AddAuditLog now actorType actorID action resourceType resourceID dets s =
     (let (aid, s) = newID ''audit'' s;
          entry = \<lparr>AuditLog_ID = aid, AuditLog_ActorType = actorType, AuditLog_ActorID = actorID,
            AuditLog_Action = action, AuditLog_ResourceType = resourceType,
            AuditLog_ResourceID = resourceID, AuditLog_Details = dets, AuditLog_CreatedAt = now\<rparr>
      in (entry, s\<lparr>Store_auditLogs := Store_auditLogs s @ [entry]\<rparr>))"

definition ListAuditLogs :: "string \<Rightarrow> string \<Rightarrow> Store \<Rightarrow> AuditLog list" where
  "ListAuditLogs resourceType resourceID s =
     filter (\<lambda>entry. \<not> (resourceType \<noteq> [] \<and> AuditLog_ResourceType entry \<noteq> resourceType) \<and>
       \<not> (resourceID \<noteq> [] \<and> AuditLog_ResourceID entry \<noteq> resourceID)) (Store_auditLogs s)"

section \<open>Incident cases\<close>

definition summarizeCase :: "AnalysisReport \<Rightarrow> string" where
  "summarizeCase report =
     (if length (AnalysisReport_PossibleCauses report) > 0
      then Join (AnalysisReport_PossibleCauses report) ''; ''
      else AnalysisReport_RawAnalysis report)"

definition cloneStrings :: "string list \<Rightarrow> string list" where
  "cloneStrings values = (if length values = 0 then [] else values)"

definition UpsertIncidentCase ::
  "Time \<Rightarrow> DiagnosisPlan \<Rightarrow> AnalysisReport \<Rightarrow> Store \<Rightarrow> IncidentCase \<times> Store" where
  "UpsertIncidentCase now plan report s =
     (let caseID = (case map_of (Store_incidentByPlan s) (DiagnosisPlan_ID plan) of
                      None \<Rightarrow> [] | Some c \<Rightarrow> c);
          (c, s) = (case map_of (Store_incidentCases s) caseID of
                      Some c \<Rightarrow> (c, s)
                    | None \<Rightarrow> (let (cid, s) = newID ''case'' s
                              in (zero_IncidentCase\<lparr>IncidentCase_ID := cid, IncidentCase_CreatedAt := now\<rparr>, s)));
          c = c\<lparr>IncidentCase_Title := DiagnosisPlan_Title plan,
                IncidentCase_TriggerType := DiagnosisPlan_TriggerType plan,
                IncidentCase_FaultType := AnalysisReport_FaultType report,
                IncidentCase_Summary := summarizeCase report,
                IncidentCase_PossibleCauses := cloneStrings (AnalysisReport_PossibleCauses report),
                IncidentCase_Suggestions := cloneStrings (AnalysisReport_Suggestions report),
                IncidentCase_Confidence := AnalysisReport_Confidence report,
                IncidentCase_AlertSymptoms := AnalysisReport_AlertSymptoms report,
                IncidentCase_EnvironmentTags := cloneStrings (AnalysisReport_EnvironmentTags report),
                IncidentCase_EvidenceSummary := AnalysisReport_EvidenceSummary report,
                IncidentCase_RootCause := AnalysisReport_RootCause report,
                IncidentCase_ResolutionSteps := cloneStrings (AnalysisReport_ResolutionSteps report),
                IncidentCase_ResolutionResult := AnalysisReport_ResolutionResult report\<rparr>;
          c = (if IncidentCase_AlertSymptoms c = []
               then c\<lparr>IncidentCase_AlertSymptoms := DiagnosisPlan_Description plan\<rparr> else c);
          c = (if IncidentCase_EvidenceSummary c = []
               then c\<lparr>IncidentCase_EvidenceSummary := AnalysisReport_RawAnalysis report\<rparr> else c);
          c = (if IncidentCase_RootCause c = []
               then c\<lparr>IncidentCase_RootCause := summarizeCase report\<rparr> else c);
          c = (if length (IncidentCase_ResolutionSteps c) = 0
               then c\<lparr>IncidentCase_ResolutionSteps := cloneStrings (AnalysisReport_Suggestions report)\<rparr>
               else c);
          c = c\<lparr>IncidentCase_SourcePlanID := DiagnosisPlan_ID plan, IncidentCase_UpdatedAt := now\<rparr>
      in (c, s\<lparr>Store_incidentCases := AList.update (IncidentCase_ID c) c (Store_incidentCases s),
               Store_incidentByPlan :=
                 AList.update (DiagnosisPlan_ID plan) (IncidentCase_ID c) (Store_incidentByPlan s)\<rparr>))"

definition incidentCaseSearchText :: "IncidentCase \<Rightarrow> string" where
  "incidentCaseSearchText c = ToLower (Join
     [IncidentCase_Title c, IncidentCase_TriggerType c, IncidentCase_FaultType c,
      IncidentCase_Summary c, IncidentCase_AlertSymptoms c,
      Join (IncidentCase_EnvironmentTags c) '' '', IncidentCase_EvidenceSummary c,
      IncidentCase_RootCause c, Join (IncidentCase_ResolutionSteps c) '' '',
      IncidentCase_ResolutionResult c, Join (IncidentCase_PossibleCauses c) '' '',
      Join (IncidentCase_Suggestions c) '' ''] '' '')"

definition matchIncidentCase :: "IncidentCase \<Rightarrow> IncidentCaseFilter \<Rightarrow> bool" where
  "matchIncidentCase c f =
     (if IncidentCaseFilter_TriggerType f \<noteq> [] \<and> IncidentCase_TriggerType c \<noteq> IncidentCaseFilter_TriggerType f
      then False
      else if IncidentCaseFilter_FaultType f \<noteq> [] \<and> IncidentCase_FaultType c \<noteq> IncidentCaseFilter_FaultType f
      then False
      else if \<not> list_all (\<lambda>tag. list_ex (\<lambda>caseTag. EqualFold tag caseTag) (IncidentCase_EnvironmentTags c))
                 (IncidentCaseFilter_EnvironmentTags f)
      then False
      else if IncidentCaseFilter_Query f = [] then True
      else Contains (incidentCaseSearchText c) (ToLower (IncidentCaseFilter_Query f)))"

text \<open>\<open>if limit > 0 \&\& len(xs) > limit { xs = xs[:limit] }\<close>\<close>

definition limited :: "int \<Rightarrow> 'a list \<Rightarrow> 'a list" where
  "limited limit xs = (if limit > 0 \<and> int (length xs) > limit then take (nat limit) xs else xs)"

definition ListIncidentCases :: "IncidentCaseFilter \<Rightarrow> Store \<Rightarrow> IncidentCase list" where
  "ListIncidentCases f s =
     limited (IncidentCaseFilter_Limit f)
       (sort_Slice (\<lambda>i j. IncidentCase_UpdatedAt i > IncidentCase_UpdatedAt j)
         (filter (\<lambda>c. matchIncidentCase c f) (vals (Store_incidentCases s))))"

definition search_punctuation :: string where
  "search_punctuation = '',.;:()'' @ [CHR 0x0A, CHR 0x09]"

fun dedup_tokens :: "string list \<Rightarrow> string list \<Rightarrow> string list" where
  "dedup_tokens seen [] = []"
| "dedup_tokens seen (part # parts) =
     (if length part < 2 \<or> part \<in> set seen then dedup_tokens seen parts
      else part # dedup_tokens (part # seen) parts)"

definition tokenizeSearch :: "string \<Rightarrow> string list" where
  "tokenizeSearch input =
     (let input = ToLower (TrimSpace input)
      in if input = [] then []
         else dedup_tokens []
           (Fields (map (\<lambda>c. if c \<in> set search_punctuation then CHR '' '' else c) input)))"

definition incidentCaseScore :: "IncidentCase \<Rightarrow> string \<Rightarrow> string \<Rightarrow> string \<Rightarrow> nat" where
  "incidentCaseScore c description triggerType faultType =
     (if triggerType \<noteq> [] \<and> IncidentCase_TriggerType c = triggerType then 3 else 0) +
     (if faultType \<noteq> [] \<and> EqualFold (IncidentCase_FaultType c) faultType then 4 else 0) +
     length (filter (\<lambda>token. Contains (incidentCaseSearchText c) token) (tokenizeSearch description))"

definition FindSimilarIncidentCases ::
  "string \<Rightarrow> string \<Rightarrow> string \<Rightarrow> int \<Rightarrow> Store \<Rightarrow> IncidentCase list" where
  "FindSimilarIncidentCases description triggerType faultType limit s =
     (let scored = filter (\<lambda>(c, score). score > 0)
            (map (\<lambda>c. (c, incidentCaseScore c description triggerType faultType))
              (vals (Store_incidentCases s)));
          scored = sort_Slice (\<lambda>(ci, si) (cj, sj).
            if si = sj then IncidentCase_UpdatedAt ci > IncidentCase_UpdatedAt cj else si > sj) scored;
          limit = (if limit \<le> 0 then 3 else limit);
          scored = (if int (length scored) > limit then take (nat limit) scored else scored)
      in map fst scored)"

section \<open>Metrics\<close>

definition count_status :: "JobStatus \<Rightarrow> Job list \<Rightarrow> nat" where
  "count_status st js = length (filter (\<lambda>j. Job_Status j = st) js)"

definition MetricsSnapshot_of :: "Time \<Rightarrow> Store \<Rightarrow> MetricsSnapshot" where
  "MetricsSnapshot_of now s =
     (let js = vals (Store_jobs s);
          success = count_status JobStatusSuccess js;
          failed = count_status JobStatusFailed js;
          completedJobs = success + failed + count_status JobStatusCancelled js;
          started = filter (\<lambda>j. Job_StartedAt j \<noteq> None) js;
          total = sum_list (map (\<lambda>j. Seconds (timeSub (the (Job_StartedAt j)) (Job_CreatedAt j))) started)
      in \<lparr>MetricsSnapshot_JobsTotal = length (Store_jobs s),
          MetricsSnapshot_JobsSuccess = success,
          MetricsSnapshot_JobsFailed = failed,
          MetricsSnapshot_JobsWaitingApproval = count_status JobStatusWaitingApproval js,
          MetricsSnapshot_WorkersOnline = length (filter (\<lambda>w. Worker_Status w = WorkerStatusOnline \<and>
             timeSub now (Worker_LastHeartbeatAt w) \<le> workerOnlineThreshold) (vals (Store_workers s))),
          MetricsSnapshot_IncidentCasesTotal = length (Store_incidentCases s),
          MetricsSnapshot_JobSuccessRate =
            (if completedJobs > 0 then of_nat success / of_nat completedJobs else 0),
          MetricsSnapshot_JobFailureRate =
            (if completedJobs > 0 then of_nat failed / of_nat completedJobs else 0),
          MetricsSnapshot_AvgScheduleLatencySeconds =
            (if length started > 0 then total / of_nat (length started) else 0)\<rparr>)"

section \<open>Histories\<close>

text \<open>
  The calls that change the store, and the states they reach. Go iterates maps in an unspecified
  order, so a reachable state may at any time be seen with its tables reordered (\<open>reorder\<close>).
\<close>

datatype store_op =
    OpRegisterWorker Time string string
  | OpHeartbeatWorker Time string
  | OpCreateJob Time string string string
  | OpCreateJobWithOptions Time string string string CreateJobOptions
  | OpAssignNextJob Time string
  | OpCompleteJob Time string string string bool
  | OpAssignJobToWorker Time string string
  | OpApproveJob Time string string string
  | OpRejectJob Time string string string
  | OpAddAuditLog Time string string string string string details
  | OpUpsertIncidentCase Time DiagnosisPlan AnalysisReport

fun store_exec :: "store_op \<Rightarrow> Store \<Rightarrow> Store" where
  "store_exec (OpRegisterWorker now n t) s = snd (RegisterWorker now n t s)"
| "store_exec (OpHeartbeatWorker now w) s = snd (HeartbeatWorker now w s)"
| "store_exec (OpCreateJob now n t c) s = snd (CreateJob now n t c s)"
| "store_exec (OpCreateJobWithOptions now n t c opts) s = snd (CreateJobWithOptions now n t c opts s)"
| "store_exec (OpAssignNextJob now w) s = snd (AssignNextJob now w s)"
| "store_exec (OpCompleteJob now w j out ok) s = snd (CompleteJob now w j out ok s)"
| "store_exec (OpAssignJobToWorker now j w) s = snd (AssignJobToWorker now j w s)"
| "store_exec (OpApproveJob now j who c) s = snd (ApproveJob now j who c s)"
| "store_exec (OpRejectJob now j who r) s = snd (RejectJob now j who r s)"
| "store_exec (OpAddAuditLog now aty aid act rty rid d) s = snd (AddAuditLog now aty aid act rty rid d s)"
| "store_exec (OpUpsertIncidentCase now plan report) s = snd (UpsertIncidentCase now plan report s)"

definition id_room :: "Store \<Rightarrow> bool" where
  "id_room s \<longleftrightarrow> Store_nextID s \<noteq> - 1"

definition id_count :: "Store \<Rightarrow> nat" where
  "id_count s = unat (Store_nextID s)"

inductive store_reachable :: "Store \<Rightarrow> bool" where
  init: "store_reachable NewStore"
| exec: "store_reachable s \<Longrightarrow> id_room s \<Longrightarrow> store_reachable (store_exec op s)"
| reorder: "store_reachable s \<Longrightarrow> mset (Store_workers s) = mset ws \<Longrightarrow> mset (Store_jobs s) = mset js \<Longrightarrow>
    mset (Store_incidentCases s) = mset cs \<Longrightarrow> mset (Store_incidentByPlan s) = mset bs \<Longrightarrow>
    store_reachable (s\<lparr>Store_workers := ws, Store_jobs := js, Store_incidentCases := cs,
      Store_incidentByPlan := bs\<rparr>)"

section \<open>The well-formedness invariant\<close>

definition plan_index_ok :: "(string, string) gomap \<Rightarrow> (string, IncidentCase) gomap \<Rightarrow> bool" where
  "plan_index_ok index cases \<longleftrightarrow> map_ok index \<and>
     (\<forall>(p, cid) \<in> set index. \<exists>c. map_of cases cid = Some c \<and> IncidentCase_SourcePlanID c = p) \<and>
     (\<forall>(cid, c) \<in> set cases. map_of index (IncidentCase_SourcePlanID c) = Some cid)"

definition audit_ok :: "nat \<Rightarrow> AuditLog list \<Rightarrow> bool" where
  "audit_ok n logs \<longleftrightarrow> distinct (map AuditLog_ID logs) \<and>
     AuditLog_ID ` set logs \<subseteq> issued_ids ''audit'' n"

definition store_ok :: "Store \<Rightarrow> bool" where
  "store_ok s \<longleftrightarrow>
     table_ok ''worker'' Worker_ID (id_count s) (Store_workers s) \<and>
     table_ok ''job'' Job_ID (id_count s) (Store_jobs s) \<and>
     table_ok ''case'' IncidentCase_ID (id_count s) (Store_incidentCases s) \<and>
     plan_index_ok (Store_incidentByPlan s) (Store_incidentCases s) \<and>
     audit_ok (id_count s) (Store_auditLogs s)"

interpretation store_ids: id_source newID id_count id_room
  by unfold_locales (auto simp: newID_def id_count_def id_room_def Let_def word_counter)

lemma newID_state:
  "id_room s \<Longrightarrow> newID pre s = (fmtID pre (Suc (id_count s)), snd (newID pre s))"
  by (simp add: store_ids.alloc_id[symmetric])

lemma newID_keeps [simp]:
  "Store_workers (snd (newID pre s)) = Store_workers s"
  "Store_jobs (snd (newID pre s)) = Store_jobs s"
  "Store_auditLogs (snd (newID pre s)) = Store_auditLogs s"
  "Store_incidentCases (snd (newID pre s)) = Store_incidentCases s"
  "Store_incidentByPlan (snd (newID pre s)) = Store_incidentByPlan s"
  by (simp_all add: newID_def Let_def)

lemma id_count_keeps [simp]:
  "id_count (s\<lparr>Store_workers := ws\<rparr>) = id_count s"
  "id_count (s\<lparr>Store_jobs := js\<rparr>) = id_count s"
  "id_count (s\<lparr>Store_auditLogs := ls\<rparr>) = id_count s"
  "id_count (s\<lparr>Store_incidentCases := cs\<rparr>) = id_count s"
  "id_count (s\<lparr>Store_incidentByPlan := bs\<rparr>) = id_count s"
  by (simp_all add: id_count_def)

lemma audit_ok_mono: "audit_ok n logs \<Longrightarrow> n \<le> n' \<Longrightarrow> audit_ok n' logs"
  unfolding audit_ok_def using issued_ids_mono[of n n' "''audit''"] by blast

lemma store_ok_newID: "store_ok s \<Longrightarrow> id_room s \<Longrightarrow> store_ok (snd (newID pre s))"
  unfolding store_ok_def
  by (auto simp: store_ids.alloc_counter intro: table_ok_mono audit_ok_mono)

lemma newID_issued:
  "id_room s \<Longrightarrow> fst (newID pre s) \<in> issued_ids pre (id_count (snd (newID pre s)))"
  by (simp add: store_ids.alloc_issued)

lemma store_ok_worker_update:
  "store_ok s \<Longrightarrow> Worker_ID w = k \<Longrightarrow> k \<in> issued_ids ''worker'' (id_count s) \<Longrightarrow>
   store_ok (s\<lparr>Store_workers := AList.update k w (Store_workers s)\<rparr>)"
  by (simp add: store_ok_def table_ok_update)

lemma store_ok_job_update:
  "store_ok s \<Longrightarrow> Job_ID j = k \<Longrightarrow> k \<in> issued_ids ''job'' (id_count s) \<Longrightarrow>
   store_ok (s\<lparr>Store_jobs := AList.update k j (Store_jobs s)\<rparr>)"
  by (simp add: store_ok_def table_ok_update)

lemma store_ok_job: "store_ok s \<Longrightarrow> map_of (Store_jobs s) k = Some j \<Longrightarrow>
    Job_ID j = k \<and> k \<in> issued_ids ''job'' (id_count s)"
  unfolding store_ok_def using table_ok_lookup by metis

lemma store_ok_worker: "store_ok s \<Longrightarrow> map_of (Store_workers s) k = Some w \<Longrightarrow>
    Worker_ID w = k \<and> k \<in> issued_ids ''worker'' (id_count s)"
  unfolding store_ok_def using table_ok_lookup by metis

section \<open>The selection loop\<close>

lemma job_before_trans:
  "\<not> job_before b a \<Longrightarrow> \<not> job_before c b \<Longrightarrow> \<not> job_before c a"
  unfolding job_before_def by (metis less_trans linorder_neqE not_less_iff_gr_or_eq)

lemma job_before_asym: "job_before a b \<Longrightarrow> \<not> job_before b a"
  unfolding job_before_def by (metis less_asym less_irrefl)

lemma job_before_antisym: "\<not> job_before a b \<Longrightarrow> \<not> job_before b a \<Longrightarrow> Job_ID a = Job_ID b"
  unfolding job_before_def by (metis linorder_neqE)

lemma select_next_from:
  "select_next w js sel = Some (k, j) \<Longrightarrow>
   ((k, j) \<in> set js \<and> assignable w j) \<or> sel = Some (k, j)"
  by (induction js arbitrary: sel) (fastforce split: if_splits option.splits)+

lemma select_next_None:
  "select_next w js sel = None \<longleftrightarrow> sel = None \<and> (\<forall>(k, j) \<in> set js. \<not> assignable w j)"
  by (induction js arbitrary: sel) (auto split: if_splits option.splits)

lemma select_next_before:
  "select_next w js (Some (k0, j0)) = Some (k, j) \<Longrightarrow> \<not> job_before j0 j"
proof (induction js arbitrary: k0 j0)
  case Nil
  then show ?case using job_before_asym by auto
next
  case (Cons x js)
  obtain k1 j1 where x: "x = (k1, j1)" by (cases x)
  show ?case
  proof (cases "assignable w j1 \<and> job_before j1 j0")
    case True
    then have "\<not> job_before j1 j" using Cons x by auto
    then show ?thesis using True job_before_asym job_before_trans by blast
  next
    case False
    then show ?thesis using Cons x by (auto split: if_splits)
  qed
qed

lemma select_next_minimal:
  "select_next w js sel = Some (k, j) \<Longrightarrow> (k', j') \<in> set js \<Longrightarrow> assignable w j' \<Longrightarrow> \<not> job_before j' j"
proof (induction js arbitrary: sel)
  case (Cons x rest)
  obtain jid job where x: "x = (jid, job)" by (cases x)
  obtain sel' where sel': "select_next w rest sel' = Some (k, j)"
    and hd: "assignable w job \<Longrightarrow> \<exists>k1 j1. sel' = Some (k1, j1) \<and> \<not> job_before job j1"
    using Cons.prems(1) x job_before_asym
    by (auto split: if_splits option.splits) blast+
  show ?case
  proof (cases "(k', j') \<in> set rest")
    case True
    then show ?thesis using Cons.IH[OF sel'] Cons.prems(3) by blast
  next
    case False
    then have "j' = job" using Cons.prems(2) x by simp
    then obtain k1 j1 where "sel' = Some (k1, j1)" "\<not> job_before job j1"
      using hd Cons.prems(3) by blast
    then show ?thesis
      using \<open>j' = job\<close> sel' select_next_before job_before_trans by blast
  qed
qed simp

lemma select_next_perm:
  assumes ok: "table_ok pre Job_ID n js" and p: "mset js = mset js'"
  shows "select_next w js None = select_next w js' None"
proof (cases "select_next w js None")
  case None
  then show ?thesis
    using select_next_None p by (metis mset_eq_setD)
next
  case (Some r)
  obtain k j where r: "r = (k, j)" by (cases r)
  note ok' = table_ok_perm[OF ok p]
  have sets: "set js = set js'" using p by (rule mset_eq_setD)
  obtain k' j' where r': "select_next w js' None = Some (k', j')"
    using Some r select_next_None[of w js None] select_next_None[of w js' None] sets
    by (metis option.exhaust surj_pair option.distinct(1))
  have in1: "(k, j) \<in> set js" "assignable w j" using select_next_from[OF Some[unfolded r]] by auto
  have in2: "(k', j') \<in> set js" "assignable w j'" using select_next_from[OF r'] sets by auto
  have "Job_ID j = Job_ID j'"
    using select_next_minimal[OF Some[unfolded r] in2] select_next_minimal[OF r' in1(1)[unfolded sets] in1(2)]
    by (rule job_before_antisym[rotated])
  then have "k = k'" "j = j'"
    using table_ok_mem[OF ok in1(1)] table_ok_mem[OF ok in2(1)] by auto
  then show ?thesis using Some r r' by simp
qed

section \<open>Every operation keeps the invariant\<close>

lemma RegisterWorker_ok: "store_ok s \<Longrightarrow> id_room s \<Longrightarrow> store_ok (snd (RegisterWorker now n t s))"
  using store_ok_newID[of s "''worker''"] newID_issued[of s "''worker''"]
  by (auto simp: RegisterWorker_def Let_def split: prod.splits intro!: store_ok_worker_update)

lemma HeartbeatWorker_ok: "store_ok s \<Longrightarrow> store_ok (snd (HeartbeatWorker now w s))"
  using store_ok_worker[of s w]
  by (auto simp: HeartbeatWorker_def Let_def split: option.splits intro!: store_ok_worker_update)

lemma CreateJobWithOptions_ok:
  "store_ok s \<Longrightarrow> id_room s \<Longrightarrow> store_ok (snd (CreateJobWithOptions now n t c opts s))"
  using store_ok_newID[of s "''job''"] newID_issued[of s "''job''"]
  by (auto simp: CreateJobWithOptions_def Let_def split: prod.splits intro!: store_ok_job_update)

lemma start_job_ID [simp]: "Job_ID (start_job now w j) = Job_ID j"
  by (simp add: start_job_def)

lemma AssignNextJob_ok: "store_ok s \<Longrightarrow> store_ok (snd (AssignNextJob now w s))"
proof -
  assume ok: "store_ok s"
  then have "map_ok (Store_jobs s)" by (auto simp: store_ok_def)
  then have "select_next wk (Store_jobs s) None = Some (k, j) \<Longrightarrow> map_of (Store_jobs s) k = Some j" for wk k j
    using select_next_from map_ok_mem by fastforce
  then show ?thesis
    using ok store_ok_job[OF ok]
    by (auto simp: AssignNextJob_def Let_def split: option.splits intro!: store_ok_job_update)
qed

lemma CompleteJob_ok: "store_ok s \<Longrightarrow> store_ok (snd (CompleteJob now w j out ok s))"
  using store_ok_job[of s j]
  by (auto simp: CompleteJob_def Let_def split: option.splits intro!: store_ok_job_update)

lemma AssignJobToWorker_ok: "store_ok s \<Longrightarrow> store_ok (snd (AssignJobToWorker now j w s))"
  using store_ok_job[of s j]
  by (auto simp: AssignJobToWorker_def Let_def split: option.splits intro!: store_ok_job_update)

lemma ApproveJob_ok: "store_ok s \<Longrightarrow> store_ok (snd (ApproveJob now j who c s))"
  using store_ok_job[of s j]
  by (auto simp: ApproveJob_def Let_def split: option.splits intro!: store_ok_job_update)

lemma RejectJob_ok: "store_ok s \<Longrightarrow> store_ok (snd (RejectJob now j who r s))"
  using store_ok_job[of s j]
  by (auto simp: RejectJob_def Let_def split: option.splits intro!: store_ok_job_update)

lemma AddAuditLog_ok:
  assumes "store_ok s" "id_room s"
  shows "store_ok (snd (AddAuditLog now aty aid act rty rid d s))"
proof -
  let ?s = "snd (newID ''audit'' s)"
  have "fst (newID ''audit'' s) \<notin> AuditLog_ID ` set (Store_auditLogs s)"
    using assms store_ids.alloc_fresh[of s "''audit''"] by (auto simp: store_ok_def audit_ok_def)
  then have "audit_ok (id_count ?s) (Store_auditLogs s @ [e])" if "AuditLog_ID e = fst (newID ''audit'' s)" for e
    using store_ok_newID[OF assms, of "''audit''"] newID_issued[OF assms(2), of "''audit''"] that
    by (auto simp: store_ok_def audit_ok_def)
  then show ?thesis
    using store_ok_newID[OF assms, of "''audit''"]
    by (simp add: AddAuditLog_def Let_def store_ok_def case_prod_beta)
qed

lemma plan_index_iff:
  assumes "map_ok idx" "map_ok cs"
  shows "plan_index_ok idx cs \<longleftrightarrow>
    (\<forall>p cid. map_of idx p = Some cid \<longrightarrow> (\<exists>c. map_of cs cid = Some c \<and> IncidentCase_SourcePlanID c = p)) \<and>
    (\<forall>cid c. map_of cs cid = Some c \<longrightarrow> map_of idx (IncidentCase_SourcePlanID c) = Some cid)"
  unfolding plan_index_ok_def map_ok_all[OF assms(1)] map_ok_all[OF assms(2)] using assms by simp

lemma plan_index_lookup:
  "plan_index_ok idx cs \<Longrightarrow> map_of idx p = Some cid \<Longrightarrow>
   \<exists>c. map_of cs cid = Some c \<and> IncidentCase_SourcePlanID c = p"
  unfolding plan_index_ok_def by (fastforce dest: map_of_SomeD)

lemma plan_index_back:
  "plan_index_ok idx cs \<Longrightarrow> map_of cs cid = Some c \<Longrightarrow> map_of idx (IncidentCase_SourcePlanID c) = Some cid"
  unfolding plan_index_ok_def by (fastforce dest: map_of_SomeD)

text \<open>Writing a case under its own plan keeps the index and the table in step, provided the case
  identifier is either the one the index has for that plan or a new one for an unindexed plan.\<close>

lemma plan_index_update:
  assumes ok: "plan_index_ok idx cs" and cs: "map_ok cs" and plan: "IncidentCase_SourcePlanID c = p"
    and which: "map_of idx p = Some cid \<or> (map_of idx p = None \<and> map_of cs cid = None)"
  shows "plan_index_ok (AList.update p cid idx) (AList.update cid c cs)"
proof -
  have mi: "map_ok idx" using ok by (simp add: plan_index_ok_def)
  have 1: "\<exists>c'. map_of (AList.update cid c cs) y = Some c' \<and> IncidentCase_SourcePlanID c' = q"
    if "map_of (AList.update p cid idx) q = Some y" for q y
  proof (cases "q = p")
    case True
    then show ?thesis using that plan by simp
  next
    case False
    then have "map_of idx q = Some y" using that by simp
    then obtain c' where c': "map_of cs y = Some c'" "IncidentCase_SourcePlanID c' = q"
      using plan_index_lookup[OF ok] by blast
    then have "y \<noteq> cid" using which False plan_index_lookup[OF ok, of p cid] by auto
    then show ?thesis using c' by simp
  qed
  have 2: "map_of (AList.update p cid idx) (IncidentCase_SourcePlanID c') = Some y"
    if "map_of (AList.update cid c cs) y = Some c'" for c' y
    using that plan plan_index_back[OF ok] which by (fastforce split: if_splits)
  show ?thesis
    unfolding plan_index_iff[OF map_ok_update[OF mi] map_ok_update[OF cs]] using 1 2 by blast
qed

text \<open>What \<open>UpsertIncidentCase\<close> does to the tables: the case identifier it uses and the case it
  writes, whose plan is the plan it was called for.\<close>

definition upsert_target :: "DiagnosisPlan \<Rightarrow> Store \<Rightarrow> string \<times> Store" where
  "upsert_target plan s =
     (case map_of (Store_incidentByPlan s) (DiagnosisPlan_ID plan) of
        Some cid \<Rightarrow> (cid, s) | None \<Rightarrow> newID ''case'' s)"

lemma UpsertIncidentCase_spec:
  assumes ok: "store_ok s" and up: "upsert_target plan s = (cid, s')"
  shows "\<exists>c. UpsertIncidentCase now plan report s =
      (c, s'\<lparr>Store_incidentCases := AList.update cid c (Store_incidentCases s'),
             Store_incidentByPlan := AList.update (DiagnosisPlan_ID plan) cid (Store_incidentByPlan s')\<rparr>)
    \<and> IncidentCase_ID c = cid \<and> IncidentCase_SourcePlanID c = DiagnosisPlan_ID plan
    \<and> IncidentCase_UpdatedAt c = now \<and> IncidentCase_Title c = DiagnosisPlan_Title plan"
proof (cases "map_of (Store_incidentByPlan s) (DiagnosisPlan_ID plan)")
  case None
  have "map_of (Store_incidentCases s) [] = None"
    using ok by (auto simp: store_ok_def intro: table_ok_fresh)
  then show ?thesis
    using None up by (auto simp: UpsertIncidentCase_def upsert_target_def Let_def)
next
  case (Some y)
  then obtain c where c: "map_of (Store_incidentCases s) y = Some c"
    using ok plan_index_lookup by (metis store_ok_def)
  then have "IncidentCase_ID c = y" using ok table_ok_lookup by (metis store_ok_def)
  then show ?thesis
    using Some c up by (auto simp: UpsertIncidentCase_def upsert_target_def Let_def)
qed

lemma upsert_target_ok:
  assumes ok: "store_ok s" and room: "id_room s" and t: "upsert_target plan s = (cid, s')"
  shows "store_ok s' \<and> cid \<in> issued_ids ''case'' (id_count s') \<and>
    (map_of (Store_incidentByPlan s') (DiagnosisPlan_ID plan) = Some cid \<or>
     (map_of (Store_incidentByPlan s') (DiagnosisPlan_ID plan) = None \<and>
      map_of (Store_incidentCases s') cid = None))"
proof (cases "map_of (Store_incidentByPlan s) (DiagnosisPlan_ID plan)")
  case None
  then have new: "cid = fst (newID ''case'' s)" "s' = snd (newID ''case'' s)"
    using t by (auto simp: upsert_target_def)
  have "table_ok ''case'' IncidentCase_ID (id_count s) (Store_incidentCases s)"
    using ok by (simp add: store_ok_def)
  then have "map_of (Store_incidentCases s) cid = None"
    using store_ids.alloc_fresh[OF room] new(1) by (metis table_ok_fresh)
  then show ?thesis
    using None new store_ok_newID[OF ok room] newID_issued[OF room] by simp
next
  case (Some y)
  then have y: "cid = y" "s' = s" using t by (auto simp: upsert_target_def)
  obtain c where "map_of (Store_incidentCases s) y = Some c"
    using Some ok plan_index_lookup by (metis store_ok_def)
  then have "y \<in> issued_ids ''case'' (id_count s)"
    using ok table_ok_lookup by (metis store_ok_def)
  then show ?thesis using Some y ok by simp
qed

lemma UpsertIncidentCase_ok:
  assumes ok: "store_ok s" and room: "id_room s"
  shows "store_ok (snd (UpsertIncidentCase now plan report s))"
proof -
  obtain cid s' where t: "upsert_target plan s = (cid, s')" by fastforce
  note u = upsert_target_ok[OF ok room t]
  obtain c where c: "snd (UpsertIncidentCase now plan report s) =
      s'\<lparr>Store_incidentCases := AList.update cid c (Store_incidentCases s'),
         Store_incidentByPlan := AList.update (DiagnosisPlan_ID plan) cid (Store_incidentByPlan s')\<rparr>"
    "IncidentCase_ID c = cid" "IncidentCase_SourcePlanID c = DiagnosisPlan_ID plan"
    using UpsertIncidentCase_spec[OF ok t, of now report] by auto
  have parts: "table_ok ''case'' IncidentCase_ID (id_count s') (Store_incidentCases s')"
    "plan_index_ok (Store_incidentByPlan s') (Store_incidentCases s')"
    using u by (auto simp: store_ok_def)
  have "plan_index_ok (AList.update (DiagnosisPlan_ID plan) cid (Store_incidentByPlan s'))
      (AList.update cid c (Store_incidentCases s'))"
    using plan_index_update[OF parts(2) table_ok_map_ok[OF parts(1)] c(3)] u by blast
  moreover have "table_ok ''case'' IncidentCase_ID (id_count s') (AList.update cid c (Store_incidentCases s'))"
    using table_ok_update[OF parts(1) c(2)] u by blast
  ultimately show ?thesis using c(1) u by (simp add: store_ok_def)
qed

lemma store_exec_ok: "store_ok s \<Longrightarrow> id_room s \<Longrightarrow> store_ok (store_exec op s)"
  by (cases op)
    (simp_all add: RegisterWorker_ok HeartbeatWorker_ok CreateJobWithOptions_ok CreateJob_def
      AssignNextJob_ok CompleteJob_ok AssignJobToWorker_ok ApproveJob_ok RejectJob_ok
      AddAuditLog_ok UpsertIncidentCase_ok)

lemma plan_index_perm:
  assumes "plan_index_ok idx cs" "map_ok cs" "mset idx = mset idx'" "mset cs = mset cs'"
  shows "plan_index_ok idx' cs'"
proof -
  have idx: "map_ok idx" using assms(1) by (simp add: plan_index_ok_def)
  note eqs = map_of_perm[OF idx assms(3)] map_of_perm[OF assms(2,4)]
  show ?thesis
    using assms(1)
    unfolding plan_index_iff[OF idx assms(2)]
      plan_index_iff[OF map_ok_perm[OF idx assms(3)] map_ok_perm[OF assms(2,4)]] eqs .
qed

lemma store_reachable_ok: "store_reachable s \<Longrightarrow> store_ok s"
proof (induction rule: store_reachable.induct)
  case init
  show ?case by (simp add: store_ok_def NewStore_def plan_index_ok_def audit_ok_def)
next
  case (exec s op)
  then show ?case by (simp add: store_exec_ok)
next
  case (reorder s ws js cs bs)
  then show ?case
    using table_ok_perm[of _ Worker_ID _ "Store_workers s" ws] table_ok_perm[of _ Job_ID _ "Store_jobs s" js]
      table_ok_perm[of _ IncidentCase_ID _ "Store_incidentCases s" cs] plan_index_perm[OF _ _ reorder(5) reorder(4)]
    by (auto simp: store_ok_def)
qed

section \<open>How a call may change a job\<close>

fun allowed_change :: "store_op \<Rightarrow> string \<Rightarrow> Job \<Rightarrow> Job \<Rightarrow> bool" where
  "allowed_change (OpAssignNextJob now w) k j j' \<longleftrightarrow>
     (Job_Status j = JobStatusQueued \<or> Job_Status j = JobStatusPending) \<and> j' = start_job now w j"
| "allowed_change (OpAssignJobToWorker now k' w) k j j' \<longleftrightarrow> k = k' \<and> j' = start_job now w j"
| "allowed_change (OpCompleteJob now w k' out ok) k j j' \<longleftrightarrow>
     k = k' \<and> Job_AssignedWorkerID j = w \<and> Job_Output j' = out \<and> Job_FinishedAt j' = Some now \<and>
     Job_Status j' = (if ok then JobStatusSuccess else JobStatusFailed)"
| "allowed_change (OpApproveJob now k' who c) k j j' \<longleftrightarrow>
     k = k' \<and> Job_Status j = JobStatusWaitingApproval \<and> Job_Status j' = JobStatusPending \<and>
     Job_ApprovalStatus j' = ApprovalStatusApproved \<and> Job_ApprovedBy j' = who"
| "allowed_change (OpRejectJob now k' who r) k j j' \<longleftrightarrow>
     k = k' \<and> Job_Status j = JobStatusWaitingApproval \<and> Job_Status j' = JobStatusCancelled \<and>
     Job_ApprovalStatus j' = ApprovalStatusRejected \<and> Job_RejectedBy j' = who"
| "allowed_change op k j j' \<longleftrightarrow> False"

lemma store_ok_job_fresh:
  "store_ok s \<Longrightarrow> id_room s \<Longrightarrow> map_of (Store_jobs s) (fst (newID ''job'' s)) = None"
  using store_ids.alloc_fresh[of s "''job''"] by (metis store_ok_def table_ok_fresh)

lemma CreateJobWithOptions_keeps:
  "store_ok s \<Longrightarrow> id_room s \<Longrightarrow> map_of (Store_jobs s) k = Some j \<Longrightarrow>
   map_of (Store_jobs (snd (CreateJobWithOptions now n t c opts s))) k = Some j"
  using store_ok_job_fresh[of s]
  by (auto simp: CreateJobWithOptions_def Let_def case_prod_beta)

lemma UpsertIncidentCase_jobs [simp]:
  "Store_jobs (snd (UpsertIncidentCase now plan report s)) = Store_jobs s"
  by (auto simp: UpsertIncidentCase_def Let_def case_prod_beta split: option.splits)

lemma other_ops_jobs [simp]:
  "Store_jobs (snd (RegisterWorker now n t s)) = Store_jobs s"
  "Store_jobs (snd (HeartbeatWorker now w s)) = Store_jobs s"
  "Store_jobs (snd (AddAuditLog now aty aid act rty rid d s)) = Store_jobs s"
  by (auto simp: RegisterWorker_def HeartbeatWorker_def AddAuditLog_def Let_def case_prod_beta
      split: option.splits)

lemma store_ok_selected:
  assumes "store_ok s" "select_next w (Store_jobs s) None = Some (k, j)"
  shows "map_of (Store_jobs s) k = Some j \<and> Job_ID j = k \<and> assignable w j"
  using select_next_from[OF assms(2)] assms(1) table_ok_mem by (metis option.distinct(1) store_ok_def)

lemma store_exec_job:
  assumes ok: "store_ok s" and room: "id_room s" and j: "map_of (Store_jobs s) k = Some j"
  shows "\<exists>j'. map_of (Store_jobs (store_exec op s)) k = Some j' \<and> (j' = j \<or> allowed_change op k j j')"
proof (cases op)
  case (OpCreateJob now n t c)
  then show ?thesis using CreateJobWithOptions_keeps[OF ok room j] by (simp add: CreateJob_def)
next
  case (OpCreateJobWithOptions now n t c opts)
  then show ?thesis using CreateJobWithOptions_keeps[OF ok room j] by simp
next
  case (OpAssignNextJob now w)
  then show ?thesis
    using j store_ok_selected[OF ok]
    by (fastforce simp: AssignNextJob_def Let_def assignable_def split: option.splits)
next
  case (OpCompleteJob now w k' out succ)
  then show ?thesis using j by (auto simp: CompleteJob_def Let_def split: option.splits)
next
  case (OpAssignJobToWorker now k' w)
  then show ?thesis using j by (auto simp: AssignJobToWorker_def Let_def split: option.splits)
next
  case (OpApproveJob now k' who c)
  then show ?thesis using j by (auto simp: ApproveJob_def Let_def split: option.splits)
next
  case (OpRejectJob now k' who r)
  then show ?thesis using j by (auto simp: RejectJob_def Let_def split: option.splits)
qed (use j in simp_all)

section \<open>Counting identifiers along a history\<close>

lemma newID_count: "id_room s \<Longrightarrow> id_count (snd (newID pre s)) = Suc (id_count s)"
  by (rule store_ids.alloc_counter)

lemma store_exec_count: "id_room s \<Longrightarrow> id_count (store_exec op s) \<le> Suc (id_count s)"
  by (cases op)
    (auto simp: RegisterWorker_def HeartbeatWorker_def CreateJob_def CreateJobWithOptions_def
      AssignNextJob_def CompleteJob_def AssignJobToWorker_def ApproveJob_def RejectJob_def
      AddAuditLog_def UpsertIncidentCase_def Let_def case_prod_beta newID_count split: option.splits)

lemma id_room_count: "id_count s < 2 ^ 64 - 1 \<Longrightarrow> id_room s"
  by (auto simp: id_room_def id_count_def unsigned_minus_1_eq_mask mask_eq_exp_minus_1)

lemma store_run_ok:
  "store_ok s \<Longrightarrow> id_count s + length ops < 2 ^ 64 \<Longrightarrow> store_ok (fold store_exec ops s)"
proof (induction ops arbitrary: s)
  case (Cons op ops)
  then have "id_room s" using id_room_count by simp
  then show ?case
    using Cons store_exec_ok[of s op] store_exec_count[of s op] by simp
qed simp

section \<open>Ranking\<close>

lemma limited_length: "0 < n \<Longrightarrow> int (length (limited n xs)) \<le> n"
  by (auto simp: limited_def)

lemma limited_prefix: "\<exists>ys. xs = limited n xs @ ys"
  by (metis append_take_drop_id append_Nil2 limited_def)

text \<open>A prefix of a sorted list has the best elements.\<close>

lemma sorted_prefix_best:
  assumes "sorted_wrt R (xs @ ys)" "x \<in> set xs" "y \<in> set (xs @ ys)" "y \<notin> set xs"
  shows "R x y"
  using assms by (auto simp: sorted_wrt_append)

definition score_before :: "IncidentCase \<times> nat \<Rightarrow> IncidentCase \<times> nat \<Rightarrow> bool" where
  "score_before = (\<lambda>(ci, si) (cj, sj).
     if si = sj then IncidentCase_UpdatedAt ci > IncidentCase_UpdatedAt cj else si > sj)"

lemma sorted_by_score: "sorted_wrt (\<lambda>a b. \<not> score_before b a) (sort_Slice score_before xs)"
  by (rule sorted_sort_Slice) (auto simp: score_before_def split: if_splits)

lemma FindSimilar_unfold:
  "FindSimilarIncidentCases d t f n s =
     map fst (limited (if n \<le> 0 then 3 else n) (sort_Slice score_before
       (filter (\<lambda>(c, score). score > 0)
         (map (\<lambda>c. (c, incidentCaseScore c d t f)) (vals (Store_incidentCases s))))))"
  unfolding FindSimilarIncidentCases_def limited_def score_before_def Let_def by simp

lemma count_status_three:
  "count_status JobStatusSuccess js + count_status JobStatusFailed js + count_status JobStatusWaitingApproval js
    \<le> length js"
  by (induction js) (auto simp: count_status_def)

lemma filter_vals_le: "length (filter P (vals m)) \<le> length m"
  by (metis length_filter_le length_map)

section \<open>Properties\<close>

text \<open>C1. In every state a history of calls can reach (with fewer than \<open>2 ^ 64\<close> identifiers issued,
  and whatever order the runtime iterates maps in), the store is well formed: every worker, job and
  incident case is stored under its own identifier, which was issued by \<open>newID\<close>; no identifier is
  used twice; the plan index and the incident cases agree in both directions; audit identifiers are
  distinct.\<close>

theorem store_histories_well_formed: "store_reachable s \<Longrightarrow> store_ok s"
  by (rule store_reachable_ok)

theorem store_histories_well_formed_witness:
  "store_ok (store_exec (OpRegisterWorker 5 ''w'' ''host'') NewStore)"
  by (intro store_histories_well_formed store_reachable.exec store_reachable.init)
    (simp add: id_room_def NewStore_def)

lemma AssignNextJob_selects:
  assumes "store_ok s"
  shows "case AssignNextJob now wid s of
      (None, s') \<Rightarrow> s' = s \<and>
        (\<forall>worker k j. map_of (Store_workers s) wid = Some worker \<longrightarrow> GetJob k s = Some j \<longrightarrow>
           \<not> assignable worker j)
    | (Some j', s') \<Rightarrow> \<exists>worker j. map_of (Store_workers s) wid = Some worker \<and>
        GetJob (Job_ID j) s = Some j \<and> assignable worker j \<and> j' = start_job now wid j \<and>
        GetJob (Job_ID j) s' = Some j' \<and> (\<forall>k. k \<noteq> Job_ID j \<longrightarrow> GetJob k s' = GetJob k s) \<and>
        (\<forall>k j2. GetJob k s = Some j2 \<longrightarrow> assignable worker j2 \<longrightarrow> j2 = j \<or> job_before j j2)"
proof (cases "map_of (Store_workers s) wid")
  case None
  then show ?thesis by (simp add: AssignNextJob_def)
next
  case (Some worker)
  have tab: "table_ok ''job'' Job_ID (id_count s) (Store_jobs s)" using assms by (simp add: store_ok_def)
  show ?thesis
  proof (cases "select_next worker (Store_jobs s) None")
    case None
    then have "\<forall>(k, j) \<in> set (Store_jobs s). \<not> assignable worker j" by (simp add: select_next_None)
    moreover have "AssignNextJob now wid s = (None, s)" using Some None by (simp add: AssignNextJob_def)
    ultimately show ?thesis using Some by (auto simp: GetJob_def dest: map_of_SomeD)
  next
    case (Some r)
    then obtain k j where r: "select_next worker (Store_jobs s) None = Some (k, j)" by (cases r) auto
    note sel = store_ok_selected[OF assms r]
    have best: "j2 = j \<or> job_before j j2" if "map_of (Store_jobs s) k2 = Some j2" "assignable worker j2" for k2 j2
    proof (rule ccontr)
      assume n: "\<not> (j2 = j \<or> job_before j j2)"
      have "\<not> job_before j2 j"
        using select_next_minimal[OF r map_of_SomeD[OF that(1)] that(2)] .
      then have "Job_ID j2 = Job_ID j" using n job_before_antisym by blast
      then have "k2 = k" using that sel table_ok_lookup[OF tab that(1)] by auto
      then show False using n that sel by auto
    qed
    then show ?thesis
      using \<open>map_of (Store_workers s) wid = Some worker\<close> r sel
      by (auto simp: AssignNextJob_def GetJob_def Let_def)
  qed
qed


text \<open>Two pending jobs created at the same time, a worker that may run both: the lower identifier
  is dispatched.\<close>

definition sample_store :: Store where
  "sample_store = fold store_exec
     [OpRegisterWorker 1 ''w'' ''host'', OpCreateJob 7 ''a'' ''host'' ''uptime'',
      OpCreateJob 7 ''b'' ''host'' ''df -h'',
      OpCreateJobWithOptions 3 ''c'' ''host'' ''rm x''
        (zero_CreateJobOptions\<lparr>Opt_Status := JobStatusWaitingApproval, Opt_ApprovalRequired := True\<rparr>)]
     NewStore"

lemma id_count_NewStore [simp]: "id_count NewStore = 0"
  by (simp add: id_count_def NewStore_def)

lemma NewStore_ok [simp]: "store_ok NewStore"
  by (rule store_reachable_ok[OF store_reachable.init])

lemma sample_store_ok: "store_ok sample_store"
  unfolding sample_store_def by (rule store_run_ok) simp_all

lemma sample_assign:
  "map_option Job_ID (fst (AssignNextJob 9 ''worker-000001'' sample_store)) = Some ''job-000002''"
  by code_simp


text \<open>C34. The job \<open>AssignNextJob\<close> dispatches does not depend on the order in which the runtime
  iterates the job table: two stores that differ only in that order give the same answer and the
  same job table afterwards.\<close>

theorem AssignNextJob_iteration_order:
  assumes "store_ok s" "mset js = mset (Store_jobs s)"
  shows "fst (AssignNextJob now wid (s\<lparr>Store_jobs := js\<rparr>)) = fst (AssignNextJob now wid s) \<and>
    GetJob k (snd (AssignNextJob now wid (s\<lparr>Store_jobs := js\<rparr>))) = GetJob k (snd (AssignNextJob now wid s))"
proof -
  have tab: "table_ok ''job'' Job_ID (id_count s) (Store_jobs s)"
    using assms(1) by (simp add: store_ok_def)
  then have "map_of js = map_of (Store_jobs s)"
    using assms(2) map_of_perm[of "Store_jobs s" js] by auto
  moreover have "select_next w js None = select_next w (Store_jobs s) None" for w
    using select_next_perm[OF tab assms(2)[symmetric]] by simp
  ultimately show ?thesis
    by (auto simp: AssignNextJob_def GetJob_def Let_def split: option.splits)
qed

theorem AssignNextJob_iteration_order_witness:
  "map_option Job_ID (fst (AssignNextJob 9 ''worker-000001''
     (sample_store\<lparr>Store_jobs := rev (Store_jobs sample_store)\<rparr>))) = Some ''job-000002''"
  using AssignNextJob_iteration_order[OF sample_store_ok, of "rev (Store_jobs sample_store)"] sample_assign
  by simp

text \<open>C17. No call loses a job, and a call changes a job only along the transitions of its life cycle:
  a queued or pending job is started, a waiting job is approved (back to pending) or rejected
  (cancelled) by the named user, the assigned worker's report makes it succeed or fail, and a direct
  assignment starts it. Every other call leaves every job as it was.\<close>

theorem job_transitions:
  assumes "store_ok s" "id_room s" "GetJob k s = Some j"
  shows "\<exists>j'. GetJob k (store_exec op s) = Some j' \<and> (j' = j \<or> allowed_change op k j j')"
  using store_exec_job[OF assms(1,2)] assms(3) by (simp add: GetJob_def)

theorem job_transitions_witness:
  "\<exists>j'. GetJob ''job-000004'' (store_exec (OpAssignNextJob 9 ''worker-000001'') sample_store) = Some j' \<and>
     Job_Status j' = JobStatusWaitingApproval"
proof -
  have room: "id_room sample_store" by code_simp
  obtain j where j: "GetJob ''job-000004'' sample_store = Some j" "Job_Status j = JobStatusWaitingApproval"
  proof -
    have "map_option Job_Status (GetJob ''job-000004'' sample_store) = Some JobStatusWaitingApproval"
      by code_simp
    then show ?thesis using that by auto
  qed
  then show ?thesis
    using job_transitions[OF sample_store_ok room j(1), of "OpAssignNextJob 9 ''worker-000001''"] by auto
qed

text \<open>The calls that can move a waiting job: a decision, a direct assignment, or a report from the
  worker it was created for.\<close>

fun moves_waiting :: "string \<Rightarrow> Job \<Rightarrow> store_op \<Rightarrow> bool" where
  "moves_waiting k j (OpApproveJob now k' who c) \<longleftrightarrow> k = k'"
| "moves_waiting k j (OpRejectJob now k' who r) \<longleftrightarrow> k = k'"
| "moves_waiting k j (OpAssignJobToWorker now k' w) \<longleftrightarrow> k = k'"
| "moves_waiting k j (OpCompleteJob now w k' out ok) \<longleftrightarrow> k = k' \<and> Job_AssignedWorkerID j = w"
| "moves_waiting k j op \<longleftrightarrow> False"

lemma waiting_step:
  "Job_Status j = JobStatusWaitingApproval \<Longrightarrow> \<not> moves_waiting k j op \<Longrightarrow> \<not> allowed_change op k j j'"
  by (cases op) auto

text \<open>C10. The approval gate: whatever sequence of calls follows, a job that waits for approval is
  untouched (it is never picked up by a polling worker) as long as no call decides on it, assigns it
  directly, or reports on it in the name of the worker it was created for.\<close>

theorem waiting_job_untouched:
  assumes "store_ok s" "id_count s + length ops < 2 ^ 64"
    and "GetJob k s = Some j" "Job_Status j = JobStatusWaitingApproval"
    and "list_all (\<lambda>op. \<not> moves_waiting k j op) ops"
  shows "GetJob k (fold store_exec ops s) = Some j"
  using assms
proof (induction ops arbitrary: s)
  case (Cons op ops)
  have room: "id_room s" using Cons.prems(2) id_room_count by simp
  have "map_of (Store_jobs s) k = Some j" using Cons.prems(3) by (simp add: GetJob_def)
  from store_exec_job[OF Cons.prems(1) room this, of op]
  have "GetJob k (store_exec op s) = Some j"
    using waiting_step[OF Cons.prems(4)] Cons.prems(5) by (auto simp: GetJob_def)
  then show ?case
    using Cons.IH[of "store_exec op s"] Cons.prems store_exec_ok[OF Cons.prems(1) room]
      store_exec_count[OF room, of op] by simp
qed simp

theorem waiting_job_untouched_witness:
  "GetJob ''job-000004'' (fold store_exec
      [OpAssignNextJob 9 ''worker-000001'', OpAssignNextJob 9 ''worker-000001'',
       OpAssignNextJob 9 ''worker-000001''] sample_store) = GetJob ''job-000004'' sample_store"
proof -
  have "map_option Job_Status (GetJob ''job-000004'' sample_store) = Some JobStatusWaitingApproval"
    by code_simp
  then obtain j where j: "GetJob ''job-000004'' sample_store = Some j" "Job_Status j = JobStatusWaitingApproval"
    by auto
  have "id_count sample_store = 4" by code_simp
  then show ?thesis
    using waiting_job_untouched[OF sample_store_ok _ j, of
      "[OpAssignNextJob 9 ''worker-000001'', OpAssignNextJob 9 ''worker-000001'', OpAssignNextJob 9 ''worker-000001'']"]
      j(1) by simp
qed

text \<open>The status check is missing from \<open>CompleteJob\<close>: a job created for a worker and waiting for
  approval is turned into a successful one by that worker's report, with no approval recorded. (The
  PostgreSQL repository refuses the same call.)\<close>

lemma CompleteJob_ignores_approval:
  assumes "GetJob k s = Some j" "Job_Status j = JobStatusWaitingApproval" "Job_AssignedWorkerID j = w"
  shows "\<exists>j' s'. CompleteJob now w k out True s = (Inr j', s') \<and> GetJob k s' = Some j' \<and>
    Job_Status j' = JobStatusSuccess \<and> Job_ApprovalStatus j' = Job_ApprovalStatus j"
  using assms by (simp add: CompleteJob_def GetJob_def Let_def)

theorem CompleteJob_ignores_approval_witness:
  "\<exists>s j' s'. CompleteJob 9 ''worker-000001'' ''job-000001'' [] True s = (Inr j', s') \<and>
     Job_Status j' = JobStatusSuccess \<and> Job_ApprovalStatus j' = ApprovalStatusPending"
proof -
  let ?j = "zero_Job\<lparr>Job_Status := JobStatusWaitingApproval, Job_ApprovalStatus := ApprovalStatusPending,
      Job_AssignedWorkerID := ''worker-000001''\<rparr>"
  have "GetJob ''job-000001'' (NewStore\<lparr>Store_jobs := [(''job-000001'', ?j)]\<rparr>) = Some ?j"
    by (simp add: GetJob_def)
  from CompleteJob_ignores_approval[OF this, of "''worker-000001''" 9 "[]"] show ?thesis by fastforce
qed

text \<open>A decision on a job is taken once: after \<open>ApproveJob\<close> succeeds, approving or rejecting the
  same job again fails with the error of a job that is not waiting, and changes nothing; the same
  holds after \<open>RejectJob\<close>.\<close>

lemma decision_is_final:
  assumes "ApproveJob t k who c s = (Inr j, s') \<or> RejectJob t k who c s = (Inr j, s')"
  shows "ApproveJob t2 k who2 c2 s' = (Inl ''job is not waiting for approval'', s') \<and>
    RejectJob t2 k who2 c2 s' = (Inl ''job is not waiting for approval'', s')"
  using assms by (auto simp: ApproveJob_def RejectJob_def Let_def split: option.splits if_splits)

theorem decision_is_final_witness:
  "RejectJob 12 ''job-000004'' ''eve'' [] (snd (ApproveJob 11 ''job-000004'' ''ann'' ''ok'' sample_store)) =
     (Inl ''job is not waiting for approval'', snd (ApproveJob 11 ''job-000004'' ''ann'' ''ok'' sample_store))"
proof -
  have "isl (fst (ApproveJob 11 ''job-000004'' ''ann'' ''ok'' sample_store)) = False"
    by code_simp
  then obtain j where "ApproveJob 11 ''job-000004'' ''ann'' ''ok'' sample_store =
      (Inr j, snd (ApproveJob 11 ''job-000004'' ''ann'' ''ok'' sample_store))"
    by (metis isl_def old.sum.exhaust prod.collapse)
  then show ?thesis using decision_is_final by blast
qed

text \<open>One incident case per plan: a second \<open>UpsertIncidentCase\<close> for the same plan rewrites the
  case the first one made (same identifier, same creation time), issues no identifier and adds no
  case; after it the case is found under that identifier and in the plan index.\<close>

lemma Upsert_one_case_per_plan:
  assumes "store_ok s" "id_room s"
    and "UpsertIncidentCase t1 plan r1 s = (c1, s1)" "UpsertIncidentCase t2 plan r2 s1 = (c2, s2)"
  shows "IncidentCase_ID c2 = IncidentCase_ID c1 \<and> IncidentCase_CreatedAt c2 = IncidentCase_CreatedAt c1 \<and>
    Store_nextID s2 = Store_nextID s1 \<and> length (Store_incidentCases s2) = length (Store_incidentCases s1) \<and>
    map_of (Store_incidentCases s2) (IncidentCase_ID c1) = Some c2 \<and>
    map_of (Store_incidentByPlan s2) (DiagnosisPlan_ID plan) = Some (IncidentCase_ID c1)"
proof -
  obtain cid s' where t: "upsert_target plan s = (cid, s')" by fastforce
  have one: "s1 = s'\<lparr>Store_incidentCases := AList.update cid c1 (Store_incidentCases s'),
      Store_incidentByPlan := AList.update (DiagnosisPlan_ID plan) cid (Store_incidentByPlan s')\<rparr>"
    "IncidentCase_ID c1 = cid"
    using UpsertIncidentCase_spec[OF assms(1) t, of t1 r1] assms(3) by auto
  then have "UpsertIncidentCase t2 plan r2 s1 = (c2, s1\<lparr>
      Store_incidentCases := AList.update cid c2 (Store_incidentCases s1),
      Store_incidentByPlan := AList.update (DiagnosisPlan_ID plan) cid (Store_incidentByPlan s1)\<rparr>) \<and>
      IncidentCase_ID c2 = cid \<and> IncidentCase_CreatedAt c2 = IncidentCase_CreatedAt c1"
    using assms(4) by (auto simp: UpsertIncidentCase_def Let_def)
  then show ?thesis
    using one assms(4) by (auto simp: length_update)
qed

theorem Upsert_one_case_per_plan_witness:
  "length (Store_incidentCases (snd (UpsertIncidentCase 5 zero_DiagnosisPlan zero_AnalysisReport
      (snd (UpsertIncidentCase 4 zero_DiagnosisPlan zero_AnalysisReport NewStore))))) =
   length (Store_incidentCases (snd (UpsertIncidentCase 4 zero_DiagnosisPlan zero_AnalysisReport NewStore)))"
proof -
  have "id_room NewStore" by code_simp
  from Upsert_one_case_per_plan[OF NewStore_ok this prod.collapse[symmetric] prod.collapse[symmetric],
      of 5 zero_DiagnosisPlan zero_AnalysisReport 4 zero_AnalysisReport]
  show ?thesis by blast
qed

text \<open>\<open>FindSimilarIncidentCases\<close> returns the best matches: at most \<open>limit\<close> cases (three when the
  limit is not positive), all of them stored cases with a positive score, in descending order of
  score, and no case that was left out scores higher than one that was returned.\<close>

lemma FindSimilar_best:
  "let r = FindSimilarIncidentCases d t f n s;
       score = (\<lambda>c. incidentCaseScore c d t f);
       matching = filter (\<lambda>c. score c > 0) (vals (Store_incidentCases s))
   in int (length r) = min (if n \<le> 0 then 3 else n) (int (length matching)) \<and>
      set r \<subseteq> set matching \<and> sorted_wrt (\<lambda>a b. score a \<ge> score b) r \<and>
      set r \<times> (set (vals (Store_incidentCases s)) - set r) \<subseteq> {(x, y). score y \<le> score x}"
proof -
  define score where "score = (\<lambda>c. incidentCaseScore c d t f)"
  define matching where "matching = filter (\<lambda>c. score c > 0) (vals (Store_incidentCases s))"
  define lim where "lim = (if n \<le> 0 then 3 else n)"
  define ranked where "ranked = sort_Slice score_before (map (\<lambda>c. (c, score c)) matching)"
  define top where "top = limited lim ranked"
  have r: "FindSimilarIncidentCases d t f n s = map fst top"
    by (simp add: FindSimilar_unfold top_def ranked_def matching_def score_def lim_def filter_map comp_def)
  have ranked: "set ranked = (\<lambda>c. (c, score c)) ` set matching" "length ranked = length matching"
    by (simp_all add: ranked_def)
  obtain rest where rest: "ranked = top @ rest" using limited_prefix top_def by blast
  have mem: "x \<in> set top \<Longrightarrow> fst x \<in> set matching \<and> snd x = score (fst x)" for x
  proof -
    assume "x \<in> set top"
    then have "x \<in> (\<lambda>c. (c, score c)) ` set matching" using ranked(1) rest by (metis UnI1 set_append)
    then show ?thesis by auto
  qed
  have sorted: "sorted_wrt (\<lambda>a b. snd b \<le> snd a) (top @ rest)"
    using sorted_by_score unfolding rest[symmetric] ranked_def
    by (rule sorted_wrt_mono_rel[rotated]) (auto simp: score_before_def split: if_splits prod.splits)
  have len: "int (length top) = min lim (int (length matching))"
    by (auto simp: top_def limited_def ranked(2) lim_def)
  have "sorted_wrt (\<lambda>a b. score b \<le> score a) (map fst top)"
    using sorted mem by (auto simp: sorted_wrt_append sorted_wrt_map intro: sorted_wrt_mono_rel[rotated])
  moreover have "score y \<le> score (fst x)"
    if "x \<in> set top" "y \<in> set (vals (Store_incidentCases s))" "y \<notin> fst ` set top" for x y
  proof (cases "score y > 0")
    case True
    then have "(y, score y) \<in> set ranked" using that(2) by (simp add: ranked(1) matching_def)
    then have "(y, score y) \<in> set rest" using that(3) rest by force
    then show ?thesis using sorted that(1) mem[OF that(1)] by (fastforce simp: sorted_wrt_append)
  qed simp
  ultimately have "int (length (map fst top)) = min lim (int (length matching)) \<and>
      set (map fst top) \<subseteq> set matching \<and> sorted_wrt (\<lambda>a b. score a \<ge> score b) (map fst top) \<and>
      set (map fst top) \<times> (set (vals (Store_incidentCases s)) - set (map fst top)) \<subseteq> {(x, y). score y \<le> score x}"
    using len mem by auto
  then show ?thesis
    unfolding Let_def r lim_def matching_def score_def .
qed

text \<open>The success and failure rates of a metrics snapshot are fractions: each lies between 0 and 1,
  together they do not exceed 1, and they are 0 when no job has finished.\<close>

lemma metrics_rates_bounded:
  "let m = MetricsSnapshot_of now s
   in 0 \<le> MetricsSnapshot_JobSuccessRate m \<and> 0 \<le> MetricsSnapshot_JobFailureRate m \<and>
      MetricsSnapshot_JobSuccessRate m + MetricsSnapshot_JobFailureRate m \<le> 1 \<and>
      MetricsSnapshot_JobsSuccess m + MetricsSnapshot_JobsFailed m + MetricsSnapshot_JobsWaitingApproval m
        \<le> MetricsSnapshot_JobsTotal m \<and>
      MetricsSnapshot_WorkersOnline m \<le> length (Store_workers s)"
proof -
  let ?js = "vals (Store_jobs s)"
  let ?ok = "count_status JobStatusSuccess ?js" and ?bad = "count_status JobStatusFailed ?js"
    and ?all = "count_status JobStatusSuccess ?js + count_status JobStatusFailed ?js + count_status JobStatusCancelled ?js"
  have "of_nat ?ok + of_nat ?bad \<le> (of_nat ?all :: rat)"
    unfolding of_nat_add[symmetric] of_nat_le_iff by simp
  then have "?all > 0 \<Longrightarrow> of_nat ?ok / of_nat ?all + of_nat ?bad / of_nat ?all \<le> (1 :: rat)"
    by (simp add: add_divide_distrib[symmetric] del: of_nat_add)
  then show ?thesis
    using count_status_three[of ?js] filter_vals_le
    by (auto simp: MetricsSnapshot_of_def Let_def filter_map simp del: of_nat_add)
qed

end
