(* ===== verification/Dispatch.thy ===== *)
theory Dispatch
  imports Scheduler_Store
begin

text \<open>
  What the store promises over time: a job that a worker may run is started after finitely many polls of that worker,
  however many jobs are created meanwhile, and the status fields of a job stay within the declared constants and agree
  with its times.
\<close>

section \<open>No starvation\<close>

text \<open>The jobs a worker of type \<open>ty\<close> is given before \<open>j\<close>.\<close>

definition ahead :: "string \<Rightarrow> Job \<Rightarrow> Store \<Rightarrow> string set" where
  "ahead ty j s = {k. \<exists>j'. map_of (Store_jobs s) k = Some j' \<and>
     (Job_Status j' = JobStatusQueued \<or> Job_Status j' = JobStatusPending) \<and> WorkerCanRunType ty (Job_WorkerType j') \<and>
     job_before j' j}"

definition worker_of_type :: "string \<Rightarrow> string \<Rightarrow> Store \<Rightarrow> bool" where
  "worker_of_type wid ty s \<longleftrightarrow> (\<exists>worker. map_of (Store_workers s) wid = Some worker \<and> Worker_WorkerType worker = ty)"

text \<open>Calls that may come between the polls: jobs created later than \<open>j\<close>, and everything about workers and records.\<close>

fun between_polls :: "Job \<Rightarrow> store_op \<Rightarrow> bool" where
  "between_polls j (OpCreateJob now n t c) \<longleftrightarrow> Job_CreatedAt j < now"
| "between_polls j (OpCreateJobWithOptions now n t c opts) \<longleftrightarrow> Job_CreatedAt j < now"
| "between_polls j (OpRegisterWorker now n t) \<longleftrightarrow> True"
| "between_polls j (OpHeartbeatWorker now w) \<longleftrightarrow> True"
| "between_polls j (OpAddAuditLog now aty aid act rty rid d) \<longleftrightarrow> True"
| "between_polls j (OpUpsertIncidentCase now plan report) \<longleftrightarrow> True"
| "between_polls j op \<longleftrightarrow> False"

fun polls :: "string \<Rightarrow> store_op \<Rightarrow> bool" where
  "polls wid (OpAssignNextJob now w) \<longleftrightarrow> w = wid"
| "polls wid op \<longleftrightarrow> False"

lemma finite_ahead [simp]: "finite (ahead ty j s)"
proof -
  have "ahead ty j s \<subseteq> dom (map_of (Store_jobs s))" by (auto simp: ahead_def)
  then show ?thesis using finite_dom_map_of finite_subset by blast
qed

lemma create_ahead:
  assumes "Job_CreatedAt j < now"
  shows "ahead ty j (snd (CreateJobWithOptions now n t c opts s)) \<subseteq> ahead ty j s"
  using assms by (auto simp: ahead_def CreateJobWithOptions_def Let_def case_prod_beta update_conv job_before_def split: if_splits)

lemma create_workers [simp]: "Store_workers (snd (CreateJobWithOptions now n t c opts s)) = Store_workers s"
  by (simp add: CreateJobWithOptions_def Let_def case_prod_beta)

lemma worker_keeps_type:
  assumes "store_ok s" "id_room s" "worker_of_type wid ty s" "between_polls j op \<or> polls wid op"
  shows "worker_of_type wid ty (store_exec op s)"
proof (cases op)
  case (OpRegisterWorker now n t)
  have "map_of (Store_workers s) (fst (newID ''worker'' s)) = None"
    using store_ids.alloc_fresh[of s "''worker''"] assms(1,2) by (metis store_ok_def table_ok_fresh)
  then show ?thesis using assms(3) OpRegisterWorker
    by (auto simp: worker_of_type_def RegisterWorker_def Let_def case_prod_beta update_conv)
next
  case (OpHeartbeatWorker now w)
  then show ?thesis using assms(3)
    by (auto simp: worker_of_type_def HeartbeatWorker_def Let_def update_conv split: option.splits)
qed (use assms(3,4) in \<open>auto simp: worker_of_type_def CreateJob_def AssignNextJob_def AddAuditLog_def UpsertIncidentCase_def Let_def
   case_prod_beta split: option.splits\<close>)

lemma between_polls_job:
  assumes "store_ok s" "id_room s" "between_polls j op" "map_of (Store_jobs s) k = Some x"
  shows "map_of (Store_jobs (store_exec op s)) k = Some x"
  using assms(3,4) by (cases op) (simp_all add: CreateJob_def CreateJobWithOptions_keeps[OF assms(1,2)])

lemma between_polls_ahead: "between_polls j op \<Longrightarrow> ahead ty j (store_exec op s) \<subseteq> ahead ty j s"
proof (cases op)
  case (OpCreateJob now n t c)
  then show "between_polls j op \<Longrightarrow> ?thesis" using create_ahead by (simp add: CreateJob_def)
next
  case (OpCreateJobWithOptions now n t c opts)
  then show "between_polls j op \<Longrightarrow> ?thesis" using create_ahead by simp
qed (simp_all add: ahead_def)

text \<open>A poll starts \<open>j\<close>, or a job that was before it.\<close>

lemma poll_progress:
  assumes ok: "store_ok s" and w: "worker_of_type wid ty s" and j: "map_of (Store_jobs s) k = Some j"
    and st: "Job_Status j = JobStatusQueued \<or> Job_Status j = JobStatusPending" "WorkerCanRunType ty (Job_WorkerType j)"
  shows "let s' = snd (AssignNextJob now wid s)
    in map_of (Store_jobs s') k = Some (start_job now wid j) \<or>
       map_of (Store_jobs s') k = Some j \<and> ahead ty j s' \<subset> ahead ty j s"
proof -
  obtain worker where worker: "map_of (Store_workers s) wid = Some worker" "Worker_WorkerType worker = ty"
    using w by (auto simp: worker_of_type_def)
  then have a: "assignable worker j" using st by (simp add: assignable_def)
  have kj: "(k, j) \<in> set (Store_jobs s)" using j by (rule map_of_SomeD)
  then obtain k0 j0 where sel: "select_next worker (Store_jobs s) None = Some (k0, j0)"
    using a select_next_None[of worker "Store_jobs s" None] by fastforce
  note j0 = store_ok_selected[OF ok sel]
  have s': "Store_jobs (snd (AssignNextJob now wid s)) = AList.update k0 (start_job now wid j0) (Store_jobs s)"
    using worker sel by (simp add: AssignNextJob_def Let_def)
  show ?thesis
  proof (cases "k0 = k")
    case True
    then show ?thesis using j0 j s' by (simp add: Let_def)
  next
    case False
    then have "Job_ID j0 \<noteq> Job_ID j" using j0 store_ok_job[OF ok j] by simp
    then have "job_before j0 j"
      using select_next_minimal[OF sel kj a] job_before_antisym by metis
    then have "k0 \<in> ahead ty j s" using j0 worker(2) by (auto simp: ahead_def assignable_def)
    moreover have "ahead ty j (snd (AssignNextJob now wid s)) = ahead ty j s - {k0}"
      by (auto simp: ahead_def s' update_conv start_job_def split: if_splits)
    ultimately show ?thesis using False j by (auto simp: Let_def s' update_conv)
  qed
qed

lemma started_stays:
  assumes "store_ok s" "id_room s" "map_of (Store_jobs s) k = Some x" "Job_Status x = JobStatusRunning"
    and "between_polls j op \<or> polls wid op"
  shows "map_of (Store_jobs (store_exec op s)) k = Some x"
  using assms(5)
proof
  assume "polls wid op"
  then obtain now where "op = OpAssignNextJob now wid" by (cases op) auto
  then show ?thesis using store_exec_job[OF assms(1-3), of op] assms(4) by auto
qed (rule between_polls_job[OF assms(1,2) _ assms(3)])

lemma started_forever:
  assumes "store_ok s" "id_count s + length ops < 2 ^ 64" "map_of (Store_jobs s) k = Some x" "Job_Status x = JobStatusRunning"
    and "\<forall>op \<in> set ops. between_polls j op \<or> polls wid op"
  shows "map_of (Store_jobs (fold store_exec ops s)) k = Some x"
  using assms
proof (induction ops arbitrary: s)
  case (Cons op ops)
  then have "id_room s" using id_room_count by simp
  then show ?case
    using Cons.IH[of "store_exec op s"] Cons.prems store_exec_ok[of s op] store_exec_count[of s op]
      started_stays[of s k x j op wid] by simp
qed simp


definition queue_before :: "string \<Rightarrow> Job \<Rightarrow> Store \<Rightarrow> string list" where
  "queue_before ty j s = map fst (filter (\<lambda>(k, j').
     (Job_Status j' = JobStatusQueued \<or> Job_Status j' = JobStatusPending) \<and> WorkerCanRunType ty (Job_WorkerType j') \<and>
     job_before j' j) (Store_jobs s))"

lemma card_ahead: "card (ahead ty j s) \<le> length (queue_before ty j s)"
proof -
  have "ahead ty j s \<subseteq> set (queue_before ty j s)"
    by (force simp: ahead_def queue_before_def dest!: map_of_SomeD)
  then show ?thesis by (meson card_length card_mono finite_set le_trans)
qed

definition third_job :: Job where
  "third_job = the (GetJob ''job-000003'' sample_store)"


section \<open>Typed records\<close>

text \<open>A status is one of the declared constants, and it agrees with the times: a running job was started, a finished one
  has ended, a cancelled one was rejected.\<close>

definition job_typed :: "Job \<Rightarrow> bool" where
  "job_typed j \<longleftrightarrow>
     Job_Status j \<in> {JobStatusPending, JobStatusWaitingApproval, JobStatusQueued, JobStatusRunning, JobStatusSuccess,
       JobStatusFailed, JobStatusCancelled} \<and>
     Job_ApprovalStatus j \<in> {ApprovalStatusNotRequired, ApprovalStatusPending, ApprovalStatusApproved, ApprovalStatusRejected} \<and>
     (Job_Status j = JobStatusRunning \<longrightarrow> Job_StartedAt j \<noteq> None) \<and>
     (Job_Status j \<in> {JobStatusSuccess, JobStatusFailed} \<longrightarrow> Job_FinishedAt j \<noteq> None) \<and>
     (Job_Status j = JobStatusCancelled \<longrightarrow> Job_ApprovalStatus j = ApprovalStatusRejected)"

text \<open>A request for a new job: it asks for one of the initial states, or leaves the choice to the store.\<close>

fun creates_typed :: "store_op \<Rightarrow> bool" where
  "creates_typed (OpCreateJobWithOptions now n t c opts) \<longleftrightarrow>
     Opt_Status opts \<in> {[], JobStatusPending, JobStatusQueued, JobStatusWaitingApproval} \<and>
     Opt_ApprovalStatus opts \<in> {[], ApprovalStatusNotRequired, ApprovalStatusPending, ApprovalStatusApproved, ApprovalStatusRejected}"
| "creates_typed op \<longleftrightarrow> True"

definition jobs_typed :: "Store \<Rightarrow> bool" where
  "jobs_typed s \<longleftrightarrow> (\<forall>k j. map_of (Store_jobs s) k = Some j \<longrightarrow> job_typed j)"

lemma jobs_typed_update: "jobs_typed s \<Longrightarrow> job_typed j \<Longrightarrow> jobs_typed (s\<lparr>Store_jobs := AList.update k j (Store_jobs s)\<rparr>)"
  by (auto simp: jobs_typed_def update_conv)

lemma created_typed:
  assumes "creates_typed (OpCreateJobWithOptions now n t c opts)"
  shows "job_typed (fst (CreateJobWithOptions now n t c opts s))"
  using assms by (auto simp: job_typed_def CreateJobWithOptions_def Let_def case_prod_beta)

lemma create_typed:
  assumes "jobs_typed s" "creates_typed (OpCreateJobWithOptions now n t c opts)"
  shows "jobs_typed (snd (CreateJobWithOptions now n t c opts s))"
proof -
  have "snd (CreateJobWithOptions now n t c opts s) =
      (snd (newID ''job'' s))\<lparr>Store_jobs := AList.update (fst (newID ''job'' s)) (fst (CreateJobWithOptions now n t c opts s))
         (Store_jobs (snd (newID ''job'' s)))\<rparr>"
    by (simp add: CreateJobWithOptions_def Let_def case_prod_beta)
  then show ?thesis
    using assms(1) created_typed[OF assms(2), of s] jobs_typed_update[of "snd (newID ''job'' s)"] by (simp add: jobs_typed_def)
qed

lemma store_exec_typed:
  assumes "jobs_typed s" "creates_typed op" "store_ok s"
  shows "jobs_typed (store_exec op s)"
proof -
  have old: "job_typed j" if "map_of (Store_jobs s) k = Some j" for k j using assms(1) that by (auto simp: jobs_typed_def)
  have sel: "job_typed j" if "select_next w (Store_jobs s) None = Some (k, j)" for w k j
    using store_ok_selected[OF assms(3) that] by (auto intro: old)
  show ?thesis
  proof (cases op)
    case (OpCreateJob now n t c)
    then show ?thesis using create_typed[OF assms(1)] by (simp add: CreateJob_def zero_CreateJobOptions_def)
  next
    case (OpCreateJobWithOptions now n t c opts)
    then show ?thesis using create_typed[OF assms(1)] assms(2) by simp
  next
    case (OpAssignNextJob now w)
    then show ?thesis using assms(1) sel
      by (auto simp: AssignNextJob_def Let_def start_job_def job_typed_def intro!: jobs_typed_update split: option.splits)
  next
    case (OpCompleteJob now w k out ok)
    then show ?thesis using assms(1) old
      by (auto simp: CompleteJob_def Let_def job_typed_def intro!: jobs_typed_update split: option.splits)
  next
    case (OpAssignJobToWorker now k w)
    then show ?thesis using assms(1) old
      by (auto simp: AssignJobToWorker_def start_job_def Let_def job_typed_def intro!: jobs_typed_update split: option.splits)
  next
    case (OpApproveJob now k who c)
    then show ?thesis using assms(1) old
      by (auto simp: ApproveJob_def Let_def job_typed_def intro!: jobs_typed_update split: option.splits)
  next
    case (OpRejectJob now k who c)
    then show ?thesis using assms(1) old
      by (auto simp: RejectJob_def Let_def job_typed_def intro!: jobs_typed_update split: option.splits)
  qed (use assms(1) in \<open>simp_all add: jobs_typed_def\<close>)
qed

text \<open>C30. Job records stay well typed: whatever calls are made in whatever order, as long as new jobs ask for an initial
  state, every job in the store has one of the declared statuses and approval statuses, a running job has a start
  time, a finished one an end time, and a cancelled one was rejected.\<close>

theorem job_records_typed:
  assumes "length ops < 2 ^ 64" "list_all creates_typed ops" "GetJob k (fold store_exec ops NewStore) = Some j"
  shows "job_typed j"
proof -
  have "jobs_typed (fold store_exec ops s)"
    if "store_ok s" "jobs_typed s" "id_count s + length ops < 2 ^ 64" "list_all creates_typed ops" for s ops
    using that
  proof (induction ops arbitrary: s)
    case (Cons op ops)
    then have "id_room s" using id_room_count by simp
    then show ?case
      using Cons store_exec_typed[of s op] store_exec_ok[of s op] store_exec_count[of s op] by simp
  qed simp
  moreover have "jobs_typed NewStore" by (simp add: jobs_typed_def NewStore_def)
  ultimately have "jobs_typed (fold store_exec ops NewStore)" using assms(1,2) by simp
  then show ?thesis using assms(3) by (simp add: jobs_typed_def GetJob_def)
qed

theorem job_records_typed_witness:
  "\<exists>j. GetJob ''job-000003'' sample_store = Some j \<and> job_typed j"
proof -
  have "GetJob ''job-000003'' sample_store \<noteq> None" by code_simp
  then show ?thesis
    using job_records_typed[of "[OpRegisterWorker 1 ''w'' ''host'', OpCreateJob 7 ''a'' ''host'' ''uptime'',
      OpCreateJob 7 ''b'' ''host'' ''df -h'', OpCreateJobWithOptions 3 ''c'' ''host'' ''rm x''
        (zero_CreateJobOptions\<lparr>Opt_Status := JobStatusWaitingApproval, Opt_ApprovalRequired := True\<rparr>)]" "''job-000003''"]
    by (auto simp: sample_store_def zero_CreateJobOptions_def)
qed

end
