(* ===== verification/Sensitive.thy ===== *)
theory Sensitive
  imports Domain_Model
begin

text \<open>
  \<open>internal/domain/model/sensitive.go\<close>: redaction of secrets in free text, recursive sanitising of
  dynamically typed values, and the validation of job parameters. The regular expression of the
  source is translated combinator by combinator; a matcher returns the remaining inputs of all
  ways to match, most preferred first, which is the leftmost-first rule of Go's \<open>regexp\<close>.
\<close>

section \<open>Matchers\<close>

type_synonym matcher = "string \<Rightarrow> string list"

definition mchar :: "(char \<Rightarrow> bool) \<Rightarrow> matcher" where
  "mchar P s = (case s of [] \<Rightarrow> [] | c # t \<Rightarrow> if P c then [t] else [])"

definition mseq :: "matcher \<Rightarrow> matcher \<Rightarrow> matcher" where
  "mseq m n s = concat (map n (m s))"

definition malt :: "matcher \<Rightarrow> matcher \<Rightarrow> matcher" where
  "malt m n s = m s @ n s"

definition mopt :: "matcher \<Rightarrow> matcher" where
  "mopt m s = m s @ [s]"

fun mstar :: "(char \<Rightarrow> bool) \<Rightarrow> matcher" where
  "mstar P [] = [[]]"
| "mstar P (c # s) = (if P c then mstar P s @ [c # s] else [c # s])"

definition mplus :: "(char \<Rightarrow> bool) \<Rightarrow> matcher" where
  "mplus P = mseq (mchar P) (mstar P)"

fun mlit :: "string \<Rightarrow> matcher" where
  "mlit [] s = [s]"
| "mlit (c # w) s = mseq (mchar (\<lambda>x. x = c)) (mlit w) s"

text \<open>
  A letter under \<open>(?i)\<close>: both ASCII cases, and the code points that Unicode case folding identifies
  with \<open>s\<close> (U+017F) and \<open>k\<close> (U+212A), in UTF-8.
\<close>

definition mfold :: "char \<Rightarrow> matcher" where
  "mfold c =
     malt (mchar (\<lambda>x. lower_char x = c))
       (if c = CHR ''s'' then mlit [CHR 0xC5, CHR 0xBF]
        else if c = CHR ''k'' then mlit [CHR 0xE2, CHR 0x84, CHR 0xAA]
        else (\<lambda>s. []))"

fun mword :: "string \<Rightarrow> matcher" where
  "mword [] s = [s]"
| "mword (c # w) s = mseq (mfold c) (mword w) s"

text \<open>The class \<open>\s\<close> of RE2 and the class \<open>[^\s,;]\<close>.\<close>

definition rx_space :: "char \<Rightarrow> bool" where
  "rx_space c \<longleftrightarrow> c \<in> {CHR 0x09, CHR 0x0A, CHR 0x0C, CHR 0x0D, CHR 0x20}"

definition rx_tail :: "char \<Rightarrow> bool" where
  "rx_tail c \<longleftrightarrow> \<not> rx_space c \<and> c \<noteq> CHR '','' \<and> c \<noteq> CHR '';''"

section \<open>secretValuePattern and SanitizeText\<close>

definition mkeyword :: matcher where
  "mkeyword =
     malt (mword ''password'') (malt (mword ''passwd'') (malt (mword ''secret'') (malt (mword ''token'')
       (malt (mseq (mword ''api'') (mseq (mopt (mchar (\<lambda>c. c = CHR ''_'' \<or> c = CHR ''-''))) (mword ''key'')))
       (malt (mseq (mword ''private'') (mseq (mopt (mchar (\<lambda>c. c = CHR ''_'' \<or> c = CHR ''-''))) (mword ''key'')))
         (mword ''authorization''))))))"

definition mhead :: matcher where
  "mhead =
     mseq mkeyword (mseq (mstar rx_space)
       (mseq (malt (mchar (\<lambda>c. c = CHR ''='')) (malt (mchar (\<lambda>c. c = CHR '':'')) (mchar rx_space)))
         (mseq (mstar rx_space) (mopt (mseq (mword ''bearer'') (mplus rx_space))))))"

definition secretValuePattern :: matcher where
  "secretValuePattern = mseq mhead (mplus rx_tail)"

definition REDACTED :: string where
  "REDACTED = ''[REDACTED]''"

subsection \<open>Laws of the matchers\<close>

text \<open>
  \<open>mlocal\<close>: a matcher looks at nothing beyond what it consumes. \<open>mavoids c\<close>: it consumes no \<open>c\<close>.
\<close>

definition mlocal :: "matcher \<Rightarrow> bool" where
  "mlocal m \<longleftrightarrow> (\<forall>s r. r \<in> set (m s) \<longrightarrow> (\<exists>p. s = p @ r \<and> (\<forall>r'. r' \<in> set (m (p @ r')))))"

definition mavoids :: "char \<Rightarrow> matcher \<Rightarrow> bool" where
  "mavoids c m \<longleftrightarrow> (\<forall>s r. r \<in> set (m s) \<longrightarrow> (\<exists>p. s = p @ r \<and> c \<notin> set p))"

lemma mlocal_mchar: "mlocal (mchar P)"
  by (auto simp: mlocal_def mchar_def split: list.splits if_splits)

lemma mlocal_mseq:
  assumes "mlocal m" "mlocal n"
  shows "mlocal (mseq m n)"
  unfolding mlocal_def
proof (intro allI impI)
  fix s r
  assume "r \<in> set (mseq m n s)"
  then obtain t where t: "t \<in> set (m s)" "r \<in> set (n t)" by (auto simp: mseq_def)
  obtain p where p: "s = p @ t" "\<forall>r'. r' \<in> set (m (p @ r'))"
    using assms(1) t(1) unfolding mlocal_def by blast
  obtain q where q: "t = q @ r" "\<forall>r'. r' \<in> set (n (q @ r'))"
    using assms(2) t(2) unfolding mlocal_def by blast
  have "s = (p @ q) @ r" using p q by simp
  moreover have "r' \<in> set (mseq m n ((p @ q) @ r'))" for r'
    using p(2) q(2) by (auto simp: mseq_def)
  ultimately show "\<exists>p. s = p @ r \<and> (\<forall>r'. r' \<in> set (mseq m n (p @ r')))" by blast
qed

lemma mlocal_malt: "mlocal m \<Longrightarrow> mlocal n \<Longrightarrow> mlocal (malt m n)"
  unfolding mlocal_def malt_def by (metis Un_iff set_append)

lemma mlocal_ret: "mlocal (\<lambda>s. [s])"
  by (simp add: mlocal_def)

lemma mlocal_fail: "mlocal (\<lambda>s. [])"
  by (simp add: mlocal_def)

lemma mopt_malt: "mopt m = malt m (\<lambda>s. [s])"
  by (simp add: fun_eq_iff mopt_def malt_def)

lemma mlocal_mopt: "mlocal m \<Longrightarrow> mlocal (mopt m)"
  unfolding mopt_malt by (intro mlocal_malt mlocal_ret)

lemma mlocal_mstar: "mlocal (mstar P)"
  unfolding mlocal_def
proof (intro allI impI)
  fix s r
  show "r \<in> set (mstar P s) \<Longrightarrow> \<exists>p. s = p @ r \<and> (\<forall>r'. r' \<in> set (mstar P (p @ r')))"
  proof (induction s)
    case Nil
    have "r' \<in> set (mstar P ([] @ r'))" for r' by (cases r') auto
    with Nil show ?case by auto
  next
    case (Cons c s)
    have triv: "r' \<in> set (mstar P ([] @ r'))" for r' by (cases r') auto
    show ?case
    proof (cases "r = c # s")
      case True
      then show ?thesis using triv by blast
    next
      case False
      then have "P c" "r \<in> set (mstar P s)" using Cons.prems by (auto split: if_splits)
      then obtain p where "s = p @ r" "\<forall>r'. r' \<in> set (mstar P (p @ r'))"
        using Cons.IH by blast
      then have "c # s = (c # p) @ r" "\<forall>r'. r' \<in> set (mstar P ((c # p) @ r'))"
        using \<open>P c\<close> by auto
      then show ?thesis by blast
    qed
  qed
qed

lemma mlit_eq: "mlit [] = (\<lambda>s. [s])" "mlit (c # w) = mseq (mchar (\<lambda>x. x = c)) (mlit w)"
  by (auto simp: fun_eq_iff)

lemma mword_eq: "mword [] = (\<lambda>s. [s])" "mword (c # w) = mseq (mfold c) (mword w)"
  by (auto simp: fun_eq_iff)

lemma mlocal_mlit: "mlocal (mlit w)"
  by (induction w) (auto simp: mlit_eq intro: mlocal_ret mlocal_mseq mlocal_mchar)

lemma mlocal_mfold: "mlocal (mfold c)"
  by (auto simp: mfold_def intro!: mlocal_malt mlocal_mchar mlocal_mlit mlocal_fail)

lemma mlocal_mword: "mlocal (mword w)"
  by (induction w) (auto simp: mword_eq intro: mlocal_ret mlocal_mseq mlocal_mfold)

lemmas mlocal_intros = mlocal_mseq mlocal_malt mlocal_mopt mlocal_mstar mlocal_mword mlocal_mchar

lemma mlocal_mkeyword: "mlocal mkeyword"
  unfolding mkeyword_def by (intro mlocal_intros)

lemma mlocal_mhead: "mlocal mhead"
  unfolding mhead_def mplus_def by (intro mlocal_intros mlocal_mkeyword)

lemma mavoids_mchar: "\<not> P c \<Longrightarrow> mavoids c (mchar P)"
  by (auto simp: mavoids_def mchar_def split: list.splits if_splits)

lemma mavoids_mseq:
  assumes "mavoids c m" "mavoids c n"
  shows "mavoids c (mseq m n)"
  unfolding mavoids_def
proof (intro allI impI)
  fix s r
  assume "r \<in> set (mseq m n s)"
  then obtain t where "t \<in> set (m s)" "r \<in> set (n t)" by (auto simp: mseq_def)
  then obtain p q where "s = p @ t" "c \<notin> set p" "t = q @ r" "c \<notin> set q"
    using assms unfolding mavoids_def by metis
  then have "s = (p @ q) @ r \<and> c \<notin> set (p @ q)" by simp
  then show "\<exists>p. s = p @ r \<and> c \<notin> set p" by blast
qed

lemma mavoids_malt: "mavoids c m \<Longrightarrow> mavoids c n \<Longrightarrow> mavoids c (malt m n)"
  unfolding mavoids_def malt_def by (metis Un_iff set_append)

lemma mavoids_ret: "mavoids c (\<lambda>s. [s])"
  by (simp add: mavoids_def)

lemma mavoids_mopt: "mavoids c m \<Longrightarrow> mavoids c (mopt m)"
  unfolding mopt_malt by (intro mavoids_malt mavoids_ret)

lemma mavoids_mstar: "\<not> P c \<Longrightarrow> mavoids c (mstar P)"
  unfolding mavoids_def
proof (intro allI impI)
  fix s r
  assume P: "\<not> P c"
  show "r \<in> set (mstar P s) \<Longrightarrow> \<exists>p. s = p @ r \<and> c \<notin> set p"
  proof (induction s)
    case Nil
    then show ?case by simp
  next
    case (Cons d s)
    show ?case
    proof (cases "r = d # s")
      case False
      then have "P d" "r \<in> set (mstar P s)" using Cons.prems by (auto split: if_splits)
      then obtain p where "s = p @ r" "c \<notin> set p" using Cons.IH by blast
      then have "d # s = (d # p) @ r \<and> c \<notin> set (d # p)" using P \<open>P d\<close> by auto
      then show ?thesis by blast
    qed auto
  qed
qed

lemma mavoids_mlit: "c \<notin> set w \<Longrightarrow> mavoids c (mlit w)"
  by (induction w) (auto simp: mlit_eq intro!: mavoids_ret mavoids_mseq mavoids_mchar)

lemma mavoids_mfold:
  "lower_char c \<noteq> d \<Longrightarrow> c \<notin> set [CHR 0xC5, CHR 0xBF, CHR 0xE2, CHR 0x84, CHR 0xAA] \<Longrightarrow>
   mavoids c (mfold d)"
  by (auto simp: mfold_def mavoids_def[of c "\<lambda>s. []"] intro!: mavoids_malt mavoids_mchar mavoids_mlit)

lemma mavoids_mword:
  "\<forall>d \<in> set w. lower_char c \<noteq> d \<Longrightarrow>
   c \<notin> set [CHR 0xC5, CHR 0xBF, CHR 0xE2, CHR 0x84, CHR 0xAA] \<Longrightarrow> mavoids c (mword w)"
  by (induction w) (auto simp: mword_eq intro!: mavoids_ret mavoids_mseq mavoids_mfold)

lemma lower_char_bracket: "lower_char (CHR ''['') = CHR ''[''"
  by (simp add: lower_char_def less_eq_char_def)

lemmas mavoids_intros = mavoids_mseq mavoids_malt mavoids_mopt mavoids_mstar mavoids_mword mavoids_mchar

lemma mavoids_mhead: "mavoids (CHR ''['') mhead"
  unfolding mhead_def mkeyword_def mplus_def
  by (intro mavoids_intros) (auto simp: lower_char_bracket rx_space_def)


lemma secret_nonempty_iff:
  "secretValuePattern s \<noteq> [] \<longleftrightarrow> (\<exists>x r. x # r \<in> set (mhead s) \<and> rx_tail x)"
proof -
  have mstar_ne: "mstar P t \<noteq> []" for P t by (cases t) auto
  have plus_ne: "mplus rx_tail t \<noteq> [] \<longleftrightarrow> (\<exists>x r. t = x # r \<and> rx_tail x)" for t
    by (cases t) (auto simp: mplus_def mseq_def mchar_def mstar_ne)
  have "secretValuePattern s \<noteq> [] \<longleftrightarrow> (\<exists>t \<in> set (mhead s). mplus rx_tail t \<noteq> [])"
    by (auto simp: secretValuePattern_def mseq_def)
  then show ?thesis by (auto simp: plus_ne)
qed

text \<open>A keyword begins with one of the letters p, s, t, a (or U+017F, which folds to s).\<close>

definition key_start :: "string \<Rightarrow> bool" where
  "key_start s \<longleftrightarrow> s \<noteq> [] \<and> (lower_char (hd s) \<in> set ''psta'' \<or> hd s = CHR 0xC5)"

lemma mfold_start: "r \<in> set (mfold c s) \<Longrightarrow> c \<in> set ''psta'' \<Longrightarrow> key_start s"
  by (cases s) (auto simp: mfold_def malt_def mchar_def mseq_def key_start_def split: if_splits)

lemma mkeyword_start: "r \<in> set (mkeyword s) \<Longrightarrow> key_start s"
  by (auto simp: mkeyword_def malt_def mseq_def intro: mfold_start)

lemma mhead_start: "r \<in> set (mhead s) \<Longrightarrow> key_start s"
  by (auto simp: mhead_def mseq_def[of mkeyword] intro: mkeyword_start)

lemma key_start_tail: "key_start s \<Longrightarrow> rx_tail (hd s)"
  by (auto simp: key_start_def rx_tail_def rx_space_def lower_char_def less_eq_char_def split: if_splits)

lemma secret_start: "secretValuePattern s \<noteq> [] \<Longrightarrow> key_start s"
  by (auto simp: secret_nonempty_iff intro: mhead_start)

lemma secret_shrinks:
  assumes "r \<in> set (secretValuePattern s)"
  shows "length r < length s"
proof -
  have "mlocal secretValuePattern"
    unfolding secretValuePattern_def mplus_def by (intro mlocal_intros mlocal_mhead)
  then obtain p where p: "s = p @ r" using assms unfolding mlocal_def by blast
  obtain t where t: "t \<in> set (mhead s)" "r \<in> set (mplus rx_tail t)"
    using assms by (auto simp: secretValuePattern_def mseq_def)
  have "length t \<le> length s"
    using mlocal_mhead t(1) unfolding mlocal_def by fastforce
  moreover have "length r < length t"
  proof -
    obtain x t' where x: "t = x # t'" "r \<in> set (mstar rx_tail t')"
      using t(2) by (auto simp: mplus_def mseq_def mchar_def split: list.splits if_splits)
    then have "length r \<le> length t'"
      using mlocal_mstar[of rx_tail] unfolding mlocal_def by fastforce
    with x show ?thesis by simp
  qed
  ultimately show ?thesis by simp
qed

text \<open>\<open>secretValuePattern.ReplaceAllString(value, "[REDACTED]")\<close>\<close>

function redact :: "string \<Rightarrow> string" where
  "redact s =
     (case secretValuePattern s of
        r # _ \<Rightarrow> REDACTED @ redact r
      | [] \<Rightarrow> (case s of [] \<Rightarrow> [] | c # t \<Rightarrow> c # redact t))"
  by pat_completeness auto
termination
proof (relation "measure length")
  fix s r rs
  assume "secretValuePattern s = r # rs"
  then show "(r, s) \<in> measure length" using secret_shrinks[of r s] by simp
qed simp_all

declare redact.simps [simp del]

definition MaxSafeTextLength :: nat where
  "MaxSafeTextLength = 4096"

definition truncated :: string where
  "truncated = [CHR 0xE2, CHR 0x80, CHR 0xA6] @ ''[truncated]''"

definition SanitizeText :: "string \<Rightarrow> string" where
  "SanitizeText value =
     (let value = redact value
      in if length value > MaxSafeTextLength then take MaxSafeTextLength value @ truncated
         else value)"

subsection \<open>Redaction is complete\<close>

lemma redact_match: "secretValuePattern s = r # rs \<Longrightarrow> redact s = REDACTED @ redact r"
  by (simp add: redact.simps[of s])

lemma redact_Cons: "secretValuePattern (c # t) = [] \<Longrightarrow> redact (c # t) = c # redact t"
  by (simp add: redact.simps[of "c # t"])

lemma secret_Nil [simp]: "secretValuePattern [] = []"
proof (rule ccontr)
  assume "secretValuePattern [] \<noteq> []"
  then have "key_start []" by (rule secret_start)
  then show False by (simp add: key_start_def)
qed

lemma redact_Nil [simp]: "redact [] = []"
  by (simp add: redact.simps[of "[]"])

text \<open>What stands before a bracket in the output stood there in the input.\<close>

lemma redact_prefix:
  "redact t = q @ x # r \<Longrightarrow> CHR ''['' \<notin> set q \<Longrightarrow> rx_tail x \<Longrightarrow>
   \<exists>x' r'. t = q @ x' # r' \<and> rx_tail x'"
proof (induction t arbitrary: q rule: redact.induct)
  case (1 t)
  show ?case
  proof (cases "secretValuePattern t")
    case (Cons u us)
    then have "redact t = CHR ''['' # ''REDACTED]'' @ redact u"
      by (simp add: redact_match REDACTED_def)
    then have "q = []" using "1.prems"(1,2) by (cases q) auto
    moreover have "key_start t" using Cons secret_start[of t] by simp
    then have "rx_tail (hd t)" "t = hd t # tl t"
      by (auto simp: key_start_tail) (simp add: key_start_def)
    ultimately show ?thesis by (metis append_Nil)
  next
    case Nil
    show ?thesis
    proof (cases t)
      case Nil
      then show ?thesis using "1.prems"(1) by simp
    next
      case (Cons c t')
      have rt: "redact t = c # redact t'"
        using \<open>secretValuePattern t = []\<close> Cons by (simp add: redact_Cons)
      show ?thesis
      proof (cases q)
        case Nil
        then show ?thesis using "1.prems"(1,3) rt Cons by auto
      next
        case (Cons d q')
        then have "redact t' = q' @ x # r" "CHR ''['' \<notin> set q'" "d = c"
          using "1.prems" rt by auto
        then obtain x' r' where "t' = q' @ x' # r'" "rx_tail x'"
          using "1.IH"(1)[OF \<open>secretValuePattern t = []\<close> \<open>t = c # t'\<close>] "1.prems"(3) by blast
        then show ?thesis using Cons \<open>t = c # t'\<close> \<open>d = c\<close> by auto
      qed
    qed
  qed
qed

lemma redact_keeps_miss:
  assumes "secretValuePattern (c # t) = []"
  shows "secretValuePattern (c # redact t) = []"
proof (rule ccontr)
  assume "secretValuePattern (c # redact t) \<noteq> []"
  then obtain x r where h: "x # r \<in> set (mhead (c # redact t))" and x: "rx_tail x"
    by (auto simp: secret_nonempty_iff)
  obtain p where p: "c # redact t = p @ x # r" "\<forall>r'. r' \<in> set (mhead (p @ r'))"
    using mlocal_mhead h unfolding mlocal_def by blast
  have nb: "CHR ''['' \<notin> set p"
    using mavoids_mhead h p(1) unfolding mavoids_def by (metis append_same_eq)
  have "[] \<notin> set (mhead [])" for s using mhead_start[of "[]" "[]"] by (auto simp: key_start_def)
  have "p \<noteq> []"
  proof
    assume "p = []"
    then have "[] \<in> set (mhead [])" using p(2) by (metis append_Nil)
    then show False using mhead_start[of "[]" "[]"] by (simp add: key_start_def)
  qed
  then obtain q where q: "p = c # q" "redact t = q @ x # r" using p(1) by (cases p) auto
  then obtain x' r' where "t = q @ x' # r'" "rx_tail x'"
    using redact_prefix[of t q x r] nb x by auto
  then have "x' # r' \<in> set (mhead (c # t))" using p(2) q(1) by simp
  then have "secretValuePattern (c # t) \<noteq> []"
    using \<open>rx_tail x'\<close> by (auto simp: secret_nonempty_iff)
  with assms show False by simp
qed

text \<open>No keyword begins inside the replacement text.\<close>

lemma mkeyword_ACTED: "mkeyword (CHR ''A'' # CHR ''C'' # s) = []"
  and mkeyword_TED: "mkeyword (CHR ''T'' # CHR ''E'' # s) = []"
  by (simp_all add: mkeyword_def malt_def mseq_def mfold_def mchar_def lower_char_def
      less_eq_char_def char_of_def)

lemma lower_REDACTED:
  "lower_char (CHR ''R'') = CHR ''r''" "lower_char (CHR ''E'') = CHR ''e''"
  "lower_char (CHR ''D'') = CHR ''d''" "lower_char (CHR ''C'') = CHR ''c''"
  "lower_char (CHR '']'') = CHR '']''"
  by code_simp+

lemma REDACTED_miss:
  assumes "REDACTED = a @ v" "v \<noteq> []"
  shows "secretValuePattern (v @ s) = []"
proof (rule ccontr)
  assume ne: "secretValuePattern (v @ s) \<noteq> []"
  then have ks: "key_start (v @ s)" by (rule secret_start)
  have "v = drop (length a) REDACTED" using assms(1) by (metis append_eq_conv_conj)
  moreover have "length a < 10"
  proof -
    have "length REDACTED = length a + length v"
      using arg_cong[OF assms(1), of length] by (simp only: length_append)
    then have "10 = length a + length v" by (simp add: REDACTED_def)
    moreover have "0 < length v" using assms(2) by simp
    ultimately show ?thesis by linarith
  qed
  ultimately have v: "v \<in> set (map (\<lambda>i. drop i REDACTED) [0..<10])" by auto
  have "list_all (\<lambda>w. w = ''ACTED]'' \<or> w = ''TED]'' \<or> \<not> key_start (w @ s))
      (map (\<lambda>i. drop i REDACTED) [0..<10])"
    by (simp add: REDACTED_def upt_rec key_start_def lower_REDACTED lower_char_bracket)
  then have "v = ''ACTED]'' \<or> v = ''TED]''"
    using ks v unfolding list_all_iff by blast
  then have "mhead (v @ s) = []"
    by (auto simp: mhead_def mseq_def[of mkeyword] mkeyword_ACTED mkeyword_TED)
  then show False using ne by (auto simp: secret_nonempty_iff)
qed

lemma redact_complete: "redact s = a @ b \<Longrightarrow> secretValuePattern b = []"
proof (induction s arbitrary: a rule: redact.induct)
  case (1 s)
  show ?case
  proof (cases "secretValuePattern s")
    case (Cons r rs)
    have "REDACTED @ redact r = a @ b" using "1.prems" Cons by (simp add: redact_match)
    then obtain v where "REDACTED @ v = a \<and> redact r = v @ b \<or> REDACTED = a @ v \<and> v @ redact r = b"
      by (metis append_eq_append_conv2)
    then show ?thesis
    proof
      assume "REDACTED @ v = a \<and> redact r = v @ b"
      then show ?thesis using "1.IH"(2)[OF Cons] by blast
    next
      assume v: "REDACTED = a @ v \<and> v @ redact r = b"
      show ?thesis
      proof (cases "v = []")
        case True
        then show ?thesis using v "1.IH"(2)[OF Cons, of "[]"] by simp
      next
        case False
        then show ?thesis using v REDACTED_miss by blast
      qed
    qed
  next
    case Nil
    show ?thesis
    proof (cases s)
      case Nil
      then show ?thesis using "1.prems" by simp
    next
      case (Cons c t)
      then have rs: "c # redact t = a @ b"
        using "1.prems" \<open>secretValuePattern s = []\<close> by (simp add: redact_Cons)
      show ?thesis
      proof (cases a)
        case Nil
        then show ?thesis
          using rs redact_keeps_miss[of c t] \<open>secretValuePattern s = []\<close> Cons by simp
      next
        case (Cons d a')
        then have "redact t = a' @ b" using rs by simp
        then show ?thesis
          using "1.IH"(1)[OF \<open>secretValuePattern s = []\<close> \<open>s = c # t\<close>] by blast
      qed
    qed
  qed
qed

lemma redact_id: "(\<And>a b. s = a @ b \<Longrightarrow> secretValuePattern b = []) \<Longrightarrow> redact s = s"
proof (induction s)
  case Nil
  then show ?case by simp
next
  case (Cons c s)
  have "secretValuePattern (c # s) = []" using Cons.prems[of "[]"] by simp
  moreover have "redact s = s"
    by (rule Cons.IH) (metis Cons.prems append_Cons)
  ultimately show ?case by (simp add: redact_Cons)
qed

lemma length_SanitizeText: "length (SanitizeText s) \<le> MaxSafeTextLength + length truncated"
  by (simp add: SanitizeText_def Let_def)

section \<open>SanitizeMap\<close>

definition sensitive_words :: "string list" where
  "sensitive_words = [''password'', ''passwd'', ''secret'', ''token'', ''apikey'', ''privatekey'',
     ''authorization'', ''dsn'', ''connectionstring'', ''connectionurl'']"

definition sensitive_key :: "string \<Rightarrow> bool" where
  "sensitive_key key =
     (let normalized = ToLower (ReplaceAll (ReplaceAll key ''_'' '''') ''-'' '''')
      in list_ex (\<lambda>word. Contains normalized word) sensitive_words)"

fun sanitizeValue :: "string \<Rightarrow> goval \<Rightarrow> goval" where
  "sanitizeValue key value =
     (if sensitive_key key then VStr REDACTED
      else case value of
        VStr v \<Rightarrow> VStr (SanitizeText v)
      | VMap m \<Rightarrow> VMap (map (\<lambda>kv. (fst kv, sanitizeValue (fst kv) (snd kv))) m)
      | VMaps ms \<Rightarrow>
          VMaps (map (\<lambda>m. map (\<lambda>kv. (fst kv, sanitizeValue (fst kv) (snd kv))) m) ms)
      | VList vs \<Rightarrow> VList (map (sanitizeValue []) vs)
      | _ \<Rightarrow> value)"

declare sanitizeValue.simps [simp del]

definition SanitizeMap :: "details \<Rightarrow> details" where
  "SanitizeMap value = map (\<lambda>kv. (fst kv, sanitizeValue (fst kv) (snd kv))) value"

text \<open>
  What a sanitised value looks like, at every depth: a value under a sensitive key is the
  replacement text, and every string is an output of \<^const>\<open>SanitizeText\<close>.
\<close>

fun safe_value :: "goval \<Rightarrow> bool" where
  "safe_value (VStr s) = (s = REDACTED \<or> (\<exists>t. s = SanitizeText t))"
| "safe_value (VMap m) =
     list_all (\<lambda>kv. (sensitive_key (fst kv) \<longrightarrow> snd kv = VStr REDACTED) \<and> safe_value (snd kv)) m"
| "safe_value (VMaps ms) =
     list_all (list_all (\<lambda>kv. (sensitive_key (fst kv) \<longrightarrow> snd kv = VStr REDACTED) \<and> safe_value (snd kv))) ms"
| "safe_value (VList vs) = list_all safe_value vs"
| "safe_value v = True"

definition safe_details :: "details \<Rightarrow> bool" where
  "safe_details m \<longleftrightarrow> safe_value (VMap m)"

lemma sanitizeValue_sensitive [simp]: "sensitive_key k \<Longrightarrow> sanitizeValue k v = VStr REDACTED"
  by (simp add: sanitizeValue.simps[of k v])

lemma sanitizeValue_cases [simp]:
  assumes "\<not> sensitive_key k"
  shows "sanitizeValue k (VStr s) = VStr (SanitizeText s)"
    "sanitizeValue k (VMap m) = VMap (SanitizeMap m)"
    "sanitizeValue k (VMaps ms) = VMaps (map SanitizeMap ms)"
    "sanitizeValue k (VList vs) = VList (map (sanitizeValue []) vs)"
    "sanitizeValue k VNil = VNil" "sanitizeValue k (VBool b) = VBool b"
    "sanitizeValue k (VInt i) = VInt i" "sanitizeValue k (VNamed n) = VNamed n"
    "sanitizeValue k (VTime t) = VTime t" "sanitizeValue k (VStrs xs) = VStrs xs"
    "sanitizeValue k (VHostInfo h) = VHostInfo h" "sanitizeValue k (VParams ps) = VParams ps"
    "sanitizeValue k (VCounts cs) = VCounts cs" "sanitizeValue k (VOther x) = VOther x"
  by (subst sanitizeValue.simps, simp add: assms SanitizeMap_def)+

lemma not_sensitive_Nil [simp]: "\<not> sensitive_key []"
  by (simp add: sensitive_key_def sensitive_words_def ToLower_def)

lemma safe_sanitizeValue: "safe_value (sanitizeValue k v)"
proof (induction k v rule: sanitizeValue.induct)
  case (1 k v)
  show ?case
  proof (cases "sensitive_key k")
    case True
    then show ?thesis by simp
  next
    case False
    note IH = 1[OF False]
    show ?thesis
    proof (cases v)
      case (VMap m)
      then show ?thesis
        using False IH(1) by (auto simp: SanitizeMap_def list_all_iff)
    next
      case (VMaps ms)
      then show ?thesis
        using False IH(2) by (auto simp: SanitizeMap_def list_all_iff)
    next
      case (VList vs)
      then show ?thesis
        using False IH(3) by (auto simp: list_all_iff)
    qed (use False in auto)
  qed
qed

lemma safe_SanitizeMap: "safe_details (SanitizeMap m)"
  by (auto simp: safe_details_def SanitizeMap_def list_all_iff safe_sanitizeValue)

lemma keys_SanitizeMap [simp]: "keys (SanitizeMap m) = keys m"
  by (simp add: SanitizeMap_def)

lemma map_of_SanitizeMap: "map_of (SanitizeMap m) k = map_option (sanitizeValue k) (map_of m k)"
  by (induction m) (auto simp: SanitizeMap_def)

section \<open>Validation of job parameters\<close>

text \<open>The pattern \<open>^[a-z0-9][a-z0-9_-]{0,63}$\<close>, used here and in \<open>internal/config/services.go\<close>.\<close>

definition profile_first :: "char \<Rightarrow> bool" where
  "profile_first c \<longleftrightarrow> (CHR ''a'' \<le> c \<and> c \<le> CHR ''z'') \<or> (CHR ''0'' \<le> c \<and> c \<le> CHR ''9'')"

definition profile_rest :: "char \<Rightarrow> bool" where
  "profile_rest c \<longleftrightarrow> profile_first c \<or> c = CHR ''_'' \<or> c = CHR ''-''"

definition serviceProfilePattern :: "string \<Rightarrow> bool" where
  "serviceProfilePattern s \<longleftrightarrow>
     (case s of [] \<Rightarrow> False
      | c # t \<Rightarrow> profile_first c \<and> list_all profile_rest t \<and> length t \<le> 63)"

text \<open>Indexing a Go map: the zero value when the key is absent.\<close>

definition param :: "(string, string) gomap \<Rightarrow> string \<Rightarrow> string" where
  "param m k = (case map_of m k of None \<Rightarrow> [] | Some v \<Rightarrow> v)"

definition ValidateServiceProfile :: "string \<Rightarrow> (string, string) gomap \<Rightarrow> unit res" where
  "ValidateServiceProfile templateCode params =
     (let name = TrimSpace (param params ''ServiceProfile'')
      in if name = [] then Inr ()
         else if \<not> serviceProfilePattern name
           then Inl (''template '' @ quoted templateCode @ '' has invalid ServiceProfile'')
         else if TrimSpace (param params ''ServiceType'') = []
           then Inl (''template '' @ quoted templateCode @ '' requires ServiceType when ServiceProfile is set'')
         else Inr ())"

definition inline_words :: "string list" where
  "inline_words = [''password'', ''passwd'', ''secret'', ''token'', ''apikey'', ''privatekey'',
     ''dsn'', ''connectionstring'', ''connectionurl'']"

fun ValidateNoInlineSecrets :: "(string, string) gomap \<Rightarrow> unit res" where
  "ValidateNoInlineSecrets [] = Inr ()"
| "ValidateNoInlineSecrets ((key, value) # rest) =
     (if TrimSpace value = [] then ValidateNoInlineSecrets rest
      else let normalized = ToLower (ReplaceAll key ''_'' '''')
        in if normalized = ''credentialsfile'' \<or> normalized = ''credentialsprofile''
             then Inl (''parameter '' @ quoted key @ '' is not allowed; use the Worker-local ServiceProfile'')
           else if HasSuffix normalized ''ref'' \<or> HasSuffix normalized ''file''
             then ValidateNoInlineSecrets rest
           else if list_ex (\<lambda>sensitive. Contains normalized sensitive) inline_words
             then Inl (''inline sensitive parameter '' @ quoted key @ '' is not allowed; configure credentials on the worker and pass a *_ref or *_file reference'')
           else ValidateNoInlineSecrets rest)"

text \<open>The condition on one parameter that the loop checks.\<close>

definition inline_ok :: "string \<Rightarrow> string \<Rightarrow> bool" where
  "inline_ok key value \<longleftrightarrow>
     TrimSpace value = [] \<or>
     (let normalized = ToLower (ReplaceAll key ''_'' '''')
      in normalized \<noteq> ''credentialsfile'' \<and> normalized \<noteq> ''credentialsprofile'' \<and>
         (HasSuffix normalized ''ref'' \<or> HasSuffix normalized ''file'' \<or>
          (\<forall>sensitive \<in> set inline_words. \<not> Contains normalized sensitive)))"

lemma ValidateNoInlineSecrets_iff:
  "ValidateNoInlineSecrets m = Inr () \<longleftrightarrow> (\<forall>(k, v) \<in> set m. inline_ok k v)"
proof (induction m)
  case Nil
  then show ?case by simp
next
  case (Cons kv m)
  obtain k v where "kv = (k, v)" by (cases kv)
  then show ?case using Cons.IH
    by (auto simp: inline_ok_def Let_def list_ex_iff)
qed

section \<open>Text without secrets\<close>

text \<open>No position of the text begins a match of the secret pattern.\<close>

fun no_secret :: "string \<Rightarrow> bool" where
  "no_secret [] = True"
| "no_secret (c # s) = (secretValuePattern (c # s) = [] \<and> no_secret s)"

lemma no_secret_iff: "no_secret s \<longleftrightarrow> (\<forall>a b. s = a @ b \<longrightarrow> secretValuePattern b = [])"
proof (induction s)
  case Nil
  then show ?case by simp
next
  case (Cons c s)
  show ?case
  proof
    assume "no_secret (c # s)"
    then have "secretValuePattern (c # s) = []" and "\<forall>a b. s = a @ b \<longrightarrow> secretValuePattern b = []"
      using Cons.IH by auto
    then show "\<forall>a b. c # s = a @ b \<longrightarrow> secretValuePattern b = []"
      by (metis append_eq_Cons_conv)
  next
    assume r: "\<forall>a b. c # s = a @ b \<longrightarrow> secretValuePattern b = []"
    then have "secretValuePattern (c # s) = []" by (metis append_Nil)
    moreover have "\<forall>a b. s = a @ b \<longrightarrow> secretValuePattern b = []"
      using r by (metis append_Cons)
    ultimately show "no_secret (c # s)" using Cons.IH by simp
  qed
qed

lemma secret_extend:
  assumes "secretValuePattern b \<noteq> []"
  shows "secretValuePattern (b @ t) \<noteq> []"
proof -
  obtain x r where x: "x # r \<in> set (mhead b)" "rx_tail x" using assms secret_nonempty_iff by blast
  then obtain p where p: "b = p @ x # r" "\<forall>r'. r' \<in> set (mhead (p @ r'))"
    using mlocal_mhead unfolding mlocal_def by blast
  then have "x # (r @ t) \<in> set (mhead (b @ t))" by simp
  then show ?thesis using x(2) secret_nonempty_iff by blast
qed

lemma no_secret_take: "no_secret s \<Longrightarrow> no_secret (take n s)"
proof -
  assume s: "no_secret s"
  have "secretValuePattern b = []" if "take n s = a @ b" for a b
  proof (rule ccontr)
    assume "secretValuePattern b \<noteq> []"
    then have "secretValuePattern (b @ drop n s) \<noteq> []" by (rule secret_extend)
    moreover have "s = a @ (b @ drop n s)" using that by (metis append.assoc append_take_drop_id)
    ultimately show False using s no_secret_iff by blast
  qed
  then show ?thesis by (simp add: no_secret_iff)
qed

lemma no_secret_redact: "no_secret (redact s)"
  using redact_complete no_secret_iff by blast

section \<open>Properties\<close>


text \<open>Text without credentials is kept for the operator: \<open>SanitizeText\<close> returns a text of at most
  4096 bytes in which the pattern matches nowhere unchanged; so sanitising is idempotent on short text.\<close>

lemma SanitizeText_keeps:
  "no_secret s \<Longrightarrow> length s \<le> MaxSafeTextLength \<Longrightarrow> SanitizeText s = s"
  using redact_id[of s] by (simp add: no_secret_iff SanitizeText_def Let_def)

theorem SanitizeText_keeps_witness: "SanitizeText ''disk usage 91% on /var'' = ''disk usage 91% on /var''"
proof (rule SanitizeText_keeps)
  show "no_secret ''disk usage 91% on /var''" by code_simp
  show "length ''disk usage 91% on /var'' \<le> MaxSafeTextLength" by (simp add: MaxSafeTextLength_def)
qed

text \<open>\<open>SanitizeMap\<close> keeps the keys and makes every value safe at every depth of nested maps and
  lists: a value whose key names a credential is replaced by the redaction mark, and every other
  string is an output of \<open>SanitizeText\<close>.\<close>

lemma SanitizeMap_safe:
  "safe_details (SanitizeMap m) \<and> keys (SanitizeMap m) = keys m \<and>
   map_of (SanitizeMap m) k = map_option (sanitizeValue k) (map_of m k)"
  by (simp add: safe_SanitizeMap map_of_SanitizeMap)

text \<open>A list of strings is copied as it is, whatever the strings hold: the type switch of
  \<open>sanitizeValue\<close> has no case for \<open>[]string\<close>.\<close>

lemma sanitizeValue_skips_string_lists:
  "sanitizeValue ''output'' (VStrs [''password=hunter2'']) = VStrs [''password=hunter2''] \<and>
   sanitizeValue ''output'' (VList [VStr ''password=hunter2'']) = VList [VStr ''[REDACTED]'']"
  by code_simp

text \<open>\<open>ValidateNoInlineSecrets\<close> accepts a parameter map exactly when every non-blank parameter is
  allowed: its normalised name is not a credentials file or profile, and either is a reference
  (suffix ref or file) or contains no sensitive word. The verdict does not depend on the iteration
  order of the map.\<close>

lemma ValidateNoInlineSecrets_exact:
  "ValidateNoInlineSecrets m = Inr () \<longleftrightarrow> list_all (\<lambda>(k, v). inline_ok k v) m"
  by (auto simp: ValidateNoInlineSecrets_iff list_all_iff)

text \<open>A service profile that \<open>ValidateServiceProfile\<close> accepts is a plain name: absent, or one to 64
  lower-case letters, digits, underscores and dashes, together with a service type; it can be no
  path and no connection string.\<close>

lemma ValidateServiceProfile_plain:
  assumes "ValidateServiceProfile code params = Inr ()"
  shows "let name = TrimSpace (param params ''ServiceProfile'')
    in name = [] \<or> (length name \<le> 64 \<and> set name \<inter> set ''/.:@ '' = {} \<and>
         TrimSpace (param params ''ServiceType'') \<noteq> [])"
proof -
  have plain: "\<not> profile_rest c" if "c \<in> set ''/.:@ ''" for c
    using that by (auto simp: profile_rest_def profile_first_def less_eq_char_def)
  have "set name \<inter> set ''/.:@ '' = {} \<and> length name \<le> 64" if "serviceProfilePattern name" for name
    using that plain by (cases name) (auto simp: serviceProfilePattern_def profile_rest_def list_all_iff)
  then show ?thesis
    using assms by (auto simp: ValidateServiceProfile_def Let_def split: if_splits)
qed

theorem ValidateServiceProfile_plain_witness:
  "let name = TrimSpace (param [(''ServiceProfile'', ''db-1''), (''ServiceType'', ''mysql'')] ''ServiceProfile'')
    in name = [] \<or> (length name \<le> 64 \<and> set name \<inter> set ''/.:@ '' = {} \<and>
         TrimSpace (param [(''ServiceProfile'', ''db-1''), (''ServiceType'', ''mysql'')] ''ServiceType'') \<noteq> [])"
  by (rule ValidateServiceProfile_plain[of "''query''"]) code_simp

end
