(* ===== verification/Policy.thy ===== *)
theory Policy
  imports Domain_Model
begin

text \<open>
  \<open>internal/domain/policy/engine.go\<close>: the execution policy, a template whitelist, a tool
  blocklist, risk keywords and the risk levels that need approval. A \<open>map[string]bool\<close> that is
  used as a set keeps the entries the code makes; reading an absent key gives \<open>False\<close>.
\<close>

section \<open>The engine\<close>

record Policy_Engine =
  Engine_blockedTools :: "(string, bool) gomap"
  Engine_allowedTemplates :: "(string, bool) gomap"
  Engine_highRiskKeywords :: "string list"
  Engine_approvalRiskLevels :: "(RiskLevel, bool) gomap"

definition Policy_NewEngine :: Policy_Engine where
  "Policy_NewEngine = \<lparr>Engine_blockedTools = [], Engine_allowedTemplates = [],
     Engine_highRiskKeywords = [], Engine_approvalRiskLevels = []\<rparr>"

definition flag :: "(string, bool) gomap \<Rightarrow> string \<Rightarrow> bool" where
  "flag m k = (case map_of m k of None \<Rightarrow> False | Some b \<Rightarrow> b)"

definition stringSet :: "string list \<Rightarrow> (string, bool) gomap" where
  "stringSet values = foldl (\<lambda>result value.
     let value = TrimSpace value
     in if value = [] then result else AList.update value True result) [] values"

definition Configure ::
  "string list \<Rightarrow> string list \<Rightarrow> string list \<Rightarrow> RiskLevel list \<Rightarrow> Policy_Engine \<Rightarrow> Policy_Engine" where
  "Configure blockedTools allowedTemplates highRiskKeywords approvalRiskLevels e =
     e\<lparr>Engine_blockedTools := stringSet blockedTools,
       Engine_allowedTemplates := stringSet allowedTemplates,
       Engine_highRiskKeywords := highRiskKeywords,
       Engine_approvalRiskLevels :=
         foldl (\<lambda>m level. AList.update level True m) [] approvalRiskLevels\<rparr>"

definition ValidateTemplate :: "Policy_Engine \<Rightarrow> string \<Rightarrow> unit res" where
  "ValidateTemplate e code =
     (if \<not> flag (Engine_allowedTemplates e) code then Inl (''template not in whitelist: '' @ code)
      else Inr ())"

definition ValidateCommand :: "Policy_Engine \<Rightarrow> string \<Rightarrow> unit res" where
  "ValidateCommand e cmd =
     (let cmd = TrimSpace cmd
      in if cmd = [] then Inl ''command is empty''
         else let tool = hd (Split cmd (CHR '' ''))
           in if flag (Engine_blockedTools e) tool then Inl (''tool is blocked: '' @ tool)
              else Inr ())"

definition AssessCommandRisk :: "Policy_Engine \<Rightarrow> string \<Rightarrow> RiskLevel" where
  "AssessCommandRisk e command =
     (let combined = ToLower command
      in if list_ex (\<lambda>kw. Contains combined kw) (Engine_highRiskKeywords e) then RiskLevelHigh
         else RiskLevelLow)"

definition AssessRisk :: "Policy_Engine \<Rightarrow> TaskIntent \<Rightarrow> RiskLevel" where
  "AssessRisk e intent =
     (if TaskIntent_RiskLevel intent = RiskLevelHigh then RiskLevelHigh
      else let combined = TaskIntent_Intent intent @ '' '' @ TaskIntent_TargetType intent
        in if list_ex (\<lambda>kw. Contains (ToLower combined) kw) (Engine_highRiskKeywords e)
           then RiskLevelHigh
           else TaskIntent_RiskLevel intent)"

definition IsHighRisk :: "RiskLevel \<Rightarrow> bool" where
  "IsHighRisk level \<longleftrightarrow> level = RiskLevelHigh"

fun merge_levels :: "RiskLevel \<Rightarrow> RiskLevel list \<Rightarrow> RiskLevel" where
  "merge_levels result [] = result"
| "merge_levels result (level # levels) =
     (if level = RiskLevelHigh then RiskLevelHigh
      else if level = RiskLevelMedium
        then merge_levels (if result \<noteq> RiskLevelHigh then RiskLevelMedium else result) levels
      else merge_levels result levels)"

definition MergeRisk :: "RiskLevel list \<Rightarrow> RiskLevel" where
  "MergeRisk levels = merge_levels RiskLevelLow levels"

definition RequiresManualApproval :: "Policy_Engine \<Rightarrow> RiskLevel \<Rightarrow> bool" where
  "RequiresManualApproval e level = flag (Engine_approvalRiskLevels e) level"

definition BlockedTools :: "Policy_Engine \<Rightarrow> (string, bool) gomap" where
  "BlockedTools e = clone_map (Engine_blockedTools e)"

section \<open>Lemmas\<close>

lemma risk_neq [simp]:
  "RiskLevelLow \<noteq> RiskLevelMedium" "RiskLevelMedium \<noteq> RiskLevelLow"
  "RiskLevelLow \<noteq> RiskLevelHigh" "RiskLevelHigh \<noteq> RiskLevelLow"
  "RiskLevelMedium \<noteq> RiskLevelHigh" "RiskLevelHigh \<noteq> RiskLevelMedium"
  by (simp_all add: risk_defs)

lemma flag_Nil [simp]: "\<not> flag [] k"
  by (simp add: flag_def)

lemma flag_update [simp]: "flag (AList.update k v m) k' = (if k' = k then v else flag m k')"
  by (simp add: flag_def)

lemma flag_stringSet: "flag (stringSet vs) k \<longleftrightarrow> k \<noteq> [] \<and> k \<in> TrimSpace ` set vs"
proof -
  have "flag (foldl (\<lambda>r v. let v = TrimSpace v in if v = [] then r else AList.update v True r) m vs) k \<longleftrightarrow>
      flag m k \<or> (k \<noteq> [] \<and> k \<in> TrimSpace ` set vs)" for m
    by (induction vs arbitrary: m) (auto simp: Let_def)
  then show ?thesis by (simp add: stringSet_def)
qed

lemma flag_levels: "flag (foldl (\<lambda>m l. AList.update l True m) m ls) k \<longleftrightarrow> flag m k \<or> k \<in> set ls"
  by (induction ls arbitrary: m) auto

lemma merge_levels_medium:
  "merge_levels RiskLevelMedium ls =
    (if RiskLevelHigh \<in> set ls then RiskLevelHigh else RiskLevelMedium)"
  by (induction ls) auto

lemma merge_levels_low:
  "merge_levels RiskLevelLow ls =
    (if RiskLevelHigh \<in> set ls then RiskLevelHigh
     else if RiskLevelMedium \<in> set ls then RiskLevelMedium else RiskLevelLow)"
  by (induction ls) (auto simp: merge_levels_medium)

section \<open>Properties\<close>

text \<open>Authorisation comes from the configured lists and nothing else: after \<open>Configure\<close> a template
  is accepted exactly when it is a listed, trimmed, non-empty name, a level needs approval exactly
  when listed, and the engine that was never configured accepts no template.\<close>

lemma Configure_authorises:
  "(ValidateTemplate (Configure b a h l e) code = Inr () \<longleftrightarrow> code \<noteq> [] \<and> code \<in> TrimSpace ` set a) \<and>
   (RequiresManualApproval (Configure b a h l e) level \<longleftrightarrow> level \<in> set l) \<and>
   ValidateTemplate Policy_NewEngine code = Inl (''template not in whitelist: '' @ code)"
  by (simp add: ValidateTemplate_def Configure_def RequiresManualApproval_def flag_stringSet flag_levels
      Policy_NewEngine_def)

text \<open>\<open>MergeRisk\<close> is the maximum of the levels it is given (an unknown level counts as low), so it
  depends on neither their order nor their number, and never lowers a risk.\<close>

lemma MergeRisk_maximum:
  "MergeRisk ls = (if RiskLevelHigh \<in> set ls then RiskLevelHigh
     else if RiskLevelMedium \<in> set ls then RiskLevelMedium else RiskLevelLow) \<and>
   MergeRisk (ls @ ls') = MergeRisk [MergeRisk ls, MergeRisk ls']"
  by (auto simp: MergeRisk_def merge_levels_low)

text \<open>The blocklist looks at the text before the first space only: a blocked tool that is followed
  by a tab passes \<open>ValidateCommand\<close>, although a shell runs the same tool.\<close>

lemma ValidateCommand_tab_bypass:
  "let e = Configure [''rm''] [] [] [] Policy_NewEngine
   in ValidateCommand e ''rm -rf /data'' = Inl ''tool is blocked: rm'' \<and>
      ValidateCommand e (''rm'' @ [CHR 0x09] @ ''-rf /data'') = Inr ()"
  by code_simp

end
