(* ===== verification/Services.thy ===== *)
theory Services
  imports Sensitive
begin

text \<open>
  \<open>internal/config/services.go\<close>: the worker-local catalogue of service profiles, an INI file parsed
  line by line. The file system is a parameter: what \<open>os.Stat\<close> and reading the file return for a
  path.
\<close>

unbundle bit_operations_syntax

section \<open>Profiles and the catalogue\<close>

definition DefaultServicesConfigPath :: string where
  "DefaultServicesConfigPath = ''/etc/adp/services.cnf''"

record RuntimeServiceProfile =
  Profile_Name :: string
  Profile_Type :: string
  Profile_Host :: string
  Profile_Port :: string
  Profile_User :: string
  Profile_Password :: string
  Profile_URL :: string
  Profile_Process :: string
  Profile_Unit :: string
  Profile_LogFile :: string
  Profile_ConfigFile :: string

definition named_profile :: "string \<Rightarrow> RuntimeServiceProfile" where
  "named_profile name = \<lparr>Profile_Name = name, Profile_Type = [], Profile_Host = [], Profile_Port = [],
     Profile_User = [], Profile_Password = [], Profile_URL = [], Profile_Process = [],
     Profile_Unit = [], Profile_LogFile = [], Profile_ConfigFile = []\<rparr>"

record ServiceCatalog =
  Catalog_profiles :: "(string, RuntimeServiceProfile) gomap"

text \<open>What the operating system reports for a file: kind and permission bits, and its content.\<close>

record FileInfo =
  File_Regular :: bool
  File_Perm :: nat

record file_system =
  fs_stat :: "string \<Rightarrow> FileInfo res"
  fs_read :: "string \<Rightarrow> string res"

definition ServiceCatalog_add :: "RuntimeServiceProfile \<Rightarrow> ServiceCatalog \<Rightarrow> ServiceCatalog res" where
  "ServiceCatalog_add profile c =
     (if Profile_Type profile = [] \<or> Profile_Host profile = []
      then Inl (''service profile '' @ quoted (Profile_Name profile) @ '' requires type and host'')
      else if map_of (Catalog_profiles c) (Profile_Name profile) \<noteq> None
      then Inl (''duplicate service profile '' @ quoted (Profile_Name profile))
      else Inr (c\<lparr>Catalog_profiles :=
             AList.update (Profile_Name profile) profile (Catalog_profiles c)\<rparr>))"

section \<open>Parsing\<close>

text \<open>
  \<open>bufio.Scanner\<close> with the default line split: lines end at a newline, one carriage return before
  it is dropped, and there is no empty last line. A line of 65536 bytes or more does not fit the
  scanner's buffer: scanning stops there with an error, after the lines before it were delivered.
\<close>

definition drop_cr :: "string \<Rightarrow> string" where
  "drop_cr l = TrimSuffix l [CHR 0x0D]"

fun raw_lines :: "string \<Rightarrow> string \<Rightarrow> string list" where
  "raw_lines acc [] = (if acc = [] then [] else [rev acc])"
| "raw_lines acc (c # s) =
     (if c = CHR 0x0A then rev acc # raw_lines [] s else raw_lines (c # acc) s)"

definition MaxScanTokenSize :: nat where
  "MaxScanTokenSize = 65536"

definition scan_lines :: "string \<Rightarrow> string list \<times> error option" where
  "scan_lines text =
     (let ls = raw_lines [] text;
          good = takeWhile (\<lambda>l. length l < MaxScanTokenSize) ls
      in (map drop_cr good,
          if length good = length ls then None else Some ''bufio.Scanner: token too long''))"

definition set_property :: "string \<Rightarrow> string \<Rightarrow> RuntimeServiceProfile \<Rightarrow> RuntimeServiceProfile option" where
  "set_property key value p =
     (if key = ''type'' then Some (p\<lparr>Profile_Type := ToLower (TrimSpace value)\<rparr>)
      else if key = ''host'' then Some (p\<lparr>Profile_Host := TrimSpace value\<rparr>)
      else if key = ''port'' then Some (p\<lparr>Profile_Port := TrimSpace value\<rparr>)
      else if key = ''user'' then Some (p\<lparr>Profile_User := TrimSpace value\<rparr>)
      else if key = ''password'' then Some (p\<lparr>Profile_Password := TrimSpace value\<rparr>)
      else if key = ''url'' then Some (p\<lparr>Profile_URL := TrimSpace value\<rparr>)
      else if key = ''process'' then Some (p\<lparr>Profile_Process := TrimSpace value\<rparr>)
      else if key = ''unit'' then Some (p\<lparr>Profile_Unit := TrimSpace value\<rparr>)
      else if key = ''log_file'' then Some (p\<lparr>Profile_LogFile := TrimSpace value\<rparr>)
      else if key = ''config_file'' then Some (p\<lparr>Profile_ConfigFile := TrimSpace value\<rparr>)
      else None)"

definition close_profile ::
  "RuntimeServiceProfile option \<Rightarrow> ServiceCatalog \<Rightarrow> ServiceCatalog res" where
  "close_profile current c = (case current of None \<Rightarrow> Inr c | Some p \<Rightarrow> ServiceCatalog_add p c)"

text \<open>The scanning loop: the profile under construction is what it returns besides the catalogue.\<close>

fun load_lines ::
  "nat \<Rightarrow> string list \<Rightarrow> RuntimeServiceProfile option \<Rightarrow> ServiceCatalog \<Rightarrow>
   (RuntimeServiceProfile option \<times> ServiceCatalog) res" where
  "load_lines lineNo [] current c = Inr (current, c)"
| "load_lines lineNo (text # rest) current c =
     (let line = TrimSpace text
      in if line = [] \<or> HasPrefix line ''#'' \<or> HasPrefix line '';''
         then load_lines (lineNo + 1) rest current c
         else if HasPrefix line ''['' \<and> HasSuffix line '']''
         then (case close_profile current c of
                 Inl e \<Rightarrow> Inl e
               | Inr c \<Rightarrow>
                   let name = TrimSpace (take (length line - 2) (drop 1 line))
                   in if \<not> serviceProfilePattern name
                      then Inl (''invalid service profile name at line '' @ dec lineNo)
                      else load_lines (lineNo + 1) rest (Some (named_profile name)) c)
         else case current of
             None \<Rightarrow> Inl (''service property outside a profile at line '' @ dec lineNo)
           | Some p \<Rightarrow>
               (case Cut line (CHR ''='') of
                  None \<Rightarrow> Inl (''invalid service property at line '' @ dec lineNo)
                | Some (key, value) \<Rightarrow>
                    (case set_property (TrimSpace (ToLower key)) value p of
                       None \<Rightarrow> Inl (''unsupported service property '' @ quoted (TrimSpace key) @
                                 '' at line '' @ dec lineNo)
                     | Some p \<Rightarrow> load_lines (lineNo + 1) rest (Some p) c)))"

definition LoadServiceCatalog :: "file_system \<Rightarrow> string \<Rightarrow> ServiceCatalog res" where
  "LoadServiceCatalog fs path =
     (let path = (if TrimSpace path = [] then DefaultServicesConfigPath else path)
      in case fs_stat fs path of
           Inl e \<Rightarrow> Inl (''stat services config: '' @ e)
         | Inr info \<Rightarrow>
             if \<not> File_Regular info \<or> File_Perm info AND 18 \<noteq> 0
             then Inl (''services config must be a regular file not writable by group or others: '' @ path)
             else case fs_read fs path of
                Inl e \<Rightarrow> Inl (''open services config: '' @ e)
              | Inr text \<Rightarrow>
                  (case scan_lines text of (ls, scanErr) \<Rightarrow>
                     (case load_lines 1 ls None \<lparr>Catalog_profiles = []\<rparr> of
                        Inl e \<Rightarrow> Inl e
                      | Inr (current, c) \<Rightarrow>
                          (case scanErr of
                             Some e \<Rightarrow> Inl (''read services config: '' @ e)
                           | None \<Rightarrow> close_profile current c))))"

definition Resolve :: "ServiceCatalog \<Rightarrow> string \<Rightarrow> string \<Rightarrow> RuntimeServiceProfile res" where
  "Resolve c name serviceType =
     (if \<not> serviceProfilePattern name then Inl ''invalid service profile''
      else case map_of (Catalog_profiles c) name of
          None \<Rightarrow> Inl (''service profile '' @ quoted name @ '' not found'')
        | Some profile \<Rightarrow>
            if Profile_Type profile \<noteq> serviceType
            then Inl (''service profile '' @ quoted name @ '' has type '' @ quoted (Profile_Type profile) @
                   '', expected '' @ quoted serviceType)
            else Inr profile)"

lemma raw_lines_length: "l \<in> set (raw_lines acc s) \<Longrightarrow> length l \<le> length acc + length s"
  by (induction acc s rule: raw_lines.induct) (auto split: if_splits)

lemma scan_lines_short:
  assumes "length text < MaxScanTokenSize"
  shows "scan_lines text = (map drop_cr (raw_lines [] text), None)"
proof -
  have "length l < MaxScanTokenSize" if "l \<in> set (raw_lines [] text)" for l
    using raw_lines_length[OF that] assms by simp
  then have "takeWhile (\<lambda>l. length l < MaxScanTokenSize) (raw_lines [] text) = raw_lines [] text"
    by (simp add: takeWhile_eq_all_conv)
  then show ?thesis unfolding scan_lines_def Let_def by (simp only: simp_thms if_True)
qed

section \<open>What a loaded catalogue holds\<close>

definition profile_ok :: "RuntimeServiceProfile \<Rightarrow> bool" where
  "profile_ok p \<longleftrightarrow> serviceProfilePattern (Profile_Name p) \<and> Profile_Type p \<noteq> [] \<and> Profile_Host p \<noteq> []"

definition catalog_ok :: "ServiceCatalog \<Rightarrow> bool" where
  "catalog_ok c \<longleftrightarrow> map_ok (Catalog_profiles c) \<and>
     list_all (\<lambda>(k, p). k = Profile_Name p \<and> profile_ok p) (Catalog_profiles c)"

definition current_ok :: "RuntimeServiceProfile option \<Rightarrow> bool" where
  "current_ok cur \<longleftrightarrow> (case cur of None \<Rightarrow> True | Some p \<Rightarrow> serviceProfilePattern (Profile_Name p))"

lemma ServiceCatalog_add_ok:
  "catalog_ok c \<Longrightarrow> serviceProfilePattern (Profile_Name p) \<Longrightarrow> ServiceCatalog_add p c = Inr c' \<Longrightarrow> catalog_ok c'"
  by (auto simp: ServiceCatalog_add_def catalog_ok_def profile_ok_def list_all_iff split: if_splits
      elim!: in_update_cases)

lemma close_profile_ok:
  "catalog_ok c \<Longrightarrow> current_ok cur \<Longrightarrow> close_profile cur c = Inr c' \<Longrightarrow> catalog_ok c'"
  by (auto simp: close_profile_def current_ok_def ServiceCatalog_add_ok split: option.splits)

lemma set_property_name: "set_property k v p = Some p' \<Longrightarrow> Profile_Name p' = Profile_Name p"
  by (auto simp: set_property_def split: if_splits)

lemma load_lines_ok:
  "catalog_ok c \<Longrightarrow> current_ok cur \<Longrightarrow> load_lines n ls cur c = Inr (cur', c') \<Longrightarrow>
   catalog_ok c' \<and> current_ok cur'"
proof (induction ls arbitrary: n cur c)
  case (Cons raw rest)
  let ?line = "TrimSpace raw"
  consider (skip) "?line = [] \<or> HasPrefix ?line ''#'' \<or> HasPrefix ?line '';''"
    | (heading) "\<not> (?line = [] \<or> HasPrefix ?line ''#'' \<or> HasPrefix ?line '';'')"
        "HasPrefix ?line ''['' \<and> HasSuffix ?line '']''"
    | (entry) "\<not> (?line = [] \<or> HasPrefix ?line ''#'' \<or> HasPrefix ?line '';'')"
        "\<not> (HasPrefix ?line ''['' \<and> HasSuffix ?line '']'')" by blast
  then show ?case
  proof cases
    case skip
    then show ?thesis using Cons by simp
  next
    case heading
    then obtain c1 where c1: "close_profile cur c = Inr c1"
      "serviceProfilePattern (TrimSpace (take (length ?line - 2) (drop 1 ?line)))"
      "load_lines (n + 1) rest (Some (named_profile (TrimSpace (take (length ?line - 2) (drop 1 ?line))))) c1
        = Inr (cur', c')"
      using Cons.prems(3) by (auto simp: Let_def split: sum.splits if_splits)
    then show ?thesis
      using Cons.IH[OF close_profile_ok[OF Cons.prems(1,2) c1(1)] _ c1(3)]
      by (simp add: current_ok_def named_profile_def)
  next
    case entry
    then obtain p key v p' where p: "cur = Some p" "set_property (TrimSpace (ToLower key)) v p = Some p'"
      "load_lines (n + 1) rest (Some p') c = Inr (cur', c')"
      using Cons.prems(3) by (auto simp: Let_def split: option.splits)
    then show ?thesis
      using Cons.IH[OF Cons.prems(1) _ p(3)] Cons.prems(2) set_property_name[OF p(2)]
      by (simp add: current_ok_def)
  qed
qed simp

lemma LoadServiceCatalog_ok: "LoadServiceCatalog fs path = Inr c \<Longrightarrow> catalog_ok c"
proof -
  assume l: "LoadServiceCatalog fs path = Inr c"
  then obtain ls cur c1 where "load_lines 1 ls None \<lparr>Catalog_profiles = []\<rparr> = Inr (cur, c1)"
      "close_profile cur c1 = Inr c"
    by (auto simp: LoadServiceCatalog_def Let_def split: sum.splits if_splits prod.splits option.splits)
  moreover have "catalog_ok \<lparr>Catalog_profiles = []\<rparr>" "current_ok None"
    by (simp_all add: catalog_ok_def current_ok_def)
  ultimately show ?thesis using load_lines_ok close_profile_ok by blast
qed

section \<open>Properties\<close>

text \<open>Every profile the worker can use from a loaded catalogue is complete and safely named: what
  \<open>Resolve\<close> returns after a successful \<open>LoadServiceCatalog\<close> is the profile of the requested name and
  type, the name is one to 64 safe characters, and type and host are not empty; it came from a
  regular file that neither group nor others may write.\<close>

lemma Resolve_after_load:
  assumes "LoadServiceCatalog fs path = Inr c" "Resolve c name ty = Inr p"
  shows "Profile_Name p = name \<and> Profile_Type p = ty \<and> ty \<noteq> [] \<and> Profile_Host p \<noteq> [] \<and>
    serviceProfilePattern name \<and>
    (\<exists>info. fs_stat fs (if TrimSpace path = [] then DefaultServicesConfigPath else path) = Inr info \<and>
       File_Regular info \<and> File_Perm info AND 18 = 0)"
proof -
  have look: "map_of (Catalog_profiles c) name = Some p" "Profile_Type p = ty" "serviceProfilePattern name"
    using assms(2) by (auto simp: Resolve_def split: if_splits option.splits)
  then have "Profile_Name p = name \<and> profile_ok p"
    using LoadServiceCatalog_ok[OF assms(1)] map_of_SomeD[OF look(1)]
    by (auto simp: catalog_ok_def list_all_iff)
  moreover have "\<exists>info. fs_stat fs (if TrimSpace path = [] then DefaultServicesConfigPath else path) = Inr info \<and>
       File_Regular info \<and> File_Perm info AND 18 = 0"
    using assms(1) by (auto simp: LoadServiceCatalog_def Let_def split: sum.splits if_splits)
  ultimately show ?thesis using look by (auto simp: profile_ok_def)
qed

definition sample_services :: string where
  "sample_services = Join [''# services'', ''[db-1]'', ''type = MySQL'', ''host=10.0.0.5'', ''password = s3'',
     ''[web]'', ''type=nginx'', ''host = w1'', ''unit=nginx.service''] [CHR 0x0A]"

definition sample_fs :: file_system where
  "sample_fs = \<lparr>fs_stat = (\<lambda>p. Inr \<lparr>File_Regular = True, File_Perm = 416\<rparr>),
     fs_read = (\<lambda>p. Inr sample_services)\<rparr>"

definition sample_result :: "ServiceCatalog res" where
  "sample_result =
     (case load_lines 1 (map drop_cr (raw_lines [] sample_services)) None \<lparr>Catalog_profiles = []\<rparr> of
        Inl e \<Rightarrow> Inl e | Inr (cur, c) \<Rightarrow> close_profile cur c)"

lemma sample_load: "LoadServiceCatalog sample_fs [] = sample_result"
proof -
  have "length sample_services < MaxScanTokenSize"
    by (simp add: sample_services_def MaxScanTokenSize_def)
  moreover have "(416 :: nat) AND 18 = 0" by code_simp
  ultimately show ?thesis
    by (simp add: LoadServiceCatalog_def sample_fs_def sample_result_def scan_lines_short
        split: sum.split prod.split)
qed

lemma sample_loads:
  "\<not> isl sample_result" "\<not> isl (Resolve (projr sample_result) ''web'' ''nginx'')"
  by code_simp+

theorem Resolve_after_load_witness:
  "\<exists>c p. LoadServiceCatalog sample_fs [] = Inr c \<and> Resolve c ''web'' ''nginx'' = Inr p \<and>
     Profile_Name p = ''web'' \<and> Profile_Host p \<noteq> []"
proof -
  have c: "LoadServiceCatalog sample_fs [] = Inr (projr sample_result)"
    using sample_loads(1) by (simp add: sample_load)
  have p: "Resolve (projr sample_result) ''web'' ''nginx'' =
      Inr (projr (Resolve (projr sample_result) ''web'' ''nginx''))"
    using sample_loads(2) by simp
  show ?thesis using Resolve_after_load[OF c p] c p by blast
qed

end
