(* ===== verification/Template.thy ===== *)
theory Template
  imports Services Policy
begin

text \<open>
  \<open>internal/module\<close> (the module interface, its registry and the built-in modules) and
  \<open>internal/domain/template/engine.go\<close> (command templates: registration, lookup, rendering). A module
  is a value of the three implementations the sources have. \<open>text/template\<close> is modelled on the form
  the templates of the repository use, plain text with \<open>{{.Name}}\<close> fields; any other template text is
  left to a parameter. Processes are a parameter too.
\<close>

section \<open>text/template\<close>

datatype tpl_result =
    Tpl_parse_error string
  | Tpl_exec_error string
  | Tpl_ok string

datatype tpl_node = Tpl_text char | Tpl_field string

definition ident_char :: "char \<Rightarrow> bool" where
  "ident_char c \<longleftrightarrow> (CHR ''a'' \<le> c \<and> c \<le> CHR ''z'') \<or> (CHR ''A'' \<le> c \<and> c \<le> CHR ''Z'') \<or> c = CHR ''_'' \<or>
     (CHR ''0'' \<le> c \<and> c \<le> CHR ''9'')"

definition digit_char :: "char \<Rightarrow> bool" where
  "digit_char c \<longleftrightarrow> CHR ''0'' \<le> c \<and> c \<le> CHR ''9''"

text \<open>Plain text and fields; \<open>None\<close> for a text with any other action.\<close>

function tpl_parse :: "string \<Rightarrow> tpl_node list option" where
  "tpl_parse s =
     (if s = [] then Some []
      else if HasPrefix s ''{{'' then
        (let name = takeWhile ident_char (drop 3 s); rest = dropWhile ident_char (drop 3 s)
         in if HasPrefix s ''{{.'' \<and> name \<noteq> [] \<and> \<not> digit_char (hd name) \<and> HasPrefix rest ''}}''
            then map_option (\<lambda>ns. Tpl_field name # ns) (tpl_parse (drop 2 rest))
            else None)
      else map_option (\<lambda>ns. Tpl_text (hd s) # ns) (tpl_parse (tl s)))"
  by pat_completeness auto
termination
proof (relation "measure length")
  show "wf (measure (length :: string \<Rightarrow> nat))" by simp
next
  fix s x xa
  assume "s \<noteq> []" "HasPrefix s ''{{''" "x = takeWhile ident_char (drop 3 s)" "xa = dropWhile ident_char (drop 3 s)"
  have "length (dropWhile ident_char (drop 3 s)) \<le> length (drop 3 s)" by (rule length_dropWhile_le)
  then show "(drop 2 xa, s) \<in> measure length" using \<open>s \<noteq> []\<close> \<open>xa = _\<close> by (cases s) auto
next
  fix s :: string
  assume "s \<noteq> []"
  then show "(tl s, s) \<in> measure length" by (cases s) auto
qed

declare tpl_parse.simps [simp del]

text \<open>A field of a \<open>map[string]string\<close>; a missing key prints as \<open><no value>\<close>.\<close>

definition tpl_node_value :: "(string, string) gomap \<Rightarrow> tpl_node \<Rightarrow> string" where
  "tpl_node_value params n =
     (case n of Tpl_text c \<Rightarrow> [c]
      | Tpl_field f \<Rightarrow> (case map_of params f of None \<Rightarrow> ''<no value>'' | Some v \<Rightarrow> v))"

type_synonym tpl_other = "string \<Rightarrow> (string, string) gomap \<Rightarrow> tpl_result"

definition text_template :: "tpl_other \<Rightarrow> string \<Rightarrow> (string, string) gomap \<Rightarrow> tpl_result" where
  "text_template other text params =
     (case tpl_parse text of
        None \<Rightarrow> other text params
      | Some nodes \<Rightarrow> Tpl_ok (concat (map (tpl_node_value params) nodes)))"

section \<open>Modules\<close>

record RiskProfile =
  RiskProfile_Level :: RiskLevel
  RiskProfile_Reversible :: bool
  RiskProfile_ImpactScope :: string
  RiskProfile_RequiresApproval :: bool
  RiskProfile_MaxAutoRetry :: int

record ModResult =
  Result_Success :: bool
  Result_Output :: string
  Result_Changed :: bool
  Result_Facts :: "(string, string) gomap"

record CheckResult =
  CheckResult_NeedsChange :: bool
  CheckResult_CurrentState :: string

record ExecContext =
  ExecContext_Params :: "(string, string) gomap"
  ExecContext_WorkerInfo :: HostInfo
  ExecContext_Timeout :: Duration
  ExecContext_Service :: "RuntimeServiceProfile option"

datatype Module =
    HostDiagnostics
  | RestartService
  | TemplateModule CommandTemplate

definition mod_Code :: "Module \<Rightarrow> string" where
  "mod_Code m = (case m of HostDiagnostics \<Rightarrow> ''host_diagnostics'' | RestartService \<Rightarrow> ''restart_service''
     | TemplateModule t \<Rightarrow> CommandTemplate_Code t)"

text \<open>The names and descriptions of the built-in modules are Chinese text in UTF-8.\<close>

definition HostDiagnostics_Name :: string where
  "HostDiagnostics_Name =
     [CHR 0xE5, CHR 0xAE, CHR 0xBF, CHR 0xE4, CHR 0xB8, CHR 0xBB, CHR 0xE6, CHR 0x9C,
     CHR 0xBA, CHR 0xE5, CHR 0x81, CHR 0xA5, CHR 0xE5, CHR 0xBA, CHR 0xB7, CHR 0xE5, CHR 0xBF,
     CHR 0xAB, CHR 0xE7, CHR 0x85, CHR 0xA7]"

definition HostDiagnostics_Description :: string where
  "HostDiagnostics_Description =
     [CHR 0xE9, CHR 0x87, CHR 0x87, CHR 0xE9, CHR 0x9B, CHR 0x86, CHR 0xE5, CHR 0xAE,
     CHR 0xBF, CHR 0xE4, CHR 0xB8, CHR 0xBB, CHR 0xE6, CHR 0x9C, CHR 0xBA, CHR 0xE8, CHR 0xB4,
     CHR 0x9F, CHR 0xE8, CHR 0xBD, CHR 0xBD, CHR 0xE3, CHR 0x80, CHR 0x81, CHR 0xE5, CHR 0x86,
     CHR 0x85, CHR 0xE5, CHR 0xAD, CHR 0x98, CHR 0xE5, CHR 0x92, CHR 0x8C, CHR 0xE7, CHR 0xA3,
     CHR 0x81, CHR 0xE7, CHR 0x9B, CHR 0x98, CHR 0xE4, CHR 0xBD, CHR 0xBF, CHR 0xE7, CHR 0x94,
     CHR 0xA8, CHR 0xE6, CHR 0x83, CHR 0x85, CHR 0xE5, CHR 0x86, CHR 0xB5]"

definition RestartService_Name :: string where
  "RestartService_Name =
     [CHR 0xE9, CHR 0x87, CHR 0x8D, CHR 0xE5, CHR 0x90, CHR 0xAF, CHR 0xE5, CHR 0x8F,
     CHR 0x97, CHR 0xE7, CHR 0xAE, CHR 0xA1, CHR 0xE6, CHR 0x9C, CHR 0x8D, CHR 0xE5, CHR 0x8A,
     CHR 0xA1]"

definition RestartService_Description :: string where
  "RestartService_Description =
     [CHR 0xE9, CHR 0x87, CHR 0x8D, CHR 0xE5, CHR 0x90, CHR 0xAF] @
     '' Worker '' @
     [CHR 0xE6, CHR 0x9C, CHR 0xAC, CHR 0xE5, CHR 0x9C, CHR 0xB0] @
     '' ServiceProfile '' @
     [CHR 0xE4, CHR 0xB8, CHR 0xAD, CHR 0xE5, CHR 0x9B, CHR 0xBA, CHR 0xE5, CHR 0xAE,
     CHR 0x9A, CHR 0xE7, CHR 0x9A, CHR 0x84] @
     '' systemd unit''"

definition mod_Name :: "Module \<Rightarrow> string" where
  "mod_Name m = (case m of HostDiagnostics \<Rightarrow> HostDiagnostics_Name | RestartService \<Rightarrow> RestartService_Name
     | TemplateModule t \<Rightarrow> CommandTemplate_Name t)"

definition mod_Description :: "Module \<Rightarrow> string" where
  "mod_Description m = (case m of HostDiagnostics \<Rightarrow> HostDiagnostics_Description
     | RestartService \<Rightarrow> RestartService_Description | TemplateModule t \<Rightarrow> CommandTemplate_Description t)"

definition mod_ToolType :: "Module \<Rightarrow> string" where
  "mod_ToolType m = (case m of TemplateModule t \<Rightarrow> CommandTemplate_ToolType t | _ \<Rightarrow> ''shell'')"

definition mod_RiskLevel :: "Module \<Rightarrow> RiskLevel" where
  "mod_RiskLevel m = (case m of HostDiagnostics \<Rightarrow> RiskLevelLow | RestartService \<Rightarrow> RiskLevelMedium
     | TemplateModule t \<Rightarrow> CommandTemplate_RiskLevel t)"

definition TemplateModule_RiskProfile :: "CommandTemplate \<Rightarrow> RiskProfile" where
  "TemplateModule_RiskProfile t =
     (if CommandTemplate_RiskLevel t = RiskLevelHigh
      then \<lparr>RiskProfile_Level = RiskLevelHigh, RiskProfile_Reversible = False,
            RiskProfile_ImpactScope = ''cluster_wide'', RiskProfile_RequiresApproval = True,
            RiskProfile_MaxAutoRetry = 0\<rparr>
      else if CommandTemplate_RiskLevel t = RiskLevelMedium
      then \<lparr>RiskProfile_Level = RiskLevelMedium, RiskProfile_Reversible = True,
            RiskProfile_ImpactScope = ''single_host'', RiskProfile_RequiresApproval = False,
            RiskProfile_MaxAutoRetry = 0\<rparr>
      else \<lparr>RiskProfile_Level = RiskLevelLow, RiskProfile_Reversible = True,
            RiskProfile_ImpactScope = ''single_host'', RiskProfile_RequiresApproval = False,
            RiskProfile_MaxAutoRetry = 0\<rparr>)"

definition mod_RiskProfile :: "Module \<Rightarrow> RiskProfile" where
  "mod_RiskProfile m =
     (case m of
        HostDiagnostics \<Rightarrow> \<lparr>RiskProfile_Level = RiskLevelLow, RiskProfile_Reversible = True,
          RiskProfile_ImpactScope = ''single_host'', RiskProfile_RequiresApproval = False,
          RiskProfile_MaxAutoRetry = 0\<rparr>
      | RestartService \<Rightarrow> \<lparr>RiskProfile_Level = RiskLevelMedium, RiskProfile_Reversible = True,
          RiskProfile_ImpactScope = ''single_host'', RiskProfile_RequiresApproval = True,
          RiskProfile_MaxAutoRetry = 0\<rparr>
      | TemplateModule t \<Rightarrow> TemplateModule_RiskProfile t)"

definition mod_Parameters :: "Module \<Rightarrow> TemplateParam list" where
  "mod_Parameters m =
     (case m of
        HostDiagnostics \<Rightarrow> []
      | RestartService \<Rightarrow>
          [\<lparr>TemplateParam_Name = ''ServiceProfile'',
            TemplateParam_Description = ''Worker-local profile with a systemd unit'',
            TemplateParam_Required = True, TemplateParam_Default = []\<rparr>,
           \<lparr>TemplateParam_Name = ''ServiceType'',
            TemplateParam_Description = ''Service type of the local profile'',
            TemplateParam_Required = True, TemplateParam_Default = []\<rparr>]
      | TemplateModule t \<Rightarrow> CommandTemplate_Parameters t)"

subsection \<open>Execution\<close>

text \<open>The host: running a program with arguments (its combined output and whether an error was
  returned), and running a shell command with a timeout.\<close>

datatype proc_end = Proc_start_error string | Proc_exited string bool int | Proc_timeout

record 'w host =
  host_exec :: "string list \<Rightarrow> 'w \<Rightarrow> (string \<times> bool) \<times> 'w"
  host_sh :: "string \<Rightarrow> Duration \<Rightarrow> 'w \<Rightarrow> proc_end \<times> 'w"

definition mod_result :: "bool \<Rightarrow> string \<Rightarrow> bool \<Rightarrow> ModResult" where
  "mod_result ok out changed = \<lparr>Result_Success = ok, Result_Output = out, Result_Changed = changed, Result_Facts = []\<rparr>"

definition runShellCommand ::
  "'w host \<Rightarrow> string \<Rightarrow> Duration \<Rightarrow> 'w \<Rightarrow> (ModResult \<times> error option) \<times> 'w" where
  "runShellCommand host cmd timeout w =
     (let timeout = (if timeout \<le> 0 then 30 * Second else timeout)
      in case host_sh host cmd timeout w of
           (Proc_start_error e, w) \<Rightarrow> ((mod_result False e False, Some e), w)
         | (Proc_exited output err code, w) \<Rightarrow>
             if err then ((mod_result False output False, None), w)
             else ((mod_result (code = 0) output True, None), w)
         | (Proc_timeout, w) \<Rightarrow>
             ((mod_result False ''command timed out'' False,
               Some (''command timed out after '' @ Duration_String timeout)), w))"

definition renderCommand :: "tpl_other \<Rightarrow> CommandTemplate \<Rightarrow> (string, string) gomap \<Rightarrow> string res" where
  "renderCommand other t params =
     (case text_template other (CommandTemplate_Command t) params of
        Tpl_parse_error e \<Rightarrow> Inl (''template parse error for '' @ CommandTemplate_Code t @ '': '' @ e)
      | Tpl_exec_error e \<Rightarrow> Inl (''template render error for '' @ CommandTemplate_Code t @ '': '' @ e)
      | Tpl_ok s \<Rightarrow> Inr s)"

fun diagnostics_loop ::
  "'w host \<Rightarrow> string list list \<Rightarrow> string list \<Rightarrow> 'w \<Rightarrow> ModResult \<times> 'w" where
  "diagnostics_loop host [] parts w =
     ((mod_result True (Join parts [CHR 0x0A]) False)\<lparr>Result_Facts := [(''host_diagnostics'', ''collected'')]\<rparr>, w)"
| "diagnostics_loop host (command # commands) parts w =
     (case host_exec host command w of
        ((out, err), w) \<Rightarrow>
          if err then (mod_result False (hd command @ '': '' @ out) False, w)
          else diagnostics_loop host commands
            (parts @ [''$ '' @ Join command '' '' @ [CHR 0x0A] @ out]) w)"

definition diagnostics_commands :: "string list list" where
  "diagnostics_commands = [[''uptime''], [''free'', ''-m''], [''df'', ''-h'']]"

definition restart_needs_unit :: error where
  "restart_needs_unit = ''restart_service requires a Worker-local ServiceProfile with unit''"

definition mod_Execute ::
  "tpl_other \<Rightarrow> 'w host \<Rightarrow> Module \<Rightarrow> ExecContext \<Rightarrow> 'w \<Rightarrow> (ModResult \<times> error option) \<times> 'w" where
  "mod_Execute other host m ctx w =
     (case m of
        HostDiagnostics \<Rightarrow> (case diagnostics_loop host diagnostics_commands [] w of (r, w) \<Rightarrow> ((r, None), w))
      | RestartService \<Rightarrow>
          (case ExecContext_Service ctx of
             None \<Rightarrow> ((mod_result False [] False, Some restart_needs_unit), w)
           | Some p \<Rightarrow>
               if TrimSpace (Profile_Unit p) = []
               then ((mod_result False [] False, Some restart_needs_unit), w)
               else (case host_exec host [''systemctl'', ''restart'', Profile_Unit p] w of
                   ((out, err), w) \<Rightarrow>
                     if err then ((mod_result False out False, None), w)
                     else ((mod_result True (''restarted '' @ Profile_Unit p) True, None), w)))
      | TemplateModule t \<Rightarrow>
          (case renderCommand other t (ExecContext_Params ctx) of
             Inl e \<Rightarrow> ((mod_result False [] False, Some e), w)
           | Inr cmd \<Rightarrow> runShellCommand host cmd (ExecContext_Timeout ctx) w))"

definition mod_DryRun :: "tpl_other \<Rightarrow> Module \<Rightarrow> ExecContext \<Rightarrow> ModResult \<times> error option" where
  "mod_DryRun other m ctx =
     (case m of
        HostDiagnostics \<Rightarrow> (mod_result True ''would collect uptime, memory and disk usage'' False, None)
      | RestartService \<Rightarrow>
          (case ExecContext_Service ctx of
             None \<Rightarrow> (mod_result False [] False, Some restart_needs_unit)
           | Some p \<Rightarrow>
               if Profile_Unit p = [] then (mod_result False [] False, Some restart_needs_unit)
               else (mod_result True (''would restart '' @ Profile_Unit p) True, None))
      | TemplateModule t \<Rightarrow>
          (case renderCommand other t (ExecContext_Params ctx) of
             Inl e \<Rightarrow> (mod_result False [] False, Some e)
           | Inr cmd \<Rightarrow> (mod_result True cmd False, None)))"

section \<open>The registry of modules\<close>

record Registry =
  Registry_modules :: "(string, Module) gomap"

definition NewRegistry :: Registry where
  "NewRegistry = \<lparr>Registry_modules = []\<rparr>"

definition Registry_Register :: "Module \<Rightarrow> Registry \<Rightarrow> Registry" where
  "Registry_Register m r = r\<lparr>Registry_modules := AList.update (mod_Code m) m (Registry_modules r)\<rparr>"

definition Registry_Clear :: "Registry \<Rightarrow> Registry" where
  "Registry_Clear r = r\<lparr>Registry_modules := []\<rparr>"

definition Registry_Get :: "string \<Rightarrow> Registry \<Rightarrow> Module res" where
  "Registry_Get code r =
     (case map_of (Registry_modules r) code of
        None \<Rightarrow> Inl (''module not found: '' @ code) | Some m \<Rightarrow> Inr m)"

definition Registry_List :: "Registry \<Rightarrow> Module list" where
  "Registry_List r = vals (Registry_modules r)"

definition module_template :: "Module \<Rightarrow> CommandTemplate" where
  "module_template m = \<lparr>CommandTemplate_Code = mod_Code m, CommandTemplate_Name = mod_Name m,
     CommandTemplate_Description = mod_Description m, CommandTemplate_ToolType = mod_ToolType m,
     CommandTemplate_Command = [], CommandTemplate_Parameters = mod_Parameters m,
     CommandTemplate_RiskLevel = mod_RiskLevel m\<rparr>"

definition ListAsTemplates :: "Registry \<Rightarrow> CommandTemplate list" where
  "ListAsTemplates r = map module_template (vals (Registry_modules r))"

section \<open>The template engine\<close>

record Template_Engine =
  Engine_templates :: "(string, CommandTemplate) gomap"

definition Template_NewEngine :: Template_Engine where
  "Template_NewEngine = \<lparr>Engine_templates = []\<rparr>"

definition RegisterModule :: "Module \<Rightarrow> Template_Engine \<Rightarrow> Template_Engine" where
  "RegisterModule m e =
     (if map_of (Engine_templates e) (mod_Code m) \<noteq> None then e
      else e\<lparr>Engine_templates := AList.update (mod_Code m) (module_template m) (Engine_templates e)\<rparr>)"

definition GetTemplate :: "string \<Rightarrow> Template_Engine \<Rightarrow> CommandTemplate option" where
  "GetTemplate code e = map_of (Engine_templates e) code"

definition RegisterTemplate :: "CommandTemplate \<Rightarrow> Template_Engine \<Rightarrow> Template_Engine" where
  "RegisterTemplate t e = e\<lparr>Engine_templates := AList.update (CommandTemplate_Code t) t (Engine_templates e)\<rparr>"

definition ListTemplates :: "Template_Engine \<Rightarrow> CommandTemplate list" where
  "ListTemplates e = vals (Engine_templates e)"

text \<open>The loop over the declared parameters: defaults and required values.\<close>

fun merge_params ::
  "TemplateParam list \<Rightarrow> (string, string) gomap \<Rightarrow> (string, string) gomap \<Rightarrow> (string, string) gomap res" where
  "merge_params [] params merged = Inr merged"
| "merge_params (p # ps) params merged =
     (let val = param params (TemplateParam_Name p)
      in if map_of params (TemplateParam_Name p) = None \<or> val = []
         then if TemplateParam_Default p \<noteq> []
              then merge_params ps params (AList.update (TemplateParam_Name p) (TemplateParam_Default p) merged)
              else if TemplateParam_Required p
              then Inl (''required parameter missing: '' @ TemplateParam_Name p)
              else merge_params ps params merged
         else merge_params ps params (AList.update (TemplateParam_Name p) val merged))"

definition Render ::
  "tpl_other \<Rightarrow> Template_Engine \<Rightarrow> string \<Rightarrow> (string, string) gomap \<Rightarrow> (CommandTemplate \<times> string) res" where
  "Render other e code params =
     (case map_of (Engine_templates e) code of
        None \<Rightarrow> Inl (''template not found: '' @ code)
      | Some tmpl \<Rightarrow>
          (case merge_params (CommandTemplate_Parameters tmpl) params [] of
             Inl err \<Rightarrow> Inl err
           | Inr merged \<Rightarrow>
               (case text_template other (CommandTemplate_Command tmpl) merged of
                  Tpl_parse_error err \<Rightarrow> Inl (''template parse error: '' @ err)
                | Tpl_exec_error err \<Rightarrow> Inl (''template render error: '' @ err)
                | Tpl_ok s \<Rightarrow> Inr (tmpl, s))))"

section \<open>Rendering\<close>

text \<open>The value of a declared parameter: what was given, or its default.\<close>

definition param_value :: "(string, string) gomap \<Rightarrow> TemplateParam \<Rightarrow> string" where
  "param_value params p =
     (if param params (TemplateParam_Name p) = [] then TemplateParam_Default p
      else param params (TemplateParam_Name p))"

definition param_missing :: "(string, string) gomap \<Rightarrow> TemplateParam \<Rightarrow> bool" where
  "param_missing params p \<longleftrightarrow> TemplateParam_Required p \<and> param_value params p = []"

lemma merge_params_step:
  "\<not> param_missing params p \<Longrightarrow> merge_params (p # ps) params merged =
     merge_params ps params (if param_value params p = [] then merged
       else AList.update (TemplateParam_Name p) (param_value params p) merged)"
  by (auto simp: Let_def param_missing_def param_value_def param_def split: option.splits)

lemma merge_params_lookup:
  assumes "\<not> list_ex (param_missing params) ps" "distinct (map TemplateParam_Name ps)"
  shows "\<exists>m. merge_params ps params merged = Inr m \<and> map_of m k =
    (case find (\<lambda>p. TemplateParam_Name p = k \<and> param_value params p \<noteq> []) ps of
       None \<Rightarrow> map_of merged k | Some p \<Rightarrow> Some (param_value params p))"
  using assms
proof (induction ps arbitrary: merged)
  case (Cons p ps)
  have nm: "\<not> param_missing params p" using Cons.prems(1) by simp
  have none: "find (\<lambda>q. TemplateParam_Name q = TemplateParam_Name p \<and> param_value params q \<noteq> []) ps = None"
  proof -
    have "TemplateParam_Name p \<notin> TemplateParam_Name ` set ps" using Cons.prems(2) by simp
    then have "TemplateParam_Name q \<noteq> TemplateParam_Name p" if "q \<in> set ps" for q
      using that by (metis imageI)
    then show ?thesis unfolding find_None_iff by blast
  qed
  let ?m = "if param_value params p = [] then merged
       else AList.update (TemplateParam_Name p) (param_value params p) merged"
  obtain m where "merge_params ps params ?m = Inr m" "map_of m k =
      (case find (\<lambda>p. TemplateParam_Name p = k \<and> param_value params p \<noteq> []) ps of
         None \<Rightarrow> map_of ?m k | Some p \<Rightarrow> Some (param_value params p))"
    using Cons.IH[of ?m] Cons.prems by auto
  then show ?case
    using merge_params_step[OF nm] none by (auto split: if_splits option.splits)
qed simp

text \<open>What a field of a template is replaced by.\<close>

definition field_value :: "TemplateParam list \<Rightarrow> (string, string) gomap \<Rightarrow> string \<Rightarrow> string" where
  "field_value ps params f =
     (case find (\<lambda>p. TemplateParam_Name p = f \<and> param_value params p \<noteq> []) ps of
        None \<Rightarrow> ''<no value>'' | Some p \<Rightarrow> param_value params p)"

section \<open>Properties\<close>

text \<open>Rendering of a registered template whose command is text with fields: it fails, naming the
  parameter, exactly when a required parameter has neither a value nor a default; otherwise every
  field is replaced, once and in place, by the value given for the declared parameter or its default.
  Parameters the template does not declare have no effect.\<close>

lemma Render_exact:
  assumes "map_of (Engine_templates e) code = Some t" "tpl_parse (CommandTemplate_Command t) = Some nodes"
    and "distinct (map TemplateParam_Name (CommandTemplate_Parameters t))"
  shows "Render other e code params =
    (case find (param_missing params) (CommandTemplate_Parameters t) of
       Some p \<Rightarrow> Inl (''required parameter missing: '' @ TemplateParam_Name p)
     | None \<Rightarrow> Inr (t, concat (map (\<lambda>n. case n of Tpl_text c \<Rightarrow> [c]
         | Tpl_field f \<Rightarrow> field_value (CommandTemplate_Parameters t) params f) nodes)))"
proof (cases "find (param_missing params) (CommandTemplate_Parameters t)")
  case (Some p)
  have "merge_params ps params m = Inl (''required parameter missing: '' @ TemplateParam_Name p)"
    if "find (param_missing params) ps = Some p" for ps m
    using that
  proof (induction ps arbitrary: m)
    case (Cons q ps)
    show ?case
    proof (cases "param_missing params q")
      case True
      then show ?thesis
        using Cons.prems by (auto simp: Let_def param_missing_def param_value_def param_def split: option.splits if_splits)
    next
      case False
      then show ?thesis using Cons merge_params_step[OF False] by simp
    qed
  qed simp
  then show ?thesis using Some assms(1) by (simp add: Render_def)
next
  case None
  then have nm: "\<not> list_ex (param_missing params) (CommandTemplate_Parameters t)"
    by (auto simp: find_None_iff list_ex_iff)
  obtain m where m: "merge_params (CommandTemplate_Parameters t) params [] = Inr m"
    using merge_params_lookup[OF nm assms(3)] by blast
  have "map_of m f = (case find (\<lambda>p. TemplateParam_Name p = f \<and> param_value params p \<noteq> []) (CommandTemplate_Parameters t) of
      None \<Rightarrow> None | Some p \<Rightarrow> Some (param_value params p))" for f
    using merge_params_lookup[OF nm assms(3), of "[]" f] m by (auto split: option.splits)
  then have "tpl_node_value m = (\<lambda>n. case n of Tpl_text c \<Rightarrow> [c]
      | Tpl_field f \<Rightarrow> field_value (CommandTemplate_Parameters t) params f)"
    by (auto simp: fun_eq_iff tpl_node_value_def field_value_def split: tpl_node.splits option.splits)
  then show ?thesis
    using None assms m by (simp add: Render_def text_template_def)
qed

definition df_template :: CommandTemplate where
  "df_template = \<lparr>CommandTemplate_Code = ''disk'', CommandTemplate_Name = ''disk'', CommandTemplate_Description = [],
     CommandTemplate_ToolType = ''shell'', CommandTemplate_Command = ''df -h {{.Path}}'',
     CommandTemplate_Parameters = [\<lparr>TemplateParam_Name = ''Path'', TemplateParam_Description = [],
       TemplateParam_Required = True, TemplateParam_Default = []\<rparr>],
     CommandTemplate_RiskLevel = RiskLevelLow\<rparr>"

theorem Render_exact_witness:
  "Render (\<lambda>s p. Tpl_exec_error []) (RegisterTemplate df_template Template_NewEngine) ''disk'' [(''Path'', ''/var; {{.X}}'')] =
     Inr (df_template, ''df -h /var; {{.X}}'')"
proof -
  have "tpl_parse (CommandTemplate_Command df_template) =
      Some (map Tpl_text ''df -h '' @ [Tpl_field ''Path''])" by code_simp
  moreover have "map_of (Engine_templates (RegisterTemplate df_template Template_NewEngine)) ''disk'' = Some df_template"
    by (simp add: RegisterTemplate_def Template_NewEngine_def df_template_def)
  moreover have "distinct (map TemplateParam_Name (CommandTemplate_Parameters df_template))"
    by (simp add: df_template_def)
  ultimately show ?thesis
    using Render_exact[of "RegisterTemplate df_template Template_NewEngine" "''disk''" df_template _ "\<lambda>s p. Tpl_exec_error []"
        "[(''Path'', ''/var; {{.X}}'')]"]
    by (simp add: df_template_def param_missing_def param_value_def param_def field_value_def)
qed

text \<open>A dry run of a module previews its execution: when the dry run of a template reports success, its
  output is exactly the command line that execution hands to the shell; when it reports an error, so
  does execution, and the host is untouched.\<close>

lemma DryRun_previews:
  "case mod_DryRun other (TemplateModule t) ctx of
     (res, None) \<Rightarrow> mod_Execute other host (TemplateModule t) ctx w =
        runShellCommand host (Result_Output res) (ExecContext_Timeout ctx) w
   | (res, Some e) \<Rightarrow> mod_Execute other host (TemplateModule t) ctx w = ((mod_result False [] False, Some e), w)"
  by (simp add: mod_DryRun_def mod_Execute_def mod_result_def split: sum.split)

end
