(* ===== verification/Json.thy ===== *)
theory Json
  imports Prelude
begin

text \<open>
  The part of \<open>encoding/json\<close> and \<open>unicode/utf8\<close> that the sources use: values, the text that
  \<open>Marshal\<close> writes, the texts that \<open>Unmarshal\<close> and \<open>Valid\<close> accept, and the decoding of strings. A
  number keeps its literal. Rejected texts all give one error: the wording of Go's syntax errors is
  not modelled. The main lemma is that what is written is read back.
\<close>

section \<open>Values\<close>

datatype jval =
    JNull
  | JBool bool
  | JNum string
  | JStr string
  | JArr "jval list"
  | JObj "(string \<times> jval) list"

section \<open>UTF-8\<close>

abbreviation byte :: "char \<Rightarrow> nat" where
  "byte \<equiv> of_char"

definition between :: "nat \<Rightarrow> nat \<Rightarrow> char \<Rightarrow> bool" where
  "between a b c \<longleftrightarrow> a \<le> byte c \<and> byte c \<le> b"

abbreviation cont :: "char \<Rightarrow> bool" where
  "cont \<equiv> between 0x80 0xBF"

text \<open>The valid first bytes and the ranges of the second one, for sequences of three and four bytes.\<close>

definition three_bytes :: "char \<Rightarrow> char \<Rightarrow> char \<Rightarrow> bool" where
  "three_bytes a b c \<longleftrightarrow>
     byte a = 0xE0 \<and> between 0xA0 0xBF b \<and> cont c \<or>
     (between 0xE1 0xEC a \<or> between 0xEE 0xEF a) \<and> cont b \<and> cont c \<or>
     byte a = 0xED \<and> between 0x80 0x9F b \<and> cont c"

definition four_bytes :: "char \<Rightarrow> char \<Rightarrow> char \<Rightarrow> char \<Rightarrow> bool" where
  "four_bytes a b c d \<longleftrightarrow>
     (byte a = 0xF0 \<and> between 0x90 0xBF b \<or> between 0xF1 0xF3 a \<and> cont b \<or>
      byte a = 0xF4 \<and> between 0x80 0x8F b) \<and> cont c \<and> cont d"

text \<open>\<open>utf8.DecodeRune\<close>: the length of the sequence at the head of a string, or 0 when it is not a valid
  encoding.\<close>

definition rune_size :: "string \<Rightarrow> nat" where
  "rune_size s =
     (case s of
        a # t \<Rightarrow>
          if byte a < 0x80 then 1
          else (case t of
            b # u \<Rightarrow>
              if between 0xC2 0xDF a then (if cont b then 2 else 0)
              else (case u of
                c # v \<Rightarrow>
                  if three_bytes a b c then 3
                  else (case v of
                    d # _ \<Rightarrow>
                      if four_bytes a b c d then 4 else 0
                  | [] \<Rightarrow> 0)
              | [] \<Rightarrow> 0)
          | [] \<Rightarrow> 0)
      | [] \<Rightarrow> 0)"

definition replacement :: string where
  "replacement = [CHR 0xEF, CHR 0xBF, CHR 0xBD]"

text \<open>\<open>utf8.EncodeRune\<close>.\<close>

definition encode_rune :: "nat \<Rightarrow> string" where
  "encode_rune u =
     (if u < 0x80 then [char_of u]
      else if u < 0x800 then [char_of (0xC0 + u div 64), char_of (0x80 + u mod 64)]
      else if u \<ge> 0x110000 \<or> 0xD800 \<le> u \<and> u < 0xE000 then replacement
      else if u < 0x10000 then [char_of (0xE0 + u div 4096), char_of (0x80 + u div 64 mod 64), char_of (0x80 + u mod 64)]
      else [char_of (0xF0 + u div 262144), char_of (0x80 + u div 4096 mod 64), char_of (0x80 + u div 64 mod 64),
            char_of (0x80 + u mod 64)])"

section \<open>Reading\<close>

definition ws :: "char \<Rightarrow> bool" where
  "ws c \<longleftrightarrow> c \<in> {CHR 0x20, CHR 0x09, CHR 0x0D, CHR 0x0A}"

definition skip_ws :: "string \<Rightarrow> string" where
  "skip_ws s = dropWhile ws s"

definition hex_digit :: "char \<Rightarrow> nat option" where
  "hex_digit c =
     (if between 0x30 0x39 c then Some (byte c - 0x30)
      else if between 0x61 0x66 c then Some (byte c - 0x57)
      else if between 0x41 0x46 c then Some (byte c - 0x37) else None)"

definition hex4 :: "string \<Rightarrow> nat option" where
  "hex4 s =
     (case s of a # b # c # d # _ \<Rightarrow>
        (case (hex_digit a, hex_digit b, hex_digit c, hex_digit d) of
           (Some w, Some x, Some y, Some z) \<Rightarrow> Some (4096 * w + 256 * x + 16 * y + z)
         | _ \<Rightarrow> None)
      | _ \<Rightarrow> None)"

definition unescape :: "char \<Rightarrow> char option" where
  "unescape c =
     (if c \<in> {CHR 0x22, CHR 0x5C, CHR 0x2F} then Some c
      else if c = CHR 0x62 then Some (CHR 0x08)
      else if c = CHR 0x66 then Some (CHR 0x0C)
      else if c = CHR 0x6E then Some (CHR 0x0A)
      else if c = CHR 0x72 then Some (CHR 0x0D)
      else if c = CHR 0x74 then Some (CHR 0x09) else None)"

text \<open>The code point of an escape \<open>\uXXXX\<close> whose value is \<open>u\<close>, followed by \<open>s\<close>: a surrogate takes the
  escape after it when the two form a pair.\<close>

definition escaped_rune :: "nat \<Rightarrow> string \<Rightarrow> nat \<times> string" where
  "escaped_rune u s =
     (if 0xD800 \<le> u \<and> u < 0xE000
      then (case s of
          a # b # t \<Rightarrow>
            (case (if a = CHR 0x5C \<and> b = CHR 0x75 then hex4 t else None) of
               Some v \<Rightarrow> if u < 0xDC00 \<and> 0xDC00 \<le> v \<and> v < 0xE000
                 then (0x10000 + (u - 0xD800) * 1024 + (v - 0xDC00), drop 4 t) else (0xFFFD, s)
             | None \<Rightarrow> (0xFFFD, s))
        | _ \<Rightarrow> (0xFFFD, s))
      else (u, s))"

lemma escaped_rune_shorter [simp]: "length (snd (escaped_rune u s)) \<le> length s"
  by (auto simp: escaped_rune_def split: list.split option.split)

lemma escaped_rune_drop [simp]: "length (snd (escaped_rune u (drop n s))) < Suc (Suc (length s))"
  using escaped_rune_shorter[of u "drop n s"] by (simp del: escaped_rune_shorter)

text \<open>The text after the opening quote of a string: its value, and what follows the closing quote.\<close>

function unquote :: "string \<Rightarrow> (string \<times> string) option" where
  "unquote [] = None"
| "unquote (c # s) =
     (if c = CHR 0x22 then Some ([], s)
      else if c = CHR 0x5C
      then (case s of
          [] \<Rightarrow> None
        | e # t \<Rightarrow>
            (case unescape e of
               Some d \<Rightarrow> map_option (apfst (Cons d)) (unquote t)
             | None \<Rightarrow>
                 if e = CHR 0x75
                 then (case hex4 t of
                     None \<Rightarrow> None
                   | Some u \<Rightarrow>
                       map_option (apfst (append (encode_rune (fst (escaped_rune u (drop 4 t))))))
                         (unquote (snd (escaped_rune u (drop 4 t)))))
                 else None))
      else if byte c < 0x20 then None
      else if rune_size (c # s) = 0 then map_option (apfst (append replacement)) (unquote s)
      else map_option (apfst (append (take (rune_size (c # s)) (c # s)))) (unquote (drop (rune_size (c # s) - 1) s)))"
  by pat_completeness auto
termination by (relation "measure length") auto

declare unquote.simps(2) [simp del]

text \<open>Numbers: \<open>span\<close> of digits, and the grammar of the literal. Once a fraction or an exponent has
  begun it must have a digit.\<close>

definition is_digit :: "char \<Rightarrow> bool" where
  "is_digit = between 0x30 0x39"

definition digits :: "string \<Rightarrow> string \<times> string" where
  "digits s = (takeWhile is_digit s, dropWhile is_digit s)"

definition num_int :: "string \<Rightarrow> (string \<times> string) option" where
  "num_int s =
     (case s of
        [] \<Rightarrow> None
      | c # t \<Rightarrow> if c = CHR 0x30 then Some ([c], t)
                else if is_digit c then Some (digits s) else None)"

definition num_frac :: "string \<Rightarrow> (string \<times> string) option" where
  "num_frac s =
     (case s of
        c # t \<Rightarrow> if c = CHR 0x2E
          then (case digits t of (ds, r) \<Rightarrow> if ds = [] then None else Some (c # ds, r))
          else Some ([], s)
      | [] \<Rightarrow> Some ([], s))"

definition num_exp :: "string \<Rightarrow> (string \<times> string) option" where
  "num_exp s =
     (case s of
        c # t \<Rightarrow> if c = CHR 0x65 \<or> c = CHR 0x45
          then (let sign = (case t of d # _ \<Rightarrow> if d = CHR 0x2B \<or> d = CHR 0x2D then [d] else [] | [] \<Rightarrow> [])
                in case digits (drop (length sign) t) of (ds, r) \<Rightarrow>
                     if ds = [] then None else Some (c # sign @ ds, r))
          else Some ([], s)
      | [] \<Rightarrow> Some ([], s))"

definition number :: "string \<Rightarrow> (string \<times> string) option" where
  "number s =
     (let sign = (case s of c # _ \<Rightarrow> if c = CHR 0x2D then [c] else [] | [] \<Rightarrow> [])
      in case num_int (drop (length sign) s) of
           None \<Rightarrow> None
         | Some (i, r) \<Rightarrow>
             (case num_frac r of
                None \<Rightarrow> None
              | Some (f, r) \<Rightarrow>
                  (case num_exp r of
                     None \<Rightarrow> None
                   | Some (e, r) \<Rightarrow> Some (sign @ i @ f @ e, r))))"

definition literal :: "string \<Rightarrow> jval \<Rightarrow> string \<Rightarrow> (jval \<times> string) option" where
  "literal word v s = (if HasPrefix s word then Some (v, drop (length word) s) else None)"

text \<open>\<open>fuel\<close> bounds the calls, \<open>depth\<close> the nesting that Go still allows.\<close>

fun json_value :: "nat \<Rightarrow> int \<Rightarrow> string \<Rightarrow> (jval \<times> string) option"
  and json_items :: "nat \<Rightarrow> int \<Rightarrow> string \<Rightarrow> (jval list \<times> string) option"
  and json_fields :: "nat \<Rightarrow> int \<Rightarrow> string \<Rightarrow> ((string \<times> jval) list \<times> string) option" where
  "json_value 0 depth s = None"
| "json_value (Suc fuel) depth s =
     (case skip_ws s of
        [] \<Rightarrow> None
      | c # t \<Rightarrow>
          if c = CHR 0x22 then map_option (apfst JStr) (unquote t)
          else if c = CHR 0x5B
          then (if depth \<le> 0 then None
                else case skip_ws t of
                    d # r \<Rightarrow> if d = CHR 0x5D then Some (JArr [], r)
                      else map_option (apfst JArr) (json_items fuel (depth - 1) t)
                  | [] \<Rightarrow> None)
          else if c = CHR 0x7B
          then (if depth \<le> 0 then None
                else case skip_ws t of
                    d # r \<Rightarrow> if d = CHR 0x7D then Some (JObj [], r)
                      else map_option (apfst JObj) (json_fields fuel (depth - 1) t)
                  | [] \<Rightarrow> None)
          else if c = CHR 0x74 then literal ''true'' (JBool True) (c # t)
          else if c = CHR 0x66 then literal ''false'' (JBool False) (c # t)
          else if c = CHR 0x6E then literal ''null'' JNull (c # t)
          else map_option (apfst JNum) (number (c # t)))"
| "json_items 0 depth s = None"
| "json_items (Suc fuel) depth s =
     (case json_value fuel depth s of
        None \<Rightarrow> None
      | Some (v, r) \<Rightarrow>
          (case skip_ws r of
             [] \<Rightarrow> None
           | c # t \<Rightarrow>
               if c = CHR 0x2C then map_option (apfst (Cons v)) (json_items fuel depth t)
               else if c = CHR 0x5D then Some ([v], t) else None))"
| "json_fields 0 depth s = None"
| "json_fields (Suc fuel) depth s =
     (case skip_ws s of
        [] \<Rightarrow> None
      | q # t \<Rightarrow>
          if q \<noteq> CHR 0x22 then None
          else (case unquote t of
              None \<Rightarrow> None
            | Some (k, r) \<Rightarrow>
                (case skip_ws r of
                   [] \<Rightarrow> None
                 | c # r' \<Rightarrow>
                     if c \<noteq> CHR 0x3A then None
                     else (case json_value fuel depth r' of
                         None \<Rightarrow> None
                       | Some (v, r) \<Rightarrow>
                           (case skip_ws r of
                              [] \<Rightarrow> None
                            | c # t \<Rightarrow>
                                if c = CHR 0x2C then map_option (apfst (Cons (k, v))) (json_fields fuel depth t)
                                else if c = CHR 0x7D then Some ([(k, v)], t) else None)))))"

definition json_syntax :: error where
  "json_syntax = ''invalid JSON''"

definition json_parse :: "string \<Rightarrow> jval res" where
  "json_parse s =
     (case json_value (2 * length s + 2) 10000 s of
        None \<Rightarrow> Inl json_syntax
      | Some (v, r) \<Rightarrow> if skip_ws r = [] then Inr v else Inl json_syntax)"

definition json_Valid :: "string \<Rightarrow> bool" where
  "json_Valid s \<longleftrightarrow> \<not> isl (json_parse s)"

section \<open>Writing\<close>

definition hex_char :: "nat \<Rightarrow> char" where
  "hex_char n = (if n < 10 then char_of (0x30 + n) else char_of (0x57 + n))"

definition u00 :: "char \<Rightarrow> string" where
  "u00 c = [CHR 0x5C, CHR 0x75, CHR 0x30, CHR 0x30, hex_char (byte c div 16), hex_char (byte c mod 16)]"

definition escape_ascii :: "char \<Rightarrow> string" where
  "escape_ascii c =
     (if c = CHR 0x22 \<or> c = CHR 0x5C then [CHR 0x5C, c]
      else if c = CHR 0x08 then [CHR 0x5C, CHR 0x62]
      else if c = CHR 0x0C then [CHR 0x5C, CHR 0x66]
      else if c = CHR 0x0A then [CHR 0x5C, CHR 0x6E]
      else if c = CHR 0x0D then [CHR 0x5C, CHR 0x72]
      else if c = CHR 0x09 then [CHR 0x5C, CHR 0x74]
      else if byte c < 0x20 \<or> c = CHR 0x3C \<or> c = CHR 0x3E \<or> c = CHR 0x26 then u00 c
      else [c])"

text \<open>The two line separators that are escaped although they are printable UTF-8.\<close>

definition escape_rune :: "string \<Rightarrow> string" where
  "escape_rune r =
     (if r = [CHR 0xE2, CHR 0x80, CHR 0xA8] then [CHR 0x5C] @ ''u2028''
      else if r = [CHR 0xE2, CHR 0x80, CHR 0xA9] then [CHR 0x5C] @ ''u2029''
      else r)"

function escape :: "string \<Rightarrow> string" where
  "escape [] = []"
| "escape (c # s) =
     (if byte c < 0x80 then escape_ascii c @ escape s
      else if rune_size (c # s) = 0 then [CHR 0x5C] @ ''ufffd'' @ escape s
      else escape_rune (take (rune_size (c # s)) (c # s)) @ escape (drop (rune_size (c # s) - 1) s))"
  by pat_completeness auto
termination by (relation "measure length") auto

declare escape.simps(2) [simp del]

definition json_quote :: "string \<Rightarrow> string" where
  "json_quote s = [CHR 0x22] @ escape s @ [CHR 0x22]"

fun json_print :: "jval \<Rightarrow> string" where
  "json_print JNull = ''null''"
| "json_print (JBool b) = (if b then ''true'' else ''false'')"
| "json_print (JNum n) = n"
| "json_print (JStr s) = json_quote s"
| "json_print (JArr vs) = [CHR 0x5B] @ Join (map json_print vs) [CHR 0x2C] @ [CHR 0x5D]"
| "json_print (JObj kvs) =
     [CHR 0x7B] @ Join (map (\<lambda>kv. json_quote (fst kv) @ [CHR 0x3A] @ json_print (snd kv)) kvs) [CHR 0x2C] @ [CHR 0x7D]"

section \<open>Decoding into structs\<close>

text \<open>
  Decoding into a struct: keys match a field in any letter case, the last occurrence of a key wins,
  \<open>null\<close> changes nothing, and a value of the wrong type makes \<open>Unmarshal\<close> return an error after the
  rest was decoded (its text is not modelled further).
\<close>

definition json_mismatch :: error where
  "json_mismatch = ''json: cannot unmarshal value into Go struct field''"

definition decode_string :: "jval \<Rightarrow> string \<Rightarrow> string \<times> error option" where
  "decode_string v old =
     (case v of JStr s \<Rightarrow> (s, None) | JNull \<Rightarrow> (old, None) | _ \<Rightarrow> (old, Some json_mismatch))"

definition decode_strings :: "jval \<Rightarrow> string list \<Rightarrow> string list \<times> error option" where
  "decode_strings v old =
     (case v of
        JNull \<Rightarrow> ([], None)
      | JArr vs \<Rightarrow>
          (map2 (\<lambda>i x. fst (decode_string x (if i < length old then old ! i else []))) [0..<length vs] vs,
           if list_ex (\<lambda>x. snd (decode_string x []) \<noteq> None) vs then Some json_mismatch else None)
      | _ \<Rightarrow> (old, Some json_mismatch))"

text \<open>An integer field: the literal must be an integer that fits 64 bits.\<close>

definition parse_int :: "string \<Rightarrow> int option" where
  "parse_int n =
     (let ds = (case n of c # t \<Rightarrow> if c = CHR 0x2D then t else n | [] \<Rightarrow> []);
          k = (if ds \<noteq> n then - int (undec ds) else int (undec ds))
      in if ds \<noteq> [] \<and> list_all is_digit ds \<and> - (2 ^ 63) \<le> k \<and> k < 2 ^ 63 then Some k else None)"

definition decode_int :: "jval \<Rightarrow> int \<Rightarrow> int \<times> error option" where
  "decode_int v old =
     (case v of
        JNum n \<Rightarrow> (case parse_int n of Some k \<Rightarrow> (k, None) | None \<Rightarrow> (old, Some json_mismatch))
      | JNull \<Rightarrow> (old, None)
      | _ \<Rightarrow> (old, Some json_mismatch))"

definition decode_bool :: "jval \<Rightarrow> bool \<Rightarrow> bool \<times> error option" where
  "decode_bool v old =
     (case v of JBool b \<Rightarrow> (b, None) | JNull \<Rightarrow> (old, None) | _ \<Rightarrow> (old, Some json_mismatch))"

text \<open>A field of type \<open>map[string]string\<close>: \<open>None\<close> is the nil map.\<close>

definition decode_string_map ::
  "jval \<Rightarrow> (string, string) gomap option \<Rightarrow> (string, string) gomap option \<times> error option" where
  "decode_string_map v old =
     (case v of
        JNull \<Rightarrow> (None, None)
      | JObj kvs \<Rightarrow>
          (Some (foldl (\<lambda>m kv. AList.update (fst kv) (fst (decode_string (snd kv) [])) m)
              (case old of Some m \<Rightarrow> m | None \<Rightarrow> []) kvs),
           if list_ex (\<lambda>kv. snd (decode_string (snd kv) []) \<noteq> None) kvs then Some json_mismatch else None)
      | _ \<Rightarrow> (old, Some json_mismatch))"

text \<open>
  A struct is decoded by one decoder per field, each built from the field's selector and update
  function. The first error is kept. \<open>strict\<close> is \<open>DisallowUnknownFields\<close>.
\<close>

type_synonym 'r field_decoder = "string \<times> (jval \<Rightarrow> 'r \<Rightarrow> 'r \<times> error option)"

definition struct_field ::
  "string \<Rightarrow> (jval \<Rightarrow> 'a \<Rightarrow> 'a \<times> error option) \<Rightarrow> ('r \<Rightarrow> 'a) \<Rightarrow> (('a \<Rightarrow> 'a) \<Rightarrow> 'r \<Rightarrow> 'r) \<Rightarrow> 'r field_decoder" where
  "struct_field name decode get update =
     (name, \<lambda>v r. case decode v (get r) of (x, e) \<Rightarrow> (update (\<lambda>_. x) r, e))"

definition decode_key ::
  "bool \<Rightarrow> 'r field_decoder list \<Rightarrow> 'r \<times> error option \<Rightarrow> string \<times> jval \<Rightarrow> 'r \<times> error option" where
  "decode_key strict fields st kv =
     (case st of (r, err) \<Rightarrow>
        (case find (\<lambda>f. EqualFold (fst kv) (fst f)) fields of
           Some f \<Rightarrow> (case snd f (snd kv) r of (r', e) \<Rightarrow> (r', if err = None then e else err))
         | None \<Rightarrow> (r, if err = None \<and> strict then Some (''json: unknown field '' @ quoted (fst kv)) else err)))"

definition decode_struct :: "bool \<Rightarrow> 'r field_decoder list \<Rightarrow> jval \<Rightarrow> 'r \<Rightarrow> 'r \<times> error option" where
  "decode_struct strict fields v r =
     (case v of
        JObj kvs \<Rightarrow> foldl (decode_key strict fields) (r, None) kvs
      | JNull \<Rightarrow> (r, None)
      | _ \<Rightarrow> (r, Some json_mismatch))"

text \<open>\<open>json.Unmarshal\<close>, and \<open>Decoder.Decode\<close>, which reads the first value only.\<close>

definition json_Unmarshal :: "'r field_decoder list \<Rightarrow> string \<Rightarrow> 'r \<Rightarrow> 'r res" where
  "json_Unmarshal fields raw r =
     (case json_parse raw of
        Inl e \<Rightarrow> Inl e
      | Inr v \<Rightarrow> (case decode_struct False fields v r of (r', Some e) \<Rightarrow> Inl e | (r', None) \<Rightarrow> Inr r'))"

definition json_Decode :: "'r field_decoder list \<Rightarrow> string \<Rightarrow> 'r \<Rightarrow> 'r res" where
  "json_Decode fields raw r =
     (case json_value (2 * length raw + 2) 10000 raw of
        None \<Rightarrow> Inl json_syntax
      | Some (v, rest) \<Rightarrow>
          (case decode_struct True fields v r of (r', Some e) \<Rightarrow> Inl e | (r', None) \<Rightarrow> Inr r'))"

section \<open>Strings are read back\<close>

lemma rune_size_le: "rune_size s \<le> length s"
  by (auto simp: rune_size_def split: list.splits)

lemma rune_size_ascii [simp]: "byte c < 0x80 \<Longrightarrow> rune_size (c # s) = Suc 0"
  by (simp add: rune_size_def)

lemma rune_size_append:
  assumes "rune_size s \<noteq> 0"
  shows "rune_size (take (rune_size s) s @ t) = rune_size s"
proof (cases s)
  case (Cons a t)
  note s = this
  show ?thesis
  proof (cases "byte a < 0x80")
    case False
    with assms s obtain b u where t: "t = b # u" by (cases t) (auto simp: rune_size_def)
    show ?thesis
    proof (cases "between 0xC2 0xDF a")
      case True
      then show ?thesis using assms False unfolding s t by (simp add: rune_size_def split: if_splits)
    next
      case two: False
      with assms False s t obtain c v where u: "u = c # v" by (cases u) (auto simp: rune_size_def)
      show ?thesis
      proof (cases "rune_size s = 3")
        case True
        then show ?thesis using False two unfolding s t u
          by (simp add: rune_size_def split: if_splits list.splits)
      next
        case three: False
        with assms False two s t u obtain d w where "v = d # w" "rune_size s = 4"
          by (cases v) (auto simp: rune_size_def split: if_splits)
        then show ?thesis using False two unfolding s t u
          by (simp add: rune_size_def split: if_splits)
      qed
    qed
  qed (simp add: s)
qed (use assms in \<open>simp add: rune_size_def\<close>)

text \<open>Valid UTF-8: the only strings that survive encoding.\<close>

function utf8_valid :: "string \<Rightarrow> bool" where
  "utf8_valid [] = True"
| "utf8_valid (c # s) = (rune_size (c # s) \<noteq> 0 \<and> utf8_valid (drop (rune_size (c # s) - 1) s))"
  by pat_completeness auto
termination by (relation "measure length") auto

declare utf8_valid.simps(2) [simp del]

lemma utf8_valid_ascii: "list_all (\<lambda>c. byte c < 0x80) s \<Longrightarrow> utf8_valid s"
  by (induction s) (auto simp: utf8_valid.simps(2))

lemma hex_digit_hex_char: "n < 16 \<Longrightarrow> hex_digit (hex_char n) = Some n"
  by (auto simp: hex_char_def hex_digit_def between_def)

lemma unquote_u00:
  assumes "byte c < 0x80"
  shows "unquote (u00 c @ t) = map_option (apfst (Cons c)) (unquote t)"
proof -
  have "hex4 (CHR 0x30 # CHR 0x30 # hex_char (byte c div 16) # hex_char (byte c mod 16) # t) = Some (byte c)"
  proof -
    have "hex_digit (CHR 0x30) = Some 0" by (simp add: hex_digit_def between_def)
    then show ?thesis using assms by (simp add: hex4_def hex_digit_hex_char)
  qed
  moreover have "escaped_rune (byte c) t = (byte c, t)" "encode_rune (byte c) = [c]"
    using assms by (simp_all add: escaped_rune_def encode_rune_def)
  moreover have "append [c] = Cons c" by auto
  ultimately show ?thesis by (simp add: u00_def unquote.simps(2) unescape_def)
qed

lemma unquote_escape_ascii:
  assumes "byte c < 0x80"
  shows "unquote (escape_ascii c @ t) = map_option (apfst (Cons c)) (unquote t)"
proof (cases "byte c < 0x20 \<or> c = CHR 0x3C \<or> c = CHR 0x3E \<or> c = CHR 0x26")
  case True
  then show ?thesis
    by (auto simp: escape_ascii_def unquote_u00[OF assms] unquote.simps(2) unescape_def)
next
  case False
  then show ?thesis using assms
    by (auto simp: escape_ascii_def unquote.simps(2) unescape_def apfst_def map_prod_def)
qed

lemma unquote_rune:
  assumes "byte c \<ge> 0x80" "rune_size (c # s) \<noteq> 0"
  shows "unquote (take (rune_size (c # s)) (c # s) @ t) =
    map_option (apfst (append (take (rune_size (c # s)) (c # s)))) (unquote t)"
proof -
  obtain m where m: "take (rune_size (c # s)) (c # s) = c # m" using assms(2) by (cases "rune_size (c # s)") auto
  then have len: "rune_size (c # s) = Suc (length m)"
    using rune_size_le[of "c # s"] by (metis length_Cons length_take min.absorb2)
  then have sz: "rune_size (c # m @ t) = Suc (length m)"
    using rune_size_append[OF assms(2), of t] m by simp
  have "c \<noteq> CHR 0x22" "c \<noteq> CHR 0x5C" using assms(1) by auto
  then show ?thesis using assms(1) unfolding m by (simp add: unquote.simps(2) sz)
qed

lemma unquote_escape_rune:
  assumes "byte c \<ge> 0x80" "rune_size (c # s) \<noteq> 0"
  shows "unquote (escape_rune (take (rune_size (c # s)) (c # s)) @ t) =
    map_option (apfst (append (take (rune_size (c # s)) (c # s)))) (unquote t)"
proof -
  have "hex4 (''2028'' @ t) = Some 0x2028" "hex4 (''2029'' @ t) = Some 0x2029"
    by (simp_all add: hex4_def hex_digit_def between_def)
  moreover have "encode_rune 0x2028 = [CHR 0xE2, CHR 0x80, CHR 0xA8]" "encode_rune 0x2029 = [CHR 0xE2, CHR 0x80, CHR 0xA9]"
    by (simp_all add: encode_rune_def char_of_def bit_0)
  moreover have "escaped_rune 0x2028 t = (0x2028, t)" "escaped_rune 0x2029 t = (0x2029, t)"
    by (simp_all add: escaped_rune_def)
  ultimately show ?thesis
    using unquote_rune[OF assms, of t] by (simp add: escape_rune_def unquote.simps(2) unescape_def)
qed

lemma unquote_escape: "utf8_valid s \<Longrightarrow> unquote (escape s @ CHR 0x22 # rest) = Some (s, rest)"
proof (induction s rule: utf8_valid.induct)
  case 1
  then show ?case by (simp add: unquote.simps(2))
next
  case (2 c s)
  then have v: "rune_size (c # s) \<noteq> 0" "utf8_valid (drop (rune_size (c # s) - 1) s)"
    by (simp_all add: utf8_valid.simps(2))
  note IH = "2.IH"[OF v(2)]
  show ?case
  proof (cases "byte c < 0x80")
    case True
    then show ?thesis using IH by (simp add: escape.simps(2) unquote_escape_ascii)
  next
    case False
    have "take (rune_size (c # s)) (c # s) @ drop (rune_size (c # s) - 1) s = c # s"
      using v(1) by (cases "rune_size (c # s)") auto
    then show ?thesis using False v(1) IH by (simp add: escape.simps(2) unquote_escape_rune)
  qed
qed

section \<open>Values are read back\<close>

definition int_text :: "int \<Rightarrow> string" where
  "int_text k = (if k < 0 then CHR 0x2D # dec (nat (- k)) else dec (nat k))"

fun jdepth :: "jval \<Rightarrow> nat" where
  "jdepth (JArr vs) = Suc (foldr max (map jdepth vs) 0)"
| "jdepth (JObj kvs) = Suc (foldr max (map (\<lambda>kv. jdepth (snd kv)) kvs) 0)"
| "jdepth _ = 0"

text \<open>The values that are written faithfully: valid UTF-8 and integer numbers.\<close>

fun jval_ok :: "jval \<Rightarrow> bool" where
  "jval_ok (JNum n) = (\<exists>k. n = int_text k)"
| "jval_ok (JStr s) = utf8_valid s"
| "jval_ok (JArr vs) = list_all jval_ok vs"
| "jval_ok (JObj kvs) = list_all (\<lambda>kv. utf8_valid (fst kv) \<and> jval_ok (snd kv)) kvs"
| "jval_ok _ = True"

text \<open>What may follow a value: the end, a separator or a closing bracket.\<close>

definition delim :: "string \<Rightarrow> bool" where
  "delim s = (case s of [] \<Rightarrow> True | c # _ \<Rightarrow> c \<in> {CHR 0x2C, CHR 0x5D, CHR 0x7D})"

lemma delim_simps [simp]: "delim []" "delim (c # s) \<longleftrightarrow> c \<in> {CHR 0x2C, CHR 0x5D, CHR 0x7D}"
  by (simp_all add: delim_def)

lemma is_digit_digit: "d < 10 \<Longrightarrow> is_digit (digit d)"
  by (simp add: is_digit_def between_def of_char_digit)

lemma dec_digits: "list_all is_digit (dec n) \<and> dec n \<noteq> []"
proof (induction n rule: dec.induct)
  case (1 n)
  then show ?case by (subst (1 2) dec.simps) (auto simp: is_digit_digit)
qed

lemma digit_zero: "d < 10 \<Longrightarrow> digit d = CHR 0x30 \<longleftrightarrow> d = 0"
proof
  assume "d < 10" "digit d = CHR 0x30"
  then have "of_char (digit d) = (48 :: nat)" by simp
  then show "d = 0" using \<open>d < 10\<close> by (simp add: of_char_digit)
qed (simp add: digit_def char_of_def bit_0)

lemma hd_dec: "hd (dec n) = CHR 0x30 \<longleftrightarrow> n = 0"
proof (induction n rule: dec.induct)
  case (1 n)
  show ?case
  proof (cases "n < 10")
    case True
    then show ?thesis by (simp add: dec.simps[of n] digit_zero)
  next
    case False
    then show ?thesis using 1 dec_digits[of "n div 10"] by (simp add: dec.simps[of n])
  qed
qed

lemma digits_append:
  assumes "list_all is_digit ds" "delim rest"
  shows "digits (ds @ rest) = (ds, rest)"
proof -
  have "rest = [] \<or> \<not> is_digit (hd rest)" using assms(2)
    by (cases rest) (auto simp: is_digit_def between_def)
  then have "takeWhile is_digit rest = []" "dropWhile is_digit rest = rest" by (cases rest; auto)+
  then show ?thesis using assms(1) by (induction ds) (auto simp: digits_def)
qed

lemma num_int_dec: "delim rest \<Longrightarrow> num_int (dec n @ rest) = Some (dec n, rest)"
proof (cases "n = 0")
  case False
  moreover obtain c ds where d: "dec n = c # ds" using dec_digits[of n] by (cases "dec n") auto
  ultimately have "c \<noteq> CHR 0x30" "is_digit c" using hd_dec[of n] dec_digits[of n] by simp_all
  moreover assume "delim rest"
  ultimately show ?thesis using digits_append[of "dec n" rest] dec_digits[of n] d by (simp add: num_int_def)
qed (simp add: num_int_def dec.simps digit_def char_of_def bit_0)

lemma num_tail: "delim rest \<Longrightarrow> num_frac rest = Some ([], rest) \<and> num_exp rest = Some ([], rest)"
  by (cases rest) (auto simp: num_frac_def num_exp_def)

lemma number_int: "delim rest \<Longrightarrow> number (int_text k @ rest) = Some (int_text k, rest)"
proof -
  assume r: "delim rest"
  obtain c ds where d: "dec (nat k) = c # ds" using dec_digits[of "nat k"] by (cases "dec (nat k)") auto
  then have "c \<noteq> CHR 0x2D" using dec_digits[of "nat k"] by (auto simp: is_digit_def between_def)
  then show ?thesis
    using r d num_int_dec[OF r, of "nat k"] num_int_dec[OF r, of "nat (- k)"] num_tail[OF r]
    by (auto simp: number_def int_text_def Let_def)
qed

lemma skip_ws_Cons: "\<not> ws c \<Longrightarrow> skip_ws (c # s) = c # s"
  by (simp add: skip_ws_def)

lemma delim_skip: "delim s \<Longrightarrow> skip_ws s = s"
  by (cases s) (auto simp: skip_ws_def ws_def)

text \<open>The first character of a written value is not white space and not a closing bracket.\<close>

lemma print_head: "jval_ok v \<Longrightarrow> \<exists>c s. json_print v = c # s \<and> \<not> ws c \<and> c \<noteq> CHR 0x5D \<and> c \<noteq> CHR 0x7D"
proof (cases v)
  case (JNum n)
  moreover assume "jval_ok v"
  ultimately obtain k where k: "json_print v = int_text k" by auto
  obtain c ds where d: "dec (nat k) = c # ds" using dec_digits[of "nat k"] by (cases "dec (nat k)") auto
  then have "is_digit c" using dec_digits[of "nat k"] by simp
  then show ?thesis using k d by (auto simp: int_text_def ws_def is_digit_def between_def)
qed (auto simp: ws_def json_quote_def)

lemma Join_Cons: "Join (x # xs) sep = x @ (if xs = [] then [] else sep @ Join xs sep)"
  by (cases xs) auto

lemma foldr_max_le: "x \<in> set xs \<Longrightarrow> x \<le> foldr max xs (0::nat)"
  by (induction xs) auto

text \<open>Reading one value back with enough fuel, whatever follows it.\<close>

definition reads :: "jval \<Rightarrow> bool" where
  "reads v \<longleftrightarrow> (\<forall>fuel depth rest. fuel > 2 * length (json_print v) \<longrightarrow> int (jdepth v) \<le> depth \<longrightarrow> delim rest \<longrightarrow>
     json_value fuel depth (json_print v @ rest) = Some (v, rest))"

lemma json_items_print:
  assumes "vs \<noteq> []" "list_all (\<lambda>v. reads v \<and> int (jdepth v) \<le> depth) vs"
    and "fuel > 2 * length (Join (map json_print vs) [CHR 0x2C]) + 1"
  shows "json_items fuel depth (Join (map json_print vs) [CHR 0x2C] @ CHR 0x5D # rest) = Some (vs, rest)"
  using assms
proof (induction vs arbitrary: fuel)
  case (Cons v vs)
  obtain n where n: "fuel = Suc n" using Cons.prems(3) by (cases fuel) auto
  let ?tail = "if vs = [] then CHR 0x5D # rest else CHR 0x2C # Join (map json_print vs) [CHR 0x2C] @ CHR 0x5D # rest"
  have "json_value n depth (json_print v @ ?tail) = Some (v, ?tail)"
    using Cons.prems n by (auto simp: reads_def Join_Cons split: if_splits)
  moreover have "skip_ws ?tail = ?tail" by (simp add: delim_skip)
  moreover have "vs \<noteq> [] \<Longrightarrow> json_items n depth (Join (map json_print vs) [CHR 0x2C] @ CHR 0x5D # rest) = Some (vs, rest)"
    using Cons.prems n by (intro Cons.IH) (auto simp: Join_Cons)
  ultimately show ?case by (cases "vs = []") (simp_all add: n Join_Cons)
qed simp

abbreviation print_field :: "string \<times> jval \<Rightarrow> string" where
  "print_field kv \<equiv> json_quote (fst kv) @ [CHR 0x3A] @ json_print (snd kv)"

lemma json_fields_print:
  assumes "kvs \<noteq> []" "list_all (\<lambda>kv. utf8_valid (fst kv) \<and> reads (snd kv) \<and> int (jdepth (snd kv)) \<le> depth) kvs"
    and "list_all (\<lambda>kv. jval_ok (snd kv)) kvs"
    and "fuel > 2 * length (Join (map print_field kvs) [CHR 0x2C]) + 1"
  shows "json_fields fuel depth (Join (map print_field kvs) [CHR 0x2C] @ CHR 0x7D # rest) = Some (kvs, rest)"
  using assms
proof (induction kvs arbitrary: fuel)
  case (Cons kv kvs)
  obtain k v where kv: "kv = (k, v)" by (cases kv)
  obtain n where n: "fuel = Suc n" using Cons.prems(4) by (cases fuel) auto
  let ?tail = "if kvs = [] then CHR 0x7D # rest else CHR 0x2C # Join (map print_field kvs) [CHR 0x2C] @ CHR 0x7D # rest"
  have "json_value n depth (json_print v @ ?tail) = Some (v, ?tail)"
    using Cons.prems n kv by (auto simp: reads_def Join_Cons split: if_splits)
  moreover have "skip_ws ?tail = ?tail" by (simp add: delim_skip)
  moreover have "kvs \<noteq> [] \<Longrightarrow> json_fields n depth (Join (map print_field kvs) [CHR 0x2C] @ CHR 0x7D # rest) = Some (kvs, rest)"
    using Cons.prems n kv by (intro Cons.IH) (auto simp: Join_Cons)
  moreover have "unquote (escape k @ CHR 0x22 # t) = Some (k, t)" for t
    using Cons.prems(2) kv by (simp add: unquote_escape)
  ultimately show ?case
    by (cases "kvs = []") (simp_all add: n kv Join_Cons json_quote_def skip_ws_Cons ws_def)
qed simp

lemma jval_reads: "jval_ok v \<Longrightarrow> reads v"
proof (induction v)
  case (JArr vs)
  have "json_value fuel depth (json_print (JArr vs) @ rest) = Some (JArr vs, rest)"
    if f: "fuel > 2 * length (json_print (JArr vs))" and d: "int (jdepth (JArr vs)) \<le> depth" for fuel depth rest
  proof (cases "vs = []")
    case True
    then show ?thesis using that by (cases fuel) (auto simp: skip_ws_Cons ws_def)
  next
    case False
    obtain n where n: "fuel = Suc n" using f by (cases fuel) auto
    obtain c s where "Join (map json_print vs) [CHR 0x2C] = c # s" "\<not> ws c" "c \<noteq> CHR 0x5D"
      using False JArr.prems print_head[of "hd vs"] by (cases vs) (auto simp: Join_Cons)
    moreover have "list_all (\<lambda>v. reads v \<and> int (jdepth v) \<le> depth - 1) vs"
      using JArr d foldr_max_le[of _ "map jdepth vs"] by (fastforce simp: list_all_iff)
    then have "json_items n (depth - 1) (Join (map json_print vs) [CHR 0x2C] @ CHR 0x5D # rest) = Some (vs, rest)"
      using f n by (intro json_items_print[OF False]) auto
    ultimately show ?thesis using n d by (simp add: skip_ws_Cons ws_def)
  qed
  then show ?case by (simp add: reads_def)
next
  case (JObj kvs)
  have "json_value fuel depth (json_print (JObj kvs) @ rest) = Some (JObj kvs, rest)"
    if f: "fuel > 2 * length (json_print (JObj kvs))" and d: "int (jdepth (JObj kvs)) \<le> depth" for fuel depth rest
  proof (cases "kvs = []")
    case True
    then show ?thesis using that by (cases fuel) (auto simp: skip_ws_Cons ws_def)
  next
    case False
    obtain n where n: "fuel = Suc n" using f by (cases fuel) auto
    obtain s where "Join (map print_field kvs) [CHR 0x2C] = CHR 0x22 # s"
      using False by (cases kvs) (auto simp: Join_Cons json_quote_def)
    moreover have "list_all (\<lambda>kv. utf8_valid (fst kv) \<and> reads (snd kv) \<and> int (jdepth (snd kv)) \<le> depth - 1) kvs"
      using JObj d foldr_max_le[of _ "map (\<lambda>kv. jdepth (snd kv)) kvs"]
      by (fastforce simp: list_all_iff snds.simps)
    then have "json_fields n (depth - 1) (Join (map print_field kvs) [CHR 0x2C] @ CHR 0x7D # rest) = Some (kvs, rest)"
      using f n JObj.prems by (intro json_fields_print[OF False]) (auto simp: list_all_iff)
    ultimately show ?thesis using n d by (simp add: skip_ws_Cons ws_def)
  qed
  then show ?case by (simp add: reads_def)
next
  case (JNum m)
  then obtain k where m: "m = int_text k" by auto
  obtain c s where h: "int_text k = c # s" "\<not> ws c" "c = CHR 0x2D \<or> is_digit c"
  proof (cases "k < 0")
    case True
    then show ?thesis by (intro that[of "CHR 0x2D" "dec (nat (- k))"]) (simp_all add: int_text_def ws_def)
  next
    case False
    obtain c s where d: "dec (nat k) = c # s" using dec_digits[of "nat k"] by (cases "dec (nat k)") auto
    then have "is_digit c" using dec_digits[of "nat k"] by simp
    then show ?thesis
      using False d by (intro that[of c s]) (auto simp: int_text_def ws_def is_digit_def between_def)
  qed
  then have "c \<notin> {CHR 0x22, CHR 0x5B, CHR 0x7B, CHR 0x74, CHR 0x66, CHR 0x6E}"
    by (auto simp: is_digit_def between_def)
  moreover have "number (c # s @ rest) = Some (m, rest)" if "delim rest" for rest
    using number_int[OF that, of k] h m by simp
  ultimately have "json_value (Suc n) depth (m @ rest) = Some (JNum m, rest)" if "delim rest" for n depth rest
    using that h m by (simp add: skip_ws_Cons)
  then show ?case unfolding reads_def by (metis json_print.simps(3) less_nat_zero_code not0_implies_Suc)
next
  case (JStr s)
  have "json_value (Suc n) depth (json_print (JStr s) @ rest) = Some (JStr s, rest)" for n depth rest
    using JStr by (simp add: json_quote_def skip_ws_Cons ws_def unquote_escape)
  then show ?case unfolding reads_def by (metis less_nat_zero_code not0_implies_Suc)
next
  case (JBool b)
  have "json_value (Suc n) depth (json_print (JBool b) @ rest) = Some (JBool b, rest)" for n depth rest
    by (simp add: skip_ws_Cons ws_def literal_def HasPrefix_def)
  then show ?case unfolding reads_def by (metis less_nat_zero_code not0_implies_Suc)
next
  case JNull
  have "json_value (Suc n) depth (json_print JNull @ rest) = Some (JNull, rest)" for n depth rest
    by (simp add: skip_ws_Cons ws_def literal_def HasPrefix_def)
  then show ?case unfolding reads_def by (metis less_nat_zero_code not0_implies_Suc)
qed

lemma json_parse_print:
  assumes "jval_ok v" "jdepth v \<le> 10000"
  shows "json_parse (json_print v) = Inr v"
proof -
  have "json_value (2 * length (json_print v) + 2) 10000 (json_print v @ []) = Some (v, [])"
    using assms(2) by (intro jval_reads[OF assms(1), unfolded reads_def, rule_format]) simp_all
  then show ?thesis by (simp add: json_parse_def skip_ws_def)
qed

lemma json_Valid_print: "jval_ok v \<Longrightarrow> jdepth v \<le> 10000 \<Longrightarrow> json_Valid (json_print v)"
  by (simp add: json_Valid_def json_parse_print)

lemma parse_int_text: "- (2 ^ 63) \<le> k \<Longrightarrow> k < 2 ^ 63 \<Longrightarrow> parse_int (int_text k) = Some k"
proof -
  assume b: "- (2 ^ 63) \<le> k" "k < 2 ^ 63"
  obtain c ds where d: "dec (nat k) = c # ds" using dec_digits[of "nat k"] by (cases "dec (nat k)") auto
  then have "c \<noteq> CHR 0x2D" using dec_digits[of "nat k"] by (auto simp: is_digit_def between_def)
  then show ?thesis
    using b d dec_digits[of "nat k"] dec_digits[of "nat (- k)"] undec_dec[of "nat k"] undec_dec[of "nat (- k)"]
    by (auto simp: parse_int_def int_text_def Let_def)
qed

section \<open>The fuel is enough\<close>

lemma skip_ws_length: "length (skip_ws s) \<le> length s"
  by (simp add: skip_ws_def length_dropWhile_le)

lemma skip_ws_ConsD: "skip_ws s = c # t \<Longrightarrow> length t < length s"
  using skip_ws_length[of s] by simp

lemma unquote_shorter: "unquote s = Some (x, r) \<Longrightarrow> length r < length s"
proof (induction s arbitrary: x r rule: unquote.induct)
  case (2 c s)
  note p = "2.prems"
  show ?case
  proof (cases "c = CHR 0x22 \<or> c \<noteq> CHR 0x5C")
    case True
    then consider "c = CHR 0x22" "r = s" | y where "c \<noteq> CHR 0x22" "\<not> byte c < 0x20" "rune_size (c # s) = 0" "unquote s = Some (y, r)"
      | y where "c \<noteq> CHR 0x22" "\<not> byte c < 0x20" "rune_size (c # s) \<noteq> 0" "unquote (drop (rune_size (c # s) - 1) s) = Some (y, r)"
      using p by (auto simp: unquote.simps(2) split: if_splits)
    then show ?thesis
    proof cases
      case 2
      then have "c \<noteq> CHR 0x5C" using True by simp
      from "2.IH"(3)[OF 2(1) this 2(2-4)] show ?thesis by simp
    next
      case 3
      then have "c \<noteq> CHR 0x5C" using True by blast
      from "2.IH"(4)[OF 3(1) this 3(2-4)] have "length r < length (drop (rune_size (c # s) - 1) s)" .
      also have "\<dots> \<le> length s" unfolding length_drop by (rule diff_le_self)
      finally show ?thesis by simp
    qed simp
  next
    case False
    then obtain e t where s: "s = e # t" using p by (cases s) (auto simp: unquote.simps(2))
    show ?thesis
    proof (cases "unescape e")
      case None
      then obtain u y where "e = CHR 0x75" "hex4 t = Some u" "unquote (snd (escaped_rune u (drop 4 t))) = Some (y, r)"
        using p False s by (auto simp: unquote.simps(2) split: if_splits option.splits)
      moreover have "c \<noteq> CHR 0x22" "c = CHR 0x5C" using False by blast+
      ultimately have "length r < length (snd (escaped_rune u (drop 4 t)))"
        using s None by (intro "2.IH"(1)) assumption+
      then show ?thesis using s less_trans[OF _ escaped_rune_drop[of u 4 t]] by simp
    next
      case (Some d)
      then obtain y where "unquote t = Some (y, r)" using p False s by (auto simp: unquote.simps(2))
      moreover have "c \<noteq> CHR 0x22" "c = CHR 0x5C" using False by blast+
      ultimately have "length r < length t" using s Some by (intro "2.IH"(2)) assumption+
      then show ?thesis using s by simp
    qed
  qed
qed simp

lemma num_int_shorter: "num_int s = Some (x, r) \<Longrightarrow> length r < length s"
  by (auto simp: num_int_def digits_def length_dropWhile_le less_Suc_eq_le split: list.splits if_splits)

lemma num_frac_shorter: "num_frac s = Some (x, r) \<Longrightarrow> length r \<le> length s"
  by (auto simp: num_frac_def digits_def length_dropWhile_le le_SucI split: list.splits if_splits)

lemma num_exp_shorter: "num_exp s = Some (x, r) \<Longrightarrow> length r \<le> length s"
proof -
  have "length (dropWhile is_digit (drop n t)) \<le> Suc (length t)" for n t
    using length_dropWhile_le[of is_digit "drop n t"] by simp
  moreover assume "num_exp s = Some (x, r)"
  ultimately show ?thesis
    by (cases s) (auto simp: num_exp_def digits_def Let_def split: if_splits prod.splits)
qed

lemma number_shorter: "number s = Some (x, r) \<Longrightarrow> length r < length s"
proof -
  let ?sign = "case s of c # _ \<Rightarrow> if c = CHR 0x2D then [c] else [] | [] \<Rightarrow> []"
  assume "number s = Some (x, r)"
  then obtain i ri f rf e where "num_int (drop (length ?sign) s) = Some (i, ri)" "num_frac ri = Some (f, rf)"
      "num_exp rf = Some (e, r)"
    unfolding number_def Let_def by (auto split: option.splits)
  from num_int_shorter[OF this(1)] num_frac_shorter[OF this(2)] num_exp_shorter[OF this(3)]
  show ?thesis by simp
qed

lemma literal_shorter: "literal w v s = Some (x, r) \<Longrightarrow> w \<noteq> [] \<Longrightarrow> length r < length s"
  by (auto simp: literal_def HasPrefix_iff split: if_splits)

lemma map_option_apfst: "map_option (apfst f) x = Some (y, r) \<longleftrightarrow> (\<exists>z. x = Some (z, r) \<and> y = f z)"
  by (cases x) auto

lemma json_shorter:
  "json_value fuel depth s = Some (v, r) \<Longrightarrow> length r < length s"
  "json_items fuel depth s = Some (vs, r) \<Longrightarrow> length r < length s"
  "json_fields fuel depth s = Some (kvs, r) \<Longrightarrow> length r < length s"
proof (induction fuel depth s and fuel depth s and fuel depth s arbitrary: v r and vs r and kvs r
    rule: json_value_json_items_json_fields.induct)
  case (2 fuel depth s)
  obtain c t where s: "skip_ws s = c # t" using "2.prems" by (cases "skip_ws s") auto
  have t: "length t < length s" using s by (rule skip_ws_ConsD)
  consider "c = CHR 0x22" | "c = CHR 0x5B" | "c = CHR 0x7B" | "c \<notin> {CHR 0x22, CHR 0x5B, CHR 0x7B}" by auto
  then show ?case
  proof cases
    case 1
    then show ?thesis using "2.prems" s t unquote_shorter by (fastforce simp: map_option_apfst)
  next
    case c: 2
    obtain d t' where d: "skip_ws t = d # t'" "\<not> depth \<le> 0"
      using "2.prems" s c by (cases "skip_ws t") (auto split: if_splits)
    show ?thesis
    proof (cases "d = CHR 0x5D")
      case True
      then show ?thesis using "2.prems" s c d t skip_ws_ConsD[OF d(1)] by auto
    next
      case False
      then obtain z where "json_items fuel (depth - 1) t = Some (z, r)"
        using "2.prems" s c d by (auto simp: map_option_apfst)
      then show ?thesis using "2.IH"(1) s c d False t by fastforce
    qed
  next
    case c: 3
    obtain d t' where d: "skip_ws t = d # t'" "\<not> depth \<le> 0"
      using "2.prems" s c by (cases "skip_ws t") (auto split: if_splits)
    show ?thesis
    proof (cases "d = CHR 0x7D")
      case True
      then show ?thesis using "2.prems" s c d t skip_ws_ConsD[OF d(1)] by auto
    next
      case False
      then obtain z where "json_fields fuel (depth - 1) t = Some (z, r)"
        using "2.prems" s c d by (auto simp: map_option_apfst)
      then show ?thesis using "2.IH"(2) s c d False t by fastforce
    qed
  next
    case 4
    then have "length r < length (c # t)"
      using "2.prems" s by (auto simp: map_option_apfst dest: literal_shorter number_shorter split: if_splits)
    then show ?thesis using t by simp
  qed
next
  case (4 fuel depth s)
  obtain v t where v: "json_value fuel depth s = Some (v, t)" using "4.prems" by (auto split: option.splits)
  obtain c t' where t: "skip_ws t = c # t'" using "4.prems" v by (cases "skip_ws t") auto
  have "length t < length s" using "4.IH"(1)[OF v] .
  moreover have "length t' < length t" using t by (rule skip_ws_ConsD)
  moreover have "r = t' \<or> length r < length t'"
    using "4.prems" v t "4.IH"(2)[OF v refl t] by (auto simp: map_option_apfst split: if_splits)
  ultimately show ?case by auto
next
  case (6 fuel depth s)
  obtain k a where q: "skip_ws s = CHR 0x22 # a" using "6.prems" by (cases "skip_ws s") (auto split: if_splits)
  obtain k b where k: "unquote a = Some (k, b)" using "6.prems" q by (auto split: option.splits)
  obtain c where c: "skip_ws b = CHR 0x3A # c" using "6.prems" q k by (cases "skip_ws b") (auto split: if_splits)
  obtain v d where v: "json_value fuel depth c = Some (v, d)" using "6.prems" q k c by (auto split: option.splits)
  obtain e f where e: "skip_ws d = e # f" using "6.prems" q k c v by (cases "skip_ws d") auto
  have "length d < length c" using "6.IH"(1)[OF q _ k refl c _ v] by simp
  moreover have "r = f \<or> length r < length f"
    using "6.prems" q k c v e "6.IH"(2)[OF q _ k refl c _ v refl e] by (auto simp: map_option_apfst split: if_splits)
  ultimately show ?case
    using skip_ws_ConsD[OF q] unquote_shorter[OF k] skip_ws_ConsD[OF c] skip_ws_ConsD[OF e] by auto
qed auto

text \<open>Beyond twice the length of the text, more fuel changes nothing.\<close>

lemma json_fuel:
  "2 * length s < fuel \<Longrightarrow> json_value (fuel + k) depth s = json_value fuel depth s"
  "2 * length s + 1 < fuel \<Longrightarrow> json_items (fuel + k) depth s = json_items fuel depth s"
  "2 * length s + 1 < fuel \<Longrightarrow> json_fields (fuel + k) depth s = json_fields fuel depth s"
proof (induction fuel depth s and fuel depth s and fuel depth s rule: json_value_json_items_json_fields.induct)
  case (2 fuel depth s)
  show ?case
  proof (cases "skip_ws s")
    case (Cons c t)
    then have "2 * length t + 1 < fuel" using "2.prems" skip_ws_ConsD[OF Cons] by simp
    then show ?thesis using "2.IH" Cons by (auto split: list.splits)
  qed simp
next
  case (4 fuel depth s)
  have v: "json_value (fuel + k) depth s = json_value fuel depth s" using "4.IH"(1) "4.prems" by simp
  show ?case
  proof (cases "json_value fuel depth s")
    case (Some vr)
    obtain v r where vr: "vr = (v, r)" by (cases vr)
    have "length r < length s" using json_shorter(1) Some vr by blast
    then have "json_items (fuel + k) depth t = json_items fuel depth t" if "skip_ws r = CHR 0x2C # t" for t
      using "4.IH"(2)[OF Some[unfolded vr] refl that] "4.prems" skip_ws_ConsD[OF that] by simp
    then show ?thesis using v Some vr by (auto split: list.splits)
  qed (simp add: v)
next
  case (6 fuel depth s)
  have v: "json_value (fuel + k) depth c = json_value fuel depth c"
    if "skip_ws s = CHR 0x22 # a" "unquote a = Some (key, b)" "skip_ws b = CHR 0x3A # c" for a key b c
    using "6.IH"(1)[OF that(1) _ that(2) refl that(3)] "6.prems" skip_ws_ConsD[OF that(1)]
      unquote_shorter[OF that(2)] skip_ws_ConsD[OF that(3)] by simp
  have f: "json_fields (fuel + k) depth t = json_fields fuel depth t"
    if "skip_ws s = CHR 0x22 # a" "unquote a = Some (key, b)" "skip_ws b = CHR 0x3A # c"
      "json_value fuel depth c = Some (x, d)" "skip_ws d = CHR 0x2C # t" for a key b c x d t
    using "6.IH"(2)[OF that(1) _ that(2) refl that(3) _ that(4) refl that(5)] "6.prems" skip_ws_ConsD[OF that(1)]
      unquote_shorter[OF that(2)] skip_ws_ConsD[OF that(3)] json_shorter(1)[OF that(4)] skip_ws_ConsD[OF that(5)] by simp
  show ?case using v f by (auto split: list.splits option.splits)
qed auto

end
