(* ===== verification/Crypto.thy ===== *)
theory Crypto
  imports Prelude
begin

text \<open>
  What the authentication service uses of \<open>crypto/sha256\<close>, \<open>crypto/hmac\<close> and \<open>encoding/base64\<close>: the
  hash function of FIPS 180-4 on 32-bit words, the keyed hash of RFC 2104 and the unpadded URL-safe
  encoding of RFC 4648. The definitions compute. The lemmas give the round trip of the encoding; nothing is
  assumed about the hash.
\<close>

unbundle bit_operations_syntax

section \<open>SHA-256\<close>

type_synonym word32 = "32 word"

definition sha_K :: "word32 list" where
  "sha_K = [
     0x428A2F98, 0x71374491, 0xB5C0FBCF, 0xE9B5DBA5, 0x3956C25B, 0x59F111F1,
     0x923F82A4, 0xAB1C5ED5, 0xD807AA98, 0x12835B01, 0x243185BE, 0x550C7DC3,
     0x72BE5D74, 0x80DEB1FE, 0x9BDC06A7, 0xC19BF174, 0xE49B69C1, 0xEFBE4786,
     0x0FC19DC6, 0x240CA1CC, 0x2DE92C6F, 0x4A7484AA, 0x5CB0A9DC, 0x76F988DA,
     0x983E5152, 0xA831C66D, 0xB00327C8, 0xBF597FC7, 0xC6E00BF3, 0xD5A79147,
     0x06CA6351, 0x14292967, 0x27B70A85, 0x2E1B2138, 0x4D2C6DFC, 0x53380D13,
     0x650A7354, 0x766A0ABB, 0x81C2C92E, 0x92722C85, 0xA2BFE8A1, 0xA81A664B,
     0xC24B8B70, 0xC76C51A3, 0xD192E819, 0xD6990624, 0xF40E3585, 0x106AA070,
     0x19A4C116, 0x1E376C08, 0x2748774C, 0x34B0BCB5, 0x391C0CB3, 0x4ED8AA4A,
     0x5B9CCA4F, 0x682E6FF3, 0x748F82EE, 0x78A5636F, 0x84C87814, 0x8CC70208,
     0x90BEFFFA, 0xA4506CEB, 0xBEF9A3F7, 0xC67178F2]"

definition sha_H :: "word32 list" where
  "sha_H = [
     0x6A09E667, 0xBB67AE85, 0x3C6EF372, 0xA54FF53A, 0x510E527F, 0x9B05688C,
     0x1F83D9AB, 0x5BE0CD19]"

definition word_of_bytes :: "char list \<Rightarrow> word32" where
  "word_of_bytes bs = foldl (\<lambda>w c. push_bit 8 w OR of_nat (of_char c)) 0 bs"

definition bytes_of_word :: "word32 \<Rightarrow> string" where
  "bytes_of_word w = map (\<lambda>k. char_of (unat (drop_bit k w AND 0xFF))) [24, 16, 8, 0]"

function chunks :: "nat \<Rightarrow> 'a list \<Rightarrow> 'a list list" where
  "chunks n xs = (if n = 0 \<or> xs = [] then [] else take n xs # chunks n (drop n xs))"
  by pat_completeness auto
termination by (relation "measure (\<lambda>(n, xs). length xs)") auto

declare chunks.simps [simp del]

text \<open>The message, a one bit, zeros up to 56 modulo 64 and the length in bits.\<close>

definition sha_pad :: "string \<Rightarrow> string" where
  "sha_pad m = m @ [CHR 0x80] @ replicate ((119 - length m mod 64) mod 64) (CHR 0x00) @
     map (\<lambda>k. char_of (8 * length m div 256 ^ k mod 256)) [7, 6, 5, 4, 3, 2, 1, 0]"

text \<open>The message schedule, kept with the newest word first.\<close>

fun schedule :: "nat \<Rightarrow> word32 list \<Rightarrow> word32 list" where
  "schedule 0 w = w"
| "schedule (Suc n) w =
     (let w15 = w ! 14; w2 = w ! 1;
          s0 = word_rotr 7 w15 XOR word_rotr 18 w15 XOR drop_bit 3 w15;
          s1 = word_rotr 17 w2 XOR word_rotr 19 w2 XOR drop_bit 10 w2
      in schedule n ((w ! 15 + s0 + w ! 6 + s1) # w))"

fun sha_round :: "word32 list \<Rightarrow> word32 \<times> word32 \<Rightarrow> word32 list" where
  "sha_round [a, b, c, d, e, f, g, h] (k, w) =
     (let s1 = word_rotr 6 e XOR word_rotr 11 e XOR word_rotr 25 e;
          ch = (e AND f) XOR (NOT e AND g);
          t1 = h + s1 + ch + k + w;
          s0 = word_rotr 2 a XOR word_rotr 13 a XOR word_rotr 22 a;
          maj = (a AND b) XOR (a AND c) XOR (b AND c)
      in [t1 + s0 + maj, a, b, c, d + t1, e, f, g])"
| "sha_round st kw = st"

definition sha_block :: "word32 list \<Rightarrow> string \<Rightarrow> word32 list" where
  "sha_block st block =
     (let w = rev (schedule 48 (rev (map word_of_bytes (chunks 4 block))))
      in map2 (+) st (foldl sha_round st (zip sha_K w)))"

definition sha256 :: "string \<Rightarrow> string" where
  "sha256 m = concat (map bytes_of_word (foldl sha_block sha_H (chunks 64 (sha_pad m))))"

section \<open>HMAC\<close>

definition hmac_pad :: "nat \<Rightarrow> string \<Rightarrow> string" where
  "hmac_pad x key =
     (let k = (if length key > 64 then sha256 key else key)
      in map (\<lambda>c. char_of (of_char c XOR x)) (k @ replicate (64 - length k) (CHR 0x00)))"

definition hmac_sha256 :: "string \<Rightarrow> string \<Rightarrow> string" where
  "hmac_sha256 key m = sha256 (hmac_pad 0x5C key @ sha256 (hmac_pad 0x36 key @ m))"

section \<open>Base64\<close>

definition b64_alphabet :: string where
  "b64_alphabet = ''ABCDEFGHIJKLMNOPQRSTUVWXYZabcdefghijklmnopqrstuvwxyz0123456789-_''"

definition b64_char :: "nat \<Rightarrow> char" where
  "b64_char n = b64_alphabet ! n"

fun b64_encode :: "nat list \<Rightarrow> string" where
  "b64_encode (a # b # c # s) =
     [b64_char (a div 4), b64_char (a mod 4 * 16 + b div 16), b64_char (b mod 16 * 4 + c div 64), b64_char (c mod 64)] @
     b64_encode s"
| "b64_encode [a, b] = [b64_char (a div 4), b64_char (a mod 4 * 16 + b div 16), b64_char (b mod 16 * 4)]"
| "b64_encode [a] = [b64_char (a div 4), b64_char (a mod 4 * 16)]"
| "b64_encode [] = []"

definition b64_value :: "char \<Rightarrow> nat option" where
  "b64_value c = map_of (zip b64_alphabet [0..<64]) c"

text \<open>Trailing bits of the last group are dropped, as without \<open>Strict\<close>; one left-over character is an
  error.\<close>

fun b64_decode :: "nat option list \<Rightarrow> nat list option" where
  "b64_decode (Some w # Some x # Some y # Some z # s) =
     map_option (append [w * 4 + x div 16, x mod 16 * 16 + y div 4, y mod 4 * 64 + z]) (b64_decode s)"
| "b64_decode [Some w, Some x, Some y] = Some [w * 4 + x div 16, x mod 16 * 16 + y div 4]"
| "b64_decode [Some w, Some x] = Some [w * 4 + x div 16]"
| "b64_decode [] = Some []"
| "b64_decode _ = None"

text \<open>The decoder skips line ends in its input.\<close>

definition encodeSegment :: "string \<Rightarrow> string" where
  "encodeSegment data = b64_encode (map of_char data)"

definition decodeSegment :: "string \<Rightarrow> string res" where
  "decodeSegment segment =
     (case b64_decode (map b64_value (filter (\<lambda>c. c \<noteq> CHR 0x0A \<and> c \<noteq> CHR 0x0D) segment)) of
        Some bs \<Rightarrow> Inr (map char_of bs)
      | None \<Rightarrow> Inl ''illegal base64 data'')"

section \<open>Segments are read back\<close>

lemma b64_alphabet_ok:
  assumes "n < 64"
  shows "b64_value (b64_char n) = Some n" "b64_char n \<notin> {CHR 0x0A, CHR 0x0D, CHR 0x2E}"
proof -
  have "list_all (\<lambda>n. b64_value (b64_char n) = Some n \<and> b64_char n \<notin> {CHR 0x0A, CHR 0x0D, CHR 0x2E}) [0..<64]"
    by code_simp
  then show "b64_value (b64_char n) = Some n" "b64_char n \<notin> {CHR 0x0A, CHR 0x0D, CHR 0x2E}"
    using assms by (auto simp: list_all_iff)
qed

text \<open>The four groups of six bits that three bytes are split into.\<close>

lemma six_bits:
  fixes a b c :: nat
  assumes "a < 256" "b < 256" "c < 256"
  shows "a div 4 < 64" "a mod 4 * 16 + b div 16 < 64" "b mod 16 * 4 + c div 64 < 64" "c mod 64 < 64"
    "a mod 4 * 16 < 64" "b mod 16 * 4 < 64"
proof -
  have "a mod 4 < 4" "b div 16 < 16" "b mod 16 < 16" "c div 64 < 4" using assms by auto
  then show "a div 4 < 64" "a mod 4 * 16 + b div 16 < 64" "b mod 16 * 4 + c div 64 < 64" "c mod 64 < 64"
    "a mod 4 * 16 < 64" "b mod 16 * 4 < 64" using assms by auto
qed

lemma regroup:
  fixes a b c :: nat
  assumes "a < 256" "b < 256" "c < 256"
  shows "a div 4 * 4 + (a mod 4 * 16 + b div 16) div 16 = a"
    "(a mod 4 * 16 + b div 16) mod 16 * 16 + (b mod 16 * 4 + c div 64) div 4 = b"
    "(b mod 16 * 4 + c div 64) mod 4 * 64 + c mod 64 = c"
proof -
  have "b div 16 < 16" "c div 64 < 4" using assms by auto
  then show "a div 4 * 4 + (a mod 4 * 16 + b div 16) div 16 = a"
    "(a mod 4 * 16 + b div 16) mod 16 * 16 + (b mod 16 * 4 + c div 64) div 4 = b"
    "(b mod 16 * 4 + c div 64) mod 4 * 64 + c mod 64 = c"
    by (simp_all add: mod_mult_self3 div_mult_self3)
qed

lemma nibbles: "b < (256 :: nat) \<Longrightarrow> b div 16 mod 16 * 16 + b mod 16 = b"
  using mod_less[of "b div 16" 16] by simp

lemma b64_decode_encode:
  "list_all (\<lambda>b. b < 256) bs \<Longrightarrow> b64_decode (map b64_value (b64_encode bs)) = Some bs"
proof (induction bs rule: b64_encode.induct)
  case (1 a b c s)
  then show ?case
    using six_bits[of a b c] regroup[of a b c] by (simp add: b64_alphabet_ok nibbles)
next
  case (2 a b)
  then show ?case
    using six_bits[of a b 0] regroup[of a b 0] by (simp add: b64_alphabet_ok nibbles)
next
  case (3 a)
  then show ?case
    using six_bits[of a 0 0] regroup[of a 0 0] by (simp add: b64_alphabet_ok)
qed simp

lemma b64_encode_chars:
  "list_all (\<lambda>b. b < 256) bs \<Longrightarrow> list_all (\<lambda>c. c \<notin> {CHR 0x0A, CHR 0x0D, CHR 0x2E}) (b64_encode bs)"
proof (induction bs rule: b64_encode.induct)
  case (1 a b d s)
  then show ?case using six_bits[of a b d] by (simp add: b64_alphabet_ok(2)[simplified])
next
  case (2 a b)
  then show ?case using six_bits[of a b 0] by (simp add: b64_alphabet_ok(2)[simplified])
next
  case (3 a)
  then show ?case using six_bits[of a 0 0] by (simp add: b64_alphabet_ok(2)[simplified])
qed simp

lemma bytes_small: "list_all (\<lambda>b. b < 256) (map (of_char :: char \<Rightarrow> nat) s)"
  by (simp add: list_all_iff)

lemma encodeSegment_chars: "c \<in> set (encodeSegment s) \<Longrightarrow> c \<notin> {CHR 0x0A, CHR 0x0D, CHR 0x2E}"
  using b64_encode_chars[OF bytes_small, of s] unfolding encodeSegment_def list_all_iff by blast

lemma decode_encodeSegment: "decodeSegment (encodeSegment s) = Inr s"
proof -
  have "filter (\<lambda>c. c \<noteq> CHR 0x0A \<and> c \<noteq> CHR 0x0D) (encodeSegment s) = encodeSegment s"
    using encodeSegment_chars[of _ s] by (auto simp: filter_id_conv)
  then show ?thesis
    using b64_decode_encode[OF bytes_small, of s] by (simp add: decodeSegment_def encodeSegment_def comp_def)
qed

end
