(* ===== verification/Auth.thy ===== *)
theory Auth
  imports Domain_Model Json Crypto
begin

text \<open>
  \<open>internal/infrastructure/auth/service.go\<close>: users, passwords and signed tokens. The database behind the
  service is a record of functions on a state \<open>'d\<close>; bcrypt, which is not part of the repository, is a
  record of two functions. The random salt of a hash is an argument.
\<close>

section \<open>Types\<close>

record 'd UserStore =
  us_CreateUser :: "string \<Rightarrow> string \<Rightarrow> string \<Rightarrow> 'd \<Rightarrow> User res \<times> 'd"
  us_GetUser :: "string \<Rightarrow> 'd \<Rightarrow> (string \<times> User \<times> bool) res"
  us_ListUsers :: "'d \<Rightarrow> User list res"
  us_DeleteUser :: "string \<Rightarrow> 'd \<Rightarrow> unit res \<times> 'd"
  us_UpdatePassword :: "string \<Rightarrow> string \<Rightarrow> 'd \<Rightarrow> unit res \<times> 'd"

record bcrypt =
  bc_Generate :: "string \<Rightarrow> string \<Rightarrow> string res"
  bc_Compare :: "string \<Rightarrow> string \<Rightarrow> bool"

record storedUser =
  storedUser_password :: string
  storedUser_user :: User

record 'd Service =
  Service_adminUsername :: string
  Service_adminPassword :: string
  Service_secret :: string
  Service_users :: "(string, storedUser) gomap"
  Service_userStore :: "'d UserStore option"

record Claims =
  Claims_Subject :: string
  Claims_Role :: string
  Claims_Expiry :: int

section \<open>Construction\<close>

definition Auth_NewService :: "bcrypt \<Rightarrow> string \<Rightarrow> string \<Rightarrow> string \<Rightarrow> string \<Rightarrow> 'd Service" where
  "Auth_NewService bc salt adminUsername adminPassword secret =
     \<lparr>Service_adminUsername = adminUsername, Service_adminPassword = adminPassword, Service_secret = secret,
      Service_users = [(adminUsername,
        \<lparr>storedUser_password = (case bc_Generate bc salt adminPassword of Inr hash \<Rightarrow> hash | Inl _ \<Rightarrow> adminPassword),
         storedUser_user = \<lparr>User_Username = adminUsername, User_Role = ''admin''\<rparr>\<rparr>)],
      Service_userStore = None\<rparr>"

definition SetUserStore :: "'d UserStore \<Rightarrow> 'd Service \<Rightarrow> 'd Service" where
  "SetUserStore store s = s\<lparr>Service_userStore := Some store\<rparr>"

definition SeedUserStore :: "'d Service \<Rightarrow> 'd \<Rightarrow> unit res \<times> 'd" where
  "SeedUserStore s d =
     (case Service_userStore s of
        None \<Rightarrow> (Inr (), d)
      | Some store \<Rightarrow>
          (case us_GetUser store (Service_adminUsername s) d of
             Inl e \<Rightarrow> (Inl e, d)
           | Inr (_, _, found) \<Rightarrow>
               if found then (Inr (), d)
               else (case us_CreateUser store (Service_adminUsername s)
                       (case map_of (Service_users s) (Service_adminUsername s) of
                          Some u \<Rightarrow> storedUser_password u | None \<Rightarrow> []) ''admin'' d of
                   (Inl e, d) \<Rightarrow> (Inl e, d) | (Inr _, d) \<Rightarrow> (Inr (), d))))"

section \<open>Tokens\<close>

definition claims_json :: "Claims \<Rightarrow> jval" where
  "claims_json c = JObj [(''sub'', JStr (Claims_Subject c)), (''role'', JStr (Claims_Role c)),
     (''exp'', JNum (int_text (Claims_Expiry c)))]"

definition claims_fields :: "Claims field_decoder list" where
  "claims_fields = [struct_field ''sub'' decode_string Claims_Subject Claims_Subject_update,
     struct_field ''role'' decode_string Claims_Role Claims_Role_update,
     struct_field ''exp'' decode_int Claims_Expiry Claims_Expiry_update]"

definition zero_Claims :: Claims where
  "zero_Claims = \<lparr>Claims_Subject = [], Claims_Role = [], Claims_Expiry = 0\<rparr>"

definition token_header :: jval where
  "token_header = JObj [(''alg'', JStr ''HS256''), (''typ'', JStr ''JWT'')]"

definition signRaw :: "'d Service \<Rightarrow> string \<Rightarrow> string" where
  "signRaw s signingInput = encodeSegment (hmac_sha256 (Service_secret s) signingInput)"

definition sign :: "'d Service \<Rightarrow> Claims \<Rightarrow> string" where
  "sign s claims =
     (let header = encodeSegment (json_print token_header);
          payload = encodeSegment (json_print (claims_json claims));
          signingInput = header @ ''.'' @ payload
      in signingInput @ ''.'' @ signRaw s signingInput)"

definition Unix :: "Time \<Rightarrow> int" where
  "Unix t = t div Second"

definition generateToken :: "Time \<Rightarrow> 'd Service \<Rightarrow> User \<Rightarrow> string \<times> User" where
  "generateToken now s user =
     (sign s \<lparr>Claims_Subject = User_Username user, Claims_Role = User_Role user,
              Claims_Expiry = Unix (now + 12 * 60 * 60 * Second)\<rparr>, user)"

definition ParseToken :: "Time \<Rightarrow> 'd Service \<Rightarrow> string \<Rightarrow> User res" where
  "ParseToken now s token =
     (case Split token (CHR ''.'') of
        [p0, p1, p2] \<Rightarrow>
          if p2 \<noteq> signRaw s (p0 @ ''.'' @ p1) then Inl ''invalid token signature''
          else (case decodeSegment p1 of
              Inl e \<Rightarrow> Inl e
            | Inr payload \<Rightarrow>
                (case json_Unmarshal claims_fields payload zero_Claims of
                   Inl e \<Rightarrow> Inl e
                 | Inr claims \<Rightarrow>
                     if Unix now > Claims_Expiry claims then Inl ''token expired''
                     else Inr \<lparr>User_Username = Claims_Subject claims, User_Role = Claims_Role claims\<rparr>))
      | _ \<Rightarrow> Inl ''invalid token format'')"

section \<open>Users\<close>

definition bad_login :: error where
  "bad_login = ''invalid username or password''"

text \<open>A stored hash accepts a password, or equals it as plain text.\<close>

definition password_matches :: "bcrypt \<Rightarrow> string \<Rightarrow> string \<Rightarrow> bool" where
  "password_matches bc hash password \<longleftrightarrow> bc_Compare bc hash password \<or> password = hash"

definition Login :: "bcrypt \<Rightarrow> Time \<Rightarrow> 'd Service \<Rightarrow> 'd \<Rightarrow> string \<Rightarrow> string \<Rightarrow> (string \<times> User) res" where
  "Login bc now s d username password =
     (let memory = (case map_of (Service_users s) username of
            Some rec \<Rightarrow> if password_matches bc (storedUser_password rec) password
              then Inr (generateToken now s (storedUser_user rec)) else Inl bad_login
          | None \<Rightarrow> Inl bad_login)
      in case Service_userStore s of
           None \<Rightarrow> memory
         | Some store \<Rightarrow>
             (case us_GetUser store username d of
                Inl e \<Rightarrow> Inl (''login: '' @ e)
              | Inr (passwordHash, user, found) \<Rightarrow>
                  if found
                  then (if password_matches bc passwordHash password then Inr (generateToken now s user) else Inl bad_login)
                  else memory))"

definition CreateUser ::
  "bcrypt \<Rightarrow> string \<Rightarrow> string \<Rightarrow> string \<Rightarrow> string \<Rightarrow> 'd Service \<Rightarrow> 'd \<Rightarrow> User res \<times> 'd Service \<times> 'd" where
  "CreateUser bc salt username password role s d =
     (let username = TrimSpace username; password = TrimSpace password; role = TrimSpace role
      in if username = [] \<or> password = [] then (Inl ''username and password are required'', s, d)
         else let role = (if role = [] then ''operator'' else role)
         in if role \<noteq> ''admin'' \<and> role \<noteq> ''operator'' then (Inl ''role must be admin or operator'', s, d)
         else (case bc_Generate bc salt password of
             Inl e \<Rightarrow> (Inl (''hash password: '' @ e), s, d)
           | Inr passwordHash \<Rightarrow>
               (case (case Service_userStore s of
                   Some store \<Rightarrow> us_CreateUser store username passwordHash role d
                 | None \<Rightarrow> (Inr \<lparr>User_Username = username, User_Role = role\<rparr>, d)) of
                  (Inl e, d) \<Rightarrow> (Inl e, s, d)
                | (Inr _, d) \<Rightarrow>
                    (case map_of (Service_users s) username of
                       Some _ \<Rightarrow> (Inl ''user already exists'', s, d)
                     | None \<Rightarrow>
                         (let user = \<lparr>User_Username = username, User_Role = role\<rparr>
                          in (Inr user, s\<lparr>Service_users := AList.update username
                                \<lparr>storedUser_password = passwordHash, storedUser_user = user\<rparr> (Service_users s)\<rparr>, d))))))"

definition ListUsers :: "'d Service \<Rightarrow> 'd \<Rightarrow> User list" where
  "ListUsers s d =
     (let memory = sort_Slice (\<lambda>a b. User_Username a < User_Username b)
            (map storedUser_user (vals (Service_users s)))
      in case Service_userStore s of
           None \<Rightarrow> memory
         | Some store \<Rightarrow> (case us_ListUsers store d of Inr users \<Rightarrow> users | Inl _ \<Rightarrow> memory))"

definition DeleteUser :: "string \<Rightarrow> 'd Service \<Rightarrow> 'd \<Rightarrow> unit res \<times> 'd Service \<times> 'd" where
  "DeleteUser username s d =
     (let username = TrimSpace username
      in if username = [] then (Inl ''username is required'', s, d)
         else if username = Service_adminUsername s then (Inl ''cannot delete the initial admin user'', s, d)
         else (case (case Service_userStore s of Some store \<Rightarrow> us_DeleteUser store username d | None \<Rightarrow> (Inr (), d)) of
             (Inl e, d) \<Rightarrow> (Inl e, s, d)
           | (Inr _, d) \<Rightarrow>
               (case map_of (Service_users s) username of
                  None \<Rightarrow> (Inl ''user not found'', s, d)
                | Some _ \<Rightarrow> (Inr (), s\<lparr>Service_users := AList.delete username (Service_users s)\<rparr>, d))))"

definition ChangePassword ::
  "bcrypt \<Rightarrow> string \<Rightarrow> string \<Rightarrow> string \<Rightarrow> 'd Service \<Rightarrow> 'd \<Rightarrow> unit res \<times> 'd Service \<times> 'd" where
  "ChangePassword bc salt username newPassword s d =
     (let username = TrimSpace username; newPassword = TrimSpace newPassword
      in if username = [] \<or> newPassword = [] then (Inl ''username and new password are required'', s, d)
         else (case bc_Generate bc salt newPassword of
             Inl e \<Rightarrow> (Inl (''hash password: '' @ e), s, d)
           | Inr passwordHash \<Rightarrow>
               (case (case Service_userStore s of
                   Some store \<Rightarrow> us_UpdatePassword store username passwordHash d | None \<Rightarrow> (Inr (), d)) of
                  (Inl e, d) \<Rightarrow> (Inl e, s, d)
                | (Inr _, d) \<Rightarrow>
                    (case map_of (Service_users s) username of
                       None \<Rightarrow> (Inl ''user not found'', s, d)
                     | Some rec \<Rightarrow> (Inr (), s\<lparr>Service_users := AList.update username
                         (rec\<lparr>storedUser_password := passwordHash\<rparr>) (Service_users s)\<rparr>, d)))))"

section \<open>Tokens are read back\<close>

lemma claim_names:
  "EqualFold ''sub'' ''sub''" "\<not> EqualFold ''role'' ''sub''" "EqualFold ''role'' ''role''"
  "\<not> EqualFold ''exp'' ''sub''" "\<not> EqualFold ''exp'' ''role''" "EqualFold ''exp'' ''exp''"
  by code_simp+

definition claims_ok :: "Claims \<Rightarrow> bool" where
  "claims_ok c \<longleftrightarrow> utf8_valid (Claims_Subject c) \<and> utf8_valid (Claims_Role c) \<and>
     - (2 ^ 63) \<le> Claims_Expiry c \<and> Claims_Expiry c < 2 ^ 63"

lemma claims_read_back:
  assumes "claims_ok c"
  shows "json_Unmarshal claims_fields (json_print (claims_json c)) zero_Claims = Inr c"
proof -
  have "utf8_valid ''sub''" "utf8_valid ''role''" "utf8_valid ''exp''" by code_simp+
  then have "json_parse (json_print (claims_json c)) = Inr (claims_json c)"
    using assms by (intro json_parse_print) (auto simp: claims_json_def claims_ok_def)
  moreover have "decode_struct False claims_fields (claims_json c) zero_Claims = (c, None)"
    using assms
    by (simp add: decode_struct_def claims_json_def claims_fields_def struct_field_def decode_key_def claim_names
        decode_string_def decode_int_def parse_int_text claims_ok_def zero_Claims_def)
  ultimately show ?thesis by (simp add: json_Unmarshal_def)
qed

lemma ParseToken_sign:
  assumes "claims_ok c"
  shows "ParseToken now s (sign s c) =
    (if Unix now > Claims_Expiry c then Inl ''token expired''
     else Inr \<lparr>User_Username = Claims_Subject c, User_Role = Claims_Role c\<rparr>)"
proof -
  have nd: "CHR ''.'' \<notin> set (encodeSegment x)" for x using encodeSegment_chars[of "CHR ''.''" x] by auto
  then have "Split (sign s c) (CHR ''.'') =
     [encodeSegment (json_print token_header), encodeSegment (json_print (claims_json c)),
      signRaw s (encodeSegment (json_print token_header) @ ''.'' @ encodeSegment (json_print (claims_json c)))]"
    by (simp add: sign_def Let_def Split_append_sep Split_no_sep signRaw_def)
  then show ?thesis
    by (simp add: ParseToken_def decode_encodeSegment claims_read_back[OF assms])
qed

text \<open>Nothing but a correctly signed pair of segments is accepted.\<close>

lemma ParseToken_signed:
  assumes "ParseToken now s token = Inr user"
  shows "\<exists>h p. Split token (CHR ''.'') = [h, p, signRaw s (h @ ''.'' @ p)]"
  using assms by (auto simp: ParseToken_def split: list.splits if_splits)

section \<open>Passwords\<close>

text \<open>
  What the service relies on of bcrypt, as its documentation states it: passwords of at most 72 bytes are
  hashed and longer ones refused; a hash accepts its password and, among passwords without a zero byte
  that could have been hashed, no other one.
\<close>

definition plain_password :: "string \<Rightarrow> bool" where
  "plain_password p \<longleftrightarrow> length p \<le> 72 \<and> CHR 0x00 \<notin> set p"

definition bcrypt_ok :: "bcrypt \<Rightarrow> bool" where
  "bcrypt_ok bc \<longleftrightarrow> (\<forall>salt p. (\<exists>h. bc_Generate bc salt p = Inr h) \<longleftrightarrow> length p \<le> 72) \<and>
     (\<forall>salt p h. bc_Generate bc salt p = Inr h \<longrightarrow> bc_Compare bc h p) \<and>
     (\<forall>salt p q h. bc_Generate bc salt p = Inr h \<longrightarrow> plain_password p \<longrightarrow> plain_password q \<longrightarrow>
        bc_Compare bc h q \<longrightarrow> q = p)"

text \<open>The abstract user directory: a password and a role for each name.\<close>

type_synonym directory = "string \<rightharpoonup> string \<times> string"

datatype user_op =
    Op_create string string string string
  | Op_delete string
  | Op_change string string string

fun dir_exec :: "string \<Rightarrow> user_op \<Rightarrow> directory \<Rightarrow> directory" where
  "dir_exec admin (Op_create salt u p r) M =
     (let u = TrimSpace u; p = TrimSpace p; r = (if TrimSpace r = [] then ''operator'' else TrimSpace r)
      in if u \<noteq> [] \<and> p \<noteq> [] \<and> length p \<le> 72 \<and> r \<in> {''admin'', ''operator''} \<and> M u = None
         then M(u \<mapsto> (p, r)) else M)"
| "dir_exec admin (Op_delete u) M =
     (if TrimSpace u \<noteq> [] \<and> TrimSpace u \<noteq> admin then M(TrimSpace u := None) else M)"
| "dir_exec admin (Op_change salt u p) M =
     (let u = TrimSpace u; p = TrimSpace p
      in case M u of
           Some (_, r) \<Rightarrow> if u \<noteq> [] \<and> p \<noteq> [] \<and> length p \<le> 72 then M(u \<mapsto> (p, r)) else M
         | None \<Rightarrow> M)"

fun user_exec :: "bcrypt \<Rightarrow> user_op \<Rightarrow> 'd Service \<Rightarrow> 'd \<Rightarrow> 'd Service" where
  "user_exec bc (Op_create salt u p r) s d = fst (snd (CreateUser bc salt u p r s d))"
| "user_exec bc (Op_delete u) s d = fst (snd (DeleteUser u s d))"
| "user_exec bc (Op_change salt u p) s d = fst (snd (ChangePassword bc salt u p s d))"

fun op_plain :: "user_op \<Rightarrow> bool" where
  "op_plain (Op_create salt u p r) = (CHR 0x00 \<notin> set (TrimSpace p))"
| "op_plain (Op_delete u) = True"
| "op_plain (Op_change salt u p) = (CHR 0x00 \<notin> set (TrimSpace p))"

text \<open>The service keeps the directory in memory: no store behind it, and every entry a hash of the password.\<close>

definition stores :: "bcrypt \<Rightarrow> string \<Rightarrow> storedUser \<Rightarrow> string \<times> string \<Rightarrow> bool" where
  "stores bc u st pr \<longleftrightarrow> storedUser_user st = \<lparr>User_Username = u, User_Role = snd pr\<rparr> \<and> plain_password (fst pr) \<and>
     (\<exists>salt. bc_Generate bc salt (fst pr) = Inr (storedUser_password st))"

definition represents :: "bcrypt \<Rightarrow> 'd Service \<Rightarrow> directory \<Rightarrow> bool" where
  "represents bc s M \<longleftrightarrow> Service_userStore s = None \<and>
     (\<forall>u. rel_option (stores bc u) (map_of (Service_users s) u) (M u))"

lemma representsD:
  assumes "represents bc s M"
  shows "Service_userStore s = None" "map_of (Service_users s) u = None \<longleftrightarrow> M u = None"
    "map_of (Service_users s) u = Some st \<Longrightarrow> \<exists>pr. M u = Some pr \<and> stores bc u st pr"
proof -
  have r: "rel_option (stores bc u) (map_of (Service_users s) u) (M u)" "Service_userStore s = None"
    using assms by (simp_all add: represents_def)
  then show "Service_userStore s = None" "map_of (Service_users s) u = None \<longleftrightarrow> M u = None"
    "map_of (Service_users s) u = Some st \<Longrightarrow> \<exists>pr. M u = Some pr \<and> stores bc u st pr"
    by (auto simp: option_rel_Some1 elim: option.rel_cases)
qed

lemma represents_upd:
  assumes "represents bc s M" "stores bc u st pr"
  shows "represents bc (s\<lparr>Service_users := AList.update u st (Service_users s)\<rparr>) (M(u \<mapsto> pr))"
  using assms by (auto simp: represents_def AList.update_conv')

lemma represents_del:
  assumes "represents bc s M"
  shows "represents bc (s\<lparr>Service_users := AList.delete u (Service_users s)\<rparr>) (M(u := None))"
  using assms by (auto simp: represents_def AList.delete_conv')

lemma user_exec_admin [simp]: "Service_adminUsername (user_exec bc op s d) = Service_adminUsername s"
  by (cases op) (auto simp: CreateUser_def DeleteUser_def ChangePassword_def Let_def split: option.splits sum.splits prod.splits)

lemma bcrypt_hashes: "bcrypt_ok bc \<Longrightarrow> length p \<le> 72 \<longleftrightarrow> (\<exists>h. bc_Generate bc salt p = Inr h)"
  by (simp add: bcrypt_ok_def)

lemma create_refines:
  assumes "bcrypt_ok bc" "represents bc s M" "CHR 0x00 \<notin> set (TrimSpace p)"
  shows "represents bc (user_exec bc (Op_create salt u p r) s d) (dir_exec admin (Op_create salt u p r) M)"
proof -
  let ?u = "TrimSpace u" and ?p = "TrimSpace p" and ?r = "if TrimSpace r = [] then ''operator'' else TrimSpace r"
  note rep = representsD[OF assms(2)]
  show ?thesis
  proof (cases "?u \<noteq> [] \<and> ?p \<noteq> [] \<and> length ?p \<le> 72 \<and> ?r \<in> {''admin'', ''operator''} \<and> M ?u = None")
    case True
    then obtain h where h: "bc_Generate bc salt ?p = Inr h" using bcrypt_hashes[OF assms(1)] by blast
    let ?st = "\<lparr>storedUser_password = h, storedUser_user = \<lparr>User_Username = ?u, User_Role = ?r\<rparr>\<rparr>"
    have "stores bc ?u ?st (?p, ?r)" using h True assms(3) by (auto simp: stores_def plain_password_def)
    from represents_upd[OF assms(2) this] show ?thesis
      using True h rep(1) rep(2)[of ?u] by (auto simp: CreateUser_def Let_def)
  next
    case False
    then have "user_exec bc (Op_create salt u p r) s d = s"
      using assms(1) rep(1) rep(2)[of ?u]
      by (auto simp: CreateUser_def Let_def bcrypt_ok_def split: sum.splits option.splits)
    moreover have "dir_exec admin (Op_create salt u p r) M = M" using False by (auto simp: Let_def)
    ultimately show ?thesis using assms(2) by simp
  qed
qed

lemma change_refines:
  assumes "bcrypt_ok bc" "represents bc s M" "CHR 0x00 \<notin> set (TrimSpace p)"
  shows "represents bc (user_exec bc (Op_change salt u p) s d) (dir_exec admin (Op_change salt u p) M)"
proof -
  let ?u = "TrimSpace u" and ?p = "TrimSpace p"
  note rep = representsD[OF assms(2)]
  show ?thesis
  proof (cases "?u \<noteq> [] \<and> ?p \<noteq> [] \<and> length ?p \<le> 72 \<and> M ?u \<noteq> None")
    case True
    then obtain h where h: "bc_Generate bc salt ?p = Inr h" using bcrypt_hashes[OF assms(1)] by blast
    obtain st where st: "map_of (Service_users s) ?u = Some st" using True rep(2)[of ?u] by auto
    then obtain q r where qr: "M ?u = Some (q, r)" "stores bc ?u st (q, r)" using rep(3) by fastforce
    then have "stores bc ?u (st\<lparr>storedUser_password := h\<rparr>) (?p, r)"
      using h True assms(3) by (auto simp: stores_def plain_password_def)
    from represents_upd[OF assms(2) this] show ?thesis
      using True h st qr rep(1) by (auto simp: ChangePassword_def Let_def)
  next
    case False
    then have "user_exec bc (Op_change salt u p) s d = s"
      using assms(1) rep(1) rep(2)[of ?u]
      by (auto simp: ChangePassword_def Let_def bcrypt_ok_def split: sum.splits option.splits)
    moreover have "dir_exec admin (Op_change salt u p) M = M"
      using False by (auto simp: Let_def split: option.splits)
    ultimately show ?thesis using assms(2) by simp
  qed
qed

lemma delete_refines:
  assumes "represents bc s M"
  shows "represents bc (user_exec bc (Op_delete u) s d) (dir_exec (Service_adminUsername s) (Op_delete u) M)"
proof -
  note rep = representsD[OF assms]
  have "M(v := None) = M" if "map_of (Service_users s) v = None" for v using that rep(2)[of v] by auto
  then show ?thesis using assms rep(1) represents_del[OF assms]
    by (auto simp: DeleteUser_def Let_def split: option.splits)
qed

lemma user_ops_refine:
  assumes "bcrypt_ok bc" "represents bc s M" "list_all op_plain ops"
  shows "represents bc (fold (\<lambda>op s. user_exec bc op s d) ops s)
    (fold (dir_exec (Service_adminUsername s)) ops M)"
  using assms(2,3)
proof (induction ops arbitrary: s M)
  case (Cons op ops)
  have "represents bc (user_exec bc op s d) (dir_exec (Service_adminUsername s) op M)"
    using Cons.prems create_refines[OF assms(1) Cons.prems(1)] change_refines[OF assms(1) Cons.prems(1)]
      delete_refines[OF Cons.prems(1)] by (cases op) auto
  from Cons.IH[OF this] show ?case using Cons.prems by simp
qed simp

lemma Login_represented:
  assumes "bcrypt_ok bc" "represents bc s M" "plain_password q" "\<And>salt p. bc_Generate bc salt p \<noteq> Inr q"
  shows "Login bc now s d u q =
    (case M u of Some (p, r) \<Rightarrow>
        if q = p then Inr (generateToken now s \<lparr>User_Username = u, User_Role = r\<rparr>) else Inl bad_login
     | None \<Rightarrow> Inl bad_login)"
proof (cases "map_of (Service_users s) u")
  case None
  then show ?thesis using representsD(1)[OF assms(2)] representsD(2)[OF assms(2), of u] by (simp add: Login_def)
next
  case (Some st)
  then obtain p r where pr: "M u = Some (p, r)" "stores bc u st (p, r)" using representsD(3)[OF assms(2)] by fastforce
  then obtain salt where g: "bc_Generate bc salt p = Inr (storedUser_password st)" "plain_password p"
    "storedUser_user st = \<lparr>User_Username = u, User_Role = r\<rparr>" by (auto simp: stores_def)
  have "password_matches bc (storedUser_password st) q \<longleftrightarrow> q = p"
    using assms(1,3,4) g unfolding password_matches_def bcrypt_ok_def by metis
  then show ?thesis using Some pr g representsD(1)[OF assms(2)] by (simp add: Login_def)
qed

section \<open>Properties\<close>


definition marked_bcrypt :: bcrypt where
  "marked_bcrypt = \<lparr>bc_Generate = (\<lambda>salt p. if length p \<le> 72 then Inr (CHR 0x24 # p) else Inl ''too long''),
     bc_Compare = (\<lambda>h p. h = CHR 0x24 # p)\<rparr>"

lemma marked_bcrypt_ok: "bcrypt_ok marked_bcrypt"
  by (auto simp: bcrypt_ok_def marked_bcrypt_def)

definition demo_ops :: "user_op list" where
  "demo_ops = [Op_create [] ''bob'' '' pw1 '' [], Op_change [] ''bob'' ''pw2'']"


text \<open>C22. A token that the service issues is accepted by it for twelve hours and identifies exactly the user
  it was issued to; afterwards it is rejected as expired.\<close>

theorem token_roundtrip:
  assumes "utf8_valid (User_Username u)" "utf8_valid (User_Role u)" "0 \<le> now" "now < 2 ^ 63"
  shows "ParseToken later s (fst (generateToken now s u)) =
    (if later div 1000000000 \<le> now div 1000000000 + 43200 then Inr u else Inl ''token expired'')"
proof -
  have e: "Unix (now + 12 * 60 * 60 * Second) = now div 1000000000 + 43200"
    by (simp add: Unix_def Second_def)
  have "now div 1000000000 \<le> 2 ^ 63 div 1000000000" using assms(4) by (intro zdiv_mono1) auto
  moreover have "0 \<le> now div 1000000000" using assms(3) by (simp add: pos_imp_zdiv_nonneg_iff)
  ultimately have "claims_ok \<lparr>Claims_Subject = User_Username u, Claims_Role = User_Role u,
      Claims_Expiry = now div 1000000000 + 43200\<rparr>"
    using assms by (simp add: claims_ok_def)
  moreover have "fst (generateToken now s u) = sign s \<lparr>Claims_Subject = User_Username u, Claims_Role = User_Role u,
      Claims_Expiry = now div 1000000000 + 43200\<rparr>"
    by (simp only: generateToken_def fst_conv e)
  ultimately show ?thesis
    by (simp add: ParseToken_sign not_less) (simp add: Unix_def Second_def)
qed

theorem token_roundtrip_witness:
  "ParseToken 5000000000 (Auth_NewService marked_bcrypt [] ''root'' ''secret'' ''key'' :: unit Service)
     (fst (generateToken 0 (Auth_NewService marked_bcrypt [] ''root'' ''secret'' ''key'' :: unit Service)
        \<lparr>User_Username = ''bob'', User_Role = ''operator''\<rparr>)) =
   Inr \<lparr>User_Username = ''bob'', User_Role = ''operator''\<rparr>"
proof -
  have "utf8_valid ''bob''" "utf8_valid ''operator''" by code_simp+
  then show ?thesis
    using token_roundtrip[of "\<lparr>User_Username = ''bob'', User_Role = ''operator''\<rparr>" 0 5000000000] by simp
qed

text \<open>C38. The plain-text fallback of \<open>Login\<close> makes a stored hash a password: whoever reads the hash of a user
  logs in as that user, whatever bcrypt says.\<close>

theorem Login_accepts_stored_hash:
  assumes "Service_userStore s = None" "map_of (Service_users s) u = Some st"
  shows "Login bc now s d u (storedUser_password st) = Inr (generateToken now s (storedUser_user st))"
  using assms by (simp add: Login_def password_matches_def)

theorem Login_accepts_stored_hash_witness:
  "let s = Auth_NewService marked_bcrypt [] ''root'' ''secret'' ''key'' :: unit Service
   in Login marked_bcrypt 0 s () ''root'' (CHR 0x24 # ''secret'') =
        Inr (generateToken 0 s \<lparr>User_Username = ''root'', User_Role = ''admin''\<rparr>)"
proof -
  let ?s = "Auth_NewService marked_bcrypt [] ''root'' ''secret'' ''key'' :: unit Service"
  have "Service_userStore ?s = None" "map_of (Service_users ?s) ''root'' =
      Some \<lparr>storedUser_password = CHR 0x24 # ''secret'', storedUser_user = \<lparr>User_Username = ''root'', User_Role = ''admin''\<rparr>\<rparr>"
    by (simp_all add: Auth_NewService_def marked_bcrypt_def)
  from Login_accepts_stored_hash[OF this, of marked_bcrypt 0 "()"] show ?thesis by (simp add: Let_def)
qed

text \<open>With a database behind the service, a user that exists only there (created before a restart) cannot be
  deleted cleanly: the database entry is removed and the call still reports that the user does not exist.\<close>

lemma DeleteUser_half_done:
  assumes "Service_userStore s = Some store" "us_DeleteUser store (TrimSpace u) d = (Inr (), d')"
    and "TrimSpace u \<noteq> []" "TrimSpace u \<noteq> Service_adminUsername s" "map_of (Service_users s) (TrimSpace u) = None"
  shows "DeleteUser u s d = (Inl ''user not found'', s, d')"
  using assms by (simp add: DeleteUser_def Let_def)

end
