(* ===== verification/Repository.thy ===== *)
theory Repository
  imports Domain_Model
begin

text \<open>
  \<open>internal/infrastructure/db/repository.go\<close>: the persistence interface. A value of a Go interface
  type is a record of its methods, each a function on the state \<open>'r\<close> of the implementation; the
  components that use a repository take such a record. Methods that change the state read the clock
  as \<open>now\<close> (the readings within one call are one value). The laws the clients rely on are the
  locale \<open>job_repository\<close>; the implementations interpret it.
\<close>

record JobFilter =
  JobFilter_SourceType :: string
  JobFilter_WorkerType :: string
  JobFilter_Status :: string
  JobFilter_Limit :: int

definition WorkerOnlineThreshold :: Duration where
  "WorkerOnlineThreshold = 30 * Second"

record 'r Repository =
  repo_RegisterWorker :: "Time \<Rightarrow> string \<Rightarrow> string \<Rightarrow> 'r \<Rightarrow> Worker res \<times> 'r"
  repo_HeartbeatWorker :: "Time \<Rightarrow> string \<Rightarrow> HostInfo option \<Rightarrow> 'r \<Rightarrow> Worker res \<times> 'r"
  repo_GetWorker :: "string \<Rightarrow> 'r \<Rightarrow> Worker res"
  repo_ListWorkers :: "'r \<Rightarrow> Worker list res"
  repo_UpdateWorkerStatus :: "Time \<Rightarrow> string \<Rightarrow> WorkerStatus \<Rightarrow> 'r \<Rightarrow> unit res \<times> 'r"
  repo_DeleteWorker :: "string \<Rightarrow> 'r \<Rightarrow> unit res \<times> 'r"
  repo_CreateJob :: "Time \<Rightarrow> Job \<Rightarrow> 'r \<Rightarrow> Job res \<times> 'r"
  repo_GetJob :: "string \<Rightarrow> 'r \<Rightarrow> Job res"
  repo_ListJobs :: "JobFilter \<Rightarrow> 'r \<Rightarrow> Job list res"
  repo_AssignNextJob :: "Time \<Rightarrow> string \<Rightarrow> 'r \<Rightarrow> Job res \<times> 'r"
  repo_AssignJobToWorkers :: "Time \<Rightarrow> string \<Rightarrow> string list \<Rightarrow> 'r \<Rightarrow> unit res \<times> 'r"
  repo_CompleteJob :: "Time \<Rightarrow> string \<Rightarrow> string \<Rightarrow> string \<Rightarrow> bool \<Rightarrow> 'r \<Rightarrow> Job res \<times> 'r"
  repo_DeleteJob :: "string \<Rightarrow> 'r \<Rightarrow> unit res \<times> 'r"
  repo_ListPendingApprovalJobs :: "'r \<Rightarrow> Job list res"
  repo_ApproveJob :: "Time \<Rightarrow> string \<Rightarrow> string \<Rightarrow> string \<Rightarrow> 'r \<Rightarrow> Job res \<times> 'r"
  repo_RejectJob :: "Time \<Rightarrow> string \<Rightarrow> string \<Rightarrow> string \<Rightarrow> 'r \<Rightarrow> Job res \<times> 'r"
  repo_AddAuditLog :: "Time \<Rightarrow> AuditLog \<Rightarrow> 'r \<Rightarrow> unit res \<times> 'r"
  repo_ListAuditLogs :: "string \<Rightarrow> string \<Rightarrow> 'r \<Rightarrow> AuditLog list res"
  repo_ListIncidentCases :: "IncidentCaseFilter \<Rightarrow> 'r \<Rightarrow> IncidentCase list res"
  repo_FindSimilarIncidentCases :: "string \<Rightarrow> string \<Rightarrow> string \<Rightarrow> int \<Rightarrow> 'r \<Rightarrow> IncidentCase list res"
  repo_AddWorkerLog :: "Time \<Rightarrow> WorkerLog \<Rightarrow> 'r \<Rightarrow> unit res \<times> 'r"
  repo_SaveManagedConfig :: "Time \<Rightarrow> ManagedConfig \<Rightarrow> 'r \<Rightarrow> ManagedConfig res \<times> 'r"
  repo_ListManagedConfigs :: "string \<Rightarrow> 'r \<Rightarrow> ManagedConfig list res"
  repo_GetManagedConfig :: "string \<Rightarrow> string \<Rightarrow> 'r \<Rightarrow> ManagedConfig res"
  repo_DeleteManagedConfig :: "string \<Rightarrow> string \<Rightarrow> 'r \<Rightarrow> unit res \<times> 'r"
  repo_CreateAgentRun :: "Time \<Rightarrow> AgentRun \<Rightarrow> 'r \<Rightarrow> AgentRun res \<times> 'r"
  repo_GetAgentRun :: "string \<Rightarrow> 'r \<Rightarrow> AgentRun res"
  repo_ListAgentRunsByStatus :: "AgentRunStatus list \<Rightarrow> 'r \<Rightarrow> AgentRun list res"
  repo_UpdateAgentRun :: "Time \<Rightarrow> AgentRun \<Rightarrow> 'r \<Rightarrow> unit res \<times> 'r"
  repo_AddAgentEvent :: "Time \<Rightarrow> AgentEvent \<Rightarrow> 'r \<Rightarrow> AgentEvent res \<times> 'r"
  repo_ListAgentEvents :: "string \<Rightarrow> int \<Rightarrow> 'r \<Rightarrow> AgentEvent list res"
  repo_CreateAgentToolCall :: "Time \<Rightarrow> AgentToolCall \<Rightarrow> 'r \<Rightarrow> unit res \<times> 'r"
  repo_CompleteAgentToolCall :: "Time \<Rightarrow> AgentToolCall \<Rightarrow> 'r \<Rightarrow> unit res \<times> 'r"
  repo_CreateConversation :: "Time \<Rightarrow> string \<Rightarrow> 'r \<Rightarrow> Conversation res \<times> 'r"
  repo_GetConversation :: "string \<Rightarrow> 'r \<Rightarrow> Conversation res"
  repo_ListConversations :: "'r \<Rightarrow> Conversation list res"
  repo_DeleteConversation :: "string \<Rightarrow> 'r \<Rightarrow> unit res \<times> 'r"
  repo_AddConversationMessage :: "Time \<Rightarrow> ConversationMessage \<Rightarrow> 'r \<Rightarrow> unit res \<times> 'r"
  repo_ListConversationMessages :: "string \<Rightarrow> 'r \<Rightarrow> ConversationMessage list res"
  repo_MetricsSnapshot :: "Time \<Rightarrow> 'r \<Rightarrow> MetricsSnapshot res"

section \<open>What clients rely on\<close>

text \<open>
  The part of the contract about jobs and approval that the handlers use: an approval or rejection
  succeeds only on a waiting job and returns the job it leaves in the repository; writing an audit
  record or a worker log changes no job.
\<close>

locale job_repository =
  fixes repo :: "'r Repository"
    and inv :: "'r \<Rightarrow> bool"
  assumes approve_ok: "inv r \<Longrightarrow> repo_ApproveJob repo now j who c r = (Inr job, r') \<Longrightarrow>
        (\<exists>old. repo_GetJob repo j r = Inr old \<and> Job_Status old = JobStatusWaitingApproval) \<and>
        repo_GetJob repo j r' = Inr job \<and> Job_Status job = JobStatusPending \<and>
        Job_ApprovalStatus job = ApprovalStatusApproved \<and> Job_ApprovedBy job = who \<and> Job_ID job = j"
    and reject_ok: "inv r \<Longrightarrow> repo_RejectJob repo now j who c r = (Inr job, r') \<Longrightarrow>
        (\<exists>old. repo_GetJob repo j r = Inr old \<and> Job_Status old = JobStatusWaitingApproval) \<and>
        repo_GetJob repo j r' = Inr job \<and> Job_Status job = JobStatusCancelled \<and>
        Job_ApprovalStatus job = ApprovalStatusRejected \<and> Job_RejectedBy job = who \<and> Job_ID job = j"
    and approve_err: "inv r \<Longrightarrow> repo_ApproveJob repo now j who c r = (Inl e, r') \<Longrightarrow> r' = r"
    and reject_err: "inv r \<Longrightarrow> repo_RejectJob repo now j who c r = (Inl e, r') \<Longrightarrow> r' = r"
    and complete_ok: "inv r \<Longrightarrow> repo_CompleteJob repo now w j out ok r = (Inr job, r') \<Longrightarrow>
        (\<exists>old. repo_GetJob repo j r = Inr old \<and> Job_AssignedWorkerID old = w) \<and>
        repo_GetJob repo j r' = Inr job \<and> Job_ID job = j \<and> Job_Output job = out \<and>
        Job_Status job = (if ok then JobStatusSuccess else JobStatusFailed)"
    and complete_err: "inv r \<Longrightarrow> repo_CompleteJob repo now w j out ok r = (Inl e, r') \<Longrightarrow> r' = r"
    and audit_jobs:
      "repo_GetJob repo j (snd (repo_AddAuditLog repo now entry r)) = repo_GetJob repo j r"
    and log_jobs: "repo_GetJob repo j (snd (repo_AddWorkerLog repo now l r)) = repo_GetJob repo j r"
begin

lemma approve_then_decide:
  assumes "inv r" "inv r'" "repo_ApproveJob repo now j who c r = (Inr job, r')"
  shows "\<nexists>job2 r2. repo_ApproveJob repo now2 j who2 c2 r' = (Inr job2, r2) \<or>
    repo_RejectJob repo now2 j who2 c2 r' = (Inr job2, r2)"
  using approve_ok[OF assms(1,3)] approve_ok[OF assms(2)] reject_ok[OF assms(2)] by fastforce

end

text \<open>
  What is run does not change: a job keeps its command, template and worker type. Creating a job leaves
  every other job alone; the new one is as requested. Assigning a job touches that job only.
\<close>

definition same_work :: "Job \<Rightarrow> Job \<Rightarrow> bool" where
  "same_work a b \<longleftrightarrow> Job_Command a = Job_Command b \<and> Job_TemplateCode a = Job_TemplateCode b \<and>
     Job_WorkerType a = Job_WorkerType b"

lemma same_work_refl [simp]: "same_work a a"
  by (simp add: same_work_def)

lemma same_work_trans: "same_work a b \<Longrightarrow> same_work b c \<Longrightarrow> same_work a c"
  by (simp add: same_work_def)

locale job_writes =
  fixes repo :: "'r Repository"
  assumes create_frame: "repo_CreateJob repo now job r = (res, r') \<Longrightarrow> repo_GetJob repo j r' = Inr new \<Longrightarrow>
        repo_GetJob repo j r = Inr new \<or>
        same_work new job \<and> Job_AssignedWorkerID new = Job_AssignedWorkerID job \<and>
        Job_Status new = (if Job_Status job = [] then JobStatusPending else Job_Status job)"
    and assign_frame: "repo_AssignJobToWorkers repo now k ws r = (out, r') \<Longrightarrow> repo_GetJob repo j r' = Inr new \<Longrightarrow>
        \<exists>old. repo_GetJob repo j r = Inr old \<and> same_work new old \<and> (j \<noteq> k \<longrightarrow> new = old)"
begin

text \<open>Every job in \<open>r'\<close> does the work it did in \<open>r\<close>, or is one that \<open>P\<close> allows.\<close>

definition traced :: "(Job \<Rightarrow> bool) \<Rightarrow> 'r \<Rightarrow> 'r \<Rightarrow> bool" where
  "traced P r r' \<longleftrightarrow> (\<forall>j new. repo_GetJob repo j r' = Inr new \<longrightarrow>
     (\<exists>old. repo_GetJob repo j r = Inr old \<and> same_work new old) \<or> P new)"

lemma traced_refl [simp]: "traced P r r"
  by (auto simp: traced_def)

lemma traced_trans:
  assumes "traced P r r1" "traced P r1 r2" and "\<And>a b. same_work a b \<Longrightarrow> P b \<Longrightarrow> P a"
  shows "traced P r r2"
  using assms by (auto simp: traced_def) (metis same_work_trans)

lemma traced_create:
  "repo_CreateJob repo now job r = (res, r') \<Longrightarrow> (\<And>new. same_work new job \<Longrightarrow> P new) \<Longrightarrow> traced P r r'"
  unfolding traced_def using create_frame same_work_refl by metis

lemma traced_assign: "repo_AssignJobToWorkers repo now k ws r = (out, r') \<Longrightarrow> traced P r r'"
  unfolding traced_def using assign_frame by metis

end

text \<open>The ledger of a run is kept apart from the jobs: writing it changes none.\<close>

locale run_repository = job_writes repo
  for repo :: "'r Repository" +
  assumes run_jobs: "repo_GetJob repo j (snd (repo_UpdateAgentRun repo now run r)) = repo_GetJob repo j r"
    and event_jobs: "repo_GetJob repo j (snd (repo_AddAgentEvent repo now ev r)) = repo_GetJob repo j r"
    and call_jobs: "repo_GetJob repo j (snd (repo_CreateAgentToolCall repo now call r)) = repo_GetJob repo j r"
    and called_jobs: "repo_GetJob repo j (snd (repo_CompleteAgentToolCall repo now call r)) = repo_GetJob repo j r"

end
