(* ===== verification/Memory_Repo.thy ===== *)
theory Memory_Repo
  imports Scheduler_Store Repository
begin

text \<open>
  \<open>internal/infrastructure/db/memory.go\<close>: the repository used without a database and in tests. Its
  state is the scheduler store plus managed configurations, conversations, agent runs with their
  events and tool calls, and the idempotency index of jobs. \<open>memory\_repository\<close> is the interface
  value with these methods.
\<close>

section \<open>State\<close>

record MemoryRepository =
  Mem_store :: Store
  Mem_managedConfigs :: "(string, ManagedConfig) gomap"
  Mem_conversations :: "(string, Conversation) gomap"
  Mem_messages :: "(string, ConversationMessage list) gomap"
  Mem_convIDSeq :: "64 word"
  Mem_convMsgIDSeq :: "64 word"
  Mem_agentRuns :: "(string, AgentRun) gomap"
  Mem_agentEvents :: "(string, AgentEvent list) gomap"
  Mem_agentCalls :: "(string, AgentToolCall) gomap"
  Mem_agentEventSeq :: "64 word"
  Mem_jobIdempotency :: "(string, string) gomap"

definition NewMemoryRepository :: MemoryRepository where
  "NewMemoryRepository = \<lparr>Mem_store = NewStore, Mem_managedConfigs = [], Mem_conversations = [],
     Mem_messages = [], Mem_convIDSeq = 0, Mem_convMsgIDSeq = 0, Mem_agentRuns = [],
     Mem_agentEvents = [], Mem_agentCalls = [], Mem_agentEventSeq = 0, Mem_jobIdempotency = []\<rparr>"

definition errNotFound :: "string \<Rightarrow> string \<Rightarrow> error" where
  "errNotFound entity ident = entity @ '' not found: '' @ ident"

definition errInvalidStatus :: "string \<Rightarrow> string \<Rightarrow> error" where
  "errInvalidStatus entity status = ''cannot delete '' @ entity @ '' with status '' @ status"

text \<open>Running a store method inside the repository.\<close>

definition on_store :: "(Store \<Rightarrow> 'a \<times> Store) \<Rightarrow> MemoryRepository \<Rightarrow> 'a \<times> MemoryRepository" where
  "on_store f r = (case f (Mem_store r) of (a, s) \<Rightarrow> (a, r\<lparr>Mem_store := s\<rparr>))"

section \<open>Users\<close>

definition Mem_CreateUser :: "string \<Rightarrow> string \<Rightarrow> string \<Rightarrow> MemoryRepository \<Rightarrow> User res \<times> MemoryRepository" where
  "Mem_CreateUser username passwordHash role r = (Inr \<lparr>User_Username = username, User_Role = role\<rparr>, r)"

definition Mem_GetUser :: "string \<Rightarrow> MemoryRepository \<Rightarrow> (string \<times> User \<times> bool) res" where
  "Mem_GetUser username r = Inr ([], zero_User, False)"

definition Mem_ListUsers :: "MemoryRepository \<Rightarrow> User list res" where
  "Mem_ListUsers r = Inr []"

definition Mem_DeleteUser :: "string \<Rightarrow> MemoryRepository \<Rightarrow> unit res \<times> MemoryRepository" where
  "Mem_DeleteUser username r = (Inr (), r)"

definition Mem_UpdatePassword :: "string \<Rightarrow> string \<Rightarrow> MemoryRepository \<Rightarrow> unit res \<times> MemoryRepository" where
  "Mem_UpdatePassword username newHash r = (Inr (), r)"

section \<open>Workers\<close>

definition Mem_RegisterWorker ::
  "Time \<Rightarrow> string \<Rightarrow> string \<Rightarrow> MemoryRepository \<Rightarrow> Worker res \<times> MemoryRepository" where
  "Mem_RegisterWorker now name workerType r =
     (case find (\<lambda>w. Worker_Name w = name \<and> Worker_WorkerType w = workerType) (ListWorkers (Mem_store r)) of
        Some w \<Rightarrow>
          (case on_store (HeartbeatWorker now (Worker_ID w)) r of
             (Some updated, r) \<Rightarrow> (Inr updated, r)
           | (None, r) \<Rightarrow> (Inr w, r))
      | None \<Rightarrow> (case on_store (RegisterWorker now name workerType) r of (w, r) \<Rightarrow> (Inr w, r)))"

definition Mem_HeartbeatWorker ::
  "Time \<Rightarrow> string \<Rightarrow> HostInfo option \<Rightarrow> MemoryRepository \<Rightarrow> Worker res \<times> MemoryRepository" where
  "Mem_HeartbeatWorker now ident info r =
     (case on_store (HeartbeatWorker now ident) r of
        (None, r) \<Rightarrow> (Inl (errNotFound ''worker'' ident), r)
      | (Some w, r) \<Rightarrow>
          (Inr (case info of None \<Rightarrow> w | Some i \<Rightarrow> w\<lparr>Worker_HostInfo := i\<rparr>), r))"

definition Mem_GetWorker :: "string \<Rightarrow> MemoryRepository \<Rightarrow> Worker res" where
  "Mem_GetWorker ident r =
     (case find (\<lambda>w. Worker_ID w = ident) (ListWorkers (Mem_store r)) of
        Some w \<Rightarrow> Inr w | None \<Rightarrow> Inl (errNotFound ''worker'' ident))"

definition Mem_ListWorkers :: "MemoryRepository \<Rightarrow> Worker list res" where
  "Mem_ListWorkers r = Inr (ListWorkers (Mem_store r))"

definition Mem_UpdateWorkerStatus ::
  "Time \<Rightarrow> string \<Rightarrow> WorkerStatus \<Rightarrow> MemoryRepository \<Rightarrow> unit res \<times> MemoryRepository" where
  "Mem_UpdateWorkerStatus now ident status r =
     (if list_ex (\<lambda>w. Worker_ID w = ident) (ListWorkers (Mem_store r)) then (Inr (), r) else (Inr (), r))"

definition Mem_DeleteWorker :: "string \<Rightarrow> MemoryRepository \<Rightarrow> unit res \<times> MemoryRepository" where
  "Mem_DeleteWorker ident r = (Inr (), r)"

section \<open>Jobs\<close>

definition Mem_GetJob :: "string \<Rightarrow> MemoryRepository \<Rightarrow> Job res" where
  "Mem_GetJob ident r =
     (case GetJob ident (Mem_store r) of None \<Rightarrow> Inl (errNotFound ''job'' ident) | Some job \<Rightarrow> Inr job)"

text \<open>
  \<open>CreateJob\<close> takes the lock three times: to look the idempotency key up, to create the job, and to
  record the key. The three sections are separate functions; without interference they compose.
\<close>

definition idempotent_lookup :: "Job \<Rightarrow> MemoryRepository \<Rightarrow> Job res option" where
  "idempotent_lookup job r =
     (if Job_IdempotencyKey job = [] then None
      else case map_of (Mem_jobIdempotency r) (Job_IdempotencyKey job) of
          None \<Rightarrow> None
        | Some ident \<Rightarrow> if ident \<noteq> [] then Some (Mem_GetJob ident r) else None)"

definition create_options :: "Job \<Rightarrow> CreateJobOptions" where
  "create_options job = \<lparr>Opt_Status = Job_Status job, Opt_RiskLevel = Job_RiskLevel job,
     Opt_ApprovalRequired = Job_ApprovalRequired job, Opt_ApprovalStatus = Job_ApprovalStatus job,
     Opt_ApprovalComment = Job_ApprovalComment job, Opt_TemplateCode = Job_TemplateCode job,
     Opt_Parameters = cloneStringMap (Job_Parameters job), Opt_SourceType = Job_SourceType job,
     Opt_SourceID = Job_SourceID job, Opt_AssignedWorkerID = Job_AssignedWorkerID job\<rparr>"

definition create_entry :: "Time \<Rightarrow> Job \<Rightarrow> MemoryRepository \<Rightarrow> Job \<times> MemoryRepository" where
  "create_entry now job r = on_store (CreateJobWithOptions now (Job_Name job) (Job_WorkerType job)
     (Job_Command job) (create_options job)) r"

definition record_key :: "Job \<Rightarrow> Job \<Rightarrow> MemoryRepository \<Rightarrow> MemoryRepository" where
  "record_key job result r =
     (if Job_IdempotencyKey job \<noteq> []
      then r\<lparr>Mem_jobIdempotency :=
             AList.update (Job_IdempotencyKey job) (Job_ID result) (Mem_jobIdempotency r)\<rparr>
      else r)"

definition Mem_CreateJob :: "Time \<Rightarrow> Job \<Rightarrow> MemoryRepository \<Rightarrow> Job res \<times> MemoryRepository" where
  "Mem_CreateJob now job r =
     (case idempotent_lookup job r of
        Some found \<Rightarrow> (found, r)
      | None \<Rightarrow> (case create_entry now job r of (result, r) \<Rightarrow> (Inr result, record_key job result r)))"

definition job_matches :: "JobFilter \<Rightarrow> Job \<Rightarrow> bool" where
  "job_matches f j \<longleftrightarrow>
     \<not> (JobFilter_SourceType f \<noteq> [] \<and> Job_SourceType j \<noteq> JobFilter_SourceType f) \<and>
     \<not> (JobFilter_WorkerType f \<noteq> [] \<and> Job_WorkerType j \<noteq> JobFilter_WorkerType f) \<and>
     \<not> (JobFilter_Status f \<noteq> [] \<and> Job_Status j \<noteq> JobFilter_Status f)"

definition Mem_ListJobs :: "JobFilter \<Rightarrow> MemoryRepository \<Rightarrow> Job list res" where
  "Mem_ListJobs f r =
     Inr (limited (JobFilter_Limit f) (filter (job_matches f) (ListJobs (Mem_store r))))"

definition Mem_AssignNextJob :: "Time \<Rightarrow> string \<Rightarrow> MemoryRepository \<Rightarrow> Job res \<times> MemoryRepository" where
  "Mem_AssignNextJob now workerID r =
     (case on_store (AssignNextJob now workerID) r of
        (None, r) \<Rightarrow> (Inl (errNotFound ''job'' ''queued''), r)
      | (Some job, r) \<Rightarrow> (Inr job, r))"

fun Mem_AssignJobToWorkers ::
  "Time \<Rightarrow> string \<Rightarrow> string list \<Rightarrow> MemoryRepository \<Rightarrow> unit res \<times> MemoryRepository" where
  "Mem_AssignJobToWorkers now jobID [] r = (Inr (), r)"
| "Mem_AssignJobToWorkers now jobID (wid # wids) r =
     (case on_store (AssignJobToWorker now jobID wid) r of
        (Inl e, r) \<Rightarrow> (Inl e, r)
      | (Inr _, r) \<Rightarrow> Mem_AssignJobToWorkers now jobID wids r)"

definition Mem_CompleteJob ::
  "Time \<Rightarrow> string \<Rightarrow> string \<Rightarrow> string \<Rightarrow> bool \<Rightarrow> MemoryRepository \<Rightarrow> Job res \<times> MemoryRepository" where
  "Mem_CompleteJob now workerID jobID output success r =
     on_store (CompleteJob now workerID jobID output success) r"

definition Mem_DeleteJob :: "string \<Rightarrow> MemoryRepository \<Rightarrow> unit res \<times> MemoryRepository" where
  "Mem_DeleteJob ident r =
     (case GetJob ident (Mem_store r) of
        None \<Rightarrow> (Inl (errNotFound ''job'' ident), r)
      | Some job \<Rightarrow>
          if Job_Status job \<in> {JobStatusPending, JobStatusQueued, JobStatusWaitingApproval}
          then (Inr (), r)
          else (Inl (errInvalidStatus ''job'' (Job_Status job)), r))"

definition Mem_ListPendingApprovalJobs :: "MemoryRepository \<Rightarrow> Job list res" where
  "Mem_ListPendingApprovalJobs r = Inr (ListPendingApprovalJobs (Mem_store r))"

definition Mem_ApproveJob ::
  "Time \<Rightarrow> string \<Rightarrow> string \<Rightarrow> string \<Rightarrow> MemoryRepository \<Rightarrow> Job res \<times> MemoryRepository" where
  "Mem_ApproveJob now jobID approvedBy comment r = on_store (ApproveJob now jobID approvedBy comment) r"

definition Mem_RejectJob ::
  "Time \<Rightarrow> string \<Rightarrow> string \<Rightarrow> string \<Rightarrow> MemoryRepository \<Rightarrow> Job res \<times> MemoryRepository" where
  "Mem_RejectJob now jobID rejectedBy reason r = on_store (RejectJob now jobID rejectedBy reason) r"

section \<open>Plans, audit records, incident cases, YAML jobs, worker logs\<close>

definition Mem_CreatePlan :: "DiagnosisPlan \<Rightarrow> MemoryRepository \<Rightarrow> unit res \<times> MemoryRepository" where
  "Mem_CreatePlan plan r = (Inr (), r)"

definition Mem_GetPlan :: "string \<Rightarrow> MemoryRepository \<Rightarrow> DiagnosisPlan res" where
  "Mem_GetPlan ident r = Inl (errNotFound ''plan'' ident)"

definition Mem_UpdatePlan :: "string \<Rightarrow> DiagnosisPlan \<Rightarrow> MemoryRepository \<Rightarrow> unit res \<times> MemoryRepository" where
  "Mem_UpdatePlan ident plan r = (Inr (), r)"

definition Mem_AddAuditLog :: "Time \<Rightarrow> AuditLog \<Rightarrow> MemoryRepository \<Rightarrow> unit res \<times> MemoryRepository" where
  "Mem_AddAuditLog now entry r =
     (case on_store (AddAuditLog now (AuditLog_ActorType entry) (AuditLog_ActorID entry)
             (AuditLog_Action entry) (AuditLog_ResourceType entry) (AuditLog_ResourceID entry)
             (AuditLog_Details entry)) r of (_, r) \<Rightarrow> (Inr (), r))"

definition Mem_ListAuditLogs :: "string \<Rightarrow> string \<Rightarrow> MemoryRepository \<Rightarrow> AuditLog list res" where
  "Mem_ListAuditLogs resourceType resourceID r = Inr (ListAuditLogs resourceType resourceID (Mem_store r))"

definition Mem_UpsertIncidentCase ::
  "Time \<Rightarrow> string \<Rightarrow> IncidentCase \<Rightarrow> MemoryRepository \<Rightarrow> IncidentCase res \<times> MemoryRepository" where
  "Mem_UpsertIncidentCase now planID c r =
     (let plan = zero_DiagnosisPlan\<lparr>DiagnosisPlan_ID := planID, DiagnosisPlan_Title := IncidentCase_Title c,
                   DiagnosisPlan_TriggerType := IncidentCase_TriggerType c\<rparr>;
          report = zero_AnalysisReport\<lparr>AnalysisReport_FaultType := IncidentCase_FaultType c,
                     AnalysisReport_PossibleCauses := IncidentCase_PossibleCauses c,
                     AnalysisReport_Suggestions := IncidentCase_Suggestions c,
                     AnalysisReport_Confidence := IncidentCase_Confidence c,
                     AnalysisReport_RawAnalysis := IncidentCase_EvidenceSummary c,
                     AnalysisReport_AlertSymptoms := IncidentCase_AlertSymptoms c,
                     AnalysisReport_EnvironmentTags := IncidentCase_EnvironmentTags c,
                     AnalysisReport_EvidenceSummary := IncidentCase_EvidenceSummary c,
                     AnalysisReport_RootCause := IncidentCase_RootCause c,
                     AnalysisReport_ResolutionSteps := IncidentCase_ResolutionSteps c,
                     AnalysisReport_ResolutionResult := IncidentCase_ResolutionResult c\<rparr>
      in case on_store (UpsertIncidentCase now plan report) r of (c, r) \<Rightarrow> (Inr c, r))"

definition Mem_ListIncidentCases :: "IncidentCaseFilter \<Rightarrow> MemoryRepository \<Rightarrow> IncidentCase list res" where
  "Mem_ListIncidentCases f r = Inr (ListIncidentCases f (Mem_store r))"

definition Mem_FindSimilarIncidentCases ::
  "string \<Rightarrow> string \<Rightarrow> string \<Rightarrow> int \<Rightarrow> MemoryRepository \<Rightarrow> IncidentCase list res" where
  "Mem_FindSimilarIncidentCases description triggerType faultType limit r =
     Inr (FindSimilarIncidentCases description triggerType faultType limit (Mem_store r))"

definition Mem_SaveJobYAML :: "JobYAML \<Rightarrow> MemoryRepository \<Rightarrow> JobYAML res \<times> MemoryRepository" where
  "Mem_SaveJobYAML jy r = (Inr jy, r)"

definition Mem_AddWorkerLog :: "Time \<Rightarrow> WorkerLog \<Rightarrow> MemoryRepository \<Rightarrow> unit res \<times> MemoryRepository" where
  "Mem_AddWorkerLog now entry r = (Inr (), r)"

definition Mem_ListWorkerLogs :: "string \<Rightarrow> string \<Rightarrow> int \<Rightarrow> MemoryRepository \<Rightarrow> WorkerLog list res" where
  "Mem_ListWorkerLogs workerID jobID limit r = Inr []"

section \<open>Managed configurations\<close>

definition managedConfigKey :: "string \<Rightarrow> string \<Rightarrow> string" where
  "managedConfigKey kind ident = kind @ ''/'' @ ident"

definition Mem_SaveManagedConfig ::
  "Time \<Rightarrow> ManagedConfig \<Rightarrow> MemoryRepository \<Rightarrow> ManagedConfig res \<times> MemoryRepository" where
  "Mem_SaveManagedConfig now config r =
     (let config = (if ManagedConfig_ID config = []
            then config\<lparr>ManagedConfig_ID := ''cfg-'' @ dec (length (Mem_managedConfigs r) + 1)\<rparr>
            else config);
          config = (if ManagedConfig_CreatedAt config = zeroTime
            then config\<lparr>ManagedConfig_CreatedAt := now\<rparr> else config);
          config = config\<lparr>ManagedConfig_UpdatedAt := now\<rparr>
      in (Inr config, r\<lparr>Mem_managedConfigs :=
            AList.update (managedConfigKey (ManagedConfig_Kind config) (ManagedConfig_ID config)) config
              (Mem_managedConfigs r)\<rparr>))"

definition Mem_ListManagedConfigs :: "string \<Rightarrow> MemoryRepository \<Rightarrow> ManagedConfig list res" where
  "Mem_ListManagedConfigs kind r =
     Inr (filter (\<lambda>cfg. \<not> (kind \<noteq> [] \<and> ManagedConfig_Kind cfg \<noteq> kind)) (vals (Mem_managedConfigs r)))"

definition Mem_GetManagedConfig :: "string \<Rightarrow> string \<Rightarrow> MemoryRepository \<Rightarrow> ManagedConfig res" where
  "Mem_GetManagedConfig kind ident r =
     (case map_of (Mem_managedConfigs r) (managedConfigKey kind ident) of
        None \<Rightarrow> Inl (errNotFound ''managed config'' (kind @ ''/'' @ ident))
      | Some cfg \<Rightarrow> Inr cfg)"

definition Mem_DeleteManagedConfig ::
  "string \<Rightarrow> string \<Rightarrow> MemoryRepository \<Rightarrow> unit res \<times> MemoryRepository" where
  "Mem_DeleteManagedConfig kind ident r =
     (let key = managedConfigKey kind ident
      in case map_of (Mem_managedConfigs r) key of
           None \<Rightarrow> (Inl (errNotFound ''managed config'' (kind @ ''/'' @ ident)), r)
         | Some _ \<Rightarrow> (Inr (), r\<lparr>Mem_managedConfigs := AList.delete key (Mem_managedConfigs r)\<rparr>))"

definition Mem_MetricsSnapshot :: "Time \<Rightarrow> MemoryRepository \<Rightarrow> MetricsSnapshot res" where
  "Mem_MetricsSnapshot now r = Inr (MetricsSnapshot_of now (Mem_store r))"

section \<open>Conversations\<close>

definition Mem_CreateConversation ::
  "Time \<Rightarrow> string \<Rightarrow> MemoryRepository \<Rightarrow> Conversation res \<times> MemoryRepository" where
  "Mem_CreateConversation now title r =
     (let seq = Mem_convIDSeq r + 1;
          ident = fmtID ''conv'' (unat seq);
          c = \<lparr>Conversation_ID = ident, Conversation_Title = title, Conversation_CreatedAt = now,
               Conversation_UpdatedAt = now\<rparr>
      in (Inr c, r\<lparr>Mem_convIDSeq := seq,
            Mem_conversations := AList.update ident c (Mem_conversations r),
            Mem_messages := AList.update ident [] (Mem_messages r)\<rparr>))"

definition Mem_GetConversation :: "string \<Rightarrow> MemoryRepository \<Rightarrow> Conversation res" where
  "Mem_GetConversation ident r =
     (case map_of (Mem_conversations r) ident of
        None \<Rightarrow> Inl (''conversation not found: '' @ ident) | Some c \<Rightarrow> Inr c)"

definition Mem_ListConversations :: "MemoryRepository \<Rightarrow> Conversation list res" where
  "Mem_ListConversations r =
     Inr (sort_Slice (\<lambda>i j. Conversation_UpdatedAt i > Conversation_UpdatedAt j)
            (vals (Mem_conversations r)))"

definition Mem_DeleteConversation :: "string \<Rightarrow> MemoryRepository \<Rightarrow> unit res \<times> MemoryRepository" where
  "Mem_DeleteConversation ident r =
     (case map_of (Mem_conversations r) ident of
        None \<Rightarrow> (Inl (''conversation not found: '' @ ident), r)
      | Some _ \<Rightarrow> (Inr (), r\<lparr>Mem_conversations := AList.delete ident (Mem_conversations r),
                            Mem_messages := AList.delete ident (Mem_messages r)\<rparr>))"

text \<open>Indexing a map of slices: the nil slice when the key is absent.\<close>

definition slice_at :: "('k, 'v list) gomap \<Rightarrow> 'k \<Rightarrow> 'v list" where
  "slice_at m k = (case map_of m k of None \<Rightarrow> [] | Some vs \<Rightarrow> vs)"

definition Mem_AddConversationMessage ::
  "Time \<Rightarrow> ConversationMessage \<Rightarrow> MemoryRepository \<Rightarrow> unit res \<times> MemoryRepository" where
  "Mem_AddConversationMessage now msg r =
     (let seq = Mem_convMsgIDSeq r + 1;
          msg = msg\<lparr>ConversationMessage_ID := sint seq, ConversationMessage_CreatedAt := now\<rparr>;
          cid = ConversationMessage_ConversationID msg;
          r = r\<lparr>Mem_convMsgIDSeq := seq,
                Mem_messages := AList.update cid (slice_at (Mem_messages r) cid @ [msg]) (Mem_messages r)\<rparr>
      in case map_of (Mem_conversations r) cid of
           None \<Rightarrow> (Inr (), r)
         | Some c \<Rightarrow> (Inr (), r\<lparr>Mem_conversations :=
               AList.update cid (c\<lparr>Conversation_UpdatedAt := now\<rparr>) (Mem_conversations r)\<rparr>))"

definition Mem_ListConversationMessages ::
  "string \<Rightarrow> MemoryRepository \<Rightarrow> ConversationMessage list res" where
  "Mem_ListConversationMessages conversationID r = Inr (slice_at (Mem_messages r) conversationID)"

section \<open>Agent runs\<close>

definition Mem_CreateAgentRun :: "Time \<Rightarrow> AgentRun \<Rightarrow> MemoryRepository \<Rightarrow> AgentRun res \<times> MemoryRepository" where
  "Mem_CreateAgentRun now run r =
     (let (run, r) = (if AgentRun_ID run = []
            then (run\<lparr>AgentRun_ID := fmtID ''run'' (unat (Mem_convIDSeq r + 1))\<rparr>,
                  r\<lparr>Mem_convIDSeq := Mem_convIDSeq r + 1\<rparr>)
            else (run, r));
          run = run\<lparr>AgentRun_CreatedAt := now, AgentRun_UpdatedAt := now\<rparr>;
          run = (if AgentRun_Status run = [] then run\<lparr>AgentRun_Status := AgentRunStatusQueued\<rparr> else run);
          run = (if length (AgentRun_Transcript run) = 0
                 then run\<lparr>AgentRun_Transcript := ''[]''\<rparr> else run)
      in (Inr run, r\<lparr>Mem_agentRuns := AList.update (AgentRun_ID run) run (Mem_agentRuns r)\<rparr>))"

definition Mem_GetAgentRun :: "string \<Rightarrow> MemoryRepository \<Rightarrow> AgentRun res" where
  "Mem_GetAgentRun ident r =
     (case map_of (Mem_agentRuns r) ident of
        None \<Rightarrow> Inl (errNotFound ''agent run'' ident) | Some run \<Rightarrow> Inr run)"

definition Mem_ListAgentRunsByStatus :: "AgentRunStatus list \<Rightarrow> MemoryRepository \<Rightarrow> AgentRun list res" where
  "Mem_ListAgentRunsByStatus statuses r =
     Inr (filter (\<lambda>run. AgentRun_Status run \<in> set statuses) (vals (Mem_agentRuns r)))"

definition Mem_UpdateAgentRun :: "Time \<Rightarrow> AgentRun \<Rightarrow> MemoryRepository \<Rightarrow> unit res \<times> MemoryRepository" where
  "Mem_UpdateAgentRun now run r =
     (case map_of (Mem_agentRuns r) (AgentRun_ID run) of
        None \<Rightarrow> (Inl (errNotFound ''agent run'' (AgentRun_ID run)), r)
      | Some _ \<Rightarrow>
          (Inr (), r\<lparr>Mem_agentRuns :=
             AList.update (AgentRun_ID run) (run\<lparr>AgentRun_UpdatedAt := now\<rparr>) (Mem_agentRuns r)\<rparr>))"

definition Mem_AddAgentEvent ::
  "Time \<Rightarrow> AgentEvent \<Rightarrow> MemoryRepository \<Rightarrow> AgentEvent res \<times> MemoryRepository" where
  "Mem_AddAgentEvent now event r =
     (let seq = Mem_agentEventSeq r + 1;
          event = event\<lparr>AgentEvent_ID := sint seq, AgentEvent_CreatedAt := now\<rparr>;
          run = AgentEvent_RunID event
      in (Inr event, r\<lparr>Mem_agentEventSeq := seq,
            Mem_agentEvents :=
              AList.update run (slice_at (Mem_agentEvents r) run @ [event]) (Mem_agentEvents r)\<rparr>))"

definition Mem_ListAgentEvents :: "string \<Rightarrow> int \<Rightarrow> MemoryRepository \<Rightarrow> AgentEvent list res" where
  "Mem_ListAgentEvents runID afterID r =
     Inr (filter (\<lambda>e. AgentEvent_ID e > afterID) (slice_at (Mem_agentEvents r) runID))"

definition Mem_CreateAgentToolCall ::
  "Time \<Rightarrow> AgentToolCall \<Rightarrow> MemoryRepository \<Rightarrow> unit res \<times> MemoryRepository" where
  "Mem_CreateAgentToolCall now call r =
     (case map_of (Mem_agentCalls r) (AgentToolCall_ID call) of
        None \<Rightarrow> (Inr (), r\<lparr>Mem_agentCalls := AList.update (AgentToolCall_ID call)
                     (call\<lparr>AgentToolCall_CreatedAt := now\<rparr>) (Mem_agentCalls r)\<rparr>)
      | Some _ \<Rightarrow> (Inr (), r))"

definition Mem_CompleteAgentToolCall ::
  "Time \<Rightarrow> AgentToolCall \<Rightarrow> MemoryRepository \<Rightarrow> unit res \<times> MemoryRepository" where
  "Mem_CompleteAgentToolCall now call r =
     (case map_of (Mem_agentCalls r) (AgentToolCall_ID call) of
        None \<Rightarrow> (Inl (errNotFound ''agent tool call'' (AgentToolCall_ID call)), r)
      | Some old \<Rightarrow>
          (Inr (), r\<lparr>Mem_agentCalls := AList.update (AgentToolCall_ID call)
             (old\<lparr>AgentToolCall_Result := AgentToolCall_Result call,
                  AgentToolCall_Error := AgentToolCall_Error call,
                  AgentToolCall_Status := AgentToolCall_Status call,
                  AgentToolCall_CompletedAt := Some now\<rparr>) (Mem_agentCalls r)\<rparr>))"

section \<open>The interface value\<close>

definition memory_repository :: "MemoryRepository Repository" where
  "memory_repository = \<lparr>
     repo_RegisterWorker = Mem_RegisterWorker, repo_HeartbeatWorker = Mem_HeartbeatWorker,
     repo_GetWorker = Mem_GetWorker, repo_ListWorkers = Mem_ListWorkers,
     repo_UpdateWorkerStatus = Mem_UpdateWorkerStatus, repo_DeleteWorker = Mem_DeleteWorker,
     repo_CreateJob = Mem_CreateJob, repo_GetJob = Mem_GetJob, repo_ListJobs = Mem_ListJobs,
     repo_AssignNextJob = Mem_AssignNextJob, repo_AssignJobToWorkers = Mem_AssignJobToWorkers,
     repo_CompleteJob = Mem_CompleteJob, repo_DeleteJob = Mem_DeleteJob,
     repo_ListPendingApprovalJobs = Mem_ListPendingApprovalJobs, repo_ApproveJob = Mem_ApproveJob,
     repo_RejectJob = Mem_RejectJob, repo_AddAuditLog = Mem_AddAuditLog,
     repo_ListAuditLogs = Mem_ListAuditLogs, repo_ListIncidentCases = Mem_ListIncidentCases,
     repo_FindSimilarIncidentCases = Mem_FindSimilarIncidentCases, repo_AddWorkerLog = Mem_AddWorkerLog,
     repo_SaveManagedConfig = Mem_SaveManagedConfig, repo_ListManagedConfigs = Mem_ListManagedConfigs,
     repo_GetManagedConfig = Mem_GetManagedConfig, repo_DeleteManagedConfig = Mem_DeleteManagedConfig,
     repo_CreateAgentRun = Mem_CreateAgentRun, repo_GetAgentRun = Mem_GetAgentRun,
     repo_ListAgentRunsByStatus = Mem_ListAgentRunsByStatus, repo_UpdateAgentRun = Mem_UpdateAgentRun,
     repo_AddAgentEvent = Mem_AddAgentEvent, repo_ListAgentEvents = Mem_ListAgentEvents,
     repo_CreateAgentToolCall = Mem_CreateAgentToolCall,
     repo_CompleteAgentToolCall = Mem_CompleteAgentToolCall,
     repo_CreateConversation = Mem_CreateConversation, repo_GetConversation = Mem_GetConversation,
     repo_ListConversations = Mem_ListConversations, repo_DeleteConversation = Mem_DeleteConversation,
     repo_AddConversationMessage = Mem_AddConversationMessage,
     repo_ListConversationMessages = Mem_ListConversationMessages, repo_MetricsSnapshot = Mem_MetricsSnapshot\<rparr>"

lemma on_store_simps [simp]:
  "fst (on_store f r) = fst (f (Mem_store r))"
  "Mem_store (snd (on_store f r)) = snd (f (Mem_store r))"
  by (simp_all add: on_store_def case_prod_beta)

definition mem_ok :: "MemoryRepository \<Rightarrow> bool" where
  "mem_ok r \<longleftrightarrow> store_ok (Mem_store r)"

lemma memory_approve:
  assumes "mem_ok r" "Mem_ApproveJob now j who c r = (Inr job, r')"
  shows "(\<exists>old. Mem_GetJob j r = Inr old \<and> Job_Status old = JobStatusWaitingApproval) \<and>
    Mem_GetJob j r' = Inr job \<and> Job_Status job = JobStatusPending \<and>
    Job_ApprovalStatus job = ApprovalStatusApproved \<and> Job_ApprovedBy job = who \<and> Job_ID job = j"
  using assms store_ok_job[of "Mem_store r" j]
  by (auto simp: mem_ok_def Mem_ApproveJob_def on_store_def ApproveJob_def Mem_GetJob_def GetJob_def Let_def
      split: prod.splits option.splits if_splits)

lemma memory_reject:
  assumes "mem_ok r" "Mem_RejectJob now j who c r = (Inr job, r')"
  shows "(\<exists>old. Mem_GetJob j r = Inr old \<and> Job_Status old = JobStatusWaitingApproval) \<and>
    Mem_GetJob j r' = Inr job \<and> Job_Status job = JobStatusCancelled \<and>
    Job_ApprovalStatus job = ApprovalStatusRejected \<and> Job_RejectedBy job = who \<and> Job_ID job = j"
  using assms store_ok_job[of "Mem_store r" j]
  by (auto simp: mem_ok_def Mem_RejectJob_def on_store_def RejectJob_def Mem_GetJob_def GetJob_def Let_def
      split: prod.splits option.splits if_splits)

lemma memory_decision_error:
  "Mem_ApproveJob now j who c r = (Inl e, r') \<Longrightarrow> r' = r"
  "Mem_RejectJob now j who c r = (Inl e, r') \<Longrightarrow> r' = r"
  by (auto simp: Mem_ApproveJob_def Mem_RejectJob_def on_store_def ApproveJob_def RejectJob_def Let_def
      split: prod.splits option.splits if_splits)

lemma memory_complete:
  assumes "mem_ok r" "Mem_CompleteJob now w j out ok r = (Inr job, r')"
  shows "(\<exists>old. Mem_GetJob j r = Inr old \<and> Job_AssignedWorkerID old = w) \<and>
    Mem_GetJob j r' = Inr job \<and> Job_ID job = j \<and> Job_Output job = out \<and>
    Job_Status job = (if ok then JobStatusSuccess else JobStatusFailed)"
  using assms store_ok_job[of "Mem_store r" j]
  by (auto simp: mem_ok_def Mem_CompleteJob_def on_store_def CompleteJob_def Mem_GetJob_def GetJob_def Let_def
      split: prod.splits option.splits if_splits)

lemma memory_complete_error: "Mem_CompleteJob now w j out ok r = (Inl e, r') \<Longrightarrow> r' = r"
  by (auto simp: Mem_CompleteJob_def on_store_def CompleteJob_def Let_def
      split: prod.splits option.splits if_splits)

lemma memory_audit_job:
  "Mem_GetJob j (snd (Mem_AddAuditLog now entry r)) = Mem_GetJob j r"
  by (simp add: Mem_AddAuditLog_def Mem_GetJob_def GetJob_def case_prod_beta)

interpretation mem_jobs: job_repository memory_repository mem_ok
  by unfold_locales
    (use memory_approve memory_reject memory_decision_error memory_complete memory_complete_error
        memory_audit_job in
      \<open>force simp: memory_repository_def Mem_AddWorkerLog_def\<close>)+

lemma record_key_GetJob [simp]: "Mem_GetJob j (record_key job result r) = Mem_GetJob j r"
  by (simp add: record_key_def Mem_GetJob_def)

lemma create_entry_frame:
  fixes now job r
  defines "j1 \<equiv> fst (create_entry now job r)"
  shows "Mem_GetJob j (snd (create_entry now job r)) = (if j = Job_ID j1 then Inr j1 else Mem_GetJob j r)"
    and "same_work j1 job" and "Job_AssignedWorkerID j1 = Job_AssignedWorkerID job"
    and "Job_Status j1 = (if Job_Status job = [] then JobStatusPending else Job_Status job)"
  by (simp_all add: j1_def create_entry_def on_store_def CreateJobWithOptions_def create_options_def Mem_GetJob_def
      GetJob_def Let_def newID_def same_work_def AList.update_conv')

lemma memory_create_frame:
  assumes "Mem_CreateJob now job r = (res, r')" "Mem_GetJob j r' = Inr new"
  shows "Mem_GetJob j r = Inr new \<or> same_work new job \<and> Job_AssignedWorkerID new = Job_AssignedWorkerID job \<and>
    Job_Status new = (if Job_Status job = [] then JobStatusPending else Job_Status job)"
proof (cases "idempotent_lookup job r")
  case None
  then have "Mem_GetJob j (snd (create_entry now job r)) = Inr new"
    using assms by (auto simp: Mem_CreateJob_def split: prod.splits)
  then show ?thesis using create_entry_frame[where now = now and job = job and r = r] by (auto split: if_splits)
qed (use assms in \<open>simp add: Mem_CreateJob_def\<close>)

lemma memory_assign_frame:
  "Mem_AssignJobToWorkers now k ws r = (res, r') \<Longrightarrow> Mem_GetJob j r' = Inr new \<Longrightarrow>
   \<exists>old. Mem_GetJob j r = Inr old \<and> same_work new old \<and> (j \<noteq> k \<longrightarrow> new = old)"
proof (induction now k ws r arbitrary: new rule: Mem_AssignJobToWorkers.induct)
  case (2 now k wid wids r)
  have one: "\<exists>old. Mem_GetJob j r = Inr old \<and> same_work new old \<and> (j \<noteq> k \<longrightarrow> new = old)"
    if "on_store (AssignJobToWorker now k wid) r = (out, r1)" "Mem_GetJob j r1 = Inr new" for out r1 new
    using that
    by (auto simp: on_store_def AssignJobToWorker_def start_job_def Mem_GetJob_def GetJob_def Let_def same_work_def
        AList.update_conv' split: option.splits if_splits)
  obtain out r1 where r1: "on_store (AssignJobToWorker now k wid) r = (out, r1)" by force
  show ?case
  proof (cases out)
    case (Inl e)
    then show ?thesis using 2(2,3) one[OF r1] r1 by simp
  next
    case (Inr u)
    then obtain mid where "Mem_GetJob j r1 = Inr mid" "same_work new mid" "j \<noteq> k \<longrightarrow> new = mid"
      using 2(1)[OF r1[symmetric] Inr] 2(2,3) r1 Inr by auto
    then show ?thesis using one[OF r1] same_work_trans by metis
  qed
qed auto

lemma mem_run_frames:
  "Mem_GetJob j (snd (Mem_UpdateAgentRun now run r)) = Mem_GetJob j r"
  "Mem_GetJob j (snd (Mem_AddAgentEvent now ev r)) = Mem_GetJob j r"
  "Mem_GetJob j (snd (Mem_CreateAgentToolCall now call r)) = Mem_GetJob j r"
  "Mem_GetJob j (snd (Mem_CompleteAgentToolCall now call r)) = Mem_GetJob j r"
  by (simp_all add: Mem_UpdateAgentRun_def Mem_AddAgentEvent_def Mem_CreateAgentToolCall_def Mem_CompleteAgentToolCall_def
      Mem_GetJob_def Let_def split: option.splits)

interpretation mem_writes: run_repository memory_repository
  by unfold_locales
    (use memory_create_frame memory_assign_frame mem_run_frames in \<open>simp_all add: memory_repository_def\<close>)

section \<open>Idempotent job creation\<close>

lemma store_run_job:
  assumes "store_ok s" "id_count s + length ops < 2 ^ 64" "GetJob k s = Some j"
  shows "\<exists>j'. GetJob k (fold store_exec ops s) = Some j'"
  using assms
proof (induction ops arbitrary: s j)
  case (Cons op ops)
  have room: "id_room s" using Cons.prems(2) id_room_count by simp
  have "map_of (Store_jobs s) k = Some j" using Cons.prems(3) by (simp add: GetJob_def)
  then obtain j' where "GetJob k (store_exec op s) = Some j'"
    unfolding GetJob_def using store_exec_job[OF Cons.prems(1) room] by blast
  then show ?case
    using Cons.IH[of "store_exec op s" j'] Cons.prems(2) store_exec_ok[OF Cons.prems(1) room]
      store_exec_count[OF room, of op] by simp
qed simp

lemma create_entry_spec:
  assumes "mem_ok r" "id_room (Mem_store r)" "create_entry now job r = (j, r')"
  shows "mem_ok r' \<and> GetJob (Job_ID j) (Mem_store r') = Some j \<and> GetJob (Job_ID j) (Mem_store r) = None \<and>
    Job_ID j \<noteq> [] \<and> Mem_jobIdempotency r' = Mem_jobIdempotency r"
proof -
  have j: "j = fst (CreateJobWithOptions now (Job_Name job) (Job_WorkerType job) (Job_Command job) (create_options job) (Mem_store r))"
    and r': "r' = r\<lparr>Mem_store := snd (CreateJobWithOptions now (Job_Name job) (Job_WorkerType job) (Job_Command job) (create_options job) (Mem_store r))\<rparr>"
    using assms(3) by (auto simp: create_entry_def on_store_def split: prod.splits)
  have id: "Job_ID j = fst (newID ''job'' (Mem_store r))"
    using j by (simp add: CreateJobWithOptions_def Let_def case_prod_beta)
  then have "GetJob (Job_ID j) (Mem_store r) = None"
    using assms(1,2) store_ok_job_fresh by (auto simp: mem_ok_def GetJob_def)
  moreover have "GetJob (Job_ID j) (Mem_store r') = Some j"
    using j r' by (auto simp: GetJob_def CreateJobWithOptions_def Let_def case_prod_beta)
  moreover have "Job_ID j \<noteq> []" using id assms(2) by (simp add: store_ids.alloc_id)
  ultimately show ?thesis
    using r' CreateJobWithOptions_ok assms(1,2) by (simp add: mem_ok_def)
qed

lemma idempotent_lookup_Some:
  "idempotent_lookup job r = Some found \<longleftrightarrow> Job_IdempotencyKey job \<noteq> [] \<and>
     (\<exists>k. map_of (Mem_jobIdempotency r) (Job_IdempotencyKey job) = Some k \<and> k \<noteq> [] \<and> Mem_GetJob k r = found)"
  by (simp add: idempotent_lookup_def split: option.split)

lemma Mem_CreateJob_recorded:
  assumes "mem_ok r" "id_room (Mem_store r)" "Job_IdempotencyKey job \<noteq> []"
    and "Mem_CreateJob now job r = (Inr j, r')"
  shows "mem_ok r' \<and> map_of (Mem_jobIdempotency r') (Job_IdempotencyKey job) = Some (Job_ID j) \<and>
    Job_ID j \<noteq> [] \<and> GetJob (Job_ID j) (Mem_store r') = Some j"
proof (cases "idempotent_lookup job r")
  case None
  obtain j1 r1 where c: "create_entry now job r = (j1, r1)" by fastforce
  then have "j1 = j" "r' = record_key job j r1"
    using assms(4) None by (auto simp: Mem_CreateJob_def)
  then show ?thesis
    using create_entry_spec[OF assms(1,2) c] assms(3) by (simp add: record_key_def mem_ok_def)
next
  case (Some found)
  then obtain k where k: "map_of (Mem_jobIdempotency r) (Job_IdempotencyKey job) = Some k" "k \<noteq> []"
      "Mem_GetJob k r = Inr j" "r' = r"
  proof -
    have "found = Inr j" "r' = r" using assms(4) Some by (simp_all add: Mem_CreateJob_def)
    then show ?thesis using Some that unfolding idempotent_lookup_Some by metis
  qed
  have g: "GetJob k (Mem_store r) = Some j" using k(3) by (simp add: Mem_GetJob_def split: option.splits)
  then have "map_of (Store_jobs (Mem_store r)) k = Some j" by (simp add: GetJob_def)
  then have "Job_ID j = k" using store_ok_job[of "Mem_store r"] assms(1) unfolding mem_ok_def by blast
  then show ?thesis using g k assms(1) by simp
qed

section \<open>Event streams\<close>

definition events_ok :: "MemoryRepository \<Rightarrow> bool" where
  "events_ok r \<longleftrightarrow> 0 \<le> sint (Mem_agentEventSeq r) \<and>
     (\<forall>(k, es) \<in> set (Mem_agentEvents r). \<forall>e \<in> set es. AgentEvent_ID e \<le> sint (Mem_agentEventSeq r))"

fun add_events :: "Time \<Rightarrow> AgentEvent list \<Rightarrow> MemoryRepository \<Rightarrow> AgentEvent list \<times> MemoryRepository" where
  "add_events now [] r = ([], r)"
| "add_events now (e # es) r =
     (case Mem_AddAgentEvent now e r of
        (Inl _, r) \<Rightarrow> add_events now es r
      | (Inr e, r) \<Rightarrow> (case add_events now es r of (stored, r) \<Rightarrow> (e # stored, r)))"

lemma sint_succ:
  assumes "0 \<le> sint (c :: 64 word)" "sint c + 1 < 2 ^ 63"
  shows "sint (c + 1) = sint c + 1"
  using assms by (simp add: signed_take_bit_int_eq_self sint_word_ariths)

lemma Mem_AddAgentEvent_spec:
  assumes "events_ok r" "sint (Mem_agentEventSeq r) + 1 < 2 ^ 63"
    and a: "Mem_AddAgentEvent now e r = (x, r')"
  shows "\<exists>e'. x = Inr e' \<and> AgentEvent_ID e' = sint (Mem_agentEventSeq r) + 1 \<and>
    AgentEvent_RunID e' = AgentEvent_RunID e \<and> events_ok r' \<and>
    sint (Mem_agentEventSeq r') = sint (Mem_agentEventSeq r) + 1 \<and>
    slice_at (Mem_agentEvents r') run =
      slice_at (Mem_agentEvents r) run @ (if run = AgentEvent_RunID e then [e'] else [])"
proof -
  have s: "sint (Mem_agentEventSeq r + 1) = sint (Mem_agentEventSeq r) + 1"
    using assms(1,2) by (intro sint_succ) (auto simp: events_ok_def)
  have old: "AgentEvent_ID y \<le> sint (Mem_agentEventSeq r)" if "y \<in> set (slice_at (Mem_agentEvents r) k)" for k y
  proof (cases "map_of (Mem_agentEvents r) k")
    case (Some es)
    then have "(k, es) \<in> set (Mem_agentEvents r)" by (rule map_of_SomeD)
    then show ?thesis using assms(1) that Some by (auto simp: events_ok_def slice_at_def)
  qed (use that in \<open>simp add: slice_at_def\<close>)
  have "events_ok r'"
    using a s assms(1) old
    by (fastforce simp: Mem_AddAgentEvent_def events_ok_def Let_def elim!: in_update_cases)
  then show ?thesis
    using a s by (auto simp: Mem_AddAgentEvent_def Let_def slice_at_def)
qed

lemma add_events_spec:
  "events_ok r \<Longrightarrow> sint (Mem_agentEventSeq r) + int (length new) < 2 ^ 63 \<Longrightarrow>
   add_events now new r = (stored, r') \<Longrightarrow>
   slice_at (Mem_agentEvents r') run =
     slice_at (Mem_agentEvents r) run @ filter (\<lambda>e. AgentEvent_RunID e = run) stored \<and>
   map AgentEvent_ID stored =
     map (\<lambda>i. sint (Mem_agentEventSeq r) + 1 + int i) [0..<length new] \<and>
   map AgentEvent_RunID stored = map AgentEvent_RunID new"
proof (induction new arbitrary: r stored)
  case (Cons e new)
  obtain x r1 where a: "Mem_AddAgentEvent now e r = (x, r1)" by fastforce
  have lim: "sint (Mem_agentEventSeq r) + 1 < 2 ^ 63" using Cons.prems(2) by simp
  obtain e' where e': "x = Inr e'" "AgentEvent_ID e' = sint (Mem_agentEventSeq r) + 1"
      "AgentEvent_RunID e' = AgentEvent_RunID e" "events_ok r1"
      "sint (Mem_agentEventSeq r1) = sint (Mem_agentEventSeq r) + 1"
      "slice_at (Mem_agentEvents r1) run =
         slice_at (Mem_agentEvents r) run @ (if run = AgentEvent_RunID e then [e'] else [])"
    using Mem_AddAgentEvent_spec[OF Cons.prems(1) lim a] by blast
  obtain rest where rest: "add_events now new r1 = (rest, r')" "stored = e' # rest"
    using Cons.prems(3) a e'(1) by (auto split: prod.splits)
  have "map (\<lambda>i. sint (Mem_agentEventSeq r) + 1 + int i) [0..<length (e # new)] =
      (sint (Mem_agentEventSeq r) + 1) # map (\<lambda>i. sint (Mem_agentEventSeq r1) + 1 + int i) [0..<length new]"
    by (simp add: e'(5) upt_conv_Cons map_Suc_upt[symmetric] comp_def del: upt_Suc)
  then show ?case
    using Cons.IH[OF e'(4) _ rest(1)] Cons.prems(2) e' rest(2) by simp
qed simp

section \<open>Properties\<close>

text \<open>Job creation is idempotent: once a call with an idempotency key has returned a job, a later
  call with the same key, after any further calls on the store, creates nothing, changes nothing and
  returns the job with the same identifier as it is by then.\<close>

lemma CreateJob_idempotent:
  assumes "mem_ok r" "id_room (Mem_store r)"
    and "Job_IdempotencyKey job \<noteq> []" "Job_IdempotencyKey job2 = Job_IdempotencyKey job"
    and "Mem_CreateJob t1 job r = (Inr j1, r1)"
    and "id_count (Mem_store r1) + length ops < 2 ^ 64"
    and "r2 = r1\<lparr>Mem_store := fold store_exec ops (Mem_store r1)\<rparr>"
  shows "\<exists>j2. Mem_CreateJob t2 job2 r2 = (Inr j2, r2) \<and> Job_ID j2 = Job_ID j1"
proof -
  have rec: "mem_ok r1" "map_of (Mem_jobIdempotency r1) (Job_IdempotencyKey job) = Some (Job_ID j1)"
      "Job_ID j1 \<noteq> []" "GetJob (Job_ID j1) (Mem_store r1) = Some j1"
    using Mem_CreateJob_recorded[OF assms(1,2,3,5)] by auto
  have s: "store_ok (Mem_store r1)" using rec(1) by (simp add: mem_ok_def)
  obtain j2 where j2: "GetJob (Job_ID j1) (Mem_store r2) = Some j2"
    using store_run_job[OF s assms(6) rec(4)] assms(7) by auto
  moreover have "store_ok (Mem_store r2)" using store_run_ok[OF s assms(6)] assms(7) by simp
  ultimately have "Job_ID j2 = Job_ID j1" using store_ok_job by (auto simp: GetJob_def)
  moreover have "Mem_GetJob (Job_ID j1) r2 = Inr j2" using j2 by (simp add: Mem_GetJob_def)
  moreover have "idempotent_lookup job2 r2 = Some (Mem_GetJob (Job_ID j1) r2)"
    using rec(2,3) assms(3,4,7) by (simp add: idempotent_lookup_Some)
  ultimately show ?thesis by (simp add: Mem_CreateJob_def)
qed

definition keyed_job :: Job where
  "keyed_job = zero_Job\<lparr>Job_Name := ''restart'', Job_WorkerType := ''shell'', Job_Command := ''systemctl restart x'',
     Job_IdempotencyKey := ''run-1/call-1''\<rparr>"

lemma NewMemoryRepository_ok: "mem_ok NewMemoryRepository" "id_room (Mem_store NewMemoryRepository)"
proof -
  show "mem_ok NewMemoryRepository" by (simp add: mem_ok_def NewMemoryRepository_def)
  show "id_room (Mem_store NewMemoryRepository)" by code_simp
qed

lemma keyed_created: "\<not> isl (fst (Mem_CreateJob 5 keyed_job NewMemoryRepository))"
  "id_count (Mem_store (snd (Mem_CreateJob 5 keyed_job NewMemoryRepository))) = 1"
  by code_simp+

lemma keyed_call:
  "Mem_CreateJob 5 keyed_job NewMemoryRepository =
     (Inr (projr (fst (Mem_CreateJob 5 keyed_job NewMemoryRepository))),
      snd (Mem_CreateJob 5 keyed_job NewMemoryRepository))"
  using keyed_created(1) by (simp add: prod_eq_iff)

lemma keyed_repo_ok: "mem_ok (snd (Mem_CreateJob 5 keyed_job NewMemoryRepository))"
proof -
  have "Job_IdempotencyKey keyed_job \<noteq> []" by (simp add: keyed_job_def)
  then show ?thesis using Mem_CreateJob_recorded[OF NewMemoryRepository_ok _ keyed_call] by blast
qed

theorem CreateJob_idempotent_witness:
  "\<exists>j1 r1 j2. Mem_CreateJob 5 keyed_job NewMemoryRepository = (Inr j1, r1) \<and>
     Mem_CreateJob 9 keyed_job r1 = (Inr j2, r1) \<and> Job_ID j2 = Job_ID j1"
proof -
  let ?c = "Mem_CreateJob 5 keyed_job NewMemoryRepository"
  note c = keyed_call
  have "Job_IdempotencyKey keyed_job \<noteq> []" by (simp add: keyed_job_def)
  then show ?thesis
    using CreateJob_idempotent[OF NewMemoryRepository_ok _ refl c, of "[]" "snd ?c" 9] keyed_created(2) c
    by (auto simp del: One_nat_def)
qed

text \<open>The key is looked up and recorded in separate critical sections, so two concurrent calls with
  one key that both look it up before either records it create two different jobs.\<close>

lemma CreateJob_race:
  assumes "mem_ok r" "id_room (Mem_store r)"
    and "create_entry t1 job r = (j1, r1)" "id_room (Mem_store r1)" "create_entry t2 job r1 = (j2, r2)"
  shows "Job_ID j1 \<noteq> Job_ID j2 \<and> GetJob (Job_ID j1) (Mem_store r1) = Some j1 \<and>
    GetJob (Job_ID j2) (Mem_store r2) = Some j2"
  using create_entry_spec[OF assms(1-3)] create_entry_spec[OF _ assms(4,5)] by fastforce

lemma keyed_race_room: "id_room (Mem_store (snd (create_entry 5 keyed_job NewMemoryRepository)))"
  by code_simp

theorem CreateJob_race_witness:
  "idempotent_lookup keyed_job NewMemoryRepository = None \<and>
   Job_ID (fst (create_entry 5 keyed_job NewMemoryRepository)) \<noteq>
   Job_ID (fst (create_entry 6 keyed_job (snd (create_entry 5 keyed_job NewMemoryRepository))))"
proof -
  have "idempotent_lookup keyed_job NewMemoryRepository = None"
    by (simp add: idempotent_lookup_def NewMemoryRepository_def)
  then show ?thesis
    using CreateJob_race[OF NewMemoryRepository_ok prod.collapse[symmetric] keyed_race_room prod.collapse[symmetric]]
    by blast
qed

text \<open>An event stream can be resumed from the last seen identifier: events added after a point carry
  consecutive larger identifiers, and listing a run's events after that point returns exactly the
  run's new events, in the order they were added.\<close>

lemma agent_events_resume:
  assumes "events_ok r" "sint (Mem_agentEventSeq r) + int (length new) < 2 ^ 63"
    and "add_events now new r = (stored, r')"
  shows "Mem_ListAgentEvents run (sint (Mem_agentEventSeq r)) r' =
      Inr (filter (\<lambda>e. AgentEvent_RunID e = run) stored) \<and>
    map AgentEvent_RunID stored = map AgentEvent_RunID new \<and>
    sorted_wrt (<) (map AgentEvent_ID stored)"
proof -
  note spec = add_events_spec[OF assms, of run]
  let ?n = "sint (Mem_agentEventSeq r)"
  have old: "AgentEvent_ID e \<le> ?n" if "e \<in> set (slice_at (Mem_agentEvents r) run)" for e
  proof (cases "map_of (Mem_agentEvents r) run")
    case (Some es)
    then show ?thesis using assms(1) that map_of_SomeD[OF Some] by (auto simp: events_ok_def slice_at_def)
  qed (use that in \<open>simp add: slice_at_def\<close>)
  have "AgentEvent_ID e > ?n" if "e \<in> set stored" for e
  proof -
    have "AgentEvent_ID e \<in> set (map (\<lambda>i. ?n + 1 + int i) [0..<length new])"
      using that spec by (metis imageI list.set_map)
    then show ?thesis by auto
  qed
  then have "filter (\<lambda>e. AgentEvent_ID e > ?n) stored = stored" by (simp add: filter_id_conv)
  moreover have "filter (\<lambda>e. AgentEvent_ID e > ?n) (slice_at (Mem_agentEvents r) run) = []"
    using old by (fastforce simp: filter_empty_conv)
  moreover have "sorted_wrt (<) (map (\<lambda>i. ?n + 1 + int i) [0..<length new])"
    by (simp add: sorted_wrt_map sorted_wrt_mono_rel[OF _ strict_sorted_list_of_set] sorted_wrt_iff_nth_less)
  ultimately show ?thesis
    using spec by (simp add: Mem_ListAgentEvents_def filter_filter conj_commute)
      (metis (no_types, lifting) filter_filter filter_cong)
qed

definition sample_event :: "string \<Rightarrow> AgentEvent" where
  "sample_event run = \<lparr>AgentEvent_ID = 0, AgentEvent_RunID = run, AgentEvent_Step = 1,
     AgentEvent_Type = ''tool'', AgentEvent_Name = [], AgentEvent_Data = [], AgentEvent_CreatedAt = 0\<rparr>"

theorem agent_events_resume_witness:
  "let (stored, r') = add_events 3 [sample_event ''run-1'', sample_event ''run-2'', sample_event ''run-1'']
         NewMemoryRepository
   in Mem_ListAgentEvents ''run-1'' 0 r' = Inr (filter (\<lambda>e. AgentEvent_RunID e = ''run-1'') stored)"
proof -
  have ok: "events_ok NewMemoryRepository" and seq: "sint (Mem_agentEventSeq NewMemoryRepository) = 0"
    by (simp_all add: events_ok_def NewMemoryRepository_def)
  show ?thesis
    using agent_events_resume[OF ok _ prod.collapse[symmetric], where run = "''run-1''" and now = 3 and
        new = "[sample_event ''run-1'', sample_event ''run-2'', sample_event ''run-1'']"]
    by (simp add: seq case_prod_beta)
qed

text \<open>Managed configurations saved without an identifier get the number of stored configurations plus
  one; after a deletion that number is in use, and saving a new configuration silently replaces
  another one.\<close>

definition sample_config :: "string \<Rightarrow> ManagedConfig" where
  "sample_config name = \<lparr>ManagedConfig_ID = [], ManagedConfig_Kind = ''template'', ManagedConfig_Name = name,
     ManagedConfig_YAMLContent = [], ManagedConfig_Active = True, ManagedConfig_CreatedAt = 1,
     ManagedConfig_UpdatedAt = 1\<rparr>"

definition config_history :: "MemoryRepository" where
  "config_history =
     (let r = snd (Mem_SaveManagedConfig 2 (sample_config ''a'') NewMemoryRepository);
          r = snd (Mem_SaveManagedConfig 3 (sample_config ''b'') r);
          r = snd (Mem_DeleteManagedConfig ''template'' ''cfg-1'' r)
      in snd (Mem_SaveManagedConfig 4 (sample_config ''c'') r))"

lemma SaveManagedConfig_overwrites:
  "map_sum id (map ManagedConfig_Name) (Mem_ListManagedConfigs [] config_history) = Inr [''c'']"
  by code_simp

text \<open>\<open>DeleteJob\<close> of the in-memory repository reports success without deleting: whatever it answers,
  the repository is unchanged.\<close>

lemma Mem_DeleteJob_keeps: "snd (Mem_DeleteJob k r) = r"
  by (simp add: Mem_DeleteJob_def split: option.split)

end
