(* ===== verification/Wire.thy ===== *)
theory Wire
  imports Domain_Model
begin

text \<open>
  The messages of the worker stream (\<open>api/proto/adp/v1\<close>): one constructor per payload of the two
  envelopes. A message whose oneof is unset is the constructor \<open>..._Unset\<close>.
\<close>

record PbJob =
  PbJob_Id :: string
  PbJob_Name :: string
  PbJob_WorkerType :: string
  PbJob_Command :: string
  PbJob_TemplateCode :: string
  PbJob_Parameters :: "(string, string) gomap"
  PbJob_SourceType :: string

record PbJobResult =
  PbJobResult_WorkerId :: string
  PbJobResult_JobId :: string
  PbJobResult_Command :: string
  PbJobResult_Success :: bool
  PbJobResult_Output :: string
  PbJobResult_LogToDb :: bool

datatype WorkerEnvelope =
    WorkerEnvelope_Register string string
  | WorkerEnvelope_Heartbeat string "HostInfo option"
  | WorkerEnvelope_JobResult PbJobResult
  | WorkerEnvelope_CommandAck string string bool
  | WorkerEnvelope_Unset

datatype ServerEnvelope =
    ServerEnvelope_Registered string string string
  | ServerEnvelope_Job "PbJob option"
  | ServerEnvelope_Command string
  | ServerEnvelope_Error string
  | ServerEnvelope_Unset

end
