(* ===== verification/Hub.thy ===== *)
theory Hub
  imports Wire Id_Source
begin

text \<open>
  \<open>internal/infrastructure/workerstream/hub.go\<close>: the registry of connected workers. A Go channel is a
  reference: the hub keeps references, so the model has a store of channels, and two registrations
  of one worker have different references. Sending on a closed channel and closing one twice are run
  time panics; they are the error values here, and no reachable state has them.
\<close>

section \<open>Channels\<close>

type_synonym chan_ref = nat

record Chan =
  Chan_buffer :: "ServerEnvelope list"
  Chan_closed :: bool

definition chan_cap :: nat where
  "chan_cap = 32"

definition make_chan :: Chan where
  "make_chan = \<lparr>Chan_buffer = [], Chan_closed = False\<rparr>"

text \<open>The non-blocking send of a \<open>select\<close> with a \<open>default\<close> case.\<close>

definition try_send :: "ServerEnvelope \<Rightarrow> Chan \<Rightarrow> (bool \<times> Chan) res" where
  "try_send msg c =
     (if Chan_closed c then Inl ''send on closed channel''
      else if length (Chan_buffer c) < chan_cap
      then Inr (True, c\<lparr>Chan_buffer := Chan_buffer c @ [msg]\<rparr>)
      else Inr (False, c))"

definition close_chan :: "Chan \<Rightarrow> Chan res" where
  "close_chan c = (if Chan_closed c then Inl ''close of closed channel'' else Inr (c\<lparr>Chan_closed := True\<rparr>))"

text \<open>A receive: a buffered message; the closed signal when the buffer is drained; otherwise it
  blocks.\<close>

datatype recv_result = Received ServerEnvelope | Recv_closed | Recv_blocks

definition recv_chan :: "Chan \<Rightarrow> recv_result \<times> Chan" where
  "recv_chan c =
     (case Chan_buffer c of
        m # ms \<Rightarrow> (Received m, c\<lparr>Chan_buffer := ms\<rparr>)
      | [] \<Rightarrow> (if Chan_closed c then Recv_closed else Recv_blocks, c))"

section \<open>The hub\<close>

record Hub =
  Hub_workers :: "(string, chan_ref) gomap"
  Hub_chans :: "(chan_ref, Chan) gomap"
  Hub_next :: chan_ref

definition NewHub :: Hub where
  "NewHub = \<lparr>Hub_workers = [], Hub_chans = [], Hub_next = 0\<rparr>"

definition chan_at :: "Hub \<Rightarrow> chan_ref \<Rightarrow> Chan" where
  "chan_at h ch = (case map_of (Hub_chans h) ch of None \<Rightarrow> make_chan | Some c \<Rightarrow> c)"

definition set_chan :: "chan_ref \<Rightarrow> Chan \<Rightarrow> Hub \<Rightarrow> Hub" where
  "set_chan ch c h = h\<lparr>Hub_chans := AList.update ch c (Hub_chans h)\<rparr>"

definition close_ref :: "chan_ref \<Rightarrow> Hub \<Rightarrow> Hub res" where
  "close_ref ch h = (case close_chan (chan_at h ch) of Inl e \<Rightarrow> Inl e | Inr c \<Rightarrow> Inr (set_chan ch c h))"

definition hub_register :: "string \<Rightarrow> Hub \<Rightarrow> (chan_ref \<times> Hub) res" where
  "hub_register workerID h =
     (let ch = Hub_next h;
          h = set_chan ch make_chan (h\<lparr>Hub_next := ch + 1\<rparr>)
      in case (case map_of (Hub_workers h) workerID of None \<Rightarrow> Inr h | Some old \<Rightarrow> close_ref old h) of
           Inl e \<Rightarrow> Inl e
         | Inr h \<Rightarrow> Inr (ch, h\<lparr>Hub_workers := AList.update workerID ch (Hub_workers h)\<rparr>))"

definition hub_unregister :: "string \<Rightarrow> chan_ref \<Rightarrow> Hub \<Rightarrow> Hub res" where
  "hub_unregister workerID ch h =
     (if map_of (Hub_workers h) workerID = Some ch
      then close_ref ch (h\<lparr>Hub_workers := AList.delete workerID (Hub_workers h)\<rparr>)
      else Inr h)"

definition hub_push :: "string \<Rightarrow> ServerEnvelope \<Rightarrow> Hub \<Rightarrow> (bool \<times> Hub) res" where
  "hub_push workerID msg h =
     (case map_of (Hub_workers h) workerID of
        None \<Rightarrow> Inr (False, h)
      | Some ch \<Rightarrow>
          (case try_send msg (chan_at h ch) of
             Inl e \<Rightarrow> Inl e
           | Inr (ok, c) \<Rightarrow> Inr (ok, set_chan ch c h)))"

definition stream_cloneStringMap :: "(string, string) gomap \<Rightarrow> (string, string) gomap" where
  "stream_cloneStringMap m = (if length m = 0 then [] else clone_map m)"

definition jobToProto :: "Job \<Rightarrow> PbJob" where
  "jobToProto job = \<lparr>PbJob_Id = Job_ID job, PbJob_Name = Job_Name job, PbJob_WorkerType = Job_WorkerType job,
     PbJob_Command = Job_Command job, PbJob_TemplateCode = Job_TemplateCode job,
     PbJob_Parameters = stream_cloneStringMap (Job_Parameters job), PbJob_SourceType = Job_SourceType job\<rparr>"

definition PushJob :: "string \<Rightarrow> Job \<Rightarrow> Hub \<Rightarrow> (bool \<times> Hub) res" where
  "PushJob workerID job h = hub_push workerID (ServerEnvelope_Job (Some (jobToProto job))) h"

definition PushCommand :: "string \<Rightarrow> string \<Rightarrow> Hub \<Rightarrow> (bool \<times> Hub) res" where
  "PushCommand workerID command h = hub_push workerID (ServerEnvelope_Command command) h"

definition IsConnected :: "string \<Rightarrow> Hub \<Rightarrow> bool" where
  "IsConnected workerID h \<longleftrightarrow> map_of (Hub_workers h) workerID \<noteq> None"

definition ConnectedWorkers :: "Hub \<Rightarrow> string list" where
  "ConnectedWorkers h = keys (Hub_workers h)"

text \<open>The stream of a worker receives from the channel it was given.\<close>

definition hub_receive :: "chan_ref \<Rightarrow> Hub \<Rightarrow> recv_result \<times> Hub" where
  "hub_receive ch h = (case recv_chan (chan_at h ch) of (x, c) \<Rightarrow> (x, set_chan ch c h))"

section \<open>Invariant\<close>

text \<open>The channels the hub refers to.\<close>

definition live :: "(string, chan_ref) gomap \<Rightarrow> chan_ref set" where
  "live ws = set (vals ws)"

definition hub_ok :: "Hub \<Rightarrow> bool" where
  "hub_ok h \<longleftrightarrow> map_ok (Hub_workers h) \<and> distinct (vals (Hub_workers h)) \<and>
     (\<forall>ch \<in> live (Hub_workers h). ch < Hub_next h) \<and>
     (\<forall>ch < Hub_next h. Chan_closed (chan_at h ch) \<longleftrightarrow> ch \<notin> live (Hub_workers h)) \<and>
     (\<forall>ch. length (Chan_buffer (chan_at h ch)) \<le> chan_cap)"

lemma chan_at_set [simp]: "chan_at (set_chan ch c h) ch' = (if ch' = ch then c else chan_at h ch')"
  by (simp add: chan_at_def set_chan_def)

lemma chan_at_keeps [simp]:
  "chan_at (h\<lparr>Hub_workers := ws\<rparr>) ch = chan_at h ch" "chan_at (h\<lparr>Hub_next := n\<rparr>) ch = chan_at h ch"
  by (simp_all add: chan_at_def)

lemma set_chan_keeps [simp]:
  "Hub_workers (set_chan ch c h) = Hub_workers h" "Hub_next (set_chan ch c h) = Hub_next h"
  by (simp_all add: set_chan_def)

lemma make_chan_simps [simp]: "Chan_buffer make_chan = []" "\<not> Chan_closed make_chan"
  by (simp_all add: make_chan_def)

lemma lookup_val: "map_of m k = Some v \<Longrightarrow> v \<in> live m"
  by (force simp: live_def dest: map_of_SomeD)

lemma vals_update:
  "map_ok m \<Longrightarrow> live (AList.update k v m) = insert v (live (AList.delete k m))"
  by (induction m) (auto simp: map_ok_def live_def)

lemma distinct_vals_delete: "distinct (vals m) \<Longrightarrow> distinct (vals (AList.delete k m))"
  by (induction m) (use set_delete_subset in \<open>fastforce\<close>)+

lemma vals_delete:
  assumes "map_ok m" "distinct (vals m)" "map_of m k = Some v"
  shows "live (AList.delete k m) = live m - {v}"
  using assms by (induction m) (force simp: map_ok_def live_def split: if_splits dest: map_of_SomeD)+

lemma distinct_vals_update:
  "map_ok m \<Longrightarrow> distinct (vals m) \<Longrightarrow> v \<notin> live m \<Longrightarrow> distinct (vals (AList.update k v m))"
proof (induction m)
  case (Cons x m)
  then show ?case
    using set_update_subset[of k v m] by (cases x) (fastforce simp: map_ok_def live_def)
qed simp

lemma hub_ok_lookup:
  assumes "hub_ok h" "map_of (Hub_workers h) w = Some ch"
  shows "ch < Hub_next h \<and> \<not> Chan_closed (chan_at h ch) \<and> ch \<in> live (Hub_workers h)"
  using assms lookup_val[OF assms(2)] unfolding hub_ok_def by blast

lemma NewHub_ok: "hub_ok NewHub"
  by (simp add: hub_ok_def NewHub_def chan_at_def live_def)

lemma hub_push_ok:
  assumes "hub_ok h"
  shows "\<exists>b h'. hub_push w msg h = Inr (b, h') \<and> hub_ok h' \<and> Hub_workers h' = Hub_workers h"
proof (cases "map_of (Hub_workers h) w")
  case None
  then have "hub_push w msg h = Inr (False, h)" by (simp add: hub_push_def)
  then show ?thesis using assms by blast
next
  case (Some ch)
  note open_ = hub_ok_lookup[OF assms Some]
  then show ?thesis
    using Some assms by (auto simp: hub_push_def try_send_def hub_ok_def)
qed

lemma hub_receive_ok:
  assumes "hub_ok h"
  shows "hub_ok (snd (hub_receive ch h))"
proof -
  have "length (Chan_buffer (snd (recv_chan c))) \<le> length (Chan_buffer c)"
    "Chan_closed (snd (recv_chan c)) = Chan_closed c" for c
    by (auto simp: recv_chan_def split: list.splits)
  moreover have "length (Chan_buffer (snd (recv_chan (chan_at h ch)))) \<le> chan_cap"
    using calculation(1) assms le_trans unfolding hub_ok_def by blast
  ultimately show ?thesis
    using assms unfolding hub_ok_def hub_receive_def by (simp add: case_prod_beta)
qed

lemma hub_unregister_ok:
  assumes "hub_ok h"
  shows "\<exists>h'. hub_unregister w ch h = Inr h' \<and> hub_ok h'"
proof (cases "map_of (Hub_workers h) w = Some ch")
  case True
  note o = hub_ok_lookup[OF assms True]
  have v: "live (AList.delete w (Hub_workers h)) = live (Hub_workers h) - {ch}"
    using vals_delete[OF _ _ True] assms by (simp add: hub_ok_def)
  let ?h = "set_chan ch ((chan_at h ch)\<lparr>Chan_closed := True\<rparr>)
      (h\<lparr>Hub_workers := AList.delete w (Hub_workers h)\<rparr>)"
  have "hub_unregister w ch h = Inr ?h"
    using True o by (simp add: hub_unregister_def close_ref_def close_chan_def)
  moreover have "hub_ok ?h"
    unfolding hub_ok_def
    using assms v distinct_vals_delete[of "Hub_workers h" w] by (auto simp: hub_ok_def)
  ultimately show ?thesis by blast
next
  case False
  then show ?thesis using assms by (simp add: hub_unregister_def)
qed

lemma hub_register_ok:
  assumes "hub_ok h"
  shows "\<exists>h'. hub_register w h = Inr (Hub_next h, h') \<and> hub_ok h' \<and>
    map_of (Hub_workers h') w = Some (Hub_next h) \<and> chan_at h' (Hub_next h) = make_chan \<and>
    (\<forall>w'. w' \<noteq> w \<longrightarrow> map_of (Hub_workers h') w' = map_of (Hub_workers h) w')"
proof -
  let ?ch = "Hub_next h"
  have fresh: "?ch \<notin> live (Hub_workers h)" using assms by (auto simp: hub_ok_def)
  have ok: "map_ok (Hub_workers h)" "distinct (vals (Hub_workers h))" using assms by (auto simp: hub_ok_def)
  have dist: "distinct (vals (AList.update w ?ch (Hub_workers h)))"
    by (rule distinct_vals_update[OF ok fresh])
  show ?thesis
  proof (cases "map_of (Hub_workers h) w")
    case None
    then have "live (AList.update w ?ch (Hub_workers h)) = insert ?ch (live (Hub_workers h))"
      using vals_update[OF ok(1)] by (simp add: map_of_eq_None_iff)
    then show ?thesis
      using None assms fresh dist
      by (auto simp: hub_register_def Let_def hub_ok_def less_Suc_eq)
  next
    case (Some old)
    note o = hub_ok_lookup[OF assms Some]
    have "live (AList.update w ?ch (Hub_workers h)) = insert ?ch (live (Hub_workers h) - {old})"
      using vals_update[OF ok(1)] vals_delete[OF ok Some] by simp
    then show ?thesis
      using Some o assms fresh dist
      by (auto simp: hub_register_def Let_def hub_ok_def close_ref_def close_chan_def less_Suc_eq)
  qed
qed

section \<open>Histories\<close>

text \<open>
  Runs of the hub, with two ghost functions: the messages every channel accepted and the messages
  every stream received from its channel, in order.
\<close>

inductive hub_run ::
  "Hub \<Rightarrow> (chan_ref \<Rightarrow> ServerEnvelope list) \<Rightarrow> (chan_ref \<Rightarrow> ServerEnvelope list) \<Rightarrow> bool" where
  hub_init: "hub_run NewHub (\<lambda>_. []) (\<lambda>_. [])"
| hub_connect: "hub_run h a r \<Longrightarrow> hub_register w h = Inr (ch, h') \<Longrightarrow> hub_run h' a r"
| hub_disconnect: "hub_run h a r \<Longrightarrow> hub_unregister w ch h = Inr h' \<Longrightarrow> hub_run h' a r"
| hub_accept: "hub_run h a r \<Longrightarrow> hub_push w m h = Inr (True, h') \<Longrightarrow>
    map_of (Hub_workers h) w = Some ch \<Longrightarrow> hub_run h' (a(ch := a ch @ [m])) r"
| hub_refuse: "hub_run h a r \<Longrightarrow> hub_push w m h = Inr (False, h') \<Longrightarrow> hub_run h' a r"
| hub_deliver: "hub_run h a r \<Longrightarrow> ch < Hub_next h \<Longrightarrow> hub_receive ch h = (Received m, h') \<Longrightarrow>
    hub_run h' a (r(ch := r ch @ [m]))"

definition queue_ok :: "Hub \<Rightarrow> (chan_ref \<Rightarrow> ServerEnvelope list) \<Rightarrow> (chan_ref \<Rightarrow> ServerEnvelope list) \<Rightarrow> bool" where
  "queue_ok h a r \<longleftrightarrow> (\<forall>ch. a ch = r ch @ Chan_buffer (chan_at h ch)) \<and>
     (\<forall>ch \<ge> Hub_next h. Chan_buffer (chan_at h ch) = [])"

lemma close_ref_buffer:
  "close_ref old h = Inr h' \<Longrightarrow> Chan_buffer (chan_at h' ch) = Chan_buffer (chan_at h ch) \<and> Hub_next h' = Hub_next h"
  by (auto simp: close_ref_def close_chan_def split: if_splits sum.splits)

lemma hub_register_buffer:
  assumes "hub_register w h = Inr (c, h')" "Chan_buffer (chan_at h (Hub_next h)) = []"
  shows "Chan_buffer (chan_at h' ch) = Chan_buffer (chan_at h ch) \<and> Hub_next h' = Hub_next h + 1"
  using assms
  by (auto simp: hub_register_def Let_def split: option.splits sum.splits dest: close_ref_buffer[of _ _ _ ch])

lemma hub_unregister_buffer:
  "hub_unregister w c h = Inr h' \<Longrightarrow> Chan_buffer (chan_at h' ch) = Chan_buffer (chan_at h ch) \<and> Hub_next h' = Hub_next h"
  by (auto simp: hub_unregister_def split: if_splits dest: close_ref_buffer[of _ _ _ ch])

lemma hub_run_ok: "hub_run h a r \<Longrightarrow> hub_ok h \<and> queue_ok h a r"
proof (induction rule: hub_run.induct)
  case hub_init
  show ?case using NewHub_ok by (simp add: queue_ok_def NewHub_def chan_at_def)
next
  case (hub_connect h a r w ch h')
  have "hub_ok h'" using hub_register_ok[of h w] hub_connect by auto
  moreover have "queue_ok h' a r"
    using hub_connect hub_register_buffer[OF hub_connect.hyps(2)] by (simp add: queue_ok_def)
  ultimately show ?case ..
next
  case (hub_disconnect h a r w ch h')
  have "hub_ok h'" using hub_unregister_ok[of h w ch] hub_disconnect by auto
  moreover have "queue_ok h' a r"
    using hub_disconnect hub_unregister_buffer[OF hub_disconnect.hyps(2)] by (simp add: queue_ok_def)
  ultimately show ?case ..
next
  case (hub_accept h a r w m h' ch)
  have "hub_ok h'" using hub_push_ok[of h w m] hub_accept by auto
  moreover have "ch < Hub_next h" using hub_ok_lookup hub_accept by blast
  then have "queue_ok h' (a(ch := a ch @ [m])) r"
    using hub_accept by (auto simp: queue_ok_def hub_push_def try_send_def split: if_splits)
  ultimately show ?case ..
next
  case (hub_refuse h a r w m h')
  have "hub_ok h'" using hub_push_ok[of h w m] hub_refuse by auto
  moreover have "queue_ok h' a r"
    using hub_refuse by (auto simp: queue_ok_def hub_push_def try_send_def split: if_splits option.splits)
  ultimately show ?case ..
next
  case (hub_deliver h a r ch m h')
  have "hub_ok h'" using hub_receive_ok[of h ch] hub_deliver by simp
  moreover have "queue_ok h' a (r(ch := r ch @ [m]))"
    using hub_deliver by (auto simp: queue_ok_def hub_receive_def recv_chan_def split: list.splits if_splits prod.splits)
  ultimately show ?case ..
qed

lemma hub_register_next: "hub_ok h \<Longrightarrow> hub_register w h = Inr (ch, h') \<Longrightarrow> ch < Hub_next h'"
  using hub_register_ok[of h w] hub_ok_lookup[of h' w ch] by auto

section \<open>Properties\<close>

text \<open>C25. Whatever the interleaving of connections, disconnections, pushes and receives, no hub call
  panics (no send on and no second close of a closed channel), and every call keeps the hub well
  formed: one open channel per connected worker, all other channels closed.\<close>

theorem hub_never_panics:
  assumes "hub_run h a r"
  shows "hub_ok h \<and> (\<exists>ch h'. hub_register w h = Inr (ch, h')) \<and> (\<exists>h'. hub_unregister w ch h = Inr h') \<and>
    (\<exists>b h'. hub_push w m h = Inr (b, h'))"
  using hub_run_ok[OF assms] hub_register_ok[of h w] hub_unregister_ok[of h w ch] hub_push_ok[of h w m]
  by blast

text \<open>A worker reconnects while its first stream still exists.\<close>

definition reconnected :: Hub where
  "reconnected = (case hub_register ''w1'' NewHub of
     Inr (_, h) \<Rightarrow> (case hub_register ''w1'' h of Inr (_, h) \<Rightarrow> h | Inl _ \<Rightarrow> h) | Inl _ \<Rightarrow> NewHub)"

lemma reconnected_run: "hub_run reconnected (\<lambda>_. []) (\<lambda>_. [])"
proof -
  obtain h1 where h1: "hub_register ''w1'' NewHub = Inr (0, h1)"
    using hub_register_ok[OF NewHub_ok, of "''w1''"] by (auto simp: NewHub_def)
  then have r1: "hub_run h1 (\<lambda>_. []) (\<lambda>_. [])" using hub_run.hub_connect hub_run.hub_init by blast
  then obtain c h2 where h2: "hub_register ''w1'' h1 = Inr (c, h2)"
    using hub_register_ok[of h1 "''w1''"] hub_run_ok[OF r1] by blast
  then have "reconnected = h2" by (simp add: reconnected_def h1)
  then show ?thesis using hub_run.hub_connect[OF r1 h2] by simp
qed

theorem hub_never_panics_witness:
  "hub_ok reconnected \<and> (\<exists>h'. hub_unregister ''w1'' 0 reconnected = Inr h')"
  using hub_never_panics[OF reconnected_run, of "''w1''" 0 ServerEnvelope_Unset] by blast

text \<open>C13. Delivery is in order and exactly once: on every channel the messages that pushes were told were
  accepted are the messages its stream has received followed by the at most 32 still buffered; a
  message is refused only when no worker is connected or 32 are waiting.\<close>

theorem hub_delivers_in_order:
  assumes "hub_run h a r"
  shows "a ch = r ch @ Chan_buffer (chan_at h ch) \<and> length (Chan_buffer (chan_at h ch)) \<le> 32 \<and>
    ((\<exists>h'. hub_push w m h = Inr (False, h')) \<longleftrightarrow>
       (case map_of (Hub_workers h) w of None \<Rightarrow> True | Some c \<Rightarrow> length (Chan_buffer (chan_at h c)) = 32))"
proof -
  have ok: "hub_ok h" "queue_ok h a r" using hub_run_ok[OF assms] by auto
  have cap: "length (Chan_buffer (chan_at h c)) \<le> 32" for c using ok(1) by (simp add: hub_ok_def chan_cap_def)
  have "(\<exists>h'. hub_push w m h = Inr (False, h')) \<longleftrightarrow>
      (case map_of (Hub_workers h) w of None \<Rightarrow> True | Some c \<Rightarrow> length (Chan_buffer (chan_at h c)) = 32)"
    using hub_ok_lookup[OF ok(1)] cap
    by (auto simp: hub_push_def try_send_def chan_cap_def not_less eq_iff split: option.splits)
  then show ?thesis using ok(2) cap by (simp add: queue_ok_def)
qed

theorem hub_delivers_in_order_witness:
  "length (Chan_buffer (chan_at reconnected 1)) \<le> 32 \<and> \<not> (\<exists>h'. hub_push ''w1'' ServerEnvelope_Unset reconnected = Inr (False, h'))"
proof -
  have "(case map_of (Hub_workers reconnected) ''w1'' of None \<Rightarrow> True
      | Some c \<Rightarrow> length (Chan_buffer (chan_at reconnected c)) = 32) = False"
    by code_simp
  then show ?thesis
    using hub_delivers_in_order[OF reconnected_run, of 1 "''w1''" ServerEnvelope_Unset] by simp
qed

text \<open>A stream that ends late does not disturb its successor: after a worker has registered again,
  unregistering the old channel changes nothing and the worker stays connected on the new one.\<close>

lemma stale_unregister_harmless:
  assumes "hub_ok h" "hub_register w h = Inr (old, h1)" "hub_register w h1 = Inr (new, h2)"
  shows "hub_unregister w old h2 = Inr h2 \<and> IsConnected w h2 \<and> old \<noteq> new"
  using assms hub_register_ok[OF assms(1), of w] hub_register_ok[of h1 w] hub_register_next[OF assms(1,2)]
  by (auto simp: hub_unregister_def IsConnected_def)

theorem stale_unregister_harmless_witness:
  "\<exists>h1 h2 new. hub_register ''w1'' NewHub = Inr (0, h1) \<and> hub_register ''w1'' h1 = Inr (new, h2) \<and>
     hub_unregister ''w1'' 0 h2 = Inr h2 \<and> IsConnected ''w1'' h2"
proof -
  obtain h1 where h1: "hub_register ''w1'' NewHub = Inr (0, h1)" "hub_ok h1"
    using hub_register_ok[OF NewHub_ok, of "''w1''"] by (auto simp: NewHub_def)
  then obtain new h2 where h2: "hub_register ''w1'' h1 = Inr (new, h2)"
    using hub_register_ok[of h1 "''w1''"] by blast
  show ?thesis using stale_unregister_harmless[OF NewHub_ok h1(1) h2] h1(1) h2 by blast
qed

end
