(* ===== verification/Llm.thy ===== *)
theory Llm
  imports Domain_Model
begin

text \<open>
  \<open>internal/infrastructure/llm/client.go\<close>: the messages exchanged with the language model and the HTTP
  client. The HTTP exchange and the JSON text format are parameters: a request is sent as its wire
  record, and a response or stream line is decoded by a given function. What the client does around
  them, building the request, checking the answer, assembling a streamed answer from its fragments,
  is modelled.
\<close>

section \<open>Messages\<close>

record ToolCall =
  ToolCall_ID :: string
  ToolCall_Name :: string
  ToolCall_Arguments :: string

record Message =
  Message_Role :: string
  Message_Content :: string
  Message_ToolCallID :: string
  Message_ToolCalls :: "ToolCall list"

definition message :: "string \<Rightarrow> string \<Rightarrow> Message" where
  "message role content = \<lparr>Message_Role = role, Message_Content = content, Message_ToolCallID = [],
     Message_ToolCalls = []\<rparr>"

record ToolDefinition =
  ToolDefinition_Name :: string
  ToolDefinition_Description :: string
  ToolDefinition_Parameters :: details

record CompletionRequest =
  Request_Messages :: "Message list"
  Request_Tools :: "ToolDefinition list"

record Usage =
  Usage_PromptTokens :: int
  Usage_CompletionTokens :: int
  Usage_TotalTokens :: int

definition zero_Usage :: Usage where
  "zero_Usage = \<lparr>Usage_PromptTokens = 0, Usage_CompletionTokens = 0, Usage_TotalTokens = 0\<rparr>"

record Completion =
  Completion_Message :: Message
  Completion_Usage :: Usage

section \<open>The HTTP client\<close>

record HTTPClient =
  HTTP_baseURL :: string
  HTTP_apiKey :: string
  HTTP_model :: string

definition NewHTTPClient :: "string \<Rightarrow> string \<Rightarrow> string \<Rightarrow> HTTPClient" where
  "NewHTTPClient baseURL apiKey model =
     \<lparr>HTTP_baseURL = rev (dropWhile (\<lambda>c. c = CHR ''/'') (rev baseURL)), HTTP_apiKey = apiKey, HTTP_model = model\<rparr>"

record wireCall =
  wireCall_Index :: int
  wireCall_ID :: string
  wireCall_Type :: string
  wireCall_Name :: string
  wireCall_Arguments :: string

record wireMessage =
  wireMessage_Role :: string
  wireMessage_Content :: string
  wireMessage_ToolCallID :: string
  wireMessage_ToolCalls :: "wireCall list"

record wireRequest =
  wireRequest_Model :: string
  wireRequest_Messages :: "wireMessage list"
  wireRequest_Tools :: "ToolDefinition list"
  wireRequest_Stream :: bool

text \<open>The index is only sent by the streaming request.\<close>

definition wire_call :: "nat \<Rightarrow> ToolCall \<Rightarrow> wireCall" where
  "wire_call index call = \<lparr>wireCall_Index = int index, wireCall_ID = ToolCall_ID call,
     wireCall_Type = ''function'', wireCall_Name = ToolCall_Name call,
     wireCall_Arguments = ToolCall_Arguments call\<rparr>"

definition wire_message :: "Message \<Rightarrow> wireMessage" where
  "wire_message m = \<lparr>wireMessage_Role = Message_Role m, wireMessage_Content = Message_Content m,
     wireMessage_ToolCallID = Message_ToolCallID m,
     wireMessage_ToolCalls = map2 wire_call [0..<length (Message_ToolCalls m)] (Message_ToolCalls m)\<rparr>"

definition wire_request :: "HTTPClient \<Rightarrow> bool \<Rightarrow> CompletionRequest \<Rightarrow> wireRequest" where
  "wire_request c streaming request = \<lparr>wireRequest_Model = HTTP_model c,
     wireRequest_Messages = map wire_message (Request_Messages request),
     wireRequest_Tools = Request_Tools request, wireRequest_Stream = streaming\<rparr>"

definition request_headers :: "HTTPClient \<Rightarrow> bool \<Rightarrow> (string, string) gomap" where
  "request_headers c streaming =
     [(''Content-Type'', ''application/json'')] @
     (if streaming then [(''Accept'', ''text/event-stream'')] else []) @
     (if HTTP_apiKey c \<noteq> [] then [(''Authorization'', ''Bearer '' @ HTTP_apiKey c)] else [])"

text \<open>A response: status code, status line and body; the body of a completion is decoded by
  \<open>decode\<close> to its choices and usage, and \<open>valid\<close> is \<open>json.Valid\<close>.\<close>

record 'b http_response =
  Response_StatusCode :: int
  Response_Status :: string
  Response_Body :: 'b

type_synonym 'b http_post =
  "string \<Rightarrow> (string, string) gomap \<Rightarrow> wireRequest \<Rightarrow> ('b http_response) res"

record completion_payload =
  Payload_Choices :: "wireMessage list"
  Payload_Usage :: Usage

fun check_calls :: "(string \<Rightarrow> bool) \<Rightarrow> wireCall list \<Rightarrow> ToolCall list res" where
  "check_calls valid [] = Inr []"
| "check_calls valid (call # calls) =
     (if \<not> valid (wireCall_Arguments call)
      then Inl (''tool '' @ quoted (wireCall_Name call) @ '' returned invalid JSON arguments'')
      else (case check_calls valid calls of
              Inl e \<Rightarrow> Inl e
            | Inr rest \<Rightarrow> Inr (\<lparr>ToolCall_ID = wireCall_ID call, ToolCall_Name = wireCall_Name call,
                ToolCall_Arguments = wireCall_Arguments call\<rparr> # rest)))"

definition HTTP_Complete ::
  "'b http_post \<Rightarrow> ('b \<Rightarrow> completion_payload res) \<Rightarrow> (string \<Rightarrow> bool) \<Rightarrow> HTTPClient \<Rightarrow>
   CompletionRequest \<Rightarrow> Completion res" where
  "HTTP_Complete post decode valid c request =
     (case post (HTTP_baseURL c @ ''/chat/completions'') (request_headers c False) (wire_request c False request) of
        Inl e \<Rightarrow> Inl (''complete: '' @ e)
      | Inr resp \<Rightarrow>
          if Response_StatusCode resp < 200 \<or> Response_StatusCode resp \<ge> 300
          then Inl (''completion API returned '' @ Response_Status resp)
          else (case decode (Response_Body resp) of
              Inl e \<Rightarrow> Inl (''decode completion: '' @ e)
            | Inr payload \<Rightarrow>
                (case Payload_Choices payload of
                   [] \<Rightarrow> Inl ''completion returned no choices''
                 | choice # _ \<Rightarrow>
                     (case check_calls valid (wireMessage_ToolCalls choice) of
                        Inl e \<Rightarrow> Inl e
                      | Inr calls \<Rightarrow>
                          Inr \<lparr>Completion_Message =
                                 (message ''assistant'' (wireMessage_Content choice))\<lparr>Message_ToolCalls := calls\<rparr>,
                               Completion_Usage = Payload_Usage payload\<rparr>))))"

section \<open>Streaming\<close>

record chunk =
  Chunk_Choices :: "(string \<times> wireCall list) list"
  Chunk_Usage :: Usage

record assembledCall =
  Assembled_id :: string
  Assembled_name :: string
  Assembled_arguments :: string

record stream_state =
  Stream_content :: string
  Stream_calls :: "(int, assembledCall) gomap"
  Stream_usage :: Usage
  Stream_deltas :: "string list"

definition add_fragment :: "wireCall \<Rightarrow> (int, assembledCall) gomap \<Rightarrow> (int, assembledCall) gomap" where
  "add_fragment delta calls =
     (let call = (case map_of calls (wireCall_Index delta) of
                    Some c \<Rightarrow> c
                  | None \<Rightarrow> \<lparr>Assembled_id = [], Assembled_name = [], Assembled_arguments = []\<rparr>);
          call = (if wireCall_ID delta \<noteq> [] then call\<lparr>Assembled_id := wireCall_ID delta\<rparr> else call);
          call = (if wireCall_Name delta \<noteq> [] then call\<lparr>Assembled_name := wireCall_Name delta\<rparr> else call);
          call = call\<lparr>Assembled_arguments := Assembled_arguments call @ wireCall_Arguments delta\<rparr>
      in AList.update (wireCall_Index delta) call calls)"

text \<open>One choice: \<open>onDelta\<close> may refuse a fragment, which ends the stream with its error. The
  fragments it accepted are kept in the state.\<close>

definition add_choice ::
  "(string \<Rightarrow> error option) \<Rightarrow> string \<times> wireCall list \<Rightarrow> stream_state \<Rightarrow> stream_state res" where
  "add_choice onDelta choice st =
     (case choice of (content, deltas) \<Rightarrow>
        let st1 = (if content \<noteq> []
              then st\<lparr>Stream_content := Stream_content st @ content, Stream_deltas := Stream_deltas st @ [content]\<rparr>
              else st)
        in case (if content \<noteq> [] then onDelta content else None) of
             Some e \<Rightarrow> Inl e
           | None \<Rightarrow> Inr (st1\<lparr>Stream_calls := fold add_fragment deltas (Stream_calls st1)\<rparr>))"

fun add_choices ::
  "(string \<Rightarrow> error option) \<Rightarrow> (string \<times> wireCall list) list \<Rightarrow> stream_state \<Rightarrow> stream_state res" where
  "add_choices onDelta [] st = Inr st"
| "add_choices onDelta (c # cs) st =
     (case add_choice onDelta c st of Inl e \<Rightarrow> Inl e | Inr st \<Rightarrow> add_choices onDelta cs st)"

text \<open>The lines of the body as \<open>ReadString\<close> returns them; the list ends at end of file, or with a read
  error.\<close>

fun stream_lines ::
  "(string \<Rightarrow> chunk res) \<Rightarrow> (string \<Rightarrow> error option) \<Rightarrow> string res list \<Rightarrow> stream_state \<Rightarrow> stream_state res" where
  "stream_lines decode onDelta [] st = Inr st"
| "stream_lines decode onDelta (Inl e # lines) st = Inl (''read completion stream: '' @ e)"
| "stream_lines decode onDelta (Inr raw # lines) st =
     (let line = TrimSpace raw
      in if HasPrefix line ''data:'' then
           (let data = TrimSpace (TrimPrefix line ''data:'')
            in if data = ''[DONE]'' then Inr st
               else case decode data of
                   Inl e \<Rightarrow> Inl (''decode completion stream: '' @ e)
                 | Inr payload \<Rightarrow>
                     let st = (if Usage_TotalTokens (Chunk_Usage payload) \<noteq> 0
                               then st\<lparr>Stream_usage := Chunk_Usage payload\<rparr> else st)
                     in case add_choices onDelta (Chunk_Choices payload) st of
                          Inl e \<Rightarrow> Inl e
                        | Inr st \<Rightarrow> stream_lines decode onDelta lines st)
         else stream_lines decode onDelta lines st)"

text \<open>
  The final loop reads the calls at index 0, 1, 2 and so on until one is missing. A map with \<open>n\<close>
  entries lacks one of the first \<open>n + 1\<close> indices, so \<open>length calls + 1\<close> rounds are enough.
\<close>

fun assemble :: "(string \<Rightarrow> bool) \<Rightarrow> (int, assembledCall) gomap \<Rightarrow> nat \<Rightarrow> nat \<Rightarrow> ToolCall list res" where
  "assemble valid calls index 0 = Inr []"
| "assemble valid calls index (Suc fuel) =
     (case map_of calls (int index) of
        None \<Rightarrow> Inr []
      | Some call \<Rightarrow>
          if Assembled_id call = [] \<or> Assembled_name call = [] \<or> \<not> valid (Assembled_arguments call)
          then Inl (''stream returned invalid tool call at index '' @ dec index)
          else (case assemble valid calls (Suc index) fuel of
                  Inl e \<Rightarrow> Inl e
                | Inr rest \<Rightarrow> Inr (\<lparr>ToolCall_ID = Assembled_id call, ToolCall_Name = Assembled_name call,
                    ToolCall_Arguments = Assembled_arguments call\<rparr> # rest)))"

definition start_stream :: stream_state where
  "start_stream = \<lparr>Stream_content = [], Stream_calls = [], Stream_usage = zero_Usage, Stream_deltas = []\<rparr>"

definition finish_stream :: "(string \<Rightarrow> bool) \<Rightarrow> stream_state \<Rightarrow> Completion res" where
  "finish_stream valid st =
     (case assemble valid (Stream_calls st) 0 (Suc (length (Stream_calls st))) of
        Inl e \<Rightarrow> Inl e
      | Inr calls \<Rightarrow> Inr \<lparr>Completion_Message =
            (message ''assistant'' (Stream_content st))\<lparr>Message_ToolCalls := calls\<rparr>,
          Completion_Usage = Stream_usage st\<rparr>)"

definition CompleteStream ::
  "(string res list) http_post \<Rightarrow> (string \<Rightarrow> chunk res) \<Rightarrow> (string \<Rightarrow> bool) \<Rightarrow> (string \<Rightarrow> error option) \<Rightarrow>
   HTTPClient \<Rightarrow> CompletionRequest \<Rightarrow> Completion res" where
  "CompleteStream post decode valid onDelta c request =
     (case post (HTTP_baseURL c @ ''/chat/completions'') (request_headers c True) (wire_request c True request) of
        Inl e \<Rightarrow> Inl (''stream completion: '' @ e)
      | Inr resp \<Rightarrow>
          if Response_StatusCode resp < 200 \<or> Response_StatusCode resp \<ge> 300
          then Inl (''streaming completion API returned '' @ Response_Status resp)
          else (case stream_lines decode onDelta (Response_Body resp) start_stream of
              Inl e \<Rightarrow> Inl e
            | Inr st \<Rightarrow> finish_stream valid st))"

section \<open>Assembly\<close>

text \<open>The choices of all chunks up to the end marker, in the order they arrive.\<close>

fun stream_choices :: "(string \<Rightarrow> chunk res) \<Rightarrow> string res list \<Rightarrow> (string \<times> wireCall list) list" where
  "stream_choices decode [] = []"
| "stream_choices decode (Inl e # lines) = []"
| "stream_choices decode (Inr raw # lines) =
     (let line = TrimSpace raw; data = TrimSpace (TrimPrefix line ''data:'')
      in if \<not> HasPrefix line ''data:'' then stream_choices decode lines
         else if data = ''[DONE]'' then []
         else case decode data of
             Inl e \<Rightarrow> [] | Inr payload \<Rightarrow> Chunk_Choices payload @ stream_choices decode lines)"

definition call_arguments :: "(int, assembledCall) gomap \<Rightarrow> int \<Rightarrow> string" where
  "call_arguments calls i = (case map_of calls i of None \<Rightarrow> [] | Some c \<Rightarrow> Assembled_arguments c)"

definition argument_fragments :: "int \<Rightarrow> wireCall list \<Rightarrow> string" where
  "argument_fragments i deltas = concat (map wireCall_Arguments (filter (\<lambda>d. wireCall_Index d = i) deltas))"

lemma add_fragment_arguments:
  "call_arguments (add_fragment d calls) i = call_arguments calls i @ argument_fragments i [d]"
  by (auto simp: add_fragment_def call_arguments_def argument_fragments_def Let_def split: option.splits)

lemma argument_fragments_append:
  "argument_fragments i (xs @ ys) = argument_fragments i xs @ argument_fragments i ys"
  by (simp add: argument_fragments_def)

lemma fold_fragments:
  "call_arguments (fold add_fragment ds calls) i = call_arguments calls i @ argument_fragments i ds"
proof (induction ds arbitrary: calls)
  case (Cons d ds)
  then show ?case
    using argument_fragments_append[of i "[d]" ds] by (simp add: add_fragment_arguments)
qed (simp add: argument_fragments_def)

lemma add_choices_spec:
  "add_choices onDelta cs st = Inr st' \<Longrightarrow>
   Stream_content st' = Stream_content st @ concat (map fst cs) \<and>
   concat (Stream_deltas st') = concat (Stream_deltas st) @ concat (map fst cs) \<and>
   call_arguments (Stream_calls st') i = call_arguments (Stream_calls st) i @ argument_fragments i (concat (map snd cs))"
proof (induction cs arbitrary: st)
  case (Cons c cs)
  obtain content ds where c: "c = (content, ds)" by (cases c)
  obtain st1 where st1: "add_choice onDelta c st = Inr st1" "add_choices onDelta cs st1 = Inr st'"
    using Cons.prems by (auto split: sum.splits)
  have "Stream_content st1 = Stream_content st @ content"
    "concat (Stream_deltas st1) = concat (Stream_deltas st) @ content"
    "call_arguments (Stream_calls st1) i = call_arguments (Stream_calls st) i @ argument_fragments i ds"
    using st1(1) c by (auto simp: add_choice_def Let_def fold_fragments split: option.splits if_splits)
  then show ?case
    using Cons.IH[OF st1(2)] c by (simp add: argument_fragments_append)
qed (simp add: argument_fragments_def)

lemma stream_lines_spec:
  "stream_lines decode onDelta lines st = Inr st' \<Longrightarrow>
   Stream_content st' = Stream_content st @ concat (map fst (stream_choices decode lines)) \<and>
   concat (Stream_deltas st') = concat (Stream_deltas st) @ concat (map fst (stream_choices decode lines)) \<and>
   call_arguments (Stream_calls st') i = call_arguments (Stream_calls st) i @
     argument_fragments i (concat (map snd (stream_choices decode lines)))"
proof (induction lines arbitrary: st)
  case Nil
  then show ?case by (simp add: argument_fragments_def)
next
  case (Cons l lines)
  obtain raw where l: "l = Inr raw" using Cons.prems by (cases l) auto
  let ?line = "TrimSpace raw" and ?data = "TrimSpace (TrimPrefix (TrimSpace raw) ''data:'')"
  consider (other) "\<not> HasPrefix ?line ''data:''" | (finished) "HasPrefix ?line ''data:''" "?data = ''[DONE]''"
    | (chunk) "HasPrefix ?line ''data:''" "?data \<noteq> ''[DONE]''" by blast
  then show ?case
  proof cases
    case other
    then show ?thesis using Cons l by simp
  next
    case finished
    then show ?thesis using Cons.prems l by (simp add: argument_fragments_def)
  next
    case chunk
    then obtain payload where p: "decode ?data = Inr payload"
      using Cons.prems l by (cases "decode ?data") (auto simp: Let_def)
    define st0 where "st0 = (if Usage_TotalTokens (Chunk_Usage payload) \<noteq> 0
        then st\<lparr>Stream_usage := Chunk_Usage payload\<rparr> else st)"
    obtain st1 where st1: "add_choices onDelta (Chunk_Choices payload) st0 = Inr st1"
        "stream_lines decode onDelta lines st1 = Inr st'"
      using Cons.prems l chunk p
      by (cases "add_choices onDelta (Chunk_Choices payload) st0") (auto simp: Let_def st0_def)
    have "Stream_content st0 = Stream_content st" "Stream_deltas st0 = Stream_deltas st"
        "Stream_calls st0 = Stream_calls st" by (simp_all add: st0_def)
    then show ?thesis
      using add_choices_spec[OF st1(1), of i] Cons.IH[OF st1(2)] l chunk p
      by (simp add: Let_def argument_fragments_append)
  qed
qed

lemma assemble_valid:
  "assemble valid calls i fuel = Inr cs \<Longrightarrow>
   list_all (\<lambda>c. ToolCall_ID c \<noteq> [] \<and> ToolCall_Name c \<noteq> [] \<and> valid (ToolCall_Arguments c)) cs"
  by (induction valid calls i fuel arbitrary: cs rule: assemble.induct)
    (auto split: option.splits if_splits sum.splits)

lemma assemble_fuel:
  "map_of calls (int (i + j)) = None \<Longrightarrow> j < fuel \<Longrightarrow> assemble valid calls i (fuel + k) = assemble valid calls i fuel"
proof (induction fuel arbitrary: i j)
  case (Suc fuel)
  show ?case
  proof (cases "map_of calls (int i)")
    case (Some c)
    then obtain j' where "j = Suc j'" using Suc.prems(1) by (cases j) auto
    then have "assemble valid calls (Suc i) (fuel + k) = assemble valid calls (Suc i) fuel"
      using Suc.IH[of "Suc i" j'] Suc.prems by simp
    then show ?thesis using Some by simp
  qed simp
qed simp

lemma missing_index: "\<exists>j \<le> length calls. map_of calls (int j) = None"
proof (rule ccontr)
  assume "\<not> ?thesis"
  then have "int ` {0..length calls} \<subseteq> fst ` set calls"
    by (force simp: map_of_eq_None_iff)
  then have "card (int ` {0..length calls}) \<le> card (fst ` set calls)" by (rule card_mono[rotated]) simp
  also have "\<dots> \<le> length calls" by (metis card_length list.set_map length_map)
  finally show False by (simp add: card_image)
qed

section \<open>Properties\<close>

text \<open>A streamed answer is the concatenation of its fragments: the content of the message is the text
  of all chunks up to the end marker, it is exactly what \<open>onDelta\<close> was given piece by piece, the
  arguments of every tool call are its argument fragments in arrival order, every call of the
  message has an identifier, a name and valid JSON arguments, and more rounds of the final loop would
  find no further call.\<close>

lemma stream_assembles:
  assumes "stream_lines decode onDelta lines start_stream = Inr st" "finish_stream valid st = Inr completion"
  shows "Message_Content (Completion_Message completion) = concat (map fst (stream_choices decode lines)) \<and>
    concat (Stream_deltas st) = Message_Content (Completion_Message completion) \<and>
    call_arguments (Stream_calls st) i = argument_fragments i (concat (map snd (stream_choices decode lines))) \<and>
    list_all (\<lambda>c. ToolCall_ID c \<noteq> [] \<and> ToolCall_Name c \<noteq> [] \<and> valid (ToolCall_Arguments c))
      (Message_ToolCalls (Completion_Message completion)) \<and>
    assemble valid (Stream_calls st) 0 (Suc (length (Stream_calls st)) + k) =
      Inr (Message_ToolCalls (Completion_Message completion))"
proof -
  obtain calls where c: "assemble valid (Stream_calls st) 0 (Suc (length (Stream_calls st))) = Inr calls"
      "completion = \<lparr>Completion_Message = (message ''assistant'' (Stream_content st))\<lparr>Message_ToolCalls := calls\<rparr>,
          Completion_Usage = Stream_usage st\<rparr>"
    using assms(2) by (auto simp: finish_stream_def split: sum.splits)
  obtain j where "j \<le> length (Stream_calls st)" "map_of (Stream_calls st) (int j) = None"
    using missing_index by blast
  then have "assemble valid (Stream_calls st) 0 (Suc (length (Stream_calls st)) + k) = Inr calls"
    using assemble_fuel[of "Stream_calls st" 0 j "Suc (length (Stream_calls st))" valid k] c(1) by simp
  then show ?thesis
    using stream_lines_spec[OF assms(1), of i] assemble_valid[OF c(1)] c(2)
    by (simp add: start_stream_def message_def call_arguments_def[of "[]"])
qed

definition hello_chunk :: "string \<Rightarrow> chunk res" where
  "hello_chunk data = Inr \<lparr>Chunk_Choices = [(data, [\<lparr>wireCall_Index = 0, wireCall_ID = ''c1'', wireCall_Type = [],
     wireCall_Name = ''list_workers'', wireCall_Arguments = ''{''\<rparr>])], Chunk_Usage = zero_Usage\<rparr>"

theorem stream_assembles_witness:
  "\<exists>st completion. stream_lines hello_chunk (\<lambda>d. None) [Inr ''data: he'', Inr ''data: llo'', Inr ''data: [DONE]''] start_stream
     = Inr st \<and> finish_stream (\<lambda>s. True) st = Inr completion \<and>
     Message_Content (Completion_Message completion) = ''hello''"
proof -
  let ?ls = "[Inr ''data: he'', Inr ''data: llo'', Inr ''data: [DONE]'']"
  let ?r = "stream_lines hello_chunk (\<lambda>d. None) ?ls start_stream"
  have "\<not> isl ?r" "\<not> isl (finish_stream (\<lambda>s. True) (projr ?r))" by code_simp+
  then have r: "?r = Inr (projr ?r)" "finish_stream (\<lambda>s. True) (projr ?r) = Inr (projr (finish_stream (\<lambda>s. True) (projr ?r)))"
    by simp_all
  have "concat (map fst (stream_choices hello_chunk ?ls)) = ''hello''" by code_simp
  then show ?thesis using stream_assembles[OF r, of 0 0] r by auto
qed

end
