(* ===== verification/Agent_Runtime.thy ===== *)
theory Agent_Runtime
  imports Sensitive Llm Json "HOL-Library.Sublist"
begin

text \<open>
  \<open>internal/application/agent/runtime.go\<close>: the bounded tool-calling loop of the agent. The language
  model, the tools and the observer are parameters that act on the state \<open>'w\<close> of everything outside
  the loop (repository, hub, model provider, clock); so is the JSON text of a payload, which can hold
  times and values of any type. The channel of the
  streaming view is not modelled: it only decides which method of the model client is called.
\<close>

section \<open>Fixed texts\<close>

text \<open>The texts in the prompt and the report are UTF-8.\<close>

definition SystemPrompt :: string where
  "SystemPrompt =
     ''You are ADP, a controlled operations agent for infrastructure diagnostics and repair.'' @
     [CHR 0x0A, CHR 0x0A] @ ''## Rules'' @ [CHR 0x0A] @
     ''1. Always use list_workers FIRST to discover available Workers. Never guess worker IDs.'' @
     [CHR 0x0A] @
     ''2. Use list_capabilities to see what operations are available for each worker type.'' @
     [CHR 0x0A] @
     ''3. Use only registered modules through create_module_operation. Shell commands, SQL, YAML and arbitrary files are never available.'' @
     [CHR 0x0A] @
     ''4. Never invent worker IDs, module codes, commands, YAML, credentials, or skip approvals.'' @
     [CHR 0x0A] @ ''5. Observe each tool result before deciding the next step.'' @ [CHR 0x0A] @
     ''6. For diagnosis requests, search_incident_cases before proposing a cause when historical cases may help. Historical cases are suggestions, never current facts.'' @
     [CHR 0x0A] @ ''7. The final report MUST have two headings: '' @
     [CHR 0x22, CHR 0xE6, CHR 0x9C, CHR 0xAC, CHR 0xE6, CHR 0xAC, CHR 0xA1, CHR 0xE5,
      CHR 0xB7, CHR 0xA5, CHR 0xE5, CHR 0x85, CHR 0xB7, CHR 0xE8, CHR 0xAF, CHR 0x81,
      CHR 0xE6, CHR 0x8D, CHR 0xAE, CHR 0x22] @ '' (only facts obtained from this run'' @
     [CHR 0x27] @ ''s live tools) and '' @
     [CHR 0x22, CHR 0xE5, CHR 0x8E, CHR 0x86, CHR 0xE5, CHR 0x8F, CHR 0xB2, CHR 0xE5,
      CHR 0x8F, CHR 0x82, CHR 0xE8, CHR 0x80, CHR 0x83, CHR 0xE6, CHR 0xA1, CHR 0x88,
      CHR 0xE4, CHR 0xBE, CHR 0x8B, CHR 0x22] @
     '' (only historical case IDs and recommendations). Do not describe historical results as current observations.'' @
     [CHR 0x0A] @ ''8. Be concise. Summarize findings, don'' @ [CHR 0x27] @
     ''t repeat raw JSON.'' @ [CHR 0x0A, CHR 0x0A] @ ''## Failure handling'' @ [CHR 0x0A] @
     ''- If a command fails due to permissions (polkit, EACCES, '' @ [CHR 0x22] @
     ''permission denied'' @ [CHR 0x22] @
     ''), do NOT retry with variations like sudo or alternative syntax. Tell the user what failed and suggest they configure sudoers on the Worker.'' @
     [CHR 0x0A] @
     ''- After 2 consecutive failures for the same goal, STOP and tell the user. Do not keep retrying.'' @
     [CHR 0x0A] @
     ''- Before running a risky command, first check if a simpler read-only diagnostic can confirm the state.'' @
     [CHR 0x0A, CHR 0x0A] @ ''## Workflow'' @ [CHR 0x0A] @ ''1. list_workers '' @
     [CHR 0xE2, CHR 0x86, CHR 0x92] @ '' discover targets'' @ [CHR 0x0A] @
     ''2. get_worker_facts '' @ [CHR 0xE2, CHR 0x86, CHR 0x92] @ '' check host state'' @
     [CHR 0x0A] @ ''3. create_module_operation '' @ [CHR 0xE2, CHR 0x86, CHR 0x92] @ '' act'' @
     [CHR 0x0A] @ ''4. get_job_result '' @ [CHR 0xE2, CHR 0x86, CHR 0x92] @ '' verify'' @
     [CHR 0x0A] @ ''5. Answer concisely with evidence.''"

definition evidence_heading :: string where
  "evidence_heading =
     [CHR 0xE6, CHR 0x9C, CHR 0xAC, CHR 0xE6, CHR 0xAC, CHR 0xA1, CHR 0xE5, CHR 0xB7,
      CHR 0xA5, CHR 0xE5, CHR 0x85, CHR 0xB7, CHR 0xE8, CHR 0xAF, CHR 0x81, CHR 0xE6,
      CHR 0x8D, CHR 0xAE]"

definition history_heading :: string where
  "history_heading =
     [CHR 0xE5, CHR 0x8E, CHR 0x86, CHR 0xE5, CHR 0x8F, CHR 0xB2, CHR 0xE5, CHR 0x8F,
      CHR 0x82, CHR 0xE8, CHR 0x80, CHR 0x83, CHR 0xE6, CHR 0xA1, CHR 0x88, CHR 0xE4,
      CHR 0xBE, CHR 0x8B]"

definition evidence_section :: string where
  "evidence_section =
     [CHR 0x0A, CHR 0x0A, CHR 0xE6, CHR 0x9C, CHR 0xAC, CHR 0xE6, CHR 0xAC, CHR 0xA1,
      CHR 0xE5, CHR 0xB7, CHR 0xA5, CHR 0xE5, CHR 0x85, CHR 0xB7, CHR 0xE8, CHR 0xAF,
      CHR 0x81, CHR 0xE6, CHR 0x8D, CHR 0xAE, CHR 0x0A] @ ''- '' @
     [CHR 0xE8, CHR 0xAF, CHR 0xB7, CHR 0xE4, CHR 0xBB, CHR 0xA5, CHR 0xE6, CHR 0x9C,
      CHR 0xAC, CHR 0xE6, CHR 0xAC, CHR 0xA1, CHR 0xE8, CHR 0xBF, CHR 0x90, CHR 0xE8,
      CHR 0xA1, CHR 0x8C, CHR 0xE4, CHR 0xB8, CHR 0xAD] @ '' get_worker_facts'' @
     [CHR 0xE3, CHR 0x80, CHR 0x81] @ ''get_job_result '' @
     [CHR 0xE6, CHR 0x88, CHR 0x96, CHR 0xE5, CHR 0x8F, CHR 0x97, CHR 0xE6, CHR 0x8E,
      CHR 0xA7, CHR 0xE6, CHR 0x93, CHR 0x8D, CHR 0xE4, CHR 0xBD, CHR 0x9C, CHR 0xE7,
      CHR 0x9A, CHR 0x84, CHR 0xE5, CHR 0xB7, CHR 0xA5, CHR 0xE5, CHR 0x85, CHR 0xB7,
      CHR 0xE7, CHR 0xBB, CHR 0x93, CHR 0xE6, CHR 0x9E, CHR 0x9C, CHR 0xE4, CHR 0xB8,
      CHR 0xBA, CHR 0xE5, CHR 0x87, CHR 0x86, CHR 0xE3, CHR 0x80, CHR 0x82]"

definition history_section :: string where
  "history_section =
     [CHR 0x0A, CHR 0x0A, CHR 0xE5, CHR 0x8E, CHR 0x86, CHR 0xE5, CHR 0x8F, CHR 0xB2,
      CHR 0xE5, CHR 0x8F, CHR 0x82, CHR 0xE8, CHR 0x80, CHR 0x83, CHR 0xE6, CHR 0xA1,
      CHR 0x88, CHR 0xE4, CHR 0xBE, CHR 0x8B, CHR 0x0A]"

definition history_none :: string where
  "history_none =
     ''- '' @ [CHR 0xE6, CHR 0x9C, CHR 0xAC, CHR 0xE6, CHR 0xAC, CHR 0xA1, CHR 0xE6, CHR 0x9C,
      CHR 0xAA, CHR 0xE6, CHR 0xA3, CHR 0x80, CHR 0xE7, CHR 0xB4, CHR 0xA2, CHR 0xE5,
      CHR 0x88, CHR 0xB0, CHR 0xE5, CHR 0x8F, CHR 0xAF, CHR 0xE5, CHR 0xBC, CHR 0x95,
      CHR 0xE7, CHR 0x94, CHR 0xA8, CHR 0xE7, CHR 0x9A, CHR 0x84, CHR 0xE5, CHR 0x8E,
      CHR 0x86, CHR 0xE5, CHR 0x8F, CHR 0xB2, CHR 0xE6, CHR 0xA1, CHR 0x88, CHR 0xE4,
      CHR 0xBE, CHR 0x8B, CHR 0xEF, CHR 0xBC, CHR 0x9B, CHR 0xE4, CHR 0xB8, CHR 0x8D,
      CHR 0xE8, CHR 0xA6, CHR 0x81, CHR 0xE5, CHR 0xB0, CHR 0x86, CHR 0xE6, CHR 0xAD,
      CHR 0xA4, CHR 0xE8, CHR 0xA7, CHR 0x86, CHR 0xE4, CHR 0xB8, CHR 0xBA, CHR 0xE5,
      CHR 0xAE, CHR 0x9E, CHR 0xE6, CHR 0x97, CHR 0xB6, CHR 0xE6, CHR 0xA3, CHR 0x80,
      CHR 0xE6, CHR 0x9F, CHR 0xA5, CHR 0xE7, CHR 0xBB, CHR 0x93, CHR 0xE8, CHR 0xAE,
      CHR 0xBA, CHR 0xE3, CHR 0x80, CHR 0x82]"

definition history_prefix :: string where
  "history_prefix =
     ''- '' @ [CHR 0xE5, CHR 0x8E, CHR 0x86, CHR 0xE5, CHR 0x8F, CHR 0xB2, CHR 0xE6, CHR 0xA1,
      CHR 0x88, CHR 0xE4, CHR 0xBE, CHR 0x8B, CHR 0xE6, CHR 0x9D, CHR 0xA5, CHR 0xE6,
      CHR 0xBA, CHR 0x90, CHR 0xEF, CHR 0xBC, CHR 0x9A]"

definition history_separator :: string where
  "history_separator =
     [CHR 0xE3, CHR 0x80, CHR 0x81]"

definition history_suffix :: string where
  "history_suffix =
     [CHR 0xE3, CHR 0x80, CHR 0x82, CHR 0xE4, CHR 0xBB, CHR 0x85, CHR 0xE4, CHR 0xBD,
      CHR 0x9C, CHR 0xE6, CHR 0x8E, CHR 0x92, CHR 0xE6, CHR 0x9F, CHR 0xA5, CHR 0xE4,
      CHR 0xB8, CHR 0x8E, CHR 0xE5, CHR 0xA4, CHR 0x84, CHR 0xE7, CHR 0xBD, CHR 0xAE,
      CHR 0xE5, CHR 0x8F, CHR 0x82, CHR 0xE8, CHR 0x80, CHR 0x83, CHR 0xEF, CHR 0xBC,
      CHR 0x8C, CHR 0xE4, CHR 0xB8, CHR 0x8D, CHR 0xE4, CHR 0xBB, CHR 0xA3, CHR 0xE8,
      CHR 0xA1, CHR 0xA8, CHR 0xE5, CHR 0xBD, CHR 0x93, CHR 0xE5, CHR 0x89, CHR 0x8D,
      CHR 0xE7, CHR 0x8E, CHR 0xAF, CHR 0xE5, CHR 0xA2, CHR 0x83, CHR 0xE4, CHR 0xBA,
      CHR 0x8B, CHR 0xE5, CHR 0xAE, CHR 0x9E, CHR 0xE3, CHR 0x80, CHR 0x82]"

section \<open>Tools, events, observers\<close>

record ctx =
  Ctx_RunID :: string
  Ctx_ToolCallID :: string

record 'w Tool =
  Tool_Definition :: ToolDefinition
  Tool_Execute :: "ctx \<Rightarrow> string \<Rightarrow> 'w \<Rightarrow> (goval \<times> error option) \<times> 'w"

record 'w llm_client =
  Llm_Complete :: "CompletionRequest \<Rightarrow> 'w \<Rightarrow> Completion res \<times> 'w"
  Llm_CompleteStream :: "(CompletionRequest \<Rightarrow> 'w \<Rightarrow> Completion res \<times> 'w) option"

record Event =
  Event_Step :: int
  Event_Type :: string
  Event_Name :: string
  Event_Data :: goval

record AgentResult =
  Run_Answer :: string
  Run_Events :: "Event list"
  Run_Steps :: int
  Run_Paused :: bool

definition zero_AgentResult :: AgentResult where
  "zero_AgentResult = \<lparr>Run_Answer = [], Run_Events = [], Run_Steps = 0, Run_Paused = False\<rparr>"

text \<open>A callback that is nil is \<open>None\<close>. The latencies the code passes are differences of clock
  readings; a callback that needs one takes it from the state.\<close>

record 'w Observer =
  OnModelComplete :: "(int \<Rightarrow> Usage \<Rightarrow> 'w \<Rightarrow> error option \<times> 'w) option"
  OnAssistant :: "(int \<Rightarrow> Message \<Rightarrow> 'w \<Rightarrow> error option \<times> 'w) option"
  OnToolCall :: "(int \<Rightarrow> ToolCall \<Rightarrow> 'w \<Rightarrow> error option \<times> 'w) option"
  OnToolResult :: "(int \<Rightarrow> ToolCall \<Rightarrow> details \<Rightarrow> 'w \<Rightarrow> error option \<times> 'w) option"
  OnToolComplete :: "(int \<Rightarrow> ToolCall \<Rightarrow> error option \<Rightarrow> 'w \<Rightarrow> error option \<times> 'w) option"
  PauseAfterTool :: "(ToolCall \<Rightarrow> details \<Rightarrow> 'w \<Rightarrow> bool \<times> 'w) option"

definition no_observer :: "'w Observer" where
  "no_observer = \<lparr>OnModelComplete = None, OnAssistant = None, OnToolCall = None, OnToolResult = None,
     OnToolComplete = None, PauseAfterTool = None\<rparr>"

definition notify :: "('w \<Rightarrow> error option \<times> 'w) option \<Rightarrow> 'w \<Rightarrow> error option \<times> 'w" where
  "notify f w = (case f of None \<Rightarrow> (None, w) | Some g \<Rightarrow> g w)"

record 'w Runtime =
  Runtime_client :: "'w llm_client option"
  Runtime_tools :: "(string, 'w Tool) gomap"
  Runtime_maxSteps :: int
  Runtime_timeout :: Duration

definition Runtime_New :: "'w llm_client option \<Rightarrow> 'w Tool list \<Rightarrow> int \<Rightarrow> Duration \<Rightarrow> 'w Runtime" where
  "Runtime_New client tools maxSteps timeout =
     \<lparr>Runtime_client = client,
      Runtime_tools = foldl (\<lambda>m t. AList.update (ToolDefinition_Name (Tool_Definition t)) t m) [] tools,
      Runtime_maxSteps = (if maxSteps \<le> 0 then 20 else maxSteps),
      Runtime_timeout = (if timeout \<le> 0 then 10 * 60 * Second else timeout)\<rparr>"

section \<open>Workers the run may target\<close>

record ids_input =
  Ids_WorkerID :: string
  Ids_WorkerIDs :: "string list"

definition ids_fields :: "ids_input field_decoder list" where
  "ids_fields = [struct_field ''worker_id'' decode_string Ids_WorkerID Ids_WorkerID_update,
     struct_field ''worker_ids'' decode_strings Ids_WorkerIDs Ids_WorkerIDs_update]"

text \<open>The worker identifiers a call names: those of the list, then the single one.\<close>

definition target_ids :: "string \<Rightarrow> string list res" where
  "target_ids raw =
     (case json_Unmarshal ids_fields raw \<lparr>Ids_WorkerID = [], Ids_WorkerIDs = []\<rparr> of
        Inl e \<Rightarrow> Inl e
      | Inr input \<Rightarrow>
          Inr (Ids_WorkerIDs input @ (if Ids_WorkerID input \<noteq> [] then [Ids_WorkerID input] else [])))"

definition validateDiscoveredWorkers :: "string \<Rightarrow> string list \<Rightarrow> unit res" where
  "validateDiscoveredWorkers raw discovered =
     (case target_ids raw of
        Inl e \<Rightarrow> Inl e
      | Inr ids \<Rightarrow>
          (case find (\<lambda>i. i \<notin> set discovered) ids of
             Some i \<Rightarrow> Inl (''worker '' @ quoted i @ '' was not returned by list_workers'')
           | None \<Rightarrow> Inr ()))"

text \<open>Type assertions with a discarded flag: the zero value when the type is another one.\<close>

definition as_map :: "goval option \<Rightarrow> details" where
  "as_map v = (case v of Some (VMap m) \<Rightarrow> m | _ \<Rightarrow> [])"

definition as_maps :: "goval option \<Rightarrow> details list" where
  "as_maps v = (case v of Some (VMaps ms) \<Rightarrow> ms | _ \<Rightarrow> [])"

definition as_string :: "goval option \<Rightarrow> string" where
  "as_string v = (case v of Some (VStr s) \<Rightarrow> s | _ \<Rightarrow> [])"

definition nonempty_strings :: "string \<Rightarrow> details list \<Rightarrow> string list" where
  "nonempty_strings key ms = filter (\<lambda>s. s \<noteq> []) (map (\<lambda>m. as_string (map_of m key)) ms)"

definition listed_workers :: "details \<Rightarrow> string list" where
  "listed_workers payload =
     nonempty_strings ''id'' (as_maps (map_of (as_map (map_of payload ''result'')) ''workers''))"

definition recordDiscoveredWorkers :: "details \<Rightarrow> string list \<Rightarrow> string list" where
  "recordDiscoveredWorkers payload discovered = discovered @ listed_workers payload"

section \<open>The report\<close>

definition cited_cases :: "Event list \<Rightarrow> string list" where
  "cited_cases events = concat (map (\<lambda>e.
     if Event_Type e \<noteq> ''tool'' \<or> Event_Name e \<noteq> ''search_incident_cases'' then []
     else nonempty_strings ''source_id''
       (as_maps (map_of (as_map (map_of (as_map (Some (Event_Data e))) ''result'')) ''cases''))) events)"

definition ensureEvidenceSections :: "string \<Rightarrow> Event list \<Rightarrow> string" where
  "ensureEvidenceSections answer events =
     (let answer = (if \<not> Contains answer evidence_heading then answer @ evidence_section else answer)
      in if \<not> Contains answer history_heading then
           (let ids = cited_cases events; answer = answer @ history_section
            in if length ids = 0 then answer @ history_none
               else answer @ history_prefix @ Join ids history_separator @ history_suffix)
         else answer)"

section \<open>The loop\<close>

text \<open>
  The variables of the loop. \<open>Loop_trace\<close> is a ghost: the calls whose tool was executed, each with the
  events before it.
\<close>

record 'w loop =
  Loop_messages :: "Message list"
  Loop_result :: AgentResult
  Loop_discovered :: "string list"
  Loop_world :: 'w
  Loop_trace :: "(ToolCall \<times> Event list) list"

definition add_event :: "Event \<Rightarrow> 'w loop \<Rightarrow> 'w loop" where
  "add_event ev l = l\<lparr>Loop_result := (Loop_result l)\<lparr>Run_Events := Run_Events (Loop_result l) @ [ev]\<rparr>\<rparr>"

definition tool_payload :: "goval \<Rightarrow> error option \<Rightarrow> details" where
  "tool_payload output toolErr =
     (let payload = SanitizeMap [(''ok'', VBool (toolErr = None)), (''result'', output)]
      in case toolErr of
           None \<Rightarrow> payload
         | Some e \<Rightarrow> AList.update ''error'' (VStr (SanitizeText e)) payload)"

text \<open>One tool call: an error that ends the run, or whether to pause after it.\<close>

definition run_tool ::
  "(details \<Rightarrow> string) \<Rightarrow> string \<Rightarrow> 'w Runtime \<Rightarrow> 'w Observer \<Rightarrow> int \<Rightarrow> ToolCall \<Rightarrow> 'w loop \<Rightarrow> bool res \<times> 'w loop" where
  "run_tool js runID r ob step call l =
     (case map_of (Runtime_tools r) (ToolCall_Name call) of
        None \<Rightarrow> (Inl (''agent requested undeclared tool '' @ quoted (ToolCall_Name call)), l)
      | Some tool \<Rightarrow>
          (case (if ToolCall_Name call \<noteq> ''list_workers''
                 then validateDiscoveredWorkers (ToolCall_Arguments call) (Loop_discovered l) else Inr ()) of
             Inl e \<Rightarrow> (Inl (''agent requested unauthorized target: '' @ e), l)
           | Inr _ \<Rightarrow>
          (case notify (map_option (\<lambda>f. f step call) (OnToolCall ob)) (Loop_world l) of
             (Some e, w) \<Rightarrow> (Inl e, l\<lparr>Loop_world := w\<rparr>)
           | (None, w) \<Rightarrow>
          (case Tool_Execute tool \<lparr>Ctx_RunID = runID, Ctx_ToolCallID = ToolCall_ID call\<rparr>
                  (ToolCall_Arguments call) w of
             ((output, toolErr), w) \<Rightarrow>
          let l = l\<lparr>Loop_trace := Loop_trace l @ [(call, Run_Events (Loop_result l))]\<rparr>;
              payload = tool_payload output toolErr
          in (case notify (map_option (\<lambda>f. f step call toolErr) (OnToolComplete ob)) w of
             (Some e, w) \<Rightarrow> (Inl e, l\<lparr>Loop_world := w\<rparr>)
           | (None, w) \<Rightarrow>
          let l = (if ToolCall_Name call = ''list_workers'' \<and> toolErr = None
                   then l\<lparr>Loop_discovered := recordDiscoveredWorkers payload (Loop_discovered l)\<rparr> else l);
              l = l\<lparr>Loop_messages := Loop_messages l @ [\<lparr>Message_Role = ''tool'',
                     Message_Content = js payload, Message_ToolCallID = ToolCall_ID call,
                     Message_ToolCalls = []\<rparr>]\<rparr>
          in (case notify (map_option (\<lambda>f. f step call payload) (OnToolResult ob)) w of
             (Some e, w) \<Rightarrow> (Inl e, l\<lparr>Loop_world := w\<rparr>)
           | (None, w) \<Rightarrow>
          let l = add_event \<lparr>Event_Step = step, Event_Type = ''tool'', Event_Name = ToolCall_Name call,
                     Event_Data = VMap payload\<rparr> (l\<lparr>Loop_world := w\<rparr>)
          in (case PauseAfterTool ob of
                None \<Rightarrow> (Inr False, l)
              | Some p \<Rightarrow> (case p call payload w of (pause, w) \<Rightarrow> (Inr pause, l\<lparr>Loop_world := w\<rparr>)))))))))"

fun run_tools ::
  "(details \<Rightarrow> string) \<Rightarrow> string \<Rightarrow> 'w Runtime \<Rightarrow> 'w Observer \<Rightarrow> int \<Rightarrow> ToolCall list \<Rightarrow> 'w loop \<Rightarrow> bool res \<times> 'w loop" where
  "run_tools js runID r ob step [] l = (Inr False, l)"
| "run_tools js runID r ob step (call # calls) l =
     (case run_tool js runID r ob step call l of
        (Inl e, l) \<Rightarrow> (Inl e, l)
      | (Inr True, l) \<Rightarrow> (Inr True, l)
      | (Inr False, l) \<Rightarrow> run_tools js runID r ob step calls l)"

definition ask_model :: "bool \<Rightarrow> 'w llm_client \<Rightarrow> CompletionRequest \<Rightarrow> 'w \<Rightarrow> Completion res \<times> 'w" where
  "ask_model stream c request w =
     (case (if stream then Llm_CompleteStream c else None) of
        Some f \<Rightarrow> f request w | None \<Rightarrow> Llm_Complete c request w)"

datatype step_end = Step_error error | Step_answer | Step_paused | Step_next

text \<open>The body of the loop for one step.\<close>

definition run_step ::
  "(details \<Rightarrow> string) \<Rightarrow> string \<Rightarrow> bool \<Rightarrow> 'w llm_client \<Rightarrow> 'w Runtime \<Rightarrow> 'w Observer \<Rightarrow> int \<Rightarrow> 'w loop \<Rightarrow> step_end \<times> 'w loop" where
  "run_step js runID stream c r ob step l =
     (case ask_model stream c \<lparr>Request_Messages = Loop_messages l,
             Request_Tools = map Tool_Definition (vals (Runtime_tools r))\<rparr> (Loop_world l) of
        (Inl e, w) \<Rightarrow> (Step_error (''agent step '' @ dec (nat step) @ '': '' @ e), l\<lparr>Loop_world := w\<rparr>)
      | (Inr completion, w) \<Rightarrow>
     (case notify (map_option (\<lambda>f. f step (Completion_Usage completion)) (OnModelComplete ob)) w of
        (Some e, w) \<Rightarrow> (Step_error e, l\<lparr>Loop_world := w\<rparr>)
      | (None, w) \<Rightarrow>
     let msg = Completion_Message completion;
         l = l\<lparr>Loop_result := (Loop_result l)\<lparr>Run_Steps := step\<rparr>, Loop_messages := Loop_messages l @ [msg]\<rparr>
     in (case notify (map_option (\<lambda>f. f step msg) (OnAssistant ob)) w of
        (Some e, w) \<Rightarrow> (Step_error e, l\<lparr>Loop_world := w\<rparr>)
      | (None, w) \<Rightarrow>
     let l = add_event \<lparr>Event_Step = step, Event_Type = ''assistant'', Event_Name = [],
               Event_Data = VStr (Message_Content msg)\<rparr> (l\<lparr>Loop_world := w\<rparr>)
     in if length (Message_ToolCalls msg) = 0
        then (Step_answer, l\<lparr>Loop_result := (Loop_result l)\<lparr>Run_Answer :=
               ensureEvidenceSections (Message_Content msg) (Run_Events (Loop_result l))\<rparr>\<rparr>)
        else (case run_tools js runID r ob step (Message_ToolCalls msg) l of
            (Inl e, l) \<Rightarrow> (Step_error e, l)
          | (Inr True, l) \<Rightarrow> (Step_paused, l\<lparr>Loop_result := (Loop_result l)\<lparr>Run_Paused := True\<rparr>\<rparr>)
          | (Inr False, l) \<Rightarrow> (Step_next, l)))))"

function run_steps ::
  "(details \<Rightarrow> string) \<Rightarrow> string \<Rightarrow> bool \<Rightarrow> 'w llm_client \<Rightarrow> 'w Runtime \<Rightarrow> 'w Observer \<Rightarrow> int \<Rightarrow> 'w loop \<Rightarrow> error option \<times> 'w loop" where
  "run_steps js runID stream c r ob step l =
     (if step > Runtime_maxSteps r
      then (Some (''agent exceeded maximum of '' @ dec (nat (Runtime_maxSteps r)) @ '' steps''), l)
      else (case run_step js runID stream c r ob step l of
          (Step_error e, l) \<Rightarrow> (Some e, l)
        | (Step_answer, l) \<Rightarrow> (None, l)
        | (Step_paused, l) \<Rightarrow> (None, l)
        | (Step_next, l) \<Rightarrow> run_steps js runID stream c r ob (step + 1) l))"
  by pat_completeness auto
termination
  by (relation "measure (\<lambda>(js, runID, stream, c, r, ob, step, l). nat (Runtime_maxSteps r + 1 - step))") auto

declare run_steps.simps [simp del]

definition start_loop :: "Message list \<Rightarrow> 'w \<Rightarrow> 'w loop" where
  "start_loop messages w = \<lparr>Loop_messages = messages, Loop_result = zero_AgentResult, Loop_discovered = [],
     Loop_world = w, Loop_trace = []\<rparr>"

definition RunMessages ::
  "(details \<Rightarrow> string) \<Rightarrow> string \<Rightarrow> 'w Runtime \<Rightarrow> Message list \<Rightarrow> int \<Rightarrow> bool \<Rightarrow> 'w Observer \<Rightarrow> 'w \<Rightarrow> error option \<times> 'w loop" where
  "RunMessages js runID r messages startStep stream ob w =
     (case Runtime_client r of
        None \<Rightarrow> (Some ''agent model is not configured'', start_loop messages w)
      | Some c \<Rightarrow> run_steps js runID stream c r ob (if startStep < 1 then 1 else startStep) (start_loop messages w))"

definition RunStreaming ::
  "(details \<Rightarrow> string) \<Rightarrow> string \<Rightarrow> 'w Runtime \<Rightarrow> string \<Rightarrow> Message list \<Rightarrow> bool \<Rightarrow> 'w \<Rightarrow> error option \<times> 'w loop" where
  "RunStreaming js runID r input history stream w =
     (if TrimSpace input = [] then (Some ''input is required'', start_loop [] w)
      else RunMessages js runID r ([message ''system'' SystemPrompt] @ history @ [message ''user'' input]) 1 stream
             no_observer w)"

definition Runtime_Run ::
  "(details \<Rightarrow> string) \<Rightarrow> string \<Rightarrow> 'w Runtime \<Rightarrow> string \<Rightarrow> Message list \<Rightarrow> 'w \<Rightarrow> error option \<times> 'w loop" where
  "Runtime_Run js runID r input history w = RunStreaming js runID r input history False w"

section \<open>What a run keeps\<close>

text \<open>A call the loop may execute when \<open>ids\<close> are the workers listed so far.\<close>

definition authorised :: "'w Runtime \<Rightarrow> string set \<Rightarrow> ToolCall \<Rightarrow> bool" where
  "authorised r ids call \<longleftrightarrow>
     ToolCall_Name call \<in> set (keys (Runtime_tools r)) \<and>
     (ToolCall_Name call = ''list_workers'' \<or>
      (\<exists>targets. target_ids (ToolCall_Arguments call) = Inr targets \<and> set targets \<subseteq> ids))"

text \<open>The workers listed by the successful \<open>list_workers\<close> results among the events.\<close>

definition listed_in :: "Event list \<Rightarrow> string set" where
  "listed_in events =
     (\<Union>e\<in>set events. if Event_Type e = ''tool'' \<and> Event_Name e = ''list_workers''
                       then set (listed_workers (as_map (Some (Event_Data e)))) else {})"

definition event_ok :: "'w Runtime \<Rightarrow> Event \<Rightarrow> bool" where
  "event_ok r e \<longleftrightarrow>
     Event_Type e = ''assistant'' \<or>
     Event_Type e = ''tool'' \<and> Event_Name e \<in> set (keys (Runtime_tools r)) \<and>
       (\<exists>p. Event_Data e = VMap p \<and> safe_details p)"

definition trace_ok :: "'w Runtime \<Rightarrow> 'w loop \<Rightarrow> bool" where
  "trace_ok r l \<longleftrightarrow>
     list_all (event_ok r) (Run_Events (Loop_result l)) \<and>
     list_all (\<lambda>(call, before). authorised r (listed_in before) call \<and> prefix before (Run_Events (Loop_result l)))
       (Loop_trace l)"

definition loop_ok :: "'w Runtime \<Rightarrow> 'w loop \<Rightarrow> bool" where
  "loop_ok r l \<longleftrightarrow> trace_ok r l \<and> set (Loop_discovered l) \<subseteq> listed_in (Run_Events (Loop_result l))"

lemma listed_in_append [simp]: "listed_in (es @ fs) = listed_in es \<union> listed_in fs"
  unfolding listed_in_def set_append by (rule UN_Un)

lemma listed_in_simps [simp]:
  "listed_in [] = {}"
  "listed_in [e] = (if Event_Type e = ''tool'' \<and> Event_Name e = ''list_workers''
                    then set (listed_workers (as_map (Some (Event_Data e)))) else {})"
  by (simp_all add: listed_in_def)

lemma validate_ok:
  "validateDiscoveredWorkers raw d = Inr u \<longleftrightarrow>
     (\<exists>targets. target_ids raw = Inr targets \<and> set targets \<subseteq> set d)"
  by (auto simp: validateDiscoveredWorkers_def find_None_iff find_Some_iff split: sum.splits option.splits)
    (meson nth_mem subsetD)

lemma not_sensitive_error: "\<not> sensitive_key ''error''"
  by code_simp

lemma safe_update:
  assumes "safe_details m" "\<not> sensitive_key k" "safe_value v"
  shows "safe_details (AList.update k v m)"
  using assms(1) by (induction m) (auto simp: safe_details_def assms(2,3))

lemma safe_tool_payload: "safe_details (tool_payload output toolErr)"
  by (auto simp: tool_payload_def Let_def safe_SanitizeMap not_sensitive_error
      intro!: safe_update split: option.splits)

text \<open>
  The three ways a tool call ends: stopped before the tool runs, stopped by a callback after it, or
  recorded as an event.
\<close>

definition tool_event :: "int \<Rightarrow> ToolCall \<Rightarrow> details \<Rightarrow> Event" where
  "tool_event step call payload = \<lparr>Event_Step = step, Event_Type = ''tool'', Event_Name = ToolCall_Name call,
     Event_Data = VMap payload\<rparr>"

definition stopped_before :: "'w loop \<Rightarrow> bool res \<times> 'w loop \<Rightarrow> bool" where
  "stopped_before l out \<longleftrightarrow> isl (fst out) \<and> Loop_result (snd out) = Loop_result l \<and>
     Loop_discovered (snd out) = Loop_discovered l \<and> Loop_trace (snd out) = Loop_trace l"

definition stopped_after :: "ToolCall \<Rightarrow> 'w loop \<Rightarrow> bool res \<times> 'w loop \<Rightarrow> bool" where
  "stopped_after call l out \<longleftrightarrow> isl (fst out) \<and> Loop_result (snd out) = Loop_result l \<and>
     Loop_trace (snd out) = Loop_trace l @ [(call, Run_Events (Loop_result l))]"

definition tool_done :: "int \<Rightarrow> ToolCall \<Rightarrow> 'w loop \<Rightarrow> bool res \<times> 'w loop \<Rightarrow> bool" where
  "tool_done step call l out \<longleftrightarrow> \<not> isl (fst out) \<and>
     (\<exists>payload. safe_details payload \<and>
        Loop_result (snd out) = (Loop_result l)\<lparr>Run_Events := Run_Events (Loop_result l) @ [tool_event step call payload]\<rparr> \<and>
        set (Loop_discovered (snd out)) \<subseteq> set (Loop_discovered l) \<union>
          (if ToolCall_Name call = ''list_workers'' then set (listed_workers payload) else {})) \<and>
     Loop_trace (snd out) = Loop_trace l @ [(call, Run_Events (Loop_result l))]"

lemmas tool_end_defs = stopped_before_def stopped_after_def tool_done_def tool_event_def add_event_def

lemma run_tool_ends:
  "stopped_before l (run_tool js runID r ob step call l) \<or>
   authorised r (set (Loop_discovered l)) call \<and>
     (stopped_after call l (run_tool js runID r ob step call l) \<or>
      tool_done step call l (run_tool js runID r ob step call l))"
proof (cases "map_of (Runtime_tools r) (ToolCall_Name call) = None \<or>
    isl (if ToolCall_Name call \<noteq> ''list_workers''
         then validateDiscoveredWorkers (ToolCall_Arguments call) (Loop_discovered l) else Inr ())")
  case True
  then show ?thesis
    by (auto simp: run_tool_def stopped_before_def split: option.splits sum.splits)
next
  case False
  then obtain tool u where t: "map_of (Runtime_tools r) (ToolCall_Name call) = Some tool"
    and v: "(if ToolCall_Name call \<noteq> ''list_workers''
         then validateDiscoveredWorkers (ToolCall_Arguments call) (Loop_discovered l) else Inr ()) = Inr u"
    by (cases "if ToolCall_Name call \<noteq> ''list_workers''
         then validateDiscoveredWorkers (ToolCall_Arguments call) (Loop_discovered l) else Inr ()") auto
  have a: "authorised r (set (Loop_discovered l)) call"
    using t v map_of_SomeD[OF t] by (force simp: authorised_def validate_ok split: if_splits)
  have s: "\<And>out err. safe_details (tool_payload out err)" by (rule safe_tool_payload)
  show ?thesis
    unfolding run_tool_def t v option.case sum.case
    apply (simp add: a Let_def split: prod.splits option.splits)
    apply (intro conjI allI impI)
    apply (simp_all add: tool_end_defs recordDiscoveredWorkers_def)
    apply (auto intro!: exI conjI[OF s conjI[OF refl]] safe_tool_payload)
    done
qed

lemma run_tool_ok:
  assumes "loop_ok r l" "run_tool js runID r ob step call l = (out, l')"
  shows "trace_ok r l'" "\<not> isl out \<Longrightarrow> loop_ok r l'"
    and "\<exists>es. Run_Events (Loop_result l') = Run_Events (Loop_result l) @ es \<and> list_all (\<lambda>e. Event_Type e = ''tool'') es"
    and "Run_Steps (Loop_result l') = Run_Steps (Loop_result l)"
    and "Run_Paused (Loop_result l') = Run_Paused (Loop_result l)"
proof -
  consider "stopped_before l (out, l')" | "authorised r (set (Loop_discovered l)) call" "stopped_after call l (out, l')"
    | "authorised r (set (Loop_discovered l)) call" "tool_done step call l (out, l')"
    using run_tool_ends[of l js runID r ob step call] assms(2) by auto
  moreover have a: "authorised r (listed_in (Run_Events (Loop_result l))) call"
    if "authorised r (set (Loop_discovered l)) call"
    using that assms(1) by (auto simp: authorised_def loop_ok_def)
  ultimately have "trace_ok r l' \<and> (\<not> isl out \<longrightarrow> loop_ok r l') \<and>
     (\<exists>es. Run_Events (Loop_result l') = Run_Events (Loop_result l) @ es \<and> list_all (\<lambda>e. Event_Type e = ''tool'') es) \<and>
     Run_Steps (Loop_result l') = Run_Steps (Loop_result l) \<and> Run_Paused (Loop_result l') = Run_Paused (Loop_result l)"
  proof cases
    case 1
    then show ?thesis using assms(1) by (auto simp: stopped_before_def loop_ok_def trace_ok_def)
  next
    case 2
    then show ?thesis using assms(1) a by (auto simp: stopped_after_def loop_ok_def trace_ok_def)
  next
    case 3
    then obtain p where "safe_details p"
      "Loop_result l' = (Loop_result l)\<lparr>Run_Events := Run_Events (Loop_result l) @ [tool_event step call p]\<rparr>"
      "set (Loop_discovered l') \<subseteq> set (Loop_discovered l) \<union>
         (if ToolCall_Name call = ''list_workers'' then set (listed_workers p) else {})"
      "Loop_trace l' = Loop_trace l @ [(call, Run_Events (Loop_result l))]" by (auto simp: tool_done_def)
    moreover have "ToolCall_Name call \<in> set (keys (Runtime_tools r))" using 3(1) by (simp add: authorised_def)
    ultimately show ?thesis using assms(1) a[OF 3(1)]
      by (fastforce simp: loop_ok_def trace_ok_def event_ok_def tool_event_def list_all_iff as_map_def
          split: if_splits)
  qed
  then show "trace_ok r l'" "\<not> isl out \<Longrightarrow> loop_ok r l'"
    "\<exists>es. Run_Events (Loop_result l') = Run_Events (Loop_result l) @ es \<and> list_all (\<lambda>e. Event_Type e = ''tool'') es"
    "Run_Steps (Loop_result l') = Run_Steps (Loop_result l)"
    "Run_Paused (Loop_result l') = Run_Paused (Loop_result l)" by blast+
qed

lemma run_tools_ok:
  assumes "loop_ok r l" "run_tools js runID r ob step calls l = (out, l')"
  shows "trace_ok r l' \<and> (\<not> isl out \<longrightarrow> loop_ok r l') \<and>
     (\<exists>es. Run_Events (Loop_result l') = Run_Events (Loop_result l) @ es \<and> list_all (\<lambda>e. Event_Type e = ''tool'') es) \<and>
     Run_Steps (Loop_result l') = Run_Steps (Loop_result l) \<and> Run_Paused (Loop_result l') = Run_Paused (Loop_result l)"
  using assms
proof (induction calls arbitrary: l)
  case Nil
  then show ?case by (auto simp: loop_ok_def)
next
  case (Cons call calls)
  obtain o1 l1 where rt: "run_tool js runID r ob step call l = (o1, l1)" by fastforce
  note ok = run_tool_ok[OF Cons.prems(1) rt]
  show ?case
  proof (cases "o1 = Inr False")
    case True
    then have "loop_ok r l1" "run_tools js runID r ob step calls l1 = (out, l')"
      using ok(2) Cons.prems(2) rt by auto
    from Cons.IH[OF this] ok(3-5) show ?thesis by fastforce
  next
    case False
    then have "(out, l') = (o1, l1)" using Cons.prems(2) rt by (auto split: sum.splits bool.splits)
    then show ?thesis using ok by auto
  qed
qed

text \<open>The number of \<open>assistant\<close> events is the number of answers the model gave.\<close>

definition answers :: "AgentResult \<Rightarrow> nat" where
  "answers res = length (filter (\<lambda>e. Event_Type e = ''assistant'') (Run_Events res))"

lemma loop_ok_world [simp]:
  "loop_ok r (l\<lparr>Loop_world := w\<rparr>) = loop_ok r l" "trace_ok r (l\<lparr>Loop_world := w\<rparr>) = trace_ok r l"
  "loop_ok r (l\<lparr>Loop_messages := ms\<rparr>) = loop_ok r l" "trace_ok r (l\<lparr>Loop_messages := ms\<rparr>) = trace_ok r l"
  by (simp_all add: loop_ok_def trace_ok_def)

lemma tool_events_no_answers:
  "list_all (\<lambda>e. Event_Type e = ''tool'') es \<Longrightarrow> filter (\<lambda>e. Event_Type e = ''assistant'') es = []"
  by (auto simp: list_all_iff filter_empty_conv)

lemma ensureEvidenceSections_headings:
  "Contains (ensureEvidenceSections answer events) evidence_heading \<and>
   Contains (ensureEvidenceSections answer events) history_heading"
proof -
  have e: "evidence_section = [CHR 0x0A, CHR 0x0A] @ evidence_heading @ drop 20 evidence_section"
    by (simp add: evidence_section_def evidence_heading_def)
  have h: "history_section = [CHR 0x0A, CHR 0x0A] @ history_heading @ [CHR 0x0A]"
    by (simp add: history_section_def history_heading_def)
  have E: "Contains (x @ evidence_section @ y) evidence_heading" for x y
    by (subst e) (metis Contains_append_right Contains_self_append append.assoc)
  have H: "Contains (x @ history_section @ y) history_heading" for x y
    by (subst h) (metis Contains_append_right Contains_self_append append.assoc)
  have "Contains (x @ evidence_section) evidence_heading"
    "Contains (x @ z @ history_section @ y) history_heading" for x y z
    using E[of x "[]"] H[of "x @ z" y] by simp_all
  then show ?thesis using E H
    by (auto simp: ensureEvidenceSections_def Let_def intro: Contains_append_left)
qed

definition answer_complete :: "AgentResult \<Rightarrow> bool" where
  "answer_complete res \<longleftrightarrow> Contains (Run_Answer res) evidence_heading \<and> Contains (Run_Answer res) history_heading"

lemma answers_append_tools:
  "Run_Events res' = Run_Events res @ es \<Longrightarrow> list_all (\<lambda>e. Event_Type e = ''tool'') es \<Longrightarrow> answers res' = answers res"
  by (simp add: answers_def tool_events_no_answers)

text \<open>The state of the loop once the model's reply was recorded.\<close>

definition replied :: "int \<Rightarrow> Message \<Rightarrow> 'w \<Rightarrow> 'w loop \<Rightarrow> 'w loop" where
  "replied step msg w l = add_event \<lparr>Event_Step = step, Event_Type = ''assistant'', Event_Name = [],
     Event_Data = VStr (Message_Content msg)\<rparr>
     (l\<lparr>Loop_result := (Loop_result l)\<lparr>Run_Steps := step\<rparr>, Loop_messages := Loop_messages l @ [msg], Loop_world := w\<rparr>)"

lemma replied_ok:
  assumes "loop_ok r l"
  shows "loop_ok r (replied step msg w l)" "answers (Loop_result (replied step msg w l)) = Suc (answers (Loop_result l))"
    "Run_Steps (Loop_result (replied step msg w l)) = step"
    "Run_Paused (Loop_result (replied step msg w l)) = Run_Paused (Loop_result l)"
  using assms by (fastforce simp: replied_def add_event_def loop_ok_def trace_ok_def event_ok_def answers_def list_all_iff)+

lemma run_step_cases:
  "(\<exists>e l'. run_step js runID stream c r ob step l = (Step_error e, l') \<and>
      (trace_ok r l \<longrightarrow> trace_ok r l') \<and> answers (Loop_result l') = answers (Loop_result l) \<and>
      (Run_Steps (Loop_result l') = Run_Steps (Loop_result l) \<or> Run_Steps (Loop_result l') = step)) \<or>
   (\<exists>msg w. run_step js runID stream c r ob step l =
      (if length (Message_ToolCalls msg) = 0
       then (Step_answer, (replied step msg w l)\<lparr>Loop_result := (Loop_result (replied step msg w l))\<lparr>Run_Answer :=
               ensureEvidenceSections (Message_Content msg) (Run_Events (Loop_result (replied step msg w l)))\<rparr>\<rparr>)
       else (case run_tools js runID r ob step (Message_ToolCalls msg) (replied step msg w l) of
            (Inl e, l) \<Rightarrow> (Step_error e, l)
          | (Inr True, l) \<Rightarrow> (Step_paused, l\<lparr>Loop_result := (Loop_result l)\<lparr>Run_Paused := True\<rparr>\<rparr>)
          | (Inr False, l) \<Rightarrow> (Step_next, l))))"
proof -
  obtain m w1 where m: "ask_model stream c \<lparr>Request_Messages = Loop_messages l,
      Request_Tools = map Tool_Definition (vals (Runtime_tools r))\<rparr> (Loop_world l) = (m, w1)" by fastforce
  show ?thesis
  proof (cases m)
    case (Inl e)
    then show ?thesis by (simp add: run_step_def m[simplified])
  next
    case (Inr cm)
    obtain e2 w2 where n2: "notify (map_option (\<lambda>f. f step (Completion_Usage cm)) (OnModelComplete ob)) w1 = (e2, w2)"
      by fastforce
    obtain e3 w3 where n3: "notify (map_option (\<lambda>f. f step (Completion_Message cm)) (OnAssistant ob)) w2 = (e3, w3)"
      by fastforce
    show ?thesis
    proof (cases "e2 = None \<and> e3 = None")
      case True
      then show ?thesis
        by (intro disjI2 exI[of _ "Completion_Message cm"] exI[of _ w3])
          (simp add: run_step_def m[simplified] Inr n2 n3 Let_def replied_def)
    next
      case False
      then show ?thesis
        by (cases e2; cases e3) (auto simp: run_step_def m[simplified] Inr n2 n3 Let_def trace_ok_def answers_def)
    qed
  qed
qed

lemma run_step_ok:
  assumes "loop_ok r l" "run_step js runID stream c r ob step l = (out, l')"
  shows "trace_ok r l' \<and> (out = Step_next \<longrightarrow> loop_ok r l') \<and>
     answers (Loop_result l') \<le> Suc (answers (Loop_result l)) \<and>
     Run_Steps (Loop_result l') \<in> {Run_Steps (Loop_result l), step} \<and>
     (out = Step_next \<longrightarrow> Run_Paused (Loop_result l') = Run_Paused (Loop_result l)) \<and>
     (out = Step_answer \<longrightarrow> answer_complete (Loop_result l') \<and> Run_Paused (Loop_result l') = Run_Paused (Loop_result l)) \<and>
     (out = Step_paused \<longrightarrow> Run_Paused (Loop_result l'))"
  using run_step_cases[of js runID stream c r ob step l]
proof (elim disjE exE conjE)
  fix e l1 assume "run_step js runID stream c r ob step l = (Step_error e, l1)"
    "trace_ok r l \<longrightarrow> trace_ok r l1" "answers (Loop_result l1) = answers (Loop_result l)"
    "Run_Steps (Loop_result l1) = Run_Steps (Loop_result l)"
  then show ?thesis using assms by (auto simp: loop_ok_def)
next
  fix e l1 assume "run_step js runID stream c r ob step l = (Step_error e, l1)"
    "trace_ok r l \<longrightarrow> trace_ok r l1" "answers (Loop_result l1) = answers (Loop_result l)"
    "Run_Steps (Loop_result l1) = step"
  then show ?thesis using assms by (auto simp: loop_ok_def)
next
  fix msg w assume rs: "run_step js runID stream c r ob step l =
      (if length (Message_ToolCalls msg) = 0
       then (Step_answer, (replied step msg w l)\<lparr>Loop_result := (Loop_result (replied step msg w l))\<lparr>Run_Answer :=
               ensureEvidenceSections (Message_Content msg) (Run_Events (Loop_result (replied step msg w l)))\<rparr>\<rparr>)
       else (case run_tools js runID r ob step (Message_ToolCalls msg) (replied step msg w l) of
            (Inl e, l) \<Rightarrow> (Step_error e, l)
          | (Inr True, l) \<Rightarrow> (Step_paused, l\<lparr>Loop_result := (Loop_result l)\<lparr>Run_Paused := True\<rparr>\<rparr>)
          | (Inr False, l) \<Rightarrow> (Step_next, l)))"
  note ok = replied_ok[OF assms(1), of step msg w]
  obtain o2 l2 where rt: "run_tools js runID r ob step (Message_ToolCalls msg) (replied step msg w l) = (o2, l2)"
    by fastforce
  note ok2 = run_tools_ok[OF ok(1) rt]
  then have a2: "answers (Loop_result l2) = Suc (answers (Loop_result l))"
    using answers_append_tools ok(2) by metis
  show ?thesis
  proof (cases "length (Message_ToolCalls msg) = 0")
    case True
    then have out: "out = Step_answer" "l' = (replied step msg w l)\<lparr>Loop_result := (Loop_result (replied step msg w l))\<lparr>Run_Answer :=
               ensureEvidenceSections (Message_Content msg) (Run_Events (Loop_result (replied step msg w l)))\<rparr>\<rparr>"
      using rs assms(2) by auto
    show ?thesis using ok ensureEvidenceSections_headings
      by (simp add: out answer_complete_def answers_def loop_ok_def trace_ok_def)
  next
    case False
    then show ?thesis using rs rt assms(2) ok ok2 a2
      by (cases o2) (auto simp: loop_ok_def trace_ok_def answers_def split: bool.splits)
  qed
qed

lemma run_steps_ok:
  assumes "loop_ok r l" "\<not> Run_Paused (Loop_result l)"
    "run_steps js runID stream c r ob step l = (err, l')"
  shows "trace_ok r l' \<and>
     answers (Loop_result l') \<le> answers (Loop_result l) + nat (Runtime_maxSteps r - step + 1) \<and>
     Run_Steps (Loop_result l') \<le> max (Run_Steps (Loop_result l)) (Runtime_maxSteps r) \<and>
     (err = None \<longrightarrow> Run_Paused (Loop_result l') \<or> answer_complete (Loop_result l'))"
  using assms
proof (induction js runID stream c r ob step l rule: run_steps.induct)
  case (1 js runID stream c r ob step l)
  show ?case
  proof (cases "step > Runtime_maxSteps r")
    case True
    then show ?thesis
      using "1.prems" run_steps.simps[of js runID stream c r ob step l] by (auto simp: loop_ok_def)
  next
    case False
    obtain out l1 where rs: "run_step js runID stream c r ob step l = (out, l1)" by fastforce
    note ok = run_step_ok[OF "1.prems"(1) rs]
    have eq: "run_steps js runID stream c r ob step l =
        (case out of Step_error e \<Rightarrow> (Some e, l1) | Step_answer \<Rightarrow> (None, l1) | Step_paused \<Rightarrow> (None, l1)
         | Step_next \<Rightarrow> run_steps js runID stream c r ob (step + 1) l1)"
      using False rs by (subst run_steps.simps) (simp split: step_end.splits)
    show ?thesis
    proof (cases "out = Step_next")
      case True
      then have "run_steps js runID stream c r ob (step + 1) l1 = (err, l')" using eq "1.prems"(3) by simp
      moreover have "loop_ok r l1" "\<not> Run_Paused (Loop_result l1)" using ok True "1.prems"(2) by auto
      ultimately show ?thesis
        using "1.IH"[OF False rs[symmetric] True] ok False by auto
    next
      case stop: False
      then have "l' = l1" "err = None \<Longrightarrow> out = Step_answer \<or> out = Step_paused"
        using eq "1.prems"(3) by (auto split: step_end.splits)
      then show ?thesis using ok False by auto
    qed
  qed
qed

lemma loop_ok_start [simp]: "loop_ok r (start_loop messages w)" "\<not> Run_Paused (Loop_result (start_loop messages w))"
  "answers (Loop_result (start_loop messages w)) = 0" "Run_Steps (Loop_result (start_loop messages w)) = 0"
  by (simp_all add: start_loop_def zero_AgentResult_def loop_ok_def trace_ok_def answers_def)

lemma RunMessages_ok:
  assumes "RunMessages js runID r messages startStep stream ob w = (err, l)"
  shows "trace_ok r l"
    "answers (Loop_result l) \<le> nat (Runtime_maxSteps r - max 1 startStep + 1)"
    "Run_Steps (Loop_result l) \<le> max 0 (Runtime_maxSteps r)"
    "err = None \<Longrightarrow> Run_Paused (Loop_result l) \<or> answer_complete (Loop_result l)"
proof -
  have s: "(if startStep < 1 then 1 else startStep) = max 1 startStep" by simp
  have "trace_ok r l \<and> answers (Loop_result l) \<le> nat (Runtime_maxSteps r - max 1 startStep + 1) \<and>
    Run_Steps (Loop_result l) \<le> max 0 (Runtime_maxSteps r) \<and>
    (err = None \<longrightarrow> Run_Paused (Loop_result l) \<or> answer_complete (Loop_result l))"
  proof (cases "Runtime_client r")
    case None
    then show ?thesis
      using assms loop_ok_start(1)[of r messages w] by (auto simp: RunMessages_def loop_ok_def)
  next
    case (Some c)
    then have "run_steps js runID stream c r ob (max 1 startStep) (start_loop messages w) = (err, l)"
      using assms by (simp add: RunMessages_def s)
    from run_steps_ok[OF _ _ this] show ?thesis by simp
  qed
  then show "trace_ok r l" "answers (Loop_result l) \<le> nat (Runtime_maxSteps r - max 1 startStep + 1)"
    "Run_Steps (Loop_result l) \<le> max 0 (Runtime_maxSteps r)"
    "err = None \<Longrightarrow> Run_Paused (Loop_result l) \<or> answer_complete (Loop_result l)" by blast+
qed

section \<open>Properties\<close>

text \<open>A run used as a concrete input: the model lists the workers, asks for the facts of the one that was
  listed, and answers. The JSON texts are fixed; the state counts the model's replies.\<close>

definition demo_args :: string where
  "demo_args = json_print (JObj [(''worker_id'', JStr ''w1'')])"

definition demo_call :: "string \<Rightarrow> string \<Rightarrow> ToolCall" where
  "demo_call nm args = \<lparr>ToolCall_ID = ''c'', ToolCall_Name = nm, ToolCall_Arguments = args\<rparr>"

definition demo_model :: "nat llm_client" where
  "demo_model = \<lparr>Llm_Complete = (\<lambda>req n. (Inr \<lparr>Completion_Message = (message ''assistant'' ''done'')\<lparr>Message_ToolCalls :=
       (if n = 0 then [demo_call ''list_workers'' ''{}'']
        else if n = 1 then [demo_call ''get_worker_facts'' demo_args] else [])\<rparr>,
       Completion_Usage = zero_Usage\<rparr>, Suc n)), Llm_CompleteStream = None\<rparr>"

definition demo_tool :: "string \<Rightarrow> goval \<Rightarrow> nat Tool" where
  "demo_tool nm out = \<lparr>Tool_Definition = \<lparr>ToolDefinition_Name = nm, ToolDefinition_Description = [],
     ToolDefinition_Parameters = []\<rparr>, Tool_Execute = (\<lambda>c args n. ((out, None), n))\<rparr>"

definition demo_runtime :: "nat Runtime" where
  "demo_runtime = Runtime_New (Some demo_model)
     [demo_tool ''list_workers'' (VMap [(''workers'', VMaps [[(''id'', VStr ''w1'')]])]),
      demo_tool ''get_worker_facts'' (VMap [(''db_password'', VStr ''x'')])] 5 0"

text \<open>C12. Every tool call that an agent run executes names a registered tool, and, unless it is
  \<open>list_workers\<close> itself, every worker identifier in its arguments was returned by a \<open>list_workers\<close>
  result recorded earlier in the same run: the model cannot act on a worker it made up.\<close>

theorem agent_targets_listed:
  assumes "RunMessages js runID r messages startStep stream ob w = (err, l)" "(call, before) \<in> set (Loop_trace l)"
  shows "ToolCall_Name call \<in> set (keys (Runtime_tools r)) \<and> prefix before (Run_Events (Loop_result l)) \<and>
    (ToolCall_Name call = ''list_workers'' \<or>
     (\<exists>targets. target_ids (ToolCall_Arguments call) = Inr targets \<and> set targets \<subseteq> listed_in before))"
  using RunMessages_ok(1)[OF assms(1)] assms(2) by (auto simp: trace_ok_def list_all_iff authorised_def)

definition demo_run :: "error option \<times> nat loop" where
  "demo_run = RunMessages (\<lambda>payload. ''{}'') ''run'' demo_runtime [message ''user'' ''check''] 1 False no_observer 0"

theorem agent_targets_listed_witness:
  "\<exists>before. (demo_call ''get_worker_facts'' demo_args, before) \<in> set (Loop_trace (snd demo_run)) \<and>
     target_ids demo_args = Inr [''w1''] \<and> ''w1'' \<in> listed_in before"
proof -
  have tr: "map fst (Loop_trace (snd demo_run)) =
      [demo_call ''list_workers'' ''{}'', demo_call ''get_worker_facts'' demo_args]" by code_simp
  have "demo_call ''get_worker_facts'' demo_args \<in> set (map fst (Loop_trace (snd demo_run)))"
    unfolding tr by simp
  then obtain before where b: "(demo_call ''get_worker_facts'' demo_args, before) \<in> set (Loop_trace (snd demo_run))"
    by auto
  have run: "RunMessages (\<lambda>payload. ''{}'') ''run'' demo_runtime [message ''user'' ''check''] 1 False no_observer 0
      = (fst demo_run, snd demo_run)" by (simp add: demo_run_def)
  have t: "target_ids demo_args = Inr [''w1'']" by code_simp
  show ?thesis using agent_targets_listed[OF run b] b t by (auto simp: demo_call_def)
qed

text \<open>C20. An agent run always ends within its step budget: it records at most as many model replies as
  there are steps from the first to the maximum, it never counts beyond the maximum, and when it ends
  without an error it is either paused or has an answer with both provenance headings.\<close>

theorem agent_run_bounded:
  assumes "RunMessages js runID r messages startStep stream ob w = (err, l)"
  shows "answers (Loop_result l) \<le> nat (Runtime_maxSteps r - max 1 startStep + 1) \<and>
    Run_Steps (Loop_result l) \<le> max 0 (Runtime_maxSteps r) \<and>
    (err = None \<longrightarrow> Run_Paused (Loop_result l) \<or>
      Contains (Run_Answer (Loop_result l)) evidence_heading \<and> Contains (Run_Answer (Loop_result l)) history_heading)"
  using RunMessages_ok[OF assms] by (auto simp: answer_complete_def)

theorem agent_run_bounded_witness:
  "fst demo_run = None \<and> answers (Loop_result (snd demo_run)) = 3 \<and> \<not> Run_Paused (Loop_result (snd demo_run)) \<and>
   Contains (Run_Answer (Loop_result (snd demo_run))) evidence_heading"
proof -
  have run: "RunMessages (\<lambda>payload. ''{}'') ''run'' demo_runtime [message ''user'' ''check''] 1 False no_observer 0
      = (fst demo_run, snd demo_run)" by (simp add: demo_run_def)
  have "fst demo_run = None" "answers (Loop_result (snd demo_run)) = 3" "\<not> Run_Paused (Loop_result (snd demo_run))"
    by code_simp+
  then show ?thesis using agent_run_bounded[OF run] by blast
qed


end
