(* ===== verification/Deploy.thy ===== *)
theory Deploy
  imports Prelude
begin

text \<open>
  \<open>internal/infrastructure/deploy/deploy.go\<close>: installing a worker on a remote machine over SSH, and
  \<open>filepath.Clean\<close>, by which the HTTP interface confines the key file. The SSH library and the remote machine
  are a parameter, a record of the calls the code makes on a state \<open>'h\<close>. Log lines and the pause of half a
  second are not modelled.
\<close>

section \<open>Paths\<close>

text \<open>\<open>filepath.Clean\<close> on Unix. The first list holds the components kept so far, the last one first.\<close>

fun clean_parts :: "bool \<Rightarrow> string list \<Rightarrow> string list \<Rightarrow> string list" where
  "clean_parts rooted kept [] = rev kept"
| "clean_parts rooted kept (p # ps) =
     (if p = [] \<or> p = ''.'' then clean_parts rooted kept ps
      else if p = ''..'' then
        (case kept of
           [] \<Rightarrow> if rooted then clean_parts rooted [] ps else clean_parts rooted [''..''] ps
         | k # ks \<Rightarrow> if k = ''..'' then clean_parts rooted (''..'' # kept) ps else clean_parts rooted ks ps)
      else clean_parts rooted (p # kept) ps)"

definition Clean :: "string \<Rightarrow> string" where
  "Clean path =
     (let rooted = HasPrefix path ''/'';
          s = Join (clean_parts rooted [] (Split path (CHR ''/''))) ''/''
      in if rooted then ''/'' @ s else if s = [] then ''.'' else s)"

section \<open>Installing a worker\<close>

record Target =
  Target_Host :: string
  Target_Port :: int
  Target_User :: string
  Target_Password :: string
  Target_KeyFile :: string

record WorkerSpec =
  WorkerSpec_ServerURL :: string
  WorkerSpec_WorkerToken :: string
  WorkerSpec_WorkerName :: string
  WorkerSpec_WorkerType :: string
  WorkerSpec_LogToDB :: bool

datatype ssh_auth = Ssh_Password string | Ssh_PublicKeys string

text \<open>The calls on the SSH library: parsing a key, dialling with the given user, methods and address, and running
  a command in a new session with some standard input, which gives the output and an error. \<open>ssh_ReadFile\<close>
  reads a local file.\<close>

record 'h ssh =
  ssh_ReadFile :: "string \<Rightarrow> string res"
  ssh_ParsePrivateKey :: "string \<Rightarrow> unit res"
  ssh_Dial :: "string \<Rightarrow> ssh_auth list \<Rightarrow> string \<Rightarrow> 'h \<Rightarrow> unit res \<times> 'h"
  ssh_Session :: "string \<Rightarrow> string \<Rightarrow> 'h \<Rightarrow> (string \<times> error option) \<times> 'h"

definition dec_int :: "int \<Rightarrow> string" where
  "dec_int n = (if n < 0 then ''-'' @ dec (nat (- n)) else dec (nat n))"

definition connect :: "'h ssh \<Rightarrow> Target \<Rightarrow> 'h \<Rightarrow> unit res \<times> 'h" where
  "connect lib target h =
     (let port = (if Target_Port target = 0 then 22 else Target_Port target);
          password = (if Target_Password target \<noteq> [] then [Ssh_Password (Target_Password target)] else [])
      in case (if Target_KeyFile target \<noteq> []
               then (case ssh_ReadFile lib (Target_KeyFile target) of
                   Inl e \<Rightarrow> Inl (''read key file: '' @ e)
                 | Inr key \<Rightarrow>
                     (case ssh_ParsePrivateKey lib key of
                        Inl e \<Rightarrow> Inl (''parse key: '' @ e) | Inr _ \<Rightarrow> Inr (password @ [Ssh_PublicKeys key])))
               else Inr password) of
           Inl e \<Rightarrow> (Inl e, h)
         | Inr methods \<Rightarrow>
             if length methods = 0 then (Inl ''no auth method configured (password or key_file required)'', h)
             else ssh_Dial lib (Target_User target) methods (Target_Host target @ '':'' @ dec_int port) h)"

text \<open>\<open>filepath.Dir\<close> and \<open>filepath.Base\<close> of the two remote paths are \<open>/tmp\<close> and the name.\<close>

definition uploadBytes :: "'h ssh \<Rightarrow> string \<Rightarrow> string \<Rightarrow> 'h \<Rightarrow> unit res \<times> 'h" where
  "uploadBytes lib file name h =
     (case ssh_Session lib (''mkdir -p /tmp && cat > /tmp/'' @ name) file h of
        ((_, Some e), h) \<Rightarrow> (Inl e, h) | ((_, None), h) \<Rightarrow> (Inr (), h))"

definition uploadFile :: "'h ssh \<Rightarrow> string \<Rightarrow> string \<Rightarrow> 'h \<Rightarrow> unit res \<times> 'h" where
  "uploadFile lib localPath name h =
     (case ssh_ReadFile lib localPath of Inl e \<Rightarrow> (Inl e, h) | Inr file \<Rightarrow> uploadBytes lib file name h)"

definition runCmd :: "'h ssh \<Rightarrow> string \<Rightarrow> 'h \<Rightarrow> unit res \<times> 'h" where
  "runCmd lib cmd h =
     (case ssh_Session lib cmd [] h of
        ((output, Some e), h) \<Rightarrow> (Inl (e @ '': '' @ output), h) | ((_, None), h) \<Rightarrow> (Inr (), h))"

definition stop_existing :: string where
  "stop_existing = ''pkill -f '' @ [CHR 0x27] @ ''adp-worker'' @ [CHR 0x27] @ '' 2>/dev/null; pkill -f '' @ [CHR 0x27] @
     ''/tmp/adp-worker worker run'' @ [CHR 0x27] @ '' 2>/dev/null; true''"

definition startCmd :: "WorkerSpec \<Rightarrow> string" where
  "startCmd spec = ''nohup /tmp/adp-worker worker run --server-url='' @ WorkerSpec_ServerURL spec @
     '' --worker-token-file=/tmp/adp-worker.token --worker-name='' @ WorkerSpec_WorkerName spec @
     '' --worker-type='' @ WorkerSpec_WorkerType spec @ (if WorkerSpec_LogToDB spec then '' --log-to-db'' else []) @
     '' > /tmp/adp-worker.log 2>&1 &''"

text \<open>The steps after the connection, each with the text that its error is wrapped in.\<close>

definition deploy_steps :: "'h ssh \<Rightarrow> WorkerSpec \<Rightarrow> string \<Rightarrow> (string \<times> ('h \<Rightarrow> unit res \<times> 'h)) list" where
  "deploy_steps lib spec localBinary =
     [(''upload binary'', uploadFile lib localBinary ''adp-worker''),
      (''upload worker token'', uploadBytes lib (WorkerSpec_WorkerToken spec @ [CHR 0x0A]) ''adp-worker.token''),
      (''protect worker token file'', runCmd lib ''chmod 600 /tmp/adp-worker.token''),
      (''chmod'', runCmd lib ''chmod +x /tmp/adp-worker''),
      (''stop existing worker'', runCmd lib stop_existing),
      (''start worker'', runCmd lib (startCmd spec))]"

fun run_all :: "(string \<times> ('h \<Rightarrow> unit res \<times> 'h)) list \<Rightarrow> 'h \<Rightarrow> unit res \<times> 'h" where
  "run_all [] h = (Inr (), h)"
| "run_all ((what, f) # fs) h =
     (case f h of (Inl e, h) \<Rightarrow> (Inl (what @ '': '' @ e), h) | (Inr _, h) \<Rightarrow> run_all fs h)"

definition DeployWorker :: "'h ssh \<Rightarrow> Target \<Rightarrow> WorkerSpec \<Rightarrow> string \<Rightarrow> 'h \<Rightarrow> unit res \<times> 'h" where
  "DeployWorker lib target spec localBinary h =
     (case connect lib target h of
        (Inl e, h) \<Rightarrow> (Inl (''ssh connect: '' @ e), h)
      | (Inr _, h) \<Rightarrow> run_all (deploy_steps lib spec localBinary) h)"

section \<open>Cleaned paths\<close>

definition plain_part :: "string \<Rightarrow> bool" where
  "plain_part p \<longleftrightarrow> p \<noteq> [] \<and> p \<noteq> ''.'' \<and> p \<noteq> ''..'' \<and> CHR ''/'' \<notin> set p"

lemma clean_parts_plain:
  "list_all plain_part kept \<Longrightarrow> list_all (\<lambda>p. CHR ''/'' \<notin> set p) ps \<Longrightarrow> list_all plain_part (clean_parts True kept ps)"
proof (induction ps arbitrary: kept)
  case (Cons p ps)
  note prems = Cons.prems
  have tail: "list_all plain_part (clean_parts True ks ps)" if "list_all plain_part ks" for ks
    using Cons that by simp
  show ?case
  proof (cases kept)
    case Nil
    then show ?thesis using tail[of "[]"] tail[of "[p]"] prems by (simp add: plain_part_def[of p])
  next
    case (Cons k ks)
    then show ?thesis using tail[of kept] tail[of ks] tail[of "p # kept"] prems
      by (simp add: plain_part_def[of p] plain_part_def[of k])
  qed
qed (simp add: list_all_iff)

lemma Split_pieces_plain: "list_all (\<lambda>p. d \<notin> set p) (Split s d)"
  by (induction s) (auto split: list.splits)

lemma Clean_rooted:
  assumes "HasPrefix path ''/''"
  shows "\<exists>ps. list_all plain_part ps \<and> Clean path = ''/'' @ Join ps ''/''"
  using assms clean_parts_plain[of "[]" "Split path (CHR ''/'')"] Split_pieces_plain[of "CHR ''/''" path]
  by (auto simp: Clean_def Let_def)

end
