(* ===== verification/Http_Base.thy ===== *)
theory Http_Base
  imports Auth Template Memory_Repo Hub Agent_Runtime Deploy
begin

text \<open>
  The common part of \<open>internal/interfaces/http\<close>: requests and responses, the state of the server
  (\<open>server.go\<close>), authentication of users and workers, the audit trail (\<open>audit.go\<close>) and the user handlers
  (\<open>user.go\<close>). A handler takes the request and the server and returns the response and the server. The
  repository is never nil after \<open>NewServer\<close>, so the fallback branches for a nil repository are left out.
  Log lines are not modelled.
\<close>

section \<open>Requests, responses, server\<close>

record Request =
  Req_Method :: string
  Req_Path :: string
  Req_Query :: "(string, string) gomap"
  Req_Headers :: "(string, string) gomap"
  Req_Body :: string

text \<open>\<open>Query().Get\<close> and \<open>Header.Get\<close>: the first value, or the empty string.\<close>

definition get_value :: "(string, string) gomap \<Rightarrow> string \<Rightarrow> string" where
  "get_value m k = (case map_of m k of Some v \<Rightarrow> v | None \<Rightarrow> [])"

record dashboardSummaryResponse =
  Dash_User :: User
  Dash_CurrentTime :: Time
  Dash_Metrics :: MetricsSnapshot
  Dash_AgentMetrics :: "(string, float64) gomap"
  Dash_RecentJobs :: "Job list"
  Dash_Workers :: "Worker list"
  Dash_PendingApprovals :: "Job list"
  Dash_RecentCases :: "IncidentCase list"
  Dash_RecentAuditLogs :: "AuditLog list"
  Dash_TemplatesTotal :: nat
  Dash_Templates :: "CommandTemplate list"

record agentRunResponse =
  Resp_run :: AgentRun
  Resp_events :: "Event list"
  Resp_steps :: int
  Resp_conversation_id :: string
  Resp_pending :: "details list"

text \<open>The value a response encodes; \<open>Body_text\<close> is a body that is not JSON.\<close>

datatype Body =
    Body_error error
  | Body_map details
  | Body_login string User
  | Body_user User
  | Body_users "User list"
  | Body_job Job
  | Body_jobs "Job list"
  | Body_batch "Job list" "string list"
  | Body_yaml_batch "Job list" nat
  | Body_worker Worker
  | Body_workers "Worker list"
  | Body_deploying Worker string
  | Body_logs "AuditLog list"
  | Body_config ManagedConfig
  | Body_configs "ManagedConfig list"
  | Body_sync int int int "string list"
  | Body_run AgentRun
  | Body_agent_run agentRunResponse
  | Body_events "AgentEvent list"
  | Body_conversation Conversation
  | Body_conversations "Conversation list"
  | Body_messages "ConversationMessage list"
  | Body_thread Conversation "ConversationMessage list"
  | Body_cases "IncidentCase list"
  | Body_suggestions "IncidentCase list" "string list"
  | Body_dashboard dashboardSummaryResponse
  | Body_text string

record Response =
  Resp_Status :: int
  Resp_Body :: Body

definition writeJSON :: "int \<Rightarrow> Body \<Rightarrow> Response" where
  "writeJSON status body = \<lparr>Resp_Status = status, Resp_Body = body\<rparr>"

definition writeError :: "int \<Rightarrow> error \<Rightarrow> Response" where
  "writeError status e = writeJSON status (Body_error e)"

text \<open>A field of type \<open>*bool\<close>.\<close>

definition decode_bool_ptr :: "jval \<Rightarrow> bool option \<Rightarrow> bool option \<times> error option" where
  "decode_bool_ptr v old =
     (case v of JBool b \<Rightarrow> (Some b, None) | JNull \<Rightarrow> (None, None) | _ \<Rightarrow> (old, Some json_mismatch))"

record Config =
  Config_Addr :: string
  Config_AdminUsername :: string
  Config_AdminPassword :: string
  Config_AuthSecret :: string
  Config_WorkerSharedToken :: string
  Config_LLMBaseURL :: string
  Config_LLMAPIKey :: string
  Config_LLMModel :: string
  Config_AgentMaxSteps :: int
  Config_AgentInputTokenCostUSDPer1K :: float64
  Config_AgentOutputTokenCostUSDPer1K :: float64
  Config_ManagedConfigDir :: string
  Config_ManagedConfigSyncMode :: string

definition HasLLM :: "Config \<Rightarrow> bool" where
  "HasLLM c \<longleftrightarrow> Config_LLMBaseURL c \<noteq> []"

section \<open>Metrics of the agent\<close>

text \<open>\<open>agent_metrics.go\<close>. The 64-bit counters are integers: wrapping after \<open>2 ^ 63\<close> events is not modelled.\<close>

record agentMetrics =
  m_runs :: int
  m_successfulRuns :: int
  m_toolCalls :: int
  m_toolErrors :: int
  m_policyRejections :: int
  m_steps :: int
  m_approvalWait :: Duration
  m_modelLatency :: Duration
  m_toolLatency :: Duration
  m_approvals :: int
  m_modelCalls :: int
  m_toolLatencyCalls :: int
  m_promptTokens :: int
  m_completionTokens :: int
  m_totalTokens :: int
  m_inputTokenCostPer1K :: float64
  m_outputTokenCostPer1K :: float64
  m_tokenCostUSD :: float64

definition new_agentMetrics :: "float64 \<Rightarrow> float64 \<Rightarrow> agentMetrics" where
  "new_agentMetrics inputCost outputCost = \<lparr>m_runs = 0, m_successfulRuns = 0, m_toolCalls = 0, m_toolErrors = 0,
     m_policyRejections = 0, m_steps = 0, m_approvalWait = 0, m_modelLatency = 0, m_toolLatency = 0,
     m_approvals = 0, m_modelCalls = 0, m_toolLatencyCalls = 0, m_promptTokens = 0, m_completionTokens = 0,
     m_totalTokens = 0, m_inputTokenCostPer1K = inputCost, m_outputTokenCostPer1K = outputCost, m_tokenCostUSD = 0\<rparr>"

definition metrics_model :: "Duration \<Rightarrow> Usage \<Rightarrow> agentMetrics \<Rightarrow> agentMetrics" where
  "metrics_model latency usage m =
     m\<lparr>m_modelCalls := m_modelCalls m + 1, m_modelLatency := m_modelLatency m + latency,
       m_promptTokens := m_promptTokens m + Usage_PromptTokens usage,
       m_completionTokens := m_completionTokens m + Usage_CompletionTokens usage,
       m_totalTokens := m_totalTokens m + Usage_TotalTokens usage,
       m_tokenCostUSD := m_tokenCostUSD m +
         (of_int (Usage_PromptTokens usage) / 1000 * m_inputTokenCostPer1K m +
          of_int (Usage_CompletionTokens usage) / 1000 * m_outputTokenCostPer1K m)\<rparr>"

definition metrics_tool :: "Duration \<Rightarrow> error option \<Rightarrow> agentMetrics \<Rightarrow> agentMetrics" where
  "metrics_tool latency err m =
     (let m = m\<lparr>m_toolCalls := m_toolCalls m + 1, m_toolLatencyCalls := m_toolLatencyCalls m + 1,
                m_toolLatency := m_toolLatency m + latency\<rparr>
      in case err of
           None \<Rightarrow> m
         | Some e \<Rightarrow>
             let m = m\<lparr>m_toolErrors := m_toolErrors m + 1\<rparr>
             in if Contains e ''template'' \<or> Contains e ''sensitive'' \<or> Contains e ''unauthorized''
                then m\<lparr>m_policyRejections := m_policyRejections m + 1\<rparr> else m)"

definition metrics_complete :: "int \<Rightarrow> bool \<Rightarrow> agentMetrics \<Rightarrow> agentMetrics" where
  "metrics_complete steps success m =
     (let m = m\<lparr>m_runs := m_runs m + 1, m_steps := m_steps m + steps\<rparr>
      in if success then m\<lparr>m_successfulRuns := m_successfulRuns m + 1\<rparr> else m)"

definition metrics_approval :: "Time \<Rightarrow> Time \<Rightarrow> agentMetrics \<Rightarrow> agentMetrics" where
  "metrics_approval now created m =
     m\<lparr>m_approvals := m_approvals m + 1, m_approvalWait := m_approvalWait m + timeSub now created\<rparr>"

definition metrics_dashboard :: "agentMetrics \<Rightarrow> (string, float64) gomap" where
  "metrics_dashboard m =
     [(''run_success_rate'', if m_runs m > 0 then of_int (m_successfulRuns m) / of_int (m_runs m) else 0),
      (''tool_errors'', of_int (m_toolErrors m)),
      (''policy_rejections'', of_int (m_policyRejections m)),
      (''avg_steps'', if m_runs m > 0 then of_int (m_steps m) / of_int (m_runs m) else 0),
      (''approval_wait_seconds'',
        if m_approvals m > 0 then Seconds (m_approvalWait m) / of_int (m_approvals m) else 0),
      (''model_latency_seconds'',
        if m_modelCalls m > 0 then Seconds (m_modelLatency m) / of_int (m_modelCalls m) else 0),
      (''tool_latency_seconds'',
        if m_toolLatencyCalls m > 0 then Seconds (m_toolLatency m) / of_int (m_toolLatencyCalls m) else 0),
      (''total_tokens'', of_int (m_totalTokens m)),
      (''token_cost_usd'', m_tokenCostUSD m)]"

section \<open>The server\<close>

text \<open>\<open>Server_deployments\<close> lists the calls of \<open>DeployWorker\<close> started in a goroutine of their own. The model client
  and the agent runtime, which do not change after \<open>NewServer\<close>, are arguments of the handlers that use them.\<close>

record ('r, 'd) Server =
  Server_config :: Config
  Server_repo :: 'r
  Server_auth :: "'d Service"
  Server_db :: 'd
  Server_templateEng :: Template_Engine
  Server_policyEng :: Policy_Engine
  Server_moduleReg :: Registry
  Server_workerHub :: Hub
  Server_agentMetrics :: agentMetrics
  Server_deployments :: "(Target \<times> WorkerSpec \<times> string) list"

text \<open>Pushing through the hub. By the invariant of the hub a push never panics, so the branch for a panic,
  which leaves the hub alone, is not taken.\<close>

definition push_job :: "string \<Rightarrow> Job \<Rightarrow> ('r, 'd) Server \<Rightarrow> ('r, 'd) Server" where
  "push_job wid job s =
     (case PushJob wid job (Server_workerHub s) of Inr (_, h) \<Rightarrow> s\<lparr>Server_workerHub := h\<rparr> | Inl _ \<Rightarrow> s)"

definition push_command :: "string \<Rightarrow> string \<Rightarrow> ('r, 'd) Server \<Rightarrow> ('r, 'd) Server" where
  "push_command wid cmd s =
     (case PushCommand wid cmd (Server_workerHub s) of Inr (_, h) \<Rightarrow> s\<lparr>Server_workerHub := h\<rparr> | Inl _ \<Rightarrow> s)"

definition recordAudit ::
  "'r Repository \<Rightarrow> Time \<Rightarrow> string \<Rightarrow> string \<Rightarrow> string \<Rightarrow> string \<Rightarrow> string \<Rightarrow> details \<Rightarrow> ('r, 'd) Server \<Rightarrow> ('r, 'd) Server" where
  "recordAudit repo now actorType actorID action resourceType resourceID dets s =
     s\<lparr>Server_repo := snd (repo_AddAuditLog repo now
         \<lparr>AuditLog_ID = [], AuditLog_ActorType = actorType, AuditLog_ActorID = actorID, AuditLog_Action = action,
          AuditLog_ResourceType = resourceType, AuditLog_ResourceID = resourceID,
          AuditLog_Details = SanitizeMap dets, AuditLog_CreatedAt = now\<rparr> (Server_repo s))\<rparr>"

definition handleListAuditLogs :: "'r Repository \<Rightarrow> Request \<Rightarrow> ('r, 'd) Server \<Rightarrow> Response" where
  "handleListAuditLogs repo r s =
     (case repo_ListAuditLogs repo (get_value (Req_Query r) ''resource_type'') (get_value (Req_Query r) ''resource_id'')
             (Server_repo s) of
        Inr logs \<Rightarrow> writeJSON 200 (Body_logs logs) | Inl _ \<Rightarrow> writeJSON 200 (Body_logs []))"

section \<open>Authentication\<close>

definition bearerToken :: "string \<Rightarrow> string" where
  "bearerToken header = (if \<not> HasPrefix header ''Bearer '' then [] else TrimPrefix header ''Bearer '')"

type_synonym ('r, 'd) handler = "User \<Rightarrow> Request \<Rightarrow> ('r, 'd) Server \<Rightarrow> Response \<times> ('r, 'd) Server"

section \<open>User handlers\<close>

record loginRequest =
  login_Username :: string
  login_Password :: string

definition login_fields :: "loginRequest field_decoder list" where
  "login_fields = [struct_field ''username'' decode_string login_Username login_Username_update,
     struct_field ''password'' decode_string login_Password login_Password_update]"

definition handleLogin :: "bcrypt \<Rightarrow> Time \<Rightarrow> Request \<Rightarrow> ('r, 'd) Server \<Rightarrow> Response" where
  "handleLogin bc now r s =
     (case json_Decode login_fields (Req_Body r) \<lparr>login_Username = [], login_Password = []\<rparr> of
        Inl e \<Rightarrow> writeError 400 e
      | Inr req \<Rightarrow>
          (case Login bc now (Server_auth s) (Server_db s) (login_Username req) (login_Password req) of
             Inl e \<Rightarrow> writeError 401 e
           | Inr (token, user) \<Rightarrow> writeJSON 200 (Body_login token user)))"

definition handleListUsers :: "('r, 'd) handler" where
  "handleListUsers user r s =
     (if User_Role user \<noteq> ''admin'' then (writeError 403 ''admin role required'', s)
      else (writeJSON 200 (Body_users (ListUsers (Server_auth s) (Server_db s))), s))"

record createUserRequest =
  cu_Username :: string
  cu_Password :: string
  cu_Role :: string

definition create_user_fields :: "createUserRequest field_decoder list" where
  "create_user_fields = [struct_field ''username'' decode_string cu_Username cu_Username_update,
     struct_field ''password'' decode_string cu_Password cu_Password_update,
     struct_field ''role'' decode_string cu_Role cu_Role_update]"

definition handleCreateUser :: "'r Repository \<Rightarrow> bcrypt \<Rightarrow> string \<Rightarrow> Time \<Rightarrow> ('r, 'd) handler" where
  "handleCreateUser repo bc salt now actor r s =
     (if User_Role actor \<noteq> ''admin'' then (writeError 403 ''admin role required'', s)
      else (case json_Decode create_user_fields (Req_Body r) \<lparr>cu_Username = [], cu_Password = [], cu_Role = []\<rparr> of
          Inl e \<Rightarrow> (writeError 400 e, s)
        | Inr req \<Rightarrow>
            (case CreateUser bc salt (cu_Username req) (cu_Password req) (cu_Role req) (Server_auth s) (Server_db s) of
               (Inl e, auth, d) \<Rightarrow> (writeError 400 e, s\<lparr>Server_auth := auth, Server_db := d\<rparr>)
             | (Inr user, auth, d) \<Rightarrow>
                 (writeJSON 201 (Body_user user),
                  recordAudit repo now ''user'' (User_Username actor) ''user.created'' ''user'' (User_Username user)
                    [(''role'', VStr (User_Role user))] (s\<lparr>Server_auth := auth, Server_db := d\<rparr>)))))"

definition handleDeleteUser :: "'r Repository \<Rightarrow> Time \<Rightarrow> ('r, 'd) handler" where
  "handleDeleteUser repo now actor r s =
     (if User_Role actor \<noteq> ''admin'' then (writeError 403 ''admin role required'', s)
      else let username = TrimPrefix (Req_Path r) ''/api/v1/users/''
      in if username = [] then (writeError 400 ''username is required'', s)
         else let username = hd (Split username (CHR ''/''))
         in if username = User_Username actor then (writeError 400 ''cannot delete yourself'', s)
            else (case DeleteUser username (Server_auth s) (Server_db s) of
                (Inl e, auth, d) \<Rightarrow> (writeError 400 e, s\<lparr>Server_auth := auth, Server_db := d\<rparr>)
              | (Inr _, auth, d) \<Rightarrow>
                  (writeJSON 200 (Body_map [(''status'', VStr ''deleted'')]),
                   recordAudit repo now ''user'' (User_Username actor) ''user.deleted'' ''user'' username []
                     (s\<lparr>Server_auth := auth, Server_db := d\<rparr>))))"

definition change_fields :: "string field_decoder list" where
  "change_fields = [struct_field ''new_password'' decode_string (\<lambda>x. x) (\<lambda>f x. f x)]"

definition handleChangePassword :: "'r Repository \<Rightarrow> bcrypt \<Rightarrow> string \<Rightarrow> Time \<Rightarrow> ('r, 'd) handler" where
  "handleChangePassword repo bc salt now actor r s =
     (let parts = Split (TrimPrefix (Req_Path r) ''/api/v1/users/'') (CHR ''/'')
      in if length parts < 2 \<or> parts ! 1 \<noteq> ''password'' then (writeError 404 ''route not found'', s)
         else let username = parts ! 0
         in if User_Role actor \<noteq> ''admin'' \<and> User_Username actor \<noteq> username
            then (writeError 403 (''cannot change another user'' @ [CHR 0x27] @ ''s password''), s)
            else (case json_Decode change_fields (Req_Body r) [] of
                Inl e \<Rightarrow> (writeError 400 e, s)
              | Inr newPassword \<Rightarrow>
                  if newPassword = [] then (writeError 400 ''new_password is required'', s)
                  else (case ChangePassword bc salt username newPassword (Server_auth s) (Server_db s) of
                      (Inl e, auth, d) \<Rightarrow> (writeError 400 e, s\<lparr>Server_auth := auth, Server_db := d\<rparr>)
                    | (Inr _, auth, d) \<Rightarrow>
                        (writeJSON 200 (Body_map [(''status'', VStr ''password updated'')]),
                         recordAudit repo now ''user'' (User_Username actor) ''user.password_changed'' ''user'' username []
                           (s\<lparr>Server_auth := auth, Server_db := d\<rparr>)))))"

section \<open>Properties\<close>

lemma ChangePassword_others:
  "ChangePassword bc salt name pw a d = (res, a', d') \<Longrightarrow> u \<noteq> TrimSpace name \<Longrightarrow>
   map_of (Service_users a') u = map_of (Service_users a) u"
  by (auto simp: ChangePassword_def Let_def AList.update_conv' split: if_splits option.splits sum.splits prod.splits)

lemma recordAudit_simps [simp]:
  "Server_auth (recordAudit repo now t i a rt ri dets s) = Server_auth s"
  "Server_db (recordAudit repo now t i a rt ri dets s) = Server_db s"
  "Server_workerHub (recordAudit repo now t i a rt ri dets s) = Server_workerHub s"
  "Server_policyEng (recordAudit repo now t i a rt ri dets s) = Server_policyEng s"
  "Server_moduleReg (recordAudit repo now t i a rt ri dets s) = Server_moduleReg s"
  "Server_templateEng (recordAudit repo now t i a rt ri dets s) = Server_templateEng s"
  by (simp_all add: recordAudit_def)

text \<open>The part of the state that says who may do what.\<close>

definition rules_of ::
  "('r, 'd) Server \<Rightarrow> Config \<times> 'd Service \<times> 'd \<times> Template_Engine \<times> Policy_Engine \<times> Registry" where
  "rules_of s = (Server_config s, Server_auth s, Server_db s, Server_templateEng s, Server_policyEng s, Server_moduleReg s)"

lemma rules_of_simps [simp]:
  "rules_of (s\<lparr>Server_repo := x\<rparr>) = rules_of s"
  "rules_of (s\<lparr>Server_workerHub := h\<rparr>) = rules_of s"
  "rules_of (s\<lparr>Server_agentMetrics := m\<rparr>) = rules_of s"
  "rules_of (s\<lparr>Server_deployments := ds\<rparr>) = rules_of s"
  "rules_of (recordAudit repo now t i a rt ri dets s) = rules_of s"
  "rules_of (push_job wid job s) = rules_of s"
  "rules_of (push_command wid cmd s) = rules_of s"
  by (auto simp: rules_of_def recordAudit_def push_job_def push_command_def split: sum.splits prod.splits)

text \<open>A user who is not an administrator cannot manage accounts: creating and deleting users is refused and
  changes nothing, and a password change can affect no entry but the user's own.\<close>

lemma operators_manage_only_themselves:
  assumes "User_Role actor \<noteq> ''admin''"
  shows "handleCreateUser repo bc salt now actor r s = (writeError 403 ''admin role required'', s) \<and>
    handleDeleteUser repo now actor r s = (writeError 403 ''admin role required'', s) \<and>
    (u \<noteq> TrimSpace (User_Username actor) \<longrightarrow>
       map_of (Service_users (Server_auth (snd (handleChangePassword repo bc salt now actor r s)))) u =
       map_of (Service_users (Server_auth s)) u)"
proof -
  have "map_of (Service_users (Server_auth (snd (handleChangePassword repo bc salt now actor r s)))) u =
      map_of (Service_users (Server_auth s)) u" if "u \<noteq> TrimSpace (User_Username actor)"
    using assms that
    by (auto simp: handleChangePassword_def Let_def ChangePassword_others[where u = u] split: sum.splits prod.splits)
  then show ?thesis using assms by (simp add: handleCreateUser_def handleDeleteUser_def)
qed

definition demo_server :: "(MemoryRepository, unit) Server" where
  "demo_server = \<lparr>Server_config = \<lparr>Config_Addr = [], Config_AdminUsername = ''root'', Config_AdminPassword = ''secret'',
       Config_AuthSecret = ''key'', Config_WorkerSharedToken = ''tok'', Config_LLMBaseURL = [], Config_LLMAPIKey = [],
       Config_LLMModel = [], Config_AgentMaxSteps = 0, Config_AgentInputTokenCostUSDPer1K = 0,
       Config_AgentOutputTokenCostUSDPer1K = 0,
       Config_ManagedConfigDir = [], Config_ManagedConfigSyncMode = []\<rparr>,
     Server_repo = NewMemoryRepository,
     Server_auth = fold (\<lambda>op a. user_exec marked_bcrypt op a ()) [Op_create [] ''bob'' ''pw'' ''admin'']
       (Auth_NewService marked_bcrypt [] ''root'' ''secret'' ''key''),
     Server_db = (), Server_templateEng = Template_NewEngine, Server_policyEng = Policy_NewEngine,
     Server_moduleReg = NewRegistry, Server_workerHub = NewHub, Server_agentMetrics = new_agentMetrics 0 0,
     Server_deployments = []\<rparr>"

definition demo_request :: "string \<Rightarrow> string \<Rightarrow> string \<Rightarrow> Request" where
  "demo_request m path body = \<lparr>Req_Method = m, Req_Path = path, Req_Query = [], Req_Headers = [], Req_Body = body\<rparr>"

theorem operators_manage_only_themselves_witness:
  "handleDeleteUser memory_repository 0 \<lparr>User_Username = ''eve'', User_Role = ''operator''\<rparr>
     (demo_request ''DELETE'' ''/api/v1/users/bob'' []) demo_server = (writeError 403 ''admin role required'', demo_server)"
  using operators_manage_only_themselves[where actor = "\<lparr>User_Username = ''eve'', User_Role = ''operator''\<rparr>"
      and repo = memory_repository and now = 0 and r = "demo_request ''DELETE'' ''/api/v1/users/bob'' []"
      and s = demo_server]
  by simp

text \<open>The rule that administrators cannot delete themselves compares the name before white space is
  trimmed: with a trailing space in the path an administrator deletes the own account.\<close>

lemma self_delete_bypass:
  "let bob = \<lparr>User_Username = ''bob'', User_Role = ''admin''\<rparr>;
       refused = handleDeleteUser memory_repository 0 bob (demo_request ''DELETE'' ''/api/v1/users/bob'' []) demo_server;
       done = handleDeleteUser memory_repository 0 bob (demo_request ''DELETE'' ''/api/v1/users/bob '' []) demo_server
   in Resp_Status (fst refused) = 400 \<and> map_of (Service_users (Server_auth (snd refused))) ''bob'' \<noteq> None \<and>
      Resp_Status (fst done) = 200 \<and> map_of (Service_users (Server_auth (snd done))) ''bob'' = None"
  by code_simp

end
