(* ===== verification/Http_Jobs.thy ===== *)
theory Http_Jobs
  imports Http_Base
begin

text \<open>
  \<open>internal/interfaces/http/job.go\<close> and \<open>approval.go\<close>: creation, dispatch, deletion and approval of jobs.
  The YAML parser is not part of the repository: it is the argument \<open>yaml\<close>. The resumption of a paused
  agent run after an approval runs in its own goroutine; it is the argument \<open>resume\<close>.
\<close>

section \<open>Dispatch\<close>

definition dispatchJobToWorker ::
  "'r Repository \<Rightarrow> Time \<Rightarrow> string \<Rightarrow> string \<Rightarrow> ('r, 'd) Server \<Rightarrow> Job res \<times> ('r, 'd) Server" where
  "dispatchJobToWorker repo now jobID workerID s =
     (case repo_AssignJobToWorkers repo now jobID [workerID] (Server_repo s) of
        (Inl e, r) \<Rightarrow> (Inl e, s\<lparr>Server_repo := r\<rparr>)
      | (Inr _, r) \<Rightarrow> (repo_GetJob repo jobID r, s\<lparr>Server_repo := r\<rparr>))"

definition create_job :: "'r Repository \<Rightarrow> Time \<Rightarrow> Job \<Rightarrow> ('r, 'd) Server \<Rightarrow> Job res \<times> ('r, 'd) Server" where
  "create_job repo now job s =
     (case repo_CreateJob repo now job (Server_repo s) of (res, r) \<Rightarrow> (res, s\<lparr>Server_repo := r\<rparr>))"

definition no_worker :: "string \<Rightarrow> Response" where
  "no_worker wid = writeError 400 (''worker '' @ wid @ '' not found'')"

definition wrong_type :: "string \<Rightarrow> string \<Rightarrow> string \<Rightarrow> Response" where
  "wrong_type wid have_type job_type =
     writeError 400 (''worker '' @ wid @ '' type '' @ have_type @ '' cannot run job type '' @ job_type)"

section \<open>Creation\<close>

record createJobRequest =
  cj_Name :: string
  cj_WorkerType :: string
  cj_Command :: string
  cj_WorkerIDs :: "string list"

definition create_job_fields :: "createJobRequest field_decoder list" where
  "create_job_fields = [struct_field ''name'' decode_string cj_Name cj_Name_update,
     struct_field ''worker_type'' decode_string cj_WorkerType cj_WorkerType_update,
     struct_field ''command'' decode_string cj_Command cj_Command_update,
     struct_field ''worker_ids'' decode_strings cj_WorkerIDs cj_WorkerIDs_update]"

definition manual_job :: "createJobRequest \<Rightarrow> Job" where
  "manual_job req = zero_Job\<lparr>Job_Name := cj_Name req, Job_WorkerType := cj_WorkerType req, Job_Command := cj_Command req,
     Job_Status := JobStatusPending, Job_ApprovalStatus := ApprovalStatusNotRequired, Job_SourceType := ''manual_job'',
     Job_ApprovalRequired := False\<rparr>"

text \<open>The loop over the requested workers; it stops at the first error.\<close>

fun create_for_workers ::
  "'r Repository \<Rightarrow> Time \<Rightarrow> createJobRequest \<Rightarrow> string list \<Rightarrow> ('r, 'd) Server \<Rightarrow> (Response + Job list) \<times> ('r, 'd) Server" where
  "create_for_workers repo now req [] s = (Inr [], s)"
| "create_for_workers repo now req (wid # wids) s =
     (case repo_GetWorker repo wid (Server_repo s) of
        Inl _ \<Rightarrow> (Inl (no_worker wid), s)
      | Inr wk \<Rightarrow>
          if \<not> WorkerCanRunType (Worker_WorkerType wk) (cj_WorkerType req)
          then (Inl (wrong_type wid (Worker_WorkerType wk) (cj_WorkerType req)), s)
          else (case create_job repo now ((manual_job req)\<lparr>Job_Name := ''[worker:'' @ wid @ ''] '' @ cj_Name req\<rparr>) s of
              (Inl e, s) \<Rightarrow> (Inl (writeError 500 e), s)
            | (Inr created, s) \<Rightarrow>
                (case dispatchJobToWorker repo now (Job_ID created) wid s of
                   (Inl e, s) \<Rightarrow> (Inl (writeError 500 e), s)
                 | (Inr job, s) \<Rightarrow>
                     (case create_for_workers repo now req wids (push_job wid job s) of
                        (Inl resp, s) \<Rightarrow> (Inl resp, s)
                      | (Inr jobs, s) \<Rightarrow> (Inr (job # jobs), s)))))"

definition handleCreateJob :: "'r Repository \<Rightarrow> Time \<Rightarrow> ('r, 'd) handler" where
  "handleCreateJob repo now user r s =
     (case json_Decode create_job_fields (Req_Body r)
             \<lparr>cj_Name = [], cj_WorkerType = [], cj_Command = [], cj_WorkerIDs = []\<rparr> of
        Inl e \<Rightarrow> (writeError 400 e, s)
      | Inr req \<Rightarrow>
          if cj_Name req = [] \<or> cj_WorkerType req = [] then (writeError 400 ''name and worker_type are required'', s)
          else if length (cj_WorkerIDs req) > 0
          then (case create_for_workers repo now req (cj_WorkerIDs req) s of
              (Inl resp, s) \<Rightarrow> (resp, s)
            | (Inr assigned, s) \<Rightarrow>
                (writeJSON 201 (Body_batch assigned (cj_WorkerIDs req)),
                 recordAudit repo now ''user'' (User_Username user) ''job.created_and_assigned'' ''job'' []
                   [(''worker_type'', VStr (cj_WorkerType req)), (''worker_ids'', VStrs (cj_WorkerIDs req)),
                    (''job_count'', VInt (int (length assigned)))] s))
          else (case create_job repo now (manual_job req) s of
              (Inl e, s) \<Rightarrow> (writeError 500 e, s)
            | (Inr created, s) \<Rightarrow>
                (writeJSON 201 (Body_job created),
                 recordAudit repo now ''user'' (User_Username user) ''job.created'' ''job'' (Job_ID created)
                   [(''worker_type'', VStr (cj_WorkerType req))] s)))"

section \<open>Reading and deletion\<close>

text \<open>\<open>strconv.Atoi\<close>: an optional sign and digits, within 64 bits.\<close>

definition Atoi :: "string \<Rightarrow> int option" where
  "Atoi s = (case s of c # t \<Rightarrow> if c = CHR ''+'' then (if HasPrefix t ''-'' then None else parse_int t) else parse_int s
     | [] \<Rightarrow> None)"

definition handleListJobs :: "'r Repository \<Rightarrow> Request \<Rightarrow> ('r, 'd) Server \<Rightarrow> Response" where
  "handleListJobs repo r s =
     (let q = (\<lambda>k. TrimSpace (get_value (Req_Query r) k));
          limit = (case (if q ''limit'' \<noteq> [] then Atoi (q ''limit'') else None) of
             Some n \<Rightarrow> if n > 0 then n else 0 | None \<Rightarrow> 0)
      in case repo_ListJobs repo \<lparr>JobFilter_SourceType = q ''source_type'', JobFilter_WorkerType = q ''worker_type'',
             JobFilter_Status = q ''status'', JobFilter_Limit = limit\<rparr> (Server_repo s) of
           Inl e \<Rightarrow> writeError 500 e | Inr jobs \<Rightarrow> writeJSON 200 (Body_jobs jobs))"

definition handleGetJob :: "'r Repository \<Rightarrow> Request \<Rightarrow> ('r, 'd) Server \<Rightarrow> Response" where
  "handleGetJob repo r s =
     (let id = TrimPrefix (Req_Path r) ''/api/v1/jobs/''
      in if id = [] then writeError 400 ''job id is required''
         else (case repo_GetJob repo id (Server_repo s) of
             Inl e \<Rightarrow> writeError 404 e | Inr job \<Rightarrow> writeJSON 200 (Body_job job)))"

definition handleDeleteJob :: "'r Repository \<Rightarrow> Time \<Rightarrow> ('r, 'd) handler" where
  "handleDeleteJob repo now user r s =
     (let id = TrimPrefix (Req_Path r) ''/api/v1/jobs/''
      in if id = [] then (writeError 400 ''job id is required'', s)
         else (case repo_DeleteJob repo id (Server_repo s) of
             (Inl e, rp) \<Rightarrow> (writeError 400 e, s\<lparr>Server_repo := rp\<rparr>)
           | (Inr _, rp) \<Rightarrow>
               (writeJSON 200 (Body_map [(''status'', VStr ''deleted'')]),
                recordAudit repo now ''user'' (User_Username user) ''job.deleted'' ''job'' id [] (s\<lparr>Server_repo := rp\<rparr>))))"

section \<open>Dispatch of an existing job\<close>

definition dispatch_clone :: "Job \<Rightarrow> string \<Rightarrow> Job" where
  "dispatch_clone base wid =
     base\<lparr>Job_ID := [], Job_Name := ''[dispatch:'' @ Job_ID base @ ''][worker:'' @ wid @ ''] '' @ Job_Name base,
       Job_Status := JobStatusPending, Job_AssignedWorkerID := [], Job_Output := [], Job_StartedAt := None,
       Job_FinishedAt := None, Job_SourceID := Job_ID base,
       Job_SourceType := (if Job_SourceType base = [] then ''manual_dispatch'' else Job_SourceType base)\<rparr>"

text \<open>The loop over the workers: the first one gets the job itself, the others a copy.\<close>

fun dispatch_to ::
  "'r Repository \<Rightarrow> Time \<Rightarrow> Job \<Rightarrow> bool \<Rightarrow> string list \<Rightarrow> ('r, 'd) Server \<Rightarrow> (Response + Job list) \<times> ('r, 'd) Server" where
  "dispatch_to repo now base first [] s = (Inr [], s)"
| "dispatch_to repo now base first (wid # wids) s =
     (case repo_GetWorker repo wid (Server_repo s) of
        Inl _ \<Rightarrow> (Inl (no_worker wid), s)
      | Inr worker \<Rightarrow>
          if \<not> WorkerCanRunType (Worker_WorkerType worker) (Job_WorkerType base)
          then (Inl (wrong_type wid (Worker_WorkerType worker) (Job_WorkerType base)), s)
          else (case (if first then (Inr base, s) else create_job repo now (dispatch_clone base wid) s) of
              (Inl e, s) \<Rightarrow> (Inl (writeError 500 e), s)
            | (Inr target, s) \<Rightarrow>
                (case dispatchJobToWorker repo now (Job_ID target) wid s of
                   (Inl e, s) \<Rightarrow> (Inl (writeError 500 e), s)
                 | (Inr job, s) \<Rightarrow>
                     (case dispatch_to repo now base False wids (push_job wid job s) of
                        (Inl resp, s) \<Rightarrow> (Inl resp, s)
                      | (Inr jobs, s) \<Rightarrow> (Inr (job # jobs), s)))))"

definition dispatch_fields :: "string list field_decoder list" where
  "dispatch_fields = [struct_field ''worker_ids'' decode_strings (\<lambda>x. x) (\<lambda>f x. f x)]"

definition handleDispatchJob :: "'r Repository \<Rightarrow> Time \<Rightarrow> ('r, 'd) handler" where
  "handleDispatchJob repo now user r s =
     (let jobID = TrimSuffix (TrimPrefix (Req_Path r) ''/api/v1/jobs/'') ''/dispatch''
      in if jobID = [] then (writeError 400 ''job id is required'', s)
         else (case json_Decode dispatch_fields (Req_Body r) [] of
             Inl e \<Rightarrow> (writeError 400 e, s)
           | Inr workerIDs \<Rightarrow>
               if length workerIDs = 0 then (writeError 400 ''worker_ids is required'', s)
               else (case repo_GetJob repo jobID (Server_repo s) of
                   Inl e \<Rightarrow> (writeError 404 e, s)
                 | Inr base \<Rightarrow>
                     if Job_Status base \<noteq> JobStatusPending \<and> Job_Status base \<noteq> JobStatusQueued
                     then (writeError 400 (''job status must be pending, got '' @ Job_Status base), s)
                     else (case dispatch_to repo now base True workerIDs s of
                         (Inl resp, s) \<Rightarrow> (resp, s)
                       | (Inr dispatched, s) \<Rightarrow>
                           (writeJSON 200 (Body_batch dispatched workerIDs),
                            recordAudit repo now ''user'' (User_Username user) ''job.dispatched'' ''job'' (Job_ID base)
                              [(''worker_ids'', VStrs workerIDs), (''job_count'', VInt (int (length dispatched)))] s)))))"

definition handleJobActions :: "'r Repository \<Rightarrow> Time \<Rightarrow> ('r, 'd) handler" where
  "handleJobActions repo now user r s =
     (if Req_Method r = ''GET'' then (handleGetJob repo r s, s)
      else if Req_Method r = ''POST'' \<and> HasSuffix (Req_Path r) ''/dispatch'' then handleDispatchJob repo now user r s
      else if Req_Method r = ''DELETE'' then handleDeleteJob repo now user r s
      else (writeError 405 ''unsupported method'', s))"

section \<open>Batches from YAML\<close>

record YAMLTask =
  YAMLTask_Name :: string
  YAMLTask_Template :: string
  YAMLTask_Parameters :: "(string, string) gomap"

record YAMLJobSpec =
  YAMLJobSpec_Name :: string
  YAMLJobSpec_Tasks :: "YAMLTask list"
  YAMLJobSpec_WorkerType :: string
  YAMLJobSpec_Workers :: "string list"

fun validate_tasks :: "nat \<Rightarrow> YAMLTask list \<Rightarrow> ('r, 'd) Server \<Rightarrow> unit res" where
  "validate_tasks i [] s = Inr ()"
| "validate_tasks i (task # tasks) s =
     (if YAMLTask_Template task = [] then Inl (''task '' @ dec (i + 1) @ '': template is required'')
      else if isl (Registry_Get (YAMLTask_Template task) (Server_moduleReg s))
      then Inl (''task '' @ dec (i + 1) @ '': module '' @ quoted (YAMLTask_Template task) @ '' is not registered'')
      else (case ValidateTemplate (Server_policyEng s) (YAMLTask_Template task) of
          Inl e \<Rightarrow> Inl e
        | Inr _ \<Rightarrow>
            (case ValidateNoInlineSecrets (YAMLTask_Parameters task) of
               Inl e \<Rightarrow> Inl e
             | Inr _ \<Rightarrow> validate_tasks (i + 1) tasks s)))"

definition validateAndFixYAML :: "YAMLJobSpec \<Rightarrow> ('r, 'd) Server \<Rightarrow> unit res" where
  "validateAndFixYAML spec s =
     (if length (YAMLJobSpec_Tasks spec) = 0 then Inl ''tasks list is empty''
      else if YAMLJobSpec_WorkerType spec = [] then Inl ''worker_type is required''
      else validate_tasks 0 (YAMLJobSpec_Tasks spec) s)"

definition task_error :: "int \<Rightarrow> YAMLTask \<Rightarrow> error \<Rightarrow> Response" where
  "task_error status task e = writeError status (''task '' @ [CHR 0x27] @ YAMLTask_Name task @ [CHR 0x27] @ '': '' @ e)"

definition yaml_job :: "YAMLJobSpec \<Rightarrow> YAMLTask \<Rightarrow> CommandTemplate \<Rightarrow> string \<Rightarrow> string \<Rightarrow> Job" where
  "yaml_job spec task tmpl cmd wid =
     zero_Job\<lparr>Job_Name := (if wid \<noteq> []
         then ''[yaml:'' @ YAMLJobSpec_Name spec @ ''][worker:'' @ wid @ ''] '' @ YAMLTask_Name task
         else ''[yaml:'' @ YAMLJobSpec_Name spec @ ''] '' @ YAMLTask_Name task),
       Job_WorkerType := YAMLJobSpec_WorkerType spec, Job_Command := cmd, Job_Status := JobStatusPending,
       Job_RiskLevel := CommandTemplate_RiskLevel tmpl, Job_ApprovalRequired := False,
       Job_ApprovalStatus := ApprovalStatusNotRequired, Job_TemplateCode := YAMLTask_Template task,
       Job_Parameters := clone_map (YAMLTask_Parameters task), Job_SourceType := ''yaml_job''\<rparr>"

fun yaml_targets ::
  "'r Repository \<Rightarrow> Time \<Rightarrow> YAMLJobSpec \<Rightarrow> YAMLTask \<Rightarrow> CommandTemplate \<Rightarrow> string \<Rightarrow> string list \<Rightarrow> ('r, 'd) Server \<Rightarrow>
   (Response + Job list) \<times> ('r, 'd) Server" where
  "yaml_targets repo now spec task tmpl cmd [] s = (Inr [], s)"
| "yaml_targets repo now spec task tmpl cmd (wid # wids) s =
     (case create_job repo now (yaml_job spec task tmpl cmd wid) s of
        (Inl e, s) \<Rightarrow> (Inl (writeError 500 e), s)
      | (Inr created, s) \<Rightarrow>
          (case (if wid \<noteq> []
                 then (case dispatchJobToWorker repo now (Job_ID created) wid s of
                     (Inl e, s) \<Rightarrow> (Inl e, s) | (Inr job, s) \<Rightarrow> (Inr job, push_job wid job s))
                 else (Inr created, s)) of
             (Inl e, s) \<Rightarrow> (Inl (writeError 500 e), s)
           | (Inr job, s) \<Rightarrow>
               (case yaml_targets repo now spec task tmpl cmd wids s of
                  (Inl resp, s) \<Rightarrow> (Inl resp, s) | (Inr jobs, s) \<Rightarrow> (Inr (job # jobs), s))))"

fun yaml_tasks ::
  "'r Repository \<Rightarrow> tpl_other \<Rightarrow> Time \<Rightarrow> YAMLJobSpec \<Rightarrow> string list \<Rightarrow> YAMLTask list \<Rightarrow> ('r, 'd) Server \<Rightarrow>
   (Response + Job list) \<times> ('r, 'd) Server" where
  "yaml_tasks repo other now spec workerIDs [] s = (Inr [], s)"
| "yaml_tasks repo other now spec workerIDs (task # tasks) s =
     (case Render other (Server_templateEng s) (YAMLTask_Template task) (YAMLTask_Parameters task) of
        Inl e \<Rightarrow> (Inl (task_error 400 task e), s)
      | Inr (tmpl, cmd) \<Rightarrow>
          (case ValidateTemplate (Server_policyEng s) (YAMLTask_Template task) of
             Inl e \<Rightarrow> (Inl (task_error 403 task e), s)
           | Inr _ \<Rightarrow>
               (case ValidateCommand (Server_policyEng s) cmd of
                  Inl e \<Rightarrow> (Inl (task_error 403 task e), s)
                | Inr _ \<Rightarrow>
                    (case yaml_targets repo now spec task tmpl cmd (if length workerIDs = 0 then [[]] else workerIDs) s of
                       (Inl resp, s) \<Rightarrow> (Inl resp, s)
                     | (Inr jobs, s) \<Rightarrow>
                         (case yaml_tasks repo other now spec workerIDs tasks s of
                            (Inl resp, s) \<Rightarrow> (Inl resp, s) | (Inr rest, s) \<Rightarrow> (Inr (jobs @ rest), s))))))"

definition yaml_workers :: "'r Repository \<Rightarrow> YAMLJobSpec \<Rightarrow> ('r, 'd) Server \<Rightarrow> string list" where
  "yaml_workers repo spec s =
     (let ids = YAMLJobSpec_Workers spec
      in if length ids = 1 \<and> ToLower (ids ! 0) = ''all''
         then map Worker_ID (filter (\<lambda>w. WorkerCanRunType (Worker_WorkerType w) (YAMLJobSpec_WorkerType spec) \<and>
                Worker_Status w = WorkerStatusOnline)
                (case repo_ListWorkers repo (Server_repo s) of Inr workers \<Rightarrow> workers | Inl _ \<Rightarrow> []))
         else ids)"

definition yaml_fields :: "string field_decoder list" where
  "yaml_fields = [struct_field ''yaml'' decode_string (\<lambda>x. x) (\<lambda>f x. f x)]"

definition handleCreateJobFromYAML ::
  "'r Repository \<Rightarrow> tpl_other \<Rightarrow> (string \<Rightarrow> YAMLJobSpec res) \<Rightarrow> Time \<Rightarrow> ('r, 'd) handler" where
  "handleCreateJobFromYAML repo other yaml now user r s =
     (case json_Decode yaml_fields (Req_Body r) [] of
        Inl e \<Rightarrow> (writeError 400 e, s)
      | Inr content \<Rightarrow>
          if content = [] then (writeError 400 ''yaml payload is required'', s)
          else (case yaml content of
              Inl e \<Rightarrow> (writeError 400 (''invalid yaml: '' @ e), s)
            | Inr spec \<Rightarrow>
                (case validateAndFixYAML spec s of
                   Inl e \<Rightarrow> (writeError 400 e, s)
                 | Inr _ \<Rightarrow>
                     (case yaml_tasks repo other now spec (yaml_workers repo spec s) (YAMLJobSpec_Tasks spec) s of
                        (Inl resp, s) \<Rightarrow> (resp, s)
                      | (Inr created, s') \<Rightarrow>
                          (writeJSON 201 (Body_yaml_batch created (length (yaml_workers repo spec s))),
                           fold (\<lambda>j s. recordAudit repo now ''user'' (User_Username user) ''yaml_job.created'' ''job''
                             (Job_ID j) [(''worker_type'', VStr (YAMLJobSpec_WorkerType spec)),
                               (''template'', VStr (Job_TemplateCode j))] s) created s')))))"

section \<open>Approval\<close>

definition handleListPendingApprovalJobs :: "'r Repository \<Rightarrow> ('r, 'd) Server \<Rightarrow> Response" where
  "handleListPendingApprovalJobs repo s =
     writeJSON 200 (Body_jobs (case repo_ListPendingApprovalJobs repo (Server_repo s) of Inr jobs \<Rightarrow> jobs | Inl _ \<Rightarrow> []))"

record approveJobRequest =
  aj_Approved :: "bool option"
  aj_Comment :: string

definition approve_fields :: "approveJobRequest field_decoder list" where
  "approve_fields = [struct_field ''approved'' decode_bool_ptr aj_Approved aj_Approved_update,
     struct_field ''comment'' decode_string aj_Comment aj_Comment_update]"

text \<open>The block that dispatches an approved job to the worker it was assigned to. The source has it twice.\<close>

definition auto_dispatch :: "'r Repository \<Rightarrow> Time \<Rightarrow> Job \<times> ('r, 'd) Server \<Rightarrow> Job \<times> ('r, 'd) Server" where
  "auto_dispatch repo now js =
     (case js of (job, s) \<Rightarrow>
        if Job_AssignedWorkerID job = [] then (job, s)
        else (case dispatchJobToWorker repo now (Job_ID job) (Job_AssignedWorkerID job) s of
            (Inr dispatched, s) \<Rightarrow> (dispatched, push_job (Job_AssignedWorkerID job) dispatched s)
          | (Inl _, s) \<Rightarrow> (job, s)))"

definition cancel_run :: "'r Repository \<Rightarrow> Time \<Rightarrow> Job \<Rightarrow> ('r, 'd) Server \<Rightarrow> ('r, 'd) Server" where
  "cancel_run repo now job s =
     (case repo_GetAgentRun repo (Job_SourceID job) (Server_repo s) of
        Inl _ \<Rightarrow> s
      | Inr run \<Rightarrow>
          if AgentRun_Status run = AgentRunStatusWaitingApproval
          then let r = snd (repo_UpdateAgentRun repo now
                     (run\<lparr>AgentRun_Status := AgentRunStatusCancelled, AgentRun_Error := ''approval rejected''\<rparr>) (Server_repo s))
               in s\<lparr>Server_repo := snd (repo_AddAgentEvent repo now
                    (zero_AgentEvent\<lparr>AgentEvent_RunID := AgentRun_ID run, AgentEvent_Type := ''approval_rejected'',
                       AgentEvent_Data := [(''job_id'', VStr (Job_ID job))]\<rparr>) r)\<rparr>
          else s)"

definition handleApproveJob ::
  "'r Repository \<Rightarrow> (string \<Rightarrow> ('r, 'd) Server \<Rightarrow> ('r, 'd) Server) \<Rightarrow> Time \<Rightarrow> ('r, 'd) handler" where
  "handleApproveJob repo resume now user r s =
     (let jobID = TrimPrefix (Req_Path r) ''/api/v1/approvals/jobs/''
      in if jobID = [] then (writeError 400 ''job id is required'', s)
         else (case json_Decode approve_fields (Req_Body r) \<lparr>aj_Approved = None, aj_Comment = []\<rparr> of
             Inl e \<Rightarrow> (writeError 400 e, s)
           | Inr req \<Rightarrow>
               (case aj_Approved req of
                  None \<Rightarrow> (writeError 400 ''approved is required'', s)
                | Some approved \<Rightarrow>
                    (case (if approved then repo_ApproveJob repo now jobID (User_Username user) (aj_Comment req) (Server_repo s)
                           else repo_RejectJob repo now jobID (User_Username user) (aj_Comment req) (Server_repo s)) of
                       (Inl e, rp) \<Rightarrow> (writeError 400 e, s\<lparr>Server_repo := rp\<rparr>)
                     | (Inr job, rp) \<Rightarrow>
                         let s = s\<lparr>Server_repo := rp\<rparr>;
                             s = (if Job_ApprovedAt job \<noteq> None
                                  then s\<lparr>Server_agentMetrics := metrics_approval now (Job_CreatedAt job) (Server_agentMetrics s)\<rparr>
                                  else s);
                             (job, s) = (if approved then auto_dispatch repo now (job, s) else (job, s));
                             s = (if approved \<and> Job_SourceID job \<noteq> [] then resume (Job_SourceID job) s else s);
                             s = (if \<not> approved \<and> Job_SourceID job \<noteq> [] then cancel_run repo now job s else s);
                             (job, s) = (if approved then auto_dispatch repo now (job, s) else (job, s))
                         in (writeJSON 200 (Body_job job),
                             recordAudit repo now ''user'' (User_Username user)
                               (if approved then ''job.approval.approved'' else ''job.approval.rejected'') ''job'' (Job_ID job)
                               [(''comment'', VStr (aj_Comment req)), (''source_type'', VStr (Job_SourceType job)),
                                (''source_id'', VStr (Job_SourceID job)), (''status'', VNamed (Job_Status job))] s)))))"

section \<open>Approval decides waiting jobs only\<close>

context job_repository
begin

lemma decision_waiting:
  assumes "inv r"
    and "(if approved then repo_ApproveJob repo now j who c r else repo_RejectJob repo now j who c r) = (Inr job, r')"
  shows "\<exists>old. repo_GetJob repo j r = Inr old \<and> Job_Status old = JobStatusWaitingApproval"
  using assms approve_ok[OF assms(1)] reject_ok[OF assms(1)] by (cases approved) auto

lemma decision_error:
  assumes "inv r"
    and "(if approved then repo_ApproveJob repo now j who c r else repo_RejectJob repo now j who c r) = (Inl e, r')"
  shows "r' = r"
  using assms approve_err[OF assms(1)] reject_err[OF assms(1)] by (cases approved) auto

lemma decision:
  assumes "inv (Server_repo s)" and "handleApproveJob repo resume now user r s = (resp, s')"
  shows "if Resp_Status resp = 200
    then \<exists>old. repo_GetJob repo (TrimPrefix (Req_Path r) ''/api/v1/approvals/jobs/'') (Server_repo s) = Inr old \<and>
      Job_Status old = JobStatusWaitingApproval
    else s' = s"
proof -
  let ?id = "TrimPrefix (Req_Path r) ''/api/v1/approvals/jobs/''"
  let ?req = "json_Decode approve_fields (Req_Body r) \<lparr>aj_Approved = None, aj_Comment = []\<rparr>"
  consider (early) e where "handleApproveJob repo resume now user r s = (writeError 400 e, s)"
    | (call) req approved where "?id \<noteq> []" "?req = Inr req" "aj_Approved req = Some approved"
    by (cases "?id = []"; cases ?req; cases "aj_Approved (projr ?req)") (auto simp: handleApproveJob_def)
  then show ?thesis
  proof cases
    case early
    then show ?thesis using assms(2) by (auto simp: writeError_def writeJSON_def)
  next
    case call
    obtain res rp where decide:
      "(if approved then repo_ApproveJob repo now ?id (User_Username user) (aj_Comment req) (Server_repo s)
        else repo_RejectJob repo now ?id (User_Username user) (aj_Comment req) (Server_repo s)) = (res, rp)" by force
    show ?thesis
    proof (cases res)
      case (Inl e)
      then have "handleApproveJob repo resume now user r s = (writeError 400 e, s)"
        using call decide decision_error[OF assms(1) decide[unfolded Inl]] by (simp add: handleApproveJob_def Let_def)
      then show ?thesis using assms(2) by (auto simp: writeError_def writeJSON_def)
    next
      case (Inr job)
      then have "Resp_Status resp = 200"
        using assms(2) call decide
        by (auto simp: handleApproveJob_def Let_def writeJSON_def split: prod.splits)
      then show ?thesis using decision_waiting[OF assms(1) decide[unfolded Inr]] by simp
    qed
  qed
qed

end


text \<open>A server with one connected worker and one job that waits for approval on it.\<close>

definition waiting_job :: Job where
  "waiting_job = zero_Job\<lparr>Job_Name := ''restart'', Job_WorkerType := ''shell'', Job_Command := ''systemctl restart x'',
     Job_Status := JobStatusWaitingApproval, Job_ApprovalRequired := True, Job_ApprovalStatus := ApprovalStatusPending,
     Job_AssignedWorkerID := ''worker-000001''\<rparr>"

definition waiting_server :: "(MemoryRepository, unit) Server" where
  "waiting_server = demo_server\<lparr>
     Server_repo := snd (Mem_CreateJob 7 waiting_job (snd (Mem_RegisterWorker 5 ''w'' ''shell'' NewMemoryRepository))),
     Server_workerHub := (case hub_register ''worker-000001'' NewHub of Inr (_, h) \<Rightarrow> h | Inl _ \<Rightarrow> NewHub)\<rparr>"

definition approve_request :: Request where
  "approve_request = demo_request ''POST'' ''/api/v1/approvals/jobs/job-000002'' (json_print (JObj [(''approved'', JBool True)]))"

definition approved_server :: "Response \<times> (MemoryRepository, unit) Server" where
  "approved_server = handleApproveJob memory_repository (\<lambda>_ s. s) 9 \<lparr>User_Username = ''root'', User_Role = ''admin''\<rparr>
     approve_request waiting_server"

lemma waiting_server_ok: "mem_ok (Server_repo waiting_server)"
proof -
  let ?r = "snd (Mem_RegisterWorker 5 ''w'' ''shell'' NewMemoryRepository)"
  have "Mem_store ?r = snd (RegisterWorker 5 ''w'' ''shell'' (Mem_store NewMemoryRepository))" by code_simp
  then have ok: "mem_ok ?r" using NewMemoryRepository_ok RegisterWorker_ok by (simp add: mem_ok_def)
  have room: "id_room (Mem_store ?r)" by code_simp
  have "snd (Mem_CreateJob 7 waiting_job ?r) = record_key waiting_job (fst (create_entry 7 waiting_job ?r)) (snd (create_entry 7 waiting_job ?r))"
    by code_simp
  then show ?thesis using create_entry_spec[OF ok room prod.collapse[symmetric]]
    by (simp add: waiting_server_def record_key_def waiting_job_def zero_Job_def mem_ok_def)
qed


text \<open>The dispatch of an approved job is written twice in the handler: one approval sends the command of the job
  to its worker twice.\<close>

lemma approval_pushes_twice:
  "let sent = ServerEnvelope_Job (Some (jobToProto (waiting_job\<lparr>Job_ID := ''job-000002''\<rparr>)))
   in Resp_Status (fst approved_server) = 200 \<and>
      Chan_buffer (chan_at (Server_workerHub (snd approved_server)) 0) = [sent, sent]"
  by code_simp

text \<open>A job that is neither pending nor queued, such as one that waits for approval, cannot be dispatched by
  request: the answer is an error and the server is unchanged.\<close>

lemma dispatch_respects_status:
  assumes "repo_GetJob repo (TrimSuffix (TrimPrefix (Req_Path r) ''/api/v1/jobs/'') ''/dispatch'') (Server_repo s) = Inr job"
    and "Job_Status job \<noteq> JobStatusPending" "Job_Status job \<noteq> JobStatusQueued"
  shows "\<exists>e. handleDispatchJob repo now user r s = (writeError 400 e, s)"
  using assms by (auto simp: handleDispatchJob_def Let_def split: sum.splits)

theorem dispatch_respects_status_witness:
  "\<exists>e. handleDispatchJob memory_repository 9 zero_User
     (demo_request ''POST'' ''/api/v1/jobs/job-000002/dispatch'' []) waiting_server = (writeError 400 e, waiting_server)"
proof -
  have path: "TrimSuffix (TrimPrefix ''/api/v1/jobs/job-000002/dispatch'' ''/api/v1/jobs/'') ''/dispatch'' = ''job-000002''"
    by code_simp
  have "map_option Job_Status (case Mem_GetJob ''job-000002'' (Server_repo waiting_server) of Inr j \<Rightarrow> Some j | Inl _ \<Rightarrow> None) =
      Some JobStatusWaitingApproval" by code_simp
  then obtain job where "Mem_GetJob ''job-000002'' (Server_repo waiting_server) = Inr job"
      "Job_Status job = JobStatusWaitingApproval" by (auto split: sum.splits)
  then show ?thesis
    using dispatch_respects_status[of memory_repository "demo_request ''POST'' ''/api/v1/jobs/job-000002/dispatch'' []"
        waiting_server job 9 zero_User]
    by (simp add: demo_request_def path memory_repository_def)
qed

end
