(* ===== verification/Http_Agent.thy ===== *)
theory Http_Agent
  imports Http_Jobs
begin

text \<open>
  The tools of the agent, \<open>internal/interfaces/http/agent.go\<close>: searching incident cases, reading workers and jobs,
  and creating module operations. A tool takes the JSON text of its arguments and returns the result and the
  error. \<open>other\<close> is the part of \<open>text/template\<close> outside the modelled fragment.
\<close>

section \<open>Identifiers\<close>

fun unique_ids :: "string list \<Rightarrow> string list \<Rightarrow> string list" where
  "unique_ids seen [] = []"
| "unique_ids seen (ident # ids) =
     (let ident = TrimSpace ident
      in if ident = [] \<or> ident \<in> set seen then unique_ids seen ids else ident # unique_ids (ident # seen) ids)"

definition collectIDs :: "string \<Rightarrow> string list \<Rightarrow> string \<Rightarrow> string list res" where
  "collectIDs single plural fieldName =
     (let ids = (if single \<noteq> [] then single # plural else plural);
          missing = Inl (''at least one of '' @ fieldName @ '' or '' @ fieldName @ ''s is required'')
      in if length ids = 0 then missing
         else let unique = unique_ids [] ids in if length unique = 0 then missing else Inr unique)"

definition agentJobIdempotencyKey :: "ctx \<Rightarrow> string \<Rightarrow> string" where
  "agentJobIdempotencyKey c workerID =
     (if Ctx_RunID c = [] \<or> Ctx_ToolCallID c = [] then []
      else Ctx_RunID c @ '':'' @ Ctx_ToolCallID c @ '':'' @ workerID)"

section \<open>Reading\<close>

type_synonym tool_out = "goval \<times> error option"

definition failed_call :: "error \<Rightarrow> tool_out" where
  "failed_call e = (VNil, Some e)"

definition list_capabilities :: "('r, 'd) Server \<Rightarrow> tool_out" where
  "list_capabilities s =
     (VMaps (map (\<lambda>m. [(''code'', VStr (mod_Code m)), (''name'', VStr (mod_Name m)),
          (''description'', VStr (mod_Description m)), (''worker_type'', VStr (mod_ToolType m)),
          (''risk_level'', VNamed (mod_RiskLevel m)), (''parameters'', VParams (mod_Parameters m))])
        (filter (\<lambda>m. \<not> isl (ValidateTemplate (Server_policyEng s) (mod_Code m))) (Registry_List (Server_moduleReg s)))),
      None)"

definition listWorkers :: "'r Repository \<Rightarrow> ('r, 'd) Server \<Rightarrow> tool_out" where
  "listWorkers repo s =
     (case repo_ListWorkers repo (Server_repo s) of
        Inl e \<Rightarrow> failed_call e
      | Inr workers \<Rightarrow>
          (VMap [(''workers'', VMaps (map (\<lambda>wk. [(''id'', VStr (Worker_ID wk)), (''name'', VStr (Worker_Name wk)),
               (''type'', VStr (Worker_WorkerType wk)), (''status'', VNamed (Worker_Status wk)),
               (''last_heartbeat_at'', VTime (Worker_LastHeartbeatAt wk))]) workers)),
             (''total'', VInt (int (length workers)))], None))"

record facts_input =
  facts_WorkerID :: string
  facts_WorkerIDs :: "string list"

definition facts_fields :: "facts_input field_decoder list" where
  "facts_fields = [struct_field ''worker_id'' decode_string facts_WorkerID facts_WorkerID_update,
     struct_field ''worker_ids'' decode_strings facts_WorkerIDs facts_WorkerIDs_update]"

definition worker_facts :: "'r Repository \<Rightarrow> ('r, 'd) Server \<Rightarrow> string \<Rightarrow> details" where
  "worker_facts repo s wid =
     (case repo_GetWorker repo wid (Server_repo s) of
        Inl e \<Rightarrow> [(''worker_id'', VStr wid), (''error'', VStr e)]
      | Inr wk \<Rightarrow> [(''worker_id'', VStr wid), (''name'', VStr (Worker_Name wk)), (''type'', VStr (Worker_WorkerType wk)),
          (''status'', VNamed (Worker_Status wk)), (''last_heartbeat_at'', VTime (Worker_LastHeartbeatAt wk)),
          (''host_info'', VHostInfo (Worker_HostInfo wk))])"

definition getWorkerFacts :: "'r Repository \<Rightarrow> string \<Rightarrow> ('r, 'd) Server \<Rightarrow> tool_out" where
  "getWorkerFacts repo raw s =
     (case json_Unmarshal facts_fields raw \<lparr>facts_WorkerID = [], facts_WorkerIDs = []\<rparr> of
        Inl e \<Rightarrow> failed_call e
      | Inr inp \<Rightarrow>
          (case collectIDs (facts_WorkerID inp) (facts_WorkerIDs inp) ''worker_id'' of
             Inl e \<Rightarrow> failed_call e
           | Inr ids \<Rightarrow>
               (VMap [(''workers'', VMaps (map (worker_facts repo s) ids)), (''total'', VInt (int (length ids)))], None)))"

record result_input =
  result_JobID :: string
  result_JobIDs :: "string list"

definition result_fields :: "result_input field_decoder list" where
  "result_fields = [struct_field ''job_id'' decode_string result_JobID result_JobID_update,
     struct_field ''job_ids'' decode_strings result_JobIDs result_JobIDs_update]"

definition truncateAgentOutput :: "string \<Rightarrow> string" where
  "truncateAgentOutput value = SanitizeText value"

definition job_entry :: "Job res \<Rightarrow> string \<Rightarrow> details" where
  "job_entry found jid =
     (case found of
        Inl e \<Rightarrow> [(''job_id'', VStr jid), (''error'', VStr e)]
      | Inr job \<Rightarrow> [(''job_id'', VStr (Job_ID job)), (''worker_id'', VStr (Job_AssignedWorkerID job)),
          (''status'', VNamed (Job_Status job)), (''success'', VBool (Job_Status job = JobStatusSuccess)),
          (''output'', VStr (truncateAgentOutput (Job_Output job)))])"

text \<open>The counter a job adds to.\<close>

definition job_class :: "Job res \<Rightarrow> string" where
  "job_class found =
     (case found of
        Inl _ \<Rightarrow> ''failed''
      | Inr job \<Rightarrow>
          if Job_Status job = JobStatusSuccess then ''succeeded''
          else if Job_Status job = JobStatusFailed \<or> Job_Status job = JobStatusCancelled then ''failed''
          else if Job_Status job \<in> {JobStatusPending, JobStatusQueued, JobStatusWaitingApproval} then ''pending''
          else if Job_Status job = JobStatusRunning then ''running'' else [])"

definition count_class :: "string \<Rightarrow> Job res list \<Rightarrow> string \<times> int" where
  "count_class c found = (c, int (length (filter (\<lambda>f. job_class f = c) found)))"

definition getJobResult :: "'r Repository \<Rightarrow> string \<Rightarrow> ('r, 'd) Server \<Rightarrow> tool_out" where
  "getJobResult repo raw s =
     (case json_Unmarshal result_fields raw \<lparr>result_JobID = [], result_JobIDs = []\<rparr> of
        Inl e \<Rightarrow> failed_call e
      | Inr inp \<Rightarrow>
          (case collectIDs (result_JobID inp) (result_JobIDs inp) ''job_id'' of
             Inl e \<Rightarrow> failed_call e
           | Inr ids \<Rightarrow>
               let found = map (\<lambda>jid. repo_GetJob repo jid (Server_repo s)) ids
               in (VMap [(''results'', VMaps (map2 job_entry found ids)), (''total'', VInt (int (length ids))),
                    (''summary'', VCounts (map (\<lambda>c. count_class c found) [''succeeded'', ''failed'', ''pending'', ''running'']))],
                   None)))"

section \<open>Incident cases\<close>

record search_input =
  search_Query :: string
  search_TriggerType :: string
  search_FaultType :: string
  search_EnvironmentTags :: "string list"
  search_Limit :: int

definition search_fields :: "search_input field_decoder list" where
  "search_fields =
     [struct_field ''query'' decode_string search_Query search_Query_update,
      struct_field ''trigger_type'' decode_string search_TriggerType search_TriggerType_update,
      struct_field ''fault_type'' decode_string search_FaultType search_FaultType_update,
      struct_field ''environment_tags'' decode_strings search_EnvironmentTags search_EnvironmentTags_update,
      struct_field ''limit'' decode_int search_Limit search_Limit_update]"

definition maxIncidentToolFieldLength :: nat where
  "maxIncidentToolFieldLength = 800"

definition ellipsis_truncated :: string where
  "ellipsis_truncated = [CHR 0xE2, CHR 0x80, CHR 0xA6] @ ''[truncated]''"

definition caseToolText :: "string \<Rightarrow> string" where
  "caseToolText value =
     (let value = SanitizeText value
      in if length value > maxIncidentToolFieldLength
         then take maxIncidentToolFieldLength value @ ellipsis_truncated else value)"

definition caseToolStrings :: "string list \<Rightarrow> string list" where
  "caseToolStrings vs = map caseToolText vs"

definition case_item :: "IncidentCase \<Rightarrow> details" where
  "case_item c =
     (let alertSymptoms = (if IncidentCase_AlertSymptoms c = [] then IncidentCase_Summary c else IncidentCase_AlertSymptoms c);
          evidenceSummary = (if IncidentCase_EvidenceSummary c = [] then IncidentCase_Summary c else IncidentCase_EvidenceSummary c);
          rootCause = (if IncidentCase_RootCause c = [] \<and> length (IncidentCase_PossibleCauses c) > 0
                       then IncidentCase_PossibleCauses c ! 0 else IncidentCase_RootCause c);
          resolutionSteps = (if length (IncidentCase_ResolutionSteps c) = 0
                             then IncidentCase_Suggestions c else IncidentCase_ResolutionSteps c)
      in [(''source_id'', VStr (IncidentCase_ID c)), (''alert_symptoms'', VStr (caseToolText alertSymptoms)),
          (''environment_tags'', VStrs (IncidentCase_EnvironmentTags c)),
          (''evidence_summary'', VStr (caseToolText evidenceSummary)), (''root_cause'', VStr (caseToolText rootCause)),
          (''resolution_steps'', VStrs (caseToolStrings resolutionSteps)),
          (''resolution_result'', VStr (caseToolText (IncidentCase_ResolutionResult c))),
          (''disclaimer'', VStr (''Historical reference only; verify against this run'' @ [CHR 0x27] @
             ''s tools before treating it as a current fact.''))])"

definition searchIncidentCases :: "'r Repository \<Rightarrow> string \<Rightarrow> ('r, 'd) Server \<Rightarrow> tool_out" where
  "searchIncidentCases repo raw s =
     (case json_Unmarshal search_fields raw \<lparr>search_Query = [], search_TriggerType = [], search_FaultType = [],
             search_EnvironmentTags = [], search_Limit = 0\<rparr> of
        Inl e \<Rightarrow> failed_call e
      | Inr inp \<Rightarrow>
          let q = TrimSpace (search_Query inp); tt = TrimSpace (search_TriggerType inp); ft = TrimSpace (search_FaultType inp);
              limit = (if search_Limit inp \<le> 0 \<or> search_Limit inp > 5 then 3 else search_Limit inp)
          in if q = [] \<and> tt = [] \<and> ft = [] \<and> length (search_EnvironmentTags inp) = 0
             then failed_call ''query, trigger_type, fault_type, or environment_tags is required''
             else (case repo_ListIncidentCases repo \<lparr>IncidentCaseFilter_Query = q, IncidentCaseFilter_TriggerType = tt,
                     IncidentCaseFilter_FaultType = ft, IncidentCaseFilter_EnvironmentTags = search_EnvironmentTags inp,
                     IncidentCaseFilter_Limit = limit\<rparr> (Server_repo s) of
                 Inl e \<Rightarrow> failed_call e
               | Inr cases \<Rightarrow>
                   (VMap [(''cases'', VMaps (map case_item cases)), (''source'', VStr ''historical_incident_cases''),
                      (''historical_only'', VBool True)], None)))"

section \<open>Module operations\<close>

record operation_input =
  op_ModuleCode :: string
  op_WorkerID :: string
  op_WorkerIDs :: "string list"
  op_Parameters :: "(string, string) gomap option"
  op_Reason :: string

definition operation_fields :: "operation_input field_decoder list" where
  "operation_fields =
     [struct_field ''module_code'' decode_string op_ModuleCode op_ModuleCode_update,
      struct_field ''worker_id'' decode_string op_WorkerID op_WorkerID_update,
      struct_field ''worker_ids'' decode_strings op_WorkerIDs op_WorkerIDs_update,
      struct_field ''parameters'' decode_string_map op_Parameters op_Parameters_update,
      struct_field ''reason'' decode_string op_Reason op_Reason_update]"

definition zero_operation :: operation_input where
  "zero_operation = \<lparr>op_ModuleCode = [], op_WorkerID = [], op_WorkerIDs = [], op_Parameters = None, op_Reason = []\<rparr>"

text \<open>Reading a nil map gives the zero value; writing to one panics.\<close>

definition map_read :: "(string, string) gomap option \<Rightarrow> string \<Rightarrow> string" where
  "map_read m k = (case m of None \<Rightarrow> [] | Some m \<Rightarrow> param m k)"

definition nil_map_panic :: error where
  "nil_map_panic = ''assignment to entry in nil map''"

text \<open>A computation that can panic or return an error: \<open>Inl\<close> is the panic.\<close>

type_synonym 'a panics = "error + 'a"

fun fill_params ::
  "TemplateParam list \<Rightarrow> (string, string) gomap option \<Rightarrow> (string, string) gomap option res panics" where
  "fill_params [] m = Inr (Inr m)"
| "fill_params (p # ps) m =
     (let name = TemplateParam_Name p; defaults = (map_read m name = [] \<and> TemplateParam_Default p \<noteq> [])
      in if defaults \<and> m = None then Inl nil_map_panic
         else let m = (if defaults then map_option (AList.update name (TemplateParam_Default p)) m else m)
         in if TemplateParam_Required p \<and> map_read m name = []
            then Inr (Inl (''required module parameter missing: '' @ name))
            else fill_params ps m)"

text \<open>A service profile hides the unit the model may have named.\<close>

definition pin_unit :: "(string, string) gomap option \<Rightarrow> (string, string) gomap option" where
  "pin_unit m =
     (if map_read m ''ServiceProfile'' \<noteq> []
      then map_option (\<lambda>m. AList.update ''Unit'' ''worker-local-profile'' (AList.delete ''Unit'' m)) m else m)"

definition entries :: "(string, string) gomap option \<Rightarrow> (string, string) gomap" where
  "entries m = (case m of None \<Rightarrow> [] | Some m \<Rightarrow> m)"

text \<open>What is settled before any worker is looked at.\<close>

record plan =
  plan_module :: Module
  plan_workers :: "string list"
  plan_params :: "(string, string) gomap"
  plan_command :: string
  plan_risk :: RiskLevel
  plan_approval :: bool

definition validate_operation :: "tpl_other \<Rightarrow> operation_input \<Rightarrow> ('r, 'd) Server \<Rightarrow> plan res panics" where
  "validate_operation other inp s =
     (if op_ModuleCode inp = [] \<or> op_Reason inp = [] then Inr (Inl ''module_code and reason are required'')
      else (case collectIDs (op_WorkerID inp) (op_WorkerIDs inp) ''worker_id'' of
          Inl e \<Rightarrow> Inr (Inl e)
        | Inr workerIDs \<Rightarrow>
      (case ValidateNoInlineSecrets (entries (op_Parameters inp)) of
          Inl e \<Rightarrow> Inr (Inl e)
        | Inr _ \<Rightarrow>
      (case ValidateServiceProfile (op_ModuleCode inp) (entries (op_Parameters inp)) of
          Inl e \<Rightarrow> Inr (Inl e)
        | Inr _ \<Rightarrow>
      (case Registry_Get (op_ModuleCode inp) (Server_moduleReg s) of
          Inl e \<Rightarrow> Inr (Inl e)
        | Inr m \<Rightarrow>
      (case ValidateTemplate (Server_policyEng s) (op_ModuleCode inp) of
          Inl e \<Rightarrow> Inr (Inl e)
        | Inr _ \<Rightarrow>
      (case fill_params (mod_Parameters m) (pin_unit (op_Parameters inp)) of
          Inl p \<Rightarrow> Inl p
        | Inr (Inl e) \<Rightarrow> Inr (Inl e)
        | Inr (Inr params) \<Rightarrow>
      (case mod_DryRun other m \<lparr>ExecContext_Params = entries params, ExecContext_WorkerInfo = zero_HostInfo,
              ExecContext_Timeout = 0, ExecContext_Service = None\<rparr> of
          (_, Some e) \<Rightarrow> Inr (Inl (''render template '' @ op_ModuleCode inp @ '': '' @ e))
        | (rendered, None) \<Rightarrow>
            let risk = MergeRisk [mod_RiskLevel m]
            in Inr (Inr \<lparr>plan_module = m, plan_workers = workerIDs, plan_params = entries params,
                 plan_command = Result_Output rendered, plan_risk = risk,
                 plan_approval = RequiresManualApproval (Server_policyEng s) risk\<rparr>)))))))))"

text \<open>A worker that cannot run the module, described for the model.\<close>

definition worker_problem :: "'r Repository \<Rightarrow> Module \<Rightarrow> string \<Rightarrow> ('r, 'd) Server \<Rightarrow> string \<Rightarrow> details option" where
  "worker_problem repo m code s wid =
     (case repo_GetWorker repo wid (Server_repo s) of
        Inl e \<Rightarrow> Some [(''worker_id'', VStr wid), (''error'', VStr e)]
      | Inr wk \<Rightarrow>
          if WorkerCanRunType (Worker_WorkerType wk) (mod_ToolType m) then None
          else Some [(''worker_id'', VStr wid), (''worker_type'', VStr (Worker_WorkerType wk)),
            (''required_type'', VStr (mod_ToolType m)),
            (''error'', VStr (''worker '' @ wid @ '' type '' @ Worker_WorkerType wk @ '' cannot run module '' @ code @
               '' (requires '' @ mod_ToolType m @ '')''))])"

definition operation_job :: "ctx \<Rightarrow> operation_input \<Rightarrow> plan \<Rightarrow> string \<Rightarrow> Job" where
  "operation_job c inp p wid =
     zero_Job\<lparr>Job_Name := ''[agent][worker:'' @ wid @ ''] '' @ op_Reason inp, Job_WorkerType := mod_ToolType (plan_module p),
       Job_Command := plan_command p,
       Job_Status := (if plan_approval p then JobStatusWaitingApproval else JobStatusPending),
       Job_RiskLevel := plan_risk p, Job_ApprovalRequired := plan_approval p,
       Job_ApprovalStatus := (if plan_approval p then ApprovalStatusPending else ApprovalStatusNotRequired),
       Job_TemplateCode := op_ModuleCode inp, Job_Parameters := clone_map (plan_params p), Job_SourceType := ''agent'',
       Job_SourceID := Ctx_RunID c, Job_IdempotencyKey := agentJobIdempotencyKey c wid, Job_AssignedWorkerID := wid\<rparr>"

definition entry_error :: "string \<Rightarrow> error \<Rightarrow> details" where
  "entry_error wid e = [(''worker_id'', VStr wid), (''error'', VStr e)]"

definition create_operation ::
  "'r Repository \<Rightarrow> Time \<Rightarrow> ctx \<Rightarrow> operation_input \<Rightarrow> plan \<Rightarrow> string \<Rightarrow> ('r, 'd) Server \<Rightarrow> details \<times> ('r, 'd) Server" where
  "create_operation repo now c inp p wid s =
     (case create_job repo now (operation_job c inp p wid) s of
        (Inl e, s) \<Rightarrow> (entry_error wid e, s)
      | (Inr created, s) \<Rightarrow>
          let entry = (\<lambda>status. [(''job_id'', VStr (Job_ID created)), (''worker_id'', VStr wid), (''status'', VNamed status),
                (''approval_required'', VBool (plan_approval p)), (''module_code'', VStr (op_ModuleCode inp))])
          in if plan_approval p then (entry (Job_Status created), s)
             else (case dispatchJobToWorker repo now (Job_ID created) wid s of
                 (Inl e, s) \<Rightarrow> (entry_error wid e, s)
               | (Inr dispatched, s) \<Rightarrow> (entry (Job_Status dispatched), push_job wid dispatched s)))"

fun create_operations ::
  "'r Repository \<Rightarrow> Time \<Rightarrow> ctx \<Rightarrow> operation_input \<Rightarrow> plan \<Rightarrow> string list \<Rightarrow> ('r, 'd) Server \<Rightarrow> details list \<times> ('r, 'd) Server" where
  "create_operations repo now c inp p [] s = ([], s)"
| "create_operations repo now c inp p (wid # wids) s =
     (case create_operation repo now c inp p wid s of (j, s) \<Rightarrow>
        (case create_operations repo now c inp p wids s of (js, s) \<Rightarrow> (j # js, s)))"

definition createModuleOperation ::
  "'r Repository \<Rightarrow> tpl_other \<Rightarrow> Time \<Rightarrow> ctx \<Rightarrow> string \<Rightarrow> ('r, 'd) Server \<Rightarrow> tool_out panics \<times> ('r, 'd) Server" where
  "createModuleOperation repo other now c raw s =
     (case json_Unmarshal operation_fields raw zero_operation of
        Inl e \<Rightarrow> (Inr (failed_call e), s)
      | Inr inp \<Rightarrow>
          (case validate_operation other inp s of
             Inl panic \<Rightarrow> (Inl panic, s)
           | Inr (Inl e) \<Rightarrow> (Inr (failed_call e), s)
           | Inr (Inr p) \<Rightarrow>
               let problem = worker_problem repo (plan_module p) (op_ModuleCode inp) s;
                   problems = List.map_filter problem (plan_workers p);
                   compatible = filter (\<lambda>wid. problem wid = None) (plan_workers p)
               in if length compatible = 0
                  then (Inr (failed_call (''no compatible workers for module '' @ quoted (op_ModuleCode inp) @ '' (type '' @
                         mod_ToolType (plan_module p) @ ''): '' @ dec (length problems) @ '' validation errors'')), s)
                  else (case create_operations repo now c inp p compatible s of
                      (jobs, s) \<Rightarrow>
                        (Inr (VMap [(''jobs'', VMaps jobs), (''total'', VInt (int (length jobs))),
                           (''summary'', VMap [(''dispatched'', VInt (int (length (filter (\<lambda>j. map_of j ''error'' = None \<and>
                                \<not> plan_approval p) jobs)))), (''failed_validation'', VInt (int (length problems))),
                              (''approval_required'', VBool (plan_approval p))]),
                           (''validation_errors'', VMaps problems)], None), s))))"

section \<open>What an operation may create\<close>

lemma create_job_repo:
  "create_job repo now job s = (res, s') \<Longrightarrow>
   repo_CreateJob repo now job (Server_repo s) = (res, Server_repo s') \<and> Server_workerHub s' = Server_workerHub s"
  by (auto simp: create_job_def split: prod.splits)

lemma push_job_repo [simp]: "Server_repo (push_job wid job s) = Server_repo s"
  by (auto simp: push_job_def split: sum.splits prod.splits)

context job_writes
begin

lemma traced_dispatch:
  "dispatchJobToWorker repo now j wid s = (res, s') \<Longrightarrow> traced P (Server_repo s) (Server_repo s')"
  by (auto simp: dispatchJobToWorker_def intro: traced_assign split: prod.splits sum.splits)

lemma create_operation_traced:
  assumes closed: "\<And>a b. same_work a b \<Longrightarrow> P b \<Longrightarrow> P a" and work: "P (operation_job c inp p wid)"
    and step: "create_operation repo now c inp p wid s = (j, s')"
  shows "traced P (Server_repo s) (Server_repo s')"
proof -
  obtain res s1 where create: "create_job repo now (operation_job c inp p wid) s = (res, s1)" by force
  have t1: "traced P (Server_repo s) (Server_repo s1)"
    using traced_create[OF conjunct1[OF create_job_repo[OF create]]] closed work by blast
  show ?thesis
  proof (cases res)
    case (Inl e)
    then show ?thesis using t1 step create by (simp add: create_operation_def)
  next
    case (Inr created)
    obtain out s2 where dispatch: "dispatchJobToWorker repo now (Job_ID created) wid s1 = (out, s2)" by force
    have "traced P (Server_repo s) (Server_repo s2)"
      by (rule traced_trans[where P = P, OF t1 traced_dispatch[OF dispatch] closed])
    then show ?thesis using t1 step create dispatch Inr
      by (cases out) (auto simp: create_operation_def Let_def split: if_splits)
  qed
qed

lemma create_operations_traced:
  assumes closed: "\<And>a b. same_work a b \<Longrightarrow> P b \<Longrightarrow> P a" and work: "\<And>wid. P (operation_job c inp p wid)"
  shows "create_operations repo now c inp p wids s = (js, s') \<Longrightarrow> traced P (Server_repo s) (Server_repo s')"
proof (induction wids arbitrary: s js)
  case (Cons wid wids)
  obtain j s1 where s1: "create_operation repo now c inp p wid s = (j, s1)" by force
  obtain js2 where s2: "create_operations repo now c inp p wids s1 = (js2, s')"
    using Cons.prems s1 by (auto split: prod.splits)
  show ?case
    by (rule traced_trans[where P = P, OF create_operation_traced[where P = P, OF closed work s1] Cons.IH[OF s2] closed])
qed simp

text \<open>When the operation needs approval nothing is dispatched.\<close>

lemma create_operations_wait:
  assumes approval: "plan_approval p"
  shows "create_operations repo now c inp p wids s = (js, s') \<Longrightarrow> Server_workerHub s' = Server_workerHub s \<and>
    (\<forall>j new. repo_GetJob repo j (Server_repo s') = Inr new \<longrightarrow>
       repo_GetJob repo j (Server_repo s) = Inr new \<or> Job_Status new = JobStatusWaitingApproval)"
proof (induction wids arbitrary: s js)
  case (Cons wid wids)
  obtain res s1 where create: "create_job repo now (operation_job c inp p wid) s = (res, s1)" by force
  obtain j where s1: "create_operation repo now c inp p wid s = (j, s1)"
    using create approval by (cases res) (auto simp: create_operation_def Let_def)
  have waiting: "Job_Status (operation_job c inp p wid) = JobStatusWaitingApproval"
    using approval by (simp add: operation_job_def)
  have first: "repo_GetJob repo j (Server_repo s1) = Inr new \<Longrightarrow>
      repo_GetJob repo j (Server_repo s) = Inr new \<or> Job_Status new = JobStatusWaitingApproval" for j new
    using create_frame[OF conjunct1[OF create_job_repo[OF create]], of j new] waiting by auto
  obtain js2 where s2: "create_operations repo now c inp p wids s1 = (js2, s')"
    using Cons.prems s1 by (auto split: prod.splits)
  show ?case using Cons.IH[OF s2] first create_job_repo[OF create] by metis
qed simp

end

text \<open>The work of a job comes from a registered and authorised module: its command is what the module renders.\<close>

definition module_work :: "tpl_other \<Rightarrow> ('r, 'd) Server \<Rightarrow> Job \<Rightarrow> bool" where
  "module_work other s job \<longleftrightarrow>
     (\<exists>m params rendered. Registry_Get (Job_TemplateCode job) (Server_moduleReg s) = Inr m \<and>
        ValidateTemplate (Server_policyEng s) (Job_TemplateCode job) = Inr () \<and>
        mod_DryRun other m \<lparr>ExecContext_Params = params, ExecContext_WorkerInfo = zero_HostInfo, ExecContext_Timeout = 0,
          ExecContext_Service = None\<rparr> = (rendered, None) \<and>
        Job_Command job = Result_Output rendered \<and> Job_WorkerType job = mod_ToolType m)"

lemma module_work_same: "same_work a b \<Longrightarrow> module_work other s b \<Longrightarrow> module_work other s a"
  by (auto simp: module_work_def same_work_def)

lemma validate_operation_work:
  assumes "validate_operation other inp s = Inr (Inr p)"
  shows "module_work other s (operation_job c inp p wid)"
proof -
  from assms obtain m params rendered where
    "Registry_Get (op_ModuleCode inp) (Server_moduleReg s) = Inr m"
    "ValidateTemplate (Server_policyEng s) (op_ModuleCode inp) = Inr ()"
    "mod_DryRun other m \<lparr>ExecContext_Params = params, ExecContext_WorkerInfo = zero_HostInfo, ExecContext_Timeout = 0,
       ExecContext_Service = None\<rparr> = (rendered, None)"
    "plan_command p = Result_Output rendered" "plan_module p = m"
    by (auto simp: validate_operation_def Let_def split: if_splits sum.splits prod.splits option.splits)
  then show ?thesis unfolding module_work_def operation_job_def by auto
qed

lemma createModuleOperation_cases:
  assumes "createModuleOperation repo other now c raw s = (out, s')"
  obtains "s' = s"
  | inp p wids js where "json_Unmarshal operation_fields raw zero_operation = Inr inp"
      "validate_operation other inp s = Inr (Inr p)" "create_operations repo now c inp p wids s = (js, s')"
  using assms
  by (auto simp: createModuleOperation_def Let_def split: sum.splits if_splits prod.splits)

lemma mem_get: "repo_GetJob memory_repository = Mem_GetJob"
  by (simp add: memory_repository_def)

text \<open>The agent cannot run a command of its own: after a module operation every job in the repository either
  was there before with the same command, or runs exactly what a registered module, authorised by the policy,
  renders, on the worker type of that module.\<close>

context job_writes
begin

lemma operation_traced:
  assumes "createModuleOperation repo other now c raw s = (out, s')"
  shows "traced (module_work other s) (Server_repo s) (Server_repo s')"
proof (rule createModuleOperation_cases[OF assms])
  fix inp p wids js
  assume p: "validate_operation other inp s = Inr (Inr p)" and js: "create_operations repo now c inp p wids s = (js, s')"
  show ?thesis
    by (rule create_operations_traced[where P = "module_work other s", OF _ validate_operation_work[OF p] js])
      (rule module_work_same)
qed simp

end

lemma agent_runs_modules_only:
  assumes "createModuleOperation memory_repository other now c raw s = (out, s')"
    and "Mem_GetJob j (Server_repo s') = Inr new"
  shows "(\<exists>old. Mem_GetJob j (Server_repo s) = Inr old \<and> same_work new old) \<or> module_work other s new"
  using mem_writes.operation_traced[OF assms(1)] assms(2) by (simp add: mem_writes.traced_def mem_get)

text \<open>C11. When the policy asks for approval at the risk level of the module, an operation dispatches nothing: no
  message is put into the channel of any worker and every job that is new waits for approval.\<close>

theorem risky_operations_wait:
  assumes "createModuleOperation memory_repository other now c raw s = (out, s')"
    and "json_Unmarshal operation_fields raw zero_operation = Inr inp"
    and "Registry_Get (op_ModuleCode inp) (Server_moduleReg s) = Inr m"
    and "RequiresManualApproval (Server_policyEng s) (MergeRisk [mod_RiskLevel m])"
  shows "Server_workerHub s' = Server_workerHub s \<and>
    (\<forall>j new. Mem_GetJob j (Server_repo s') = Inr new \<longrightarrow>
       Mem_GetJob j (Server_repo s) = Inr new \<or> Job_Status new = JobStatusWaitingApproval)"
proof (rule createModuleOperation_cases[OF assms(1)])
  assume "s' = s"
  then show ?thesis by simp
next
  fix inp' p wids js
  assume inp: "json_Unmarshal operation_fields raw zero_operation = Inr inp'"
    and p: "validate_operation other inp' s = Inr (Inr p)"
    and js: "create_operations memory_repository now c inp' p wids s = (js, s')"
  have "plan_approval p" using p assms(2-4) inp
    by (auto simp: validate_operation_def Let_def split: if_splits sum.splits prod.splits option.splits)
  then show ?thesis using mem_writes.create_operations_wait[OF _ js] by (simp add: mem_get)
qed

section \<open>Examples\<close>

text \<open>A server with a harmless module that every policy allows, a risky one, and one connected worker.\<close>

definition du_template :: CommandTemplate where
  "du_template = df_template\<lparr>CommandTemplate_Code := ''du'', CommandTemplate_Command := ''du -s {{.Path}}'',
     CommandTemplate_Parameters := [\<lparr>TemplateParam_Name = ''Path'', TemplateParam_Description = [],
       TemplateParam_Required = True, TemplateParam_Default = ''/var''\<rparr>],
     CommandTemplate_RiskLevel := RiskLevelHigh\<rparr>"

definition agent_server :: "(MemoryRepository, unit) Server" where
  "agent_server = demo_server\<lparr>
     Server_repo := snd (Mem_RegisterWorker 5 ''w'' ''shell'' NewMemoryRepository),
     Server_workerHub := (case hub_register ''worker-000001'' NewHub of Inr (_, h) \<Rightarrow> h | Inl _ \<Rightarrow> NewHub),
     Server_moduleReg := Registry_Register (TemplateModule du_template) (Registry_Register (TemplateModule df_template) NewRegistry),
     Server_policyEng := Configure [] [''disk'', ''du''] [] [RiskLevelHigh] Policy_NewEngine\<rparr>"

definition operation_args :: "string \<Rightarrow> (string \<times> jval) list \<Rightarrow> string" where
  "operation_args code params = json_print (JObj ([(''module_code'', JStr code), (''worker_id'', JStr ''worker-000001''),
     (''reason'', JStr ''check'')] @ params))"

definition run_operation :: "string \<Rightarrow> (string \<times> jval) list \<Rightarrow> tool_out panics \<times> (MemoryRepository, unit) Server" where
  "run_operation code params = createModuleOperation memory_repository (\<lambda>s p. Tpl_exec_error []) 9
     \<lparr>Ctx_RunID = ''run-1'', Ctx_ToolCallID = ''call-1''\<rparr> (operation_args code params) agent_server"

definition path_param :: "string \<Rightarrow> (string \<times> jval) list" where
  "path_param v = [(''parameters'', JObj [(''Path'', JStr v)])]"


text \<open>When the model leaves the parameters out and the module has a default value, the handler writes to a nil map
  and panics.\<close>

lemma missing_parameters_panic:
  "fst (run_operation ''du'' []) = Inl nil_map_panic"
  by code_simp

theorem agent_runs_modules_only_witness:
  "\<exists>new. Mem_GetJob ''job-000002'' (Server_repo (snd (run_operation ''disk'' (path_param ''/'')))) = Inr new \<and>
     module_work (\<lambda>s p. Tpl_exec_error []) agent_server new"
proof -
  let ?s = "snd (run_operation ''disk'' (path_param ''/''))"
  have "\<not> isl (Mem_GetJob ''job-000002'' (Server_repo ?s))" by code_simp
  then obtain new where new: "Mem_GetJob ''job-000002'' (Server_repo ?s) = Inr new"
    by (cases "Mem_GetJob ''job-000002'' (Server_repo ?s)") auto
  have "isl (Mem_GetJob ''job-000002'' (Server_repo agent_server))" by code_simp
  then show ?thesis
    using new agent_runs_modules_only[OF prod.collapse[symmetric, of "run_operation ''disk'' (path_param ''/'')",
        unfolded run_operation_def] new[unfolded run_operation_def]] by auto
qed

theorem risky_operations_wait_witness:
  "Server_workerHub (snd (run_operation ''du'' (path_param ''/''))) = Server_workerHub agent_server \<and>
   map Job_Status (vals (Store_jobs (Mem_store (Server_repo (snd (run_operation ''du'' (path_param ''/'')))))))
     = [JobStatusWaitingApproval]"
proof -
  let ?raw = "operation_args ''du'' (path_param ''/'')"
  have "map_option op_ModuleCode (case json_Unmarshal operation_fields ?raw zero_operation of Inr i \<Rightarrow> Some i | Inl _ \<Rightarrow> None) =
      Some ''du''" by code_simp
  then obtain inp where inp: "json_Unmarshal operation_fields ?raw zero_operation = Inr inp" "op_ModuleCode inp = ''du''"
    by (auto split: sum.splits)
  have m: "Registry_Get (op_ModuleCode inp) (Server_moduleReg agent_server) = Inr (TemplateModule du_template)"
    unfolding inp(2) by code_simp
  have risk: "RequiresManualApproval (Server_policyEng agent_server) (MergeRisk [mod_RiskLevel (TemplateModule du_template)])"
    by code_simp
  have "map Job_Status (vals (Store_jobs (Mem_store (Server_repo (snd (run_operation ''du'' (path_param ''/'')))))))
      = [JobStatusWaitingApproval]" by code_simp
  then show ?thesis
    using risky_operations_wait[OF prod.collapse[symmetric, of "run_operation ''du'' (path_param ''/'')",
        unfolded run_operation_def] inp(1) m risk]
    by (simp add: run_operation_def)
qed

end
