(* ===== verification/Http_Runs.thy ===== *)
theory Http_Runs
  imports Http_Agent
begin

text \<open>
  Durable agent runs: \<open>internal/interfaces/http/agent_runs.go\<close> and the handlers of \<open>agent.go\<close>. A run keeps its
  transcript in the repository, pauses when an operation needs approval, and resumes from the transcript. The
  model client, the JSON text of a payload, the latencies and the test for an expired deadline are fields of an
  environment. The events streamed to the client while a run goes on are not modelled; what a streamed run leaves in
  the repository is.
\<close>

section \<open>The transcript\<close>

definition field_unless_empty :: "string \<Rightarrow> string \<Rightarrow> (string \<times> jval) list" where
  "field_unless_empty k v = (if v = [] then [] else [(k, JStr v)])"

definition message_json :: "Message \<Rightarrow> jval" where
  "message_json m = JObj ([(''role'', JStr (Message_Role m))] @ field_unless_empty ''content'' (Message_Content m) @
     field_unless_empty ''tool_call_id'' (Message_ToolCallID m) @
     (if length (Message_ToolCalls m) = 0 then []
      else [(''tool_calls'', JArr (map (\<lambda>c. JObj [(''id'', JStr (ToolCall_ID c))]) (Message_ToolCalls m)))]))"

definition encode_transcript :: "Message list \<Rightarrow> string" where
  "encode_transcript ms = json_print (JArr (map message_json ms))"

text \<open>A slice of structs; an element takes over what the slice held at its place.\<close>

definition decode_slice :: "'a field_decoder list \<Rightarrow> 'a \<Rightarrow> jval \<Rightarrow> 'a list \<Rightarrow> 'a list \<times> error option" where
  "decode_slice fds zero v old =
     (case v of
        JNull \<Rightarrow> ([], None)
      | JArr vs \<Rightarrow>
          let elems = map2 (\<lambda>i x. decode_struct False fds x (if i < length old then old ! i else zero)) [0..<length vs] vs
          in (map fst elems, (case List.map_filter snd elems of [] \<Rightarrow> None | e # _ \<Rightarrow> Some e))
      | _ \<Rightarrow> (old, Some json_mismatch))"

definition zero_ToolCall :: ToolCall where
  "zero_ToolCall = \<lparr>ToolCall_ID = [], ToolCall_Name = [], ToolCall_Arguments = []\<rparr>"

definition call_fields :: "ToolCall field_decoder list" where
  "call_fields = [struct_field ''id'' decode_string ToolCall_ID ToolCall_ID_update]"

definition message_fields :: "Message field_decoder list" where
  "message_fields =
     [struct_field ''role'' decode_string Message_Role Message_Role_update,
      struct_field ''content'' decode_string Message_Content Message_Content_update,
      struct_field ''tool_call_id'' decode_string Message_ToolCallID Message_ToolCallID_update,
      struct_field ''tool_calls'' (decode_slice call_fields zero_ToolCall) Message_ToolCalls Message_ToolCalls_update]"

definition decode_transcript :: "string \<Rightarrow> Message list res" where
  "decode_transcript raw =
     (case json_parse raw of
        Inl e \<Rightarrow> Inl e
      | Inr v \<Rightarrow> (case decode_slice message_fields (message [] []) v [] of (ms, None) \<Rightarrow> Inr ms | (_, Some e) \<Rightarrow> Inl e))"

section \<open>The environment and the state of a run\<close>

record ('r, 'm) agent_env =
  Env_repo :: "'r Repository"
  Env_other :: tpl_other
  Env_now :: Time
  Env_client :: "'m llm_client option"
  Env_js :: "details \<Rightarrow> string"
  Env_modelLatency :: "'m \<Rightarrow> Duration"
  Env_toolLatency :: "'m \<Rightarrow> Duration"
  Env_deadline :: "error \<Rightarrow> bool"
  Env_traceID :: string

text \<open>What the callbacks of a run act on: the server, the model provider, the variables the closures share, and a
  panic of a tool, which stops everything.\<close>

record ('r, 'd, 'm) World =
  W_server :: "('r, 'd) Server"
  W_model :: 'm
  W_transcript :: "Message list"
  W_run :: AgentRun
  W_panic :: "error option"

definition lift_client :: "'m llm_client \<Rightarrow> ('r, 'd, 'm) World llm_client" where
  "lift_client c =
     (let lift = (\<lambda>f req w. case f req (W_model w) of (res, m) \<Rightarrow> (res, w\<lparr>W_model := m\<rparr>))
      in \<lparr>Llm_Complete = lift (Llm_Complete c), Llm_CompleteStream = map_option lift (Llm_CompleteStream c)\<rparr>)"

section \<open>The tools\<close>

definition schema :: "details \<Rightarrow> details \<Rightarrow> details" where
  "schema properties required =
     [(''type'', VStr ''object''), (''properties'', VMap properties)] @ required @ [(''additionalProperties'', VBool False)]"

definition emptySchema :: details where
  "emptySchema = schema [] []"

definition prop_type :: "string \<Rightarrow> goval" where
  "prop_type t = VMap [(''type'', VStr t)]"

definition described :: "string \<Rightarrow> string \<Rightarrow> goval" where
  "described t description = VMap [(''type'', VStr t), (''description'', VStr description)]"

definition string_list :: "details \<Rightarrow> goval" where
  "string_list description = VMap ([(''type'', VStr ''array''), (''items'', prop_type ''string'')] @ description)"

definition tool_definition :: "string \<Rightarrow> string \<Rightarrow> details \<Rightarrow> ToolDefinition" where
  "tool_definition name description params =
     \<lparr>ToolDefinition_Name = name, ToolDefinition_Description = description, ToolDefinition_Parameters = params\<rparr>"

definition tool_definitions :: "ToolDefinition list" where
  "tool_definitions =
     [tool_definition ''search_incident_cases''
        ''Search sanitized historical incident cases by keywords and optional environment tags. Results are historical references, not live host facts; every result includes source_id.''
        (schema [(''query'', described ''string'' ''Alert symptom, error text, or fault keywords''),
           (''trigger_type'', prop_type ''string''), (''fault_type'', prop_type ''string''),
           (''environment_tags'', string_list []),
           (''limit'', VMap [(''type'', VStr ''integer''), (''minimum'', VInt 1), (''maximum'', VInt 5)])] []),
      tool_definition ''get_worker_facts''
        ''Read the latest hostname, IP, CPU and storage facts reported by one or more Worker hosts.''
        (schema [(''worker_id'', described ''string'' ''Single worker ID''),
           (''worker_ids'', string_list [(''description'', VStr ''Multiple worker IDs to query at once'')])] []),
      tool_definition ''list_workers''
        ''List all registered Workers and their current status. Use this to discover what Workers are available before calling get_worker_facts or dispatching operations.''
        emptySchema,
      tool_definition ''list_capabilities'' ''List registered and policy-authorized ADP modules.'' emptySchema,
      tool_definition ''create_module_operation''
        ''Create an operation using a registered module on one or more workers. Each worker gets its own job copy. Never use commands or YAML.''
        (schema [(''module_code'', prop_type ''string''),
           (''worker_id'', described ''string'' ''Single worker ID (use worker_ids for multiple)''),
           (''worker_ids'', string_list [(''description'', VStr ''Multiple worker IDs. Each gets its own job copy.'')]),
           (''parameters'', VMap [(''type'', VStr ''object''), (''additionalProperties'', prop_type ''string'')]),
           (''reason'', prop_type ''string'')]
          [(''required'', VStrs [''module_code'', ''parameters'', ''reason''])]),
      tool_definition ''get_job_result''
        ''Read the status and output of one or more operation jobs created by this system.''
        (schema [(''job_id'', described ''string'' ''Single job ID''),
           (''job_ids'', string_list [(''description'', VStr ''Multiple job IDs to query at once'')])] [])]"

definition reading_tool ::
  "(string \<Rightarrow> ('r, 'd) Server \<Rightarrow> tool_out) \<Rightarrow> ctx \<Rightarrow> string \<Rightarrow> ('r, 'd, 'm) World \<Rightarrow> tool_out \<times> ('r, 'd, 'm) World" where
  "reading_tool f c raw w = (f raw (W_server w), w)"

definition operation_tool ::
  "('r, 'm) agent_env \<Rightarrow> ctx \<Rightarrow> string \<Rightarrow> ('r, 'd, 'm) World \<Rightarrow> tool_out \<times> ('r, 'd, 'm) World" where
  "operation_tool env c raw w =
     (case createModuleOperation (Env_repo env) (Env_other env) (Env_now env) c raw (W_server w) of
        (Inl p, s) \<Rightarrow> ((VNil, None), w\<lparr>W_server := s, W_panic := Some p\<rparr>)
      | (Inr out, s) \<Rightarrow> (out, w\<lparr>W_server := s\<rparr>))"

definition agentTools :: "('r, 'm) agent_env \<Rightarrow> ('r, 'd, 'm) World Tool list" where
  "agentTools env =
     map2 (\<lambda>d f. \<lparr>Tool_Definition = d, Tool_Execute = f\<rparr>) tool_definitions
       [reading_tool (searchIncidentCases (Env_repo env)), reading_tool (getWorkerFacts (Env_repo env)),
        reading_tool (\<lambda>_. listWorkers (Env_repo env)), reading_tool (\<lambda>_. list_capabilities),
        operation_tool env, reading_tool (getJobResult (Env_repo env))]"

definition agent_runtime :: "('r, 'm) agent_env \<Rightarrow> ('r, 'd) Server \<Rightarrow> ('r, 'd, 'm) World Runtime" where
  "agent_runtime env s =
     Runtime_New (map_option lift_client (Env_client env)) (agentTools env) (Config_AgentMaxSteps (Server_config s)) 0"

section \<open>Approval in a payload\<close>

definition status_text :: "goval option \<Rightarrow> string" where
  "status_text v = (case v of Some (VNamed t) \<Rightarrow> t | Some (VStr t) \<Rightarrow> t | _ \<Rightarrow> [])"

definition result_jobs :: "details \<Rightarrow> details list" where
  "result_jobs payload = as_maps (map_of (as_map (map_of payload ''result'')) ''jobs'')"

definition payloadNeedsApproval :: "details \<Rightarrow> bool" where
  "payloadNeedsApproval payload =
     list_ex (\<lambda>job. status_text (map_of job ''status'') = JobStatusWaitingApproval) (result_jobs payload)"

fun pending_jobs :: "string list \<Rightarrow> details list \<Rightarrow> details list" where
  "pending_jobs seen [] = []"
| "pending_jobs seen (job # jobs) =
     (let jobID = as_string (map_of job ''job_id'')
      in if jobID = [] \<or> map_of job ''approval_required'' \<noteq> Some (VBool True) \<or>
            status_text (map_of job ''status'') \<noteq> JobStatusWaitingApproval \<or> jobID \<in> set seen
         then pending_jobs seen jobs else job # pending_jobs (jobID # seen) jobs)"

definition pendingApprovalsFromEvents :: "Event list \<Rightarrow> details list" where
  "pendingApprovalsFromEvents events =
     pending_jobs [] (concat (map (\<lambda>e. if Event_Type e = ''tool'' then result_jobs (as_map (Some (Event_Data e))) else []) events))"

section \<open>Executing a run\<close>

definition agentPromptVersion :: string where "agentPromptVersion = ''controlled-agent-v1''"

definition agentPolicyVersion :: string where "agentPolicyVersion = ''default-v1''"

definition createPersistentRun ::
  "('r, 'm) agent_env \<Rightarrow> string \<Rightarrow> string \<Rightarrow> Message list \<Rightarrow> ('r, 'd) Server \<Rightarrow> AgentRun res \<times> ('r, 'd) Server" where
  "createPersistentRun env inp conversationID history s =
     (let messages = [message ''system'' SystemPrompt] @ history @ [message ''user'' inp]
      in case repo_CreateAgentRun (Env_repo env) (Env_now env)
           (zero_AgentRun\<lparr>AgentRun_Input := SanitizeText inp, AgentRun_ConversationID := conversationID,
              AgentRun_Status := AgentRunStatusQueued, AgentRun_TraceID := Env_traceID env,
              AgentRun_PolicyVersion := agentPolicyVersion, AgentRun_PromptVersion := agentPromptVersion,
              AgentRun_Transcript := encode_transcript messages, AgentRun_NextStep := 1\<rparr>) (Server_repo s) of
           (res, rp) \<Rightarrow> (res, s\<lparr>Server_repo := rp\<rparr>))"

text \<open>An effect on the repository with its error.\<close>

definition on_repo ::
  "('r \<Rightarrow> 'a res \<times> 'r) \<Rightarrow> ('r, 'd, 'm) World \<Rightarrow> error option \<times> ('r, 'd, 'm) World" where
  "on_repo f w =
     (case f (Server_repo (W_server w)) of
        (res, rp) \<Rightarrow> (case res of Inl e \<Rightarrow> Some e | Inr _ \<Rightarrow> None, w\<lparr>W_server := (W_server w)\<lparr>Server_repo := rp\<rparr>\<rparr>))"

definition persist :: "('r, 'm) agent_env \<Rightarrow> ('r, 'd, 'm) World \<Rightarrow> error option \<times> ('r, 'd, 'm) World" where
  "persist env w =
     (let run = (W_run w)\<lparr>AgentRun_Transcript := encode_transcript (W_transcript w)\<rparr>
      in on_repo (repo_UpdateAgentRun (Env_repo env) (Env_now env) run) (w\<lparr>W_run := run\<rparr>))"

definition then_do ::
  "error option \<times> 'w \<Rightarrow> ('w \<Rightarrow> error option \<times> 'w) \<Rightarrow> error option \<times> 'w" where
  "then_do x f = (case x of (Some e, w) \<Rightarrow> (Some e, w) | (None, w) \<Rightarrow> f w)"

definition on_metrics :: "(agentMetrics \<Rightarrow> agentMetrics) \<Rightarrow> ('r, 'd, 'm) World \<Rightarrow> ('r, 'd, 'm) World" where
  "on_metrics f w = w\<lparr>W_server := (W_server w)\<lparr>Server_agentMetrics := f (Server_agentMetrics (W_server w))\<rparr>\<rparr>"

text \<open>\<open>json.Unmarshal\<close> into a \<open>map[string]any\<close>; a number is identified by its literal.\<close>

fun any_of :: "jval \<Rightarrow> goval" where
  "any_of JNull = VNil"
| "any_of (JBool b) = VBool b"
| "any_of (JNum n) = VOther n"
| "any_of (JStr t) = VStr t"
| "any_of (JArr vs) = VList (map any_of vs)"
| "any_of (JObj kvs) = VMap (foldl (\<lambda>m kv. AList.update (fst kv) (snd kv) m) [] (map (\<lambda>kv. (fst kv, any_of (snd kv))) kvs))"

definition arguments_map :: "string \<Rightarrow> details" where
  "arguments_map raw = (case json_parse raw of Inr (JObj kvs) \<Rightarrow> as_map (Some (any_of (JObj kvs))) | _ \<Rightarrow> [])"

definition on_assistant ::
  "('r, 'm) agent_env \<Rightarrow> int \<Rightarrow> Message \<Rightarrow> ('r, 'd, 'm) World \<Rightarrow> error option \<times> ('r, 'd, 'm) World" where
  "on_assistant env step msg w =
     (let msg = msg\<lparr>Message_Content := SanitizeText (Message_Content msg)\<rparr>;
          w = w\<lparr>W_transcript := W_transcript w @ [msg]\<rparr>
      in then_do (on_repo (repo_AddAgentEvent (Env_repo env) (Env_now env)
            (zero_AgentEvent\<lparr>AgentEvent_RunID := AgentRun_ID (W_run w), AgentEvent_Step := step, AgentEvent_Type := ''assistant'',
               AgentEvent_Data := [(''content'', VStr (Message_Content msg))]\<rparr>)) w) (persist env))"

definition on_tool_call ::
  "('r, 'm) agent_env \<Rightarrow> int \<Rightarrow> ToolCall \<Rightarrow> ('r, 'd, 'm) World \<Rightarrow> error option \<times> ('r, 'd, 'm) World" where
  "on_tool_call env step call w =
     on_repo (repo_CreateAgentToolCall (Env_repo env) (Env_now env)
       (zero_AgentToolCall\<lparr>AgentToolCall_ID := AgentRun_ID (W_run w) @ '':'' @ ToolCall_ID call,
          AgentToolCall_RunID := AgentRun_ID (W_run w), AgentToolCall_Step := step, AgentToolCall_ToolName := ToolCall_Name call,
          AgentToolCall_Arguments := Env_js env (SanitizeMap (arguments_map (ToolCall_Arguments call))),
          AgentToolCall_Status := ''running''\<rparr>)) w"

definition on_tool_result ::
  "('r, 'm) agent_env \<Rightarrow> int \<Rightarrow> ToolCall \<Rightarrow> details \<Rightarrow> ('r, 'd, 'm) World \<Rightarrow> error option \<times> ('r, 'd, 'm) World" where
  "on_tool_result env step call payload w =
     (let w = w\<lparr>W_transcript := W_transcript w @ [(message ''tool'' (Env_js env payload))\<lparr>Message_ToolCallID := ToolCall_ID call\<rparr>]\<rparr>
      in then_do (then_do (on_repo (repo_CompleteAgentToolCall (Env_repo env) (Env_now env)
            (zero_AgentToolCall\<lparr>AgentToolCall_ID := AgentRun_ID (W_run w) @ '':'' @ ToolCall_ID call,
               AgentToolCall_Result := Env_js env payload, AgentToolCall_Error := as_string (map_of payload ''error''),
               AgentToolCall_Status := ''completed''\<rparr>)) w)
          (on_repo (repo_AddAgentEvent (Env_repo env) (Env_now env)
            (zero_AgentEvent\<lparr>AgentEvent_RunID := AgentRun_ID (W_run w), AgentEvent_Step := step, AgentEvent_Type := ''tool'',
               AgentEvent_Name := ToolCall_Name call, AgentEvent_Data := payload\<rparr>))))
          (persist env))"

text \<open>A panic of the tool leaves the loop at the callback that follows it.\<close>

definition run_observer :: "('r, 'm) agent_env \<Rightarrow> ('r, 'd, 'm) World Observer" where
  "run_observer env = \<lparr>
     OnModelComplete = Some (\<lambda>_ usage w. (None, on_metrics (metrics_model (Env_modelLatency env (W_model w)) usage) w)),
     OnAssistant = Some (on_assistant env),
     OnToolCall = Some (on_tool_call env),
     OnToolResult = Some (on_tool_result env),
     OnToolComplete = Some (\<lambda>_ _ err w. if W_panic w \<noteq> None then (W_panic w, w)
       else (None, on_metrics (metrics_tool (Env_toolLatency env (W_model w)) err) w)),
     PauseAfterTool = Some (\<lambda>_ payload w. (payloadNeedsApproval payload, w))\<rparr>"

datatype run_outcome = Run_panic error | Run_done AgentRun "Event list" "error option"

definition finish_run ::
  "('r, 'm) agent_env \<Rightarrow> error option \<times> ('r, 'd, 'm) World loop \<Rightarrow> run_outcome \<times> ('r, 'd, 'm) World" where
  "finish_run env out =
     (case out of (runErr, l) \<Rightarrow>
        let w = Loop_world l; result = Loop_result l
        in case W_panic w of
             Some p \<Rightarrow> (Run_panic p, w)
           | None \<Rightarrow>
               let run = (W_run w)\<lparr>AgentRun_NextStep := Run_Steps result + 1\<rparr>;
                   run = (if Run_Paused result then run\<lparr>AgentRun_Status := AgentRunStatusWaitingApproval\<rparr>
                          else (case runErr of
                              Some e \<Rightarrow> run\<lparr>AgentRun_Error := e, AgentRun_Status :=
                                (if Env_deadline env e then AgentRunStatusTimedOut else AgentRunStatusFailed)\<rparr>
                            | None \<Rightarrow> run\<lparr>AgentRun_Answer := Run_Answer result, AgentRun_Status := AgentRunStatusCompleted\<rparr>));
                   w = snd (persist env (w\<lparr>W_run := run\<rparr>))
               in (Run_done (W_run w) (Run_Events result) runErr,
                   on_metrics (metrics_complete (Run_Steps result) (runErr = None \<and> \<not> Run_Paused result)) w))"

definition executePersistentRun ::
  "('r, 'm) agent_env \<Rightarrow> string \<Rightarrow> bool \<Rightarrow> ('r, 'd) Server \<Rightarrow> 'm \<Rightarrow> run_outcome \<times> ('r, 'd) Server \<times> 'm" where
  "executePersistentRun env runID stream s m =
     (case repo_GetAgentRun (Env_repo env) runID (Server_repo s) of
        Inl e \<Rightarrow> (Run_done zero_AgentRun [] (Some e), s, m)
      | Inr run \<Rightarrow>
          if AgentRun_Status run = AgentRunStatusCancelled \<or> AgentRun_Status run = AgentRunStatusCompleted
          then (Run_done run [] None, s, m)
          else (case decode_transcript (AgentRun_Transcript run) of
              Inl e \<Rightarrow> (Run_done run [] (Some (''decode run transcript: '' @ e)), s, m)
            | Inr transcript \<Rightarrow>
                let run = run\<lparr>AgentRun_Status := AgentRunStatusRunning\<rparr>
                in (case repo_UpdateAgentRun (Env_repo env) (Env_now env) run (Server_repo s) of
                      (Inl e, rp) \<Rightarrow> (Run_done run [] (Some e), s\<lparr>Server_repo := rp\<rparr>, m)
                    | (Inr _, rp) \<Rightarrow>
                        (case finish_run env (RunMessages (Env_js env) (AgentRun_ID run) (agent_runtime env s) transcript
                                (AgentRun_NextStep run) stream (run_observer env)
                                \<lparr>W_server = s\<lparr>Server_repo := rp\<rparr>, W_model = m, W_transcript = transcript, W_run = run,
                                 W_panic = None\<rparr>) of
                           (outcome, w) \<Rightarrow> (outcome, W_server w, W_model w)))))"

text \<open>Recovery when the server is constructed: queued and running runs are executed one after the other. A panic ends
  the program.\<close>

fun resume_all ::
  "('r, 'm) agent_env \<Rightarrow> AgentRun list \<Rightarrow> ('r, 'd) Server \<Rightarrow> 'm \<Rightarrow> error option \<times> ('r, 'd) Server \<times> 'm" where
  "resume_all env [] s m = (None, s, m)"
| "resume_all env (run # runs) s m =
     (case executePersistentRun env (AgentRun_ID run) False s m of
        (Run_panic p, s, m) \<Rightarrow> (Some p, s, m) | (Run_done _ _ _, s, m) \<Rightarrow> resume_all env runs s m)"

definition resumeInterruptedAgentRuns ::
  "('r, 'm) agent_env \<Rightarrow> ('r, 'd) Server \<Rightarrow> 'm \<Rightarrow> error option \<times> ('r, 'd) Server \<times> 'm" where
  "resumeInterruptedAgentRuns env s m =
     (case repo_ListAgentRunsByStatus (Env_repo env) [AgentRunStatusQueued, AgentRunStatusRunning] (Server_repo s) of
        Inl _ \<Rightarrow> (None, s, m) | Inr runs \<Rightarrow> resume_all env runs s m)"

section \<open>Handlers\<close>

definition maxHistory :: nat where "maxHistory = 10"

definition llm_message :: "ConversationMessage \<Rightarrow> Message option" where
  "llm_message m =
     (if ConversationMessage_Role m = ''user'' then Some (message ''user'' (ConversationMessage_Content m))
      else if ConversationMessage_Role m = ''assistant'' \<and> ConversationMessage_Content m \<noteq> []
      then Some (message ''assistant'' (ConversationMessage_Content m)) else None)"

definition conversationMessagesToLLM :: "ConversationMessage list \<Rightarrow> Message list" where
  "conversationMessagesToLLM msgs =
     List.map_filter llm_message (if length msgs > maxHistory then drop (length msgs - maxHistory) msgs else msgs)"

record agentRunRequest =
  ar_Input :: string
  ar_ConversationID :: string
  ar_Stream :: bool

definition agent_run_fields :: "agentRunRequest field_decoder list" where
  "agent_run_fields =
     [struct_field ''input'' decode_string ar_Input ar_Input_update,
      struct_field ''conversation_id'' decode_string ar_ConversationID ar_ConversationID_update,
      struct_field ''stream'' decode_bool ar_Stream ar_Stream_update]"

definition conversation_title :: "string \<Rightarrow> string" where
  "conversation_title inp = (if length inp > 50 then take 50 inp else inp)"

text \<open>Loading or creating the conversation of a request: its identifier and the history.\<close>

definition open_conversation ::
  "('r, 'm) agent_env \<Rightarrow> agentRunRequest \<Rightarrow> ('r, 'd) Server \<Rightarrow> (string \<times> Message list) res \<times> ('r, 'd) Server" where
  "open_conversation env req s =
     (if ar_ConversationID req \<noteq> []
      then (Inr (ar_ConversationID req,
              (case repo_ListConversationMessages (Env_repo env) (ar_ConversationID req) (Server_repo s) of
                 Inr msgs \<Rightarrow> conversationMessagesToLLM msgs | Inl _ \<Rightarrow> [])), s)
      else (case repo_CreateConversation (Env_repo env) (Env_now env) (conversation_title (ar_Input req)) (Server_repo s) of
          (Inl e, rp) \<Rightarrow> (Inl e, s\<lparr>Server_repo := rp\<rparr>)
        | (Inr conv, rp) \<Rightarrow> (Inr (Conversation_ID conv, []), s\<lparr>Server_repo := rp\<rparr>)))"

definition add_message :: "('r, 'm) agent_env \<Rightarrow> ConversationMessage \<Rightarrow> ('r, 'd) Server \<Rightarrow> ('r, 'd) Server" where
  "add_message env msg s =
     s\<lparr>Server_repo := snd (repo_AddConversationMessage (Env_repo env) (Env_now env) msg (Server_repo s))\<rparr>"

definition event_message :: "string \<Rightarrow> Event \<Rightarrow> ConversationMessage" where
  "event_message convID ev = (conversation_message convID (Event_Type ev) [])\<lparr>ConversationMessage_Step := Event_Step ev,
     ConversationMessage_ToolName := Event_Name ev, ConversationMessage_ToolData := as_map (Some (Event_Data ev))\<rparr>"

text \<open>The tool events and the answer of a run become messages of the conversation.\<close>

definition record_messages ::
  "('r, 'm) agent_env \<Rightarrow> string \<Rightarrow> AgentRun \<Rightarrow> Event list \<Rightarrow> ('r, 'd) Server \<Rightarrow> ('r, 'd) Server" where
  "record_messages env convID run events s =
     (let s = fold (\<lambda>ev. add_message env (event_message convID ev)) (filter (\<lambda>ev. Event_Type ev = ''tool'') events) s
      in if AgentRun_Answer run \<noteq> []
         then add_message env ((conversation_message convID ''assistant'' (AgentRun_Answer run))
                \<lparr>ConversationMessage_Step := AgentRun_NextStep run\<rparr>) s
         else s)"

definition run_completed ::
  "('r, 'm) agent_env \<Rightarrow> User \<Rightarrow> string \<Rightarrow> AgentRun \<Rightarrow> ('r, 'd) Server \<Rightarrow> ('r, 'd) Server" where
  "run_completed env user convID run s =
     recordAudit (Env_repo env) (Env_now env) ''user'' (User_Username user) ''agent.run.completed'' ''agent_run'' (AgentRun_ID run)
       [(''steps'', VInt (AgentRun_NextStep run - 1)), (''conversation_id'', VStr convID),
        (''status'', VNamed (AgentRun_Status run))] s"

definition run_response :: "string \<Rightarrow> AgentRun \<Rightarrow> Event list \<Rightarrow> agentRunResponse" where
  "run_response convID run events = \<lparr>Resp_run = run, Resp_events = events, Resp_steps = AgentRun_NextStep run - 1,
     Resp_conversation_id = convID, Resp_pending = pendingApprovalsFromEvents events\<rparr>"

text \<open>The streamed form: the connection stays open, every outcome is reported in the last event, and a panic ends the
  program. The answer given here is that event.\<close>

definition handleAgentRunStream ::
  "('r, 'm) agent_env \<Rightarrow> User \<Rightarrow> agentRunRequest \<Rightarrow> ('r, 'd) Server \<Rightarrow> 'm \<Rightarrow> (error + Response) \<times> ('r, 'd) Server \<times> 'm" where
  "handleAgentRunStream env user req s m =
     (case open_conversation env req s of
        (Inl e, s) \<Rightarrow> (Inr (writeError 500 e), s, m)
      | (Inr (convID, history), s) \<Rightarrow>
          (case createPersistentRun env (ar_Input req) convID history
                  (add_message env (conversation_message convID ''user'' (ar_Input req)) s) of (created, s) \<Rightarrow>
          (case (case created of Inl e \<Rightarrow> (Run_done zero_AgentRun [] (Some e), s, m)
                 | Inr run \<Rightarrow> executePersistentRun env (AgentRun_ID run) True s m) of
             (Run_panic p, s, m) \<Rightarrow> (Inl p, s, m)
           | (Run_done run events err, s, m) \<Rightarrow>
               (Inr (writeJSON 200 (Body_agent_run (run_response convID run events))),
                run_completed env user convID run (record_messages env convID run events s), m))))"

definition handleAgentRun ::
  "('r, 'm) agent_env \<Rightarrow> User \<Rightarrow> Request \<Rightarrow> ('r, 'd) Server \<Rightarrow> 'm \<Rightarrow> (error + Response) \<times> ('r, 'd) Server \<times> 'm" where
  "handleAgentRun env user r s m =
     (case json_Decode agent_run_fields (Req_Body r) \<lparr>ar_Input = [], ar_ConversationID = [], ar_Stream = False\<rparr> of
        Inl e \<Rightarrow> (Inr (writeError 400 e), s, m)
      | Inr req \<Rightarrow>
          if ar_Stream req then handleAgentRunStream env user req s m
          else (case open_conversation env req s of
              (Inl e, s) \<Rightarrow> (Inr (writeError 500 e), s, m)
            | (Inr (convID, history), s) \<Rightarrow>
                (case createPersistentRun env (ar_Input req) convID history
                        (add_message env (conversation_message convID ''user'' (ar_Input req)) s) of
                   (Inl e, s) \<Rightarrow> (Inr (writeError 500 e), s, m)
                 | (Inr run, s) \<Rightarrow>
                     (case executePersistentRun env (AgentRun_ID run) False s m of
                        (Run_panic p, s, m) \<Rightarrow> (Inl p, s, m)
                      | (Run_done run events (Some e), s, m) \<Rightarrow>
                          (Inr (writeError 422 e), add_message env (conversation_message convID ''assistant'' e) s, m)
                      | (Run_done run events None, s, m) \<Rightarrow>
                          (Inr (writeJSON 200 (Body_agent_run (run_response convID run events))),
                           run_completed env user convID run (record_messages env convID run events s), m)))))"

definition parse_after :: "string \<Rightarrow> int option" where
  "parse_after raw = (if raw = [] then Some 0 else (case Atoi raw of Some k \<Rightarrow> if k < 0 then None else Some k | None \<Rightarrow> None))"

definition handleAgentEventsSSE :: "'r Repository \<Rightarrow> Request \<Rightarrow> string \<Rightarrow> ('r, 'd) Server \<Rightarrow> Response" where
  "handleAgentEventsSSE repo r ident s =
     (case repo_GetAgentRun repo ident (Server_repo s) of
        Inl e \<Rightarrow> writeError 404 e
      | Inr _ \<Rightarrow>
          (case parse_after (get_value (Req_Query r) ''after'') of
             None \<Rightarrow> writeError 400 ''after must be a non-negative event ID''
           | Some after \<Rightarrow>
               (case repo_ListAgentEvents repo ident after (Server_repo s) of
                  Inl e \<Rightarrow> writeError 500 e | Inr events \<Rightarrow> writeJSON 200 (Body_events events))))"

definition handleAgentRunActions ::
  "'r Repository \<Rightarrow> Time \<Rightarrow> Request \<Rightarrow> ('r, 'd) Server \<Rightarrow> Response \<times> ('r, 'd) Server" where
  "handleAgentRunActions repo now r s =
     (let parts = Split (TrimPrefix (Req_Path r) ''/api/v1/agent/runs/'') (CHR ''/''); not_found = (writeError 404 ''not found'', s)
      in if length parts \<noteq> 2 then not_found
         else if parts ! 1 = ''cancel'' \<and> Req_Method r = ''POST''
         then (case repo_GetAgentRun repo (parts ! 0) (Server_repo s) of
             Inl e \<Rightarrow> (writeError 404 e, s)
           | Inr run \<Rightarrow>
               if AgentRun_Status run = AgentRunStatusRunning then (writeError 409 ''run is active'', s)
               else let run = run\<lparr>AgentRun_Status := AgentRunStatusCancelled\<rparr>;
                        rp = snd (repo_UpdateAgentRun repo now run (Server_repo s));
                        rp = snd (repo_AddAgentEvent repo now (zero_AgentEvent\<lparr>AgentEvent_RunID := parts ! 0,
                               AgentEvent_Type := ''cancelled''\<rparr>) rp)
                    in (writeJSON 200 (Body_run run), s\<lparr>Server_repo := rp\<rparr>))
         else if parts ! 1 = ''events'' \<and> Req_Method r = ''GET'' then (handleAgentEventsSSE repo r (parts ! 0) s, s)
         else not_found)"

definition handleGetAgentRun ::
  "'r Repository \<Rightarrow> Time \<Rightarrow> Request \<Rightarrow> ('r, 'd) Server \<Rightarrow> Response \<times> ('r, 'd) Server" where
  "handleGetAgentRun repo now r s =
     (let ident = TrimPrefix (Req_Path r) ''/api/v1/agent/runs/''
      in if HasSuffix ident ''/events'' \<or> HasSuffix ident ''/cancel'' then handleAgentRunActions repo now r s
         else (case repo_GetAgentRun repo ident (Server_repo s) of
             Inl e \<Rightarrow> (writeError 404 e, s) | Inr run \<Rightarrow> (writeJSON 200 (Body_run run), s)))"

section \<open>What every callback keeps, a run keeps\<close>

definition keeps :: "('w \<Rightarrow> bool) \<Rightarrow> ('w \<Rightarrow> 'a \<times> 'w) \<Rightarrow> bool" where
  "keeps I f \<longleftrightarrow> (\<forall>w. I w \<longrightarrow> I (snd (f w)))"

lemma keepsD: "keeps I f \<Longrightarrow> f w = (x, w') \<Longrightarrow> I w \<Longrightarrow> I w'"
  by (metis keeps_def snd_conv)

definition client_keeps :: "('w \<Rightarrow> bool) \<Rightarrow> 'w llm_client \<Rightarrow> bool" where
  "client_keeps I c \<longleftrightarrow> (\<forall>req. keeps I (Llm_Complete c req)) \<and> (\<forall>f req. Llm_CompleteStream c = Some f \<longrightarrow> keeps I (f req))"

definition tools_keep :: "('w \<Rightarrow> bool) \<Rightarrow> 'w Runtime \<Rightarrow> bool" where
  "tools_keep I r \<longleftrightarrow> (\<forall>name t c raw. map_of (Runtime_tools r) name = Some t \<longrightarrow> keeps I (Tool_Execute t c raw))"

definition observer_keeps :: "('w \<Rightarrow> bool) \<Rightarrow> 'w Observer \<Rightarrow> bool" where
  "observer_keeps I ob \<longleftrightarrow>
     (\<forall>f n u. OnModelComplete ob = Some f \<longrightarrow> keeps I (f n u)) \<and> (\<forall>f n m. OnAssistant ob = Some f \<longrightarrow> keeps I (f n m)) \<and>
     (\<forall>f n c. OnToolCall ob = Some f \<longrightarrow> keeps I (f n c)) \<and> (\<forall>f n c p. OnToolResult ob = Some f \<longrightarrow> keeps I (f n c p)) \<and>
     (\<forall>f n c e. OnToolComplete ob = Some f \<longrightarrow> keeps I (f n c e)) \<and> (\<forall>f c p. PauseAfterTool ob = Some f \<longrightarrow> keeps I (f c p))"

lemma notify_keeps: "(\<And>g. f = Some g \<Longrightarrow> keeps I g) \<Longrightarrow> keeps I (notify f)"
  by (auto simp: notify_def keeps_def split: option.splits)

lemma observer_notify:
  assumes "observer_keeps I ob"
  shows "keeps I (notify (map_option (\<lambda>f. f n u) (OnModelComplete ob)))"
    "keeps I (notify (map_option (\<lambda>f. f n m) (OnAssistant ob)))"
    "keeps I (notify (map_option (\<lambda>f. f n c) (OnToolCall ob)))"
    "keeps I (notify (map_option (\<lambda>f. f n c p) (OnToolResult ob)))"
    "keeps I (notify (map_option (\<lambda>f. f n c e) (OnToolComplete ob)))"
  using assms by (auto simp: observer_keeps_def intro!: notify_keeps)

lemma add_event_world [simp]: "Loop_world (add_event ev l) = Loop_world l"
  by (simp add: add_event_def)

lemma run_tool_keeps:
  assumes tools: "tools_keep I r" and ob: "observer_keeps I ob" and I: "I (Loop_world l)"
  shows "I (Loop_world (snd (run_tool js runID r ob step call l)))"
proof (cases "map_of (Runtime_tools r) (ToolCall_Name call)")
  case (Some tool)
  note call_ok = keepsD[OF observer_notify(3)[OF ob, of step call] _ I]
  note exec = keepsD[OF tools[unfolded tools_keep_def, rule_format, OF Some]]
  note complete = keepsD[OF observer_notify(5)[OF ob]]
  note result = keepsD[OF observer_notify(4)[OF ob]]
  have pause: "PauseAfterTool ob = Some p \<Longrightarrow> p call payload w = (x, w') \<Longrightarrow> I w \<Longrightarrow> I w'" for p payload w x w'
    using ob keepsD[of I "p call payload"] by (auto simp: observer_keeps_def)
  show ?thesis
    using Some I
    by (auto simp: run_tool_def Let_def split: sum.splits prod.splits option.splits
        dest!: call_ok exec complete result intro: pause)
qed (use I in \<open>simp add: run_tool_def\<close>)

lemma run_tools_keeps:
  assumes "tools_keep I r" "observer_keeps I ob"
  shows "I (Loop_world l) \<Longrightarrow> I (Loop_world (snd (run_tools js runID r ob step calls l)))"
proof (induction calls arbitrary: l)
  case (Cons call calls)
  obtain out l1 where l1: "run_tool js runID r ob step call l = (out, l1)" by force
  then have "I (Loop_world l1)" using run_tool_keeps[OF assms Cons.prems, of js runID step call] by simp
  then show ?case using Cons.IH[of l1] l1 by (auto split: sum.splits bool.splits)
qed simp

lemma ask_model_keeps: "client_keeps I c \<Longrightarrow> keeps I (ask_model stream c req)"
  by (auto simp: client_keeps_def keeps_def ask_model_def split: option.splits)

lemma run_step_keeps:
  assumes client: "client_keeps I c" and tools: "tools_keep I r" and ob: "observer_keeps I ob" and I: "I (Loop_world l)"
  shows "I (Loop_world (snd (run_step js runID stream c r ob step l)))"
proof -
  note ask = keepsD[OF ask_model_keeps[OF client] _ I]
  note complete = keepsD[OF observer_notify(1)[OF ob]]
  note assistant = keepsD[OF observer_notify(2)[OF ob]]
  note calls = run_tools_keeps[OF tools ob]
  have calls': "run_tools js runID r ob step cs l1 = (out, l2) \<Longrightarrow> I (Loop_world l1) \<Longrightarrow> I (Loop_world l2)" for cs l1 out l2
    using calls[of l1 js runID step cs] by simp
  show ?thesis
    using I
    by (auto simp: run_step_def Let_def split: sum.splits prod.splits option.splits bool.splits
        dest!: ask complete assistant calls')
qed

lemma run_steps_keeps:
  assumes "client_keeps I c" "tools_keep I r" "observer_keeps I ob" "I (Loop_world l)"
  shows "I (Loop_world (snd (run_steps js runID stream c r ob step l)))"
  using assms
proof (induction js runID stream c r ob step l rule: run_steps.induct)
  case (1 js runID stream c r ob step l)
  obtain out l1 where l1: "run_step js runID stream c r ob step l = (out, l1)" by force
  then have "I (Loop_world l1)" using run_step_keeps[OF 1(2-4)] 1(5) by (metis snd_conv)
  then show ?case using 1 l1 by (subst run_steps.simps) (auto split: step_end.splits)
qed

lemma RunMessages_keeps:
  assumes "\<And>c. Runtime_client r = Some c \<Longrightarrow> client_keeps I c" "tools_keep I r" "observer_keeps I ob" "I w"
  shows "I (Loop_world (snd (RunMessages js runID r messages startStep stream ob w)))"
  using assms run_steps_keeps[of I _ r ob "start_loop messages w"]
  by (auto simp: RunMessages_def start_loop_def split: option.splits)

section \<open>An agent runs registered modules only\<close>

definition same_rules :: "('r, 'd) Server \<Rightarrow> ('r, 'd) Server \<Rightarrow> bool" where
  "same_rules s s' \<longleftrightarrow> rules_of s' = rules_of s"

lemma same_rules_refl [simp]: "same_rules s s"
  by (simp add: same_rules_def)

lemma same_rules_trans: "same_rules s s1 \<Longrightarrow> same_rules s1 s2 \<Longrightarrow> same_rules s s2"
  by (simp add: same_rules_def)

lemma module_work_rules: "same_rules s s' \<Longrightarrow> module_work other s' = module_work other s"
  by (simp add: same_rules_def rules_of_def module_work_def fun_eq_iff)

lemma push_job_rules: "same_rules s (push_job wid job s)"
  by (simp add: same_rules_def)

lemma create_operation_rules: "same_rules s (snd (create_operation repo now c inp p wid s))"
proof -
  have create: "same_rules s s1" if "create_job repo now job s = (res, s1)" for job res s1
    using that by (auto simp: create_job_def same_rules_def split: prod.splits)
  have dispatch: "same_rules s1 s2" if "dispatchJobToWorker repo now j w s1 = (res, s2)" for j w s1 s2 res
    using that by (auto simp: dispatchJobToWorker_def same_rules_def split: prod.splits sum.splits)
  show ?thesis
    by (auto simp: create_operation_def Let_def split: prod.splits sum.splits
        intro: same_rules_trans[OF create] same_rules_trans[OF dispatch] create dispatch push_job_rules)
qed

lemma create_operations_rules: "same_rules s (snd (create_operations repo now c inp p wids s))"
proof (induction wids arbitrary: s)
  case (Cons wid wids)
  obtain j s1 where "create_operation repo now c inp p wid s = (j, s1)" by force
  then show ?case using Cons[of s1] create_operation_rules[of s repo now c inp p wid]
    by (auto split: prod.splits intro: same_rules_trans)
qed simp

lemma createModuleOperation_rules:
  assumes "createModuleOperation repo other now c raw s = (out, s')"
  shows "same_rules s s'"
  by (rule createModuleOperation_cases[OF assms]) (simp, metis create_operations_rules snd_conv)

lemma runtime_tools:
  "map_of (foldl (\<lambda>m t. AList.update (name t) t m) m ts) k = Some t \<Longrightarrow> t \<in> set ts \<or> map_of m k = Some t"
proof (induction ts arbitrary: m)
  case (Cons u ts)
  then show ?case using Cons.IH[of "AList.update (name u) u m"] by (auto simp: AList.update_conv' split: if_splits)
qed simp

lemma then_do_keeps: "I (snd x) \<Longrightarrow> keeps I g \<Longrightarrow> I (snd (then_do x g))"
  by (cases x; cases "fst x") (auto simp: then_do_def keeps_def)

context run_repository
begin

lemmas run_frames = run_jobs event_jobs call_jobs called_jobs

text \<open>The invariant of a run: the rules are the ones it started with and every job is traced to them.\<close>

definition work_from ::
  "tpl_other \<Rightarrow> ('r, 'd) Server \<Rightarrow> ('r, 'd, 'm) World \<Rightarrow> bool" where
  "work_from other s w \<longleftrightarrow> same_rules s (W_server w) \<and>
     traced (module_work other s) (Server_repo s) (Server_repo (W_server w))"

lemma operation_tool_keeps:
  fixes s :: "('r, 'd) Server" and env :: "('r, 'm) agent_env"
  assumes "Env_repo env = repo"
  shows "keeps (work_from (Env_other env) s) (operation_tool env c raw)"
proof -
  have "work_from (Env_other env) s w \<Longrightarrow> work_from (Env_other env) s (w\<lparr>W_server := s', W_panic := panic\<rparr>) \<and>
      work_from (Env_other env) s (w\<lparr>W_server := s'\<rparr>)"
    if op: "createModuleOperation repo (Env_other env) (Env_now env) c raw (W_server w) = (out, s')"
    for w :: "('r, 'd, 'm) World" and out s' panic
  proof -
    assume w: "work_from (Env_other env) s w"
    then have rules: "same_rules s (W_server w)" by (simp add: work_from_def)
    have step: "traced (module_work (Env_other env) s) (Server_repo (W_server w)) (Server_repo s')"
      using operation_traced[OF op] module_work_rules[OF rules] by simp
    have "traced (module_work (Env_other env) s) (Server_repo s) (Server_repo s')"
      by (rule traced_trans[where P = "module_work (Env_other env) s", OF _ step])
        (use w module_work_same in \<open>auto simp: work_from_def\<close>)
    then show ?thesis using same_rules_trans[OF rules createModuleOperation_rules[OF op]] by (simp add: work_from_def)
  qed
  then show ?thesis by (auto simp: keeps_def operation_tool_def assms split: prod.splits sum.splits)
qed

lemma lift_client_keeps: "client_keeps (work_from other s) (lift_client c)"
  by (auto simp: client_keeps_def keeps_def lift_client_def work_from_def Let_def split: prod.splits)

lemma agent_tools_keep:
  assumes "Env_repo env = repo"
  shows "tools_keep (work_from (Env_other env) s) (agent_runtime env s0)"
proof -
  have reading: "keeps I (reading_tool f c raw)" for I f c raw
    by (simp add: keeps_def reading_tool_def)
  have "t \<in> set (agentTools env) \<Longrightarrow> keeps (work_from (Env_other env) s) (Tool_Execute t c raw)" for t c raw
    by (auto simp: agentTools_def tool_definitions_def reading operation_tool_keeps[OF assms])
  then show ?thesis
    by (auto simp: tools_keep_def agent_runtime_def Runtime_New_def dest!: runtime_tools)
qed

lemma on_repo_keeps:
  assumes "\<And>j r. repo_GetJob repo j (snd (f r)) = repo_GetJob repo j r" and "work_from other s w"
  shows "work_from other s (snd (on_repo f w))"
  using assms
  by (simp add: on_repo_def work_from_def same_rules_def traced_def case_prod_beta)

lemma work_from_simps [simp]:
  "work_from other s (w\<lparr>W_transcript := t\<rparr>) = work_from other s w"
  "work_from other s (w\<lparr>W_run := run\<rparr>) = work_from other s w"
  "work_from other s (on_metrics f w) = work_from other s w"
  by (simp_all add: work_from_def same_rules_def on_metrics_def)

lemma persist_keeps: "Env_repo env = repo \<Longrightarrow> keeps (work_from other s) (persist env)"
  by (simp add: keeps_def persist_def Let_def on_repo_keeps run_frames)

lemma add_event_keeps:
  "Env_repo env = repo \<Longrightarrow> keeps (work_from other s) (on_repo (repo_AddAgentEvent (Env_repo env) now ev))"
  by (simp add: keeps_def on_repo_keeps run_frames)

lemma observer_keeps_work:
  assumes "Env_repo env = repo"
  shows "observer_keeps (work_from other s) (run_observer env)"
proof -
  note persist = persist_keeps[OF assms, of other s] and event = add_event_keeps[OF assms, of other s]
  have assistant: "keeps (work_from other s) (on_assistant env n m)" for n m
    unfolding keeps_def on_assistant_def Let_def
    by (intro allI impI, rule then_do_keeps[OF _ persist], rule event[unfolded keeps_def, rule_format], simp)
  have call: "keeps (work_from other s) (on_tool_call env n c)" for n c
    by (simp add: keeps_def on_tool_call_def assms on_repo_keeps run_frames)
  have result: "keeps (work_from other s) (on_tool_result env n c p)" for n c p
    unfolding keeps_def on_tool_result_def Let_def
    by (intro allI impI, rule then_do_keeps[OF then_do_keeps[OF _ event] persist]) (simp add: assms on_repo_keeps run_frames)
  show ?thesis
    by (simp add: observer_keeps_def run_observer_def assistant call result) (simp add: keeps_def)
qed

lemma finish_run_keeps:
  assumes "Env_repo env = repo" "work_from other s (Loop_world l)"
  shows "work_from other s (snd (finish_run env (err, l)))"
  using assms persist_keeps[OF assms(1), of other s, unfolded keeps_def, rule_format]
  by (auto simp: finish_run_def Let_def split: option.splits)

lemma run_keeps_work:
  assumes env: "Env_repo env = repo" and w: "work_from (Env_other env) s w"
  shows "work_from (Env_other env) s
    (snd (finish_run env (RunMessages js rid (agent_runtime env s1) ts k stream (run_observer env) w)))"
proof -
  obtain err l where l: "RunMessages js rid (agent_runtime env s1) ts k stream (run_observer env) w = (err, l)" by force
  have "work_from (Env_other env) s
      (Loop_world (snd (RunMessages js rid (agent_runtime env s1) ts k stream (run_observer env) w)))"
    by (rule RunMessages_keeps[OF _ agent_tools_keep[OF env] observer_keeps_work[OF env] w])
      (auto simp: agent_runtime_def Runtime_New_def lift_client_keeps)
  then show ?thesis using finish_run_keeps[OF env] l by simp
qed

lemma run_traced:
  assumes "Env_repo env = repo"
    and "executePersistentRun env runID stream s m = (outcome, s', m')"
    and "repo_GetJob repo j (Server_repo s') = Inr new"
  shows "(\<exists>old. repo_GetJob repo j (Server_repo s) = Inr old \<and> same_work new old) \<or> module_work (Env_other env) s new"
proof -
  have frame: "repo_GetJob repo k (snd (repo_UpdateAgentRun repo now run r)) = repo_GetJob repo k r" for k now run r by (rule run_jobs)
  have start: "work_from (Env_other env) s
      \<lparr>W_server = s\<lparr>Server_repo := rp\<rparr>, W_model = m, W_transcript = ts, W_run = run, W_panic = None\<rparr>"
    if "repo_UpdateAgentRun repo (Env_now env) run (Server_repo s) = (res, rp)" for res rp ts run
    using that frame[of _ "Env_now env" run "Server_repo s"]
    by (auto simp: work_from_def same_rules_def traced_def)
  have finished: "traced (module_work (Env_other env) s) (Server_repo s) (Server_repo (W_server w))"
    if "finish_run env (RunMessages js rid (agent_runtime env s) ts k stream (run_observer env)
          \<lparr>W_server = s\<lparr>Server_repo := rp\<rparr>, W_model = m, W_transcript = ts, W_run = run, W_panic = None\<rparr>) = (out, w)"
      "repo_UpdateAgentRun repo (Env_now env) run (Server_repo s) = (res, rp)" for js rid ts k rp run out w res
    using run_keeps_work[OF assms(1) start[OF that(2)], of js rid s ts k stream ts] that(1) by (simp add: work_from_def)
  have refl: "traced P (Server_repo s) (Server_repo s)" for P by simp
  have upd: "traced P (Server_repo s) rp"
    if "repo_UpdateAgentRun repo (Env_now env) run (Server_repo s) = (res, rp)" for P run res rp
    using that frame[of _ "Env_now env" run "Server_repo s"] by (auto simp: traced_def)
  have "traced (module_work (Env_other env) s) (Server_repo s) (Server_repo s')"
    using assms(2) refl
    by (auto simp: executePersistentRun_def Let_def assms(1) split: sum.splits if_splits prod.splits dest: finished upd)
  then show ?thesis using assms(3) by (simp add: traced_def)
qed

end


text \<open>A model that answers at once, and a server with a job and a queued run.\<close>

definition quick_model :: "nat llm_client" where
  "quick_model = \<lparr>Llm_Complete = (\<lambda>req n. (Inr \<lparr>Completion_Message = message ''assistant'' ''done'',
     Completion_Usage = zero_Usage\<rparr>, n + 1)), Llm_CompleteStream = None\<rparr>"

definition demo_env :: "(MemoryRepository, nat) agent_env" where
  "demo_env = \<lparr>Env_repo = memory_repository, Env_other = (\<lambda>s p. Tpl_exec_error []), Env_now = 9,
     Env_client = Some quick_model, Env_js = (\<lambda>_. ''{}''), Env_modelLatency = (\<lambda>_. 0), Env_toolLatency = (\<lambda>_. 0),
     Env_deadline = (\<lambda>_. False), Env_traceID = ''trace-1''\<rparr>"

definition queued_server :: "(MemoryRepository, unit) Server" where
  "queued_server = demo_server\<lparr>Server_repo := snd (Mem_CreateAgentRun 8 (zero_AgentRun\<lparr>AgentRun_NextStep := 1\<rparr>)
     (snd (Mem_CreateJob 7 waiting_job NewMemoryRepository)))\<rparr>"

definition demo_run :: "run_outcome \<times> (MemoryRepository, unit) Server \<times> nat" where
  "demo_run = executePersistentRun demo_env ''run-000001'' False queued_server 0"


end
