(* ===== verification/Http_Config.thy ===== *)
theory Http_Config
  imports Http_Base
begin

text \<open>
  \<open>internal/interfaces/http/config.go\<close> and \<open>syncManagedConfigs\<close> of \<open>server.go\<close>: the templates and policies that
  are managed at run time, their synchronisation with a directory, and how they reach the module registry and the
  policy engine. The YAML parser is not part of the repository: it is the argument \<open>yaml\<close>. The directory is
  an argument too: what \<open>filepath.WalkDir\<close> visits and what reading a file gives.
\<close>

section \<open>Configurations\<close>

definition configKindTemplate :: string where "configKindTemplate = ''templates''"

definition configKindPolicy :: string where "configKindPolicy = ''policies''"

record managedConfigRequest =
  mc_ID :: string
  mc_Name :: string
  mc_YAMLContent :: string
  mc_Active :: "bool option"

record templateConfigYAML =
  ty_Code :: string
  ty_Name :: string
  ty_Description :: string
  ty_ToolType :: string
  ty_Command :: string
  ty_Parameters :: "TemplateParam list"
  ty_RiskLevel :: RiskLevel

record templateGroupConfigYAML =
  tg_ID :: string
  tg_Name :: string
  tg_Templates :: "templateConfigYAML list"

record policyConfigYAML =
  py_ID :: string
  py_Name :: string
  py_BlockedTools :: "string list"
  py_AllowedTemplates :: "string list"
  py_HighRiskKeywords :: "string list"
  py_ApprovalRiskLevels :: "string list"

text \<open>What \<open>yaml.Unmarshal\<close> makes of a text, into a template group and into a policy.\<close>

record yaml_lib =
  yaml_group :: "string \<Rightarrow> templateGroupConfigYAML res"
  yaml_policy :: "string \<Rightarrow> policyConfigYAML res"

definition isSupportedConfigKind :: "string \<Rightarrow> bool" where
  "isSupportedConfigKind kind \<longleftrightarrow> kind = configKindTemplate \<or> kind = configKindPolicy"

definition hex_of :: "string \<Rightarrow> string" where
  "hex_of s = concat (map (\<lambda>c. [hex_char (of_char c div 16), hex_char (of_char c mod 16)]) s)"

definition yamlSHA256 :: "string \<Rightarrow> string" where
  "yamlSHA256 content = hex_of (sha256 content)"

definition trim_slash :: "string \<Rightarrow> string" where
  "trim_slash s = rev (dropWhile ((=) (CHR ''/'')) (rev (dropWhile ((=) (CHR ''/'')) s)))"

definition managedConfigPath :: "string \<Rightarrow> string \<times> string" where
  "managedConfigPath path =
     (let parts = Split (trim_slash (TrimPrefix path ''/api/v1/configs/'')) (CHR ''/'')
      in if length parts = 0 \<or> parts ! 0 = [] then ([], [])
         else if length parts = 1 then (parts ! 0, []) else (parts ! 0, parts ! 1))"

definition managedConfigIdentity :: "yaml_lib \<Rightarrow> string \<Rightarrow> string \<Rightarrow> (string \<times> string) res" where
  "managedConfigIdentity yaml kind raw =
     (if kind = configKindTemplate
      then (case yaml_group yaml raw of
          Inl e \<Rightarrow> Inl e
        | Inr grp \<Rightarrow> if tg_ID grp = [] then Inl ''template group id is required'' else Inr (tg_ID grp, tg_Name grp))
      else if kind = configKindPolicy
      then (case yaml_policy yaml raw of
          Inl e \<Rightarrow> Inl e
        | Inr p \<Rightarrow> Inr (if py_ID p = [] then ''default'' else py_ID p, py_Name p))
      else Inl ''unsupported config kind'')"

section \<open>Reloading\<close>

definition newTemplateModuleFromYAML :: "templateConfigYAML \<Rightarrow> Module" where
  "newTemplateModuleFromYAML t = TemplateModule
     \<lparr>CommandTemplate_Code = ty_Code t, CommandTemplate_Name = ty_Name t, CommandTemplate_Description = ty_Description t,
      CommandTemplate_ToolType = ty_ToolType t, CommandTemplate_Command = ty_Command t,
      CommandTemplate_Parameters = ty_Parameters t, CommandTemplate_RiskLevel = ty_RiskLevel t\<rparr>"

definition applyManagedConfig :: "yaml_lib \<Rightarrow> ManagedConfig \<Rightarrow> ('r, 'd) Server \<Rightarrow> error option \<times> ('r, 'd) Server" where
  "applyManagedConfig yaml cfg s =
     (if ManagedConfig_Kind cfg = configKindPolicy
      then (case yaml_policy yaml (ManagedConfig_YAMLContent cfg) of
          Inl e \<Rightarrow> (Some e, s)
        | Inr p \<Rightarrow> (None, s\<lparr>Server_policyEng := Configure (py_BlockedTools p) (py_AllowedTemplates p)
              (py_HighRiskKeywords p) (py_ApprovalRiskLevels p) (Server_policyEng s)\<rparr>))
      else if ManagedConfig_Kind cfg = configKindTemplate
      then (case yaml_group yaml (ManagedConfig_YAMLContent cfg) of
          Inl e \<Rightarrow> (Some e, s)
        | Inr grp \<Rightarrow> (None, s\<lparr>Server_moduleReg :=
              foldl (\<lambda>reg t. Registry_Register (newTemplateModuleFromYAML t) reg) (Server_moduleReg s) (tg_Templates grp)\<rparr>))
      else (None, s))"

fun apply_configs :: "yaml_lib \<Rightarrow> ManagedConfig list \<Rightarrow> ('r, 'd) Server \<Rightarrow> error option \<times> ('r, 'd) Server" where
  "apply_configs yaml [] s = (None, s)"
| "apply_configs yaml (cfg # cfgs) s =
     (if ManagedConfig_Active cfg
      then (case applyManagedConfig yaml cfg s of (Some e, s) \<Rightarrow> (Some e, s) | (None, s) \<Rightarrow> apply_configs yaml cfgs s)
      else apply_configs yaml cfgs s)"

definition reloadManagedConfigs :: "'r Repository \<Rightarrow> yaml_lib \<Rightarrow> ('r, 'd) Server \<Rightarrow> error option \<times> ('r, 'd) Server" where
  "reloadManagedConfigs repo yaml s =
     (let s = s\<lparr>Server_moduleReg := Registry_Clear (Server_moduleReg s)\<rparr>
      in case repo_ListManagedConfigs repo [] (Server_repo s) of
           Inl e \<Rightarrow> (Some e, s) | Inr cfgs \<Rightarrow> apply_configs yaml cfgs s)"

section \<open>Synchronisation with a directory\<close>

text \<open>\<open>filepath.Base\<close>, \<open>filepath.Dir\<close> and \<open>filepath.Ext\<close> on Unix.\<close>

definition last_part :: "string \<Rightarrow> string" where
  "last_part p = rev (takeWhile (\<lambda>c. c \<noteq> CHR ''/'') (rev p))"

definition path_Base :: "string \<Rightarrow> string" where
  "path_Base p =
     (if p = [] then ''.''
      else let q = last_part (rev (dropWhile ((=) (CHR ''/'')) (rev p))) in if q = [] then ''/'' else q)"

definition path_Dir :: "string \<Rightarrow> string" where
  "path_Dir p = Clean (rev (dropWhile (\<lambda>c. c \<noteq> CHR ''/'') (rev p)))"

definition path_Ext :: "string \<Rightarrow> string" where
  "path_Ext p =
     (if CHR ''.'' \<in> set (last_part p) then CHR ''.'' # rev (takeWhile (\<lambda>c. c \<noteq> CHR ''.'') (rev (last_part p))) else [])"

text \<open>An entry the walk visits: its path, an error of the walk, whether it is a directory, what reading it gives.\<close>

record walk_entry =
  Walk_path :: string
  Walk_err :: "error option"
  Walk_dir :: bool
  Walk_content :: "string res"

record managedConfigSyncReport =
  Sync_Imported :: int
  Sync_Updated :: int
  Sync_InSync :: int
  Sync_Drifted :: "string list"

definition zero_report :: managedConfigSyncReport where
  "zero_report = \<lparr>Sync_Imported = 0, Sync_Updated = 0, Sync_InSync = 0, Sync_Drifted = []\<rparr>"

definition save_config ::
  "'r Repository \<Rightarrow> Time \<Rightarrow> string \<Rightarrow> string \<Rightarrow> string \<Rightarrow> string \<Rightarrow> bool \<Rightarrow> Time \<Rightarrow> ('r, 'd) Server \<Rightarrow> ManagedConfig res \<times> ('r, 'd) Server" where
  "save_config repo now ident kind name content active created s =
     (case repo_SaveManagedConfig repo now \<lparr>ManagedConfig_ID = ident, ManagedConfig_Kind = kind, ManagedConfig_Name = name,
             ManagedConfig_YAMLContent = content, ManagedConfig_Active = active, ManagedConfig_CreatedAt = created,
             ManagedConfig_UpdatedAt = zeroTime\<rparr> (Server_repo s) of
        (res, rp) \<Rightarrow> (res, s\<lparr>Server_repo := rp\<rparr>))"

definition sync_file ::
  "'r Repository \<Rightarrow> yaml_lib \<Rightarrow> Time \<Rightarrow> bool \<Rightarrow> string \<Rightarrow> string \<Rightarrow> string \<Rightarrow> managedConfigSyncReport \<Rightarrow> ('r, 'd) Server \<Rightarrow>
   error option \<times> managedConfigSyncReport \<times> ('r, 'd) Server" where
  "sync_file repo yaml now enforce path kind content report s =
     (case managedConfigIdentity yaml kind content of
        Inl e \<Rightarrow> (Some (''validate '' @ path @ '': '' @ e), report, s)
      | Inr (ident, name) \<Rightarrow>
          (case repo_GetManagedConfig repo kind ident (Server_repo s) of
             Inl _ \<Rightarrow>
               (case save_config repo now ident kind name content True zeroTime s of
                  (Inl e, s) \<Rightarrow> (Some e, report, s)
                | (Inr _, s) \<Rightarrow> (None, report\<lparr>Sync_Imported := Sync_Imported report + 1\<rparr>, s))
           | Inr existing \<Rightarrow>
               if yamlSHA256 (ManagedConfig_YAMLContent existing) = yamlSHA256 content
               then (None, report\<lparr>Sync_InSync := Sync_InSync report + 1\<rparr>, s)
               else if \<not> enforce
               then (None, report\<lparr>Sync_Drifted := Sync_Drifted report @ [kind @ ''/'' @ ident]\<rparr>, s)
               else (case save_config repo now ident kind name content True (ManagedConfig_CreatedAt existing) s of
                  (Inl e, s) \<Rightarrow> (Some e, report, s)
                | (Inr _, s) \<Rightarrow> (None, report\<lparr>Sync_Updated := Sync_Updated report + 1\<rparr>, s))))"

definition sync_entry ::
  "'r Repository \<Rightarrow> yaml_lib \<Rightarrow> Time \<Rightarrow> bool \<Rightarrow> walk_entry \<Rightarrow> managedConfigSyncReport \<Rightarrow> ('r, 'd) Server \<Rightarrow>
   error option \<times> managedConfigSyncReport \<times> ('r, 'd) Server" where
  "sync_entry repo yaml now enforce entry report s =
     (let path = Walk_path entry; kind = path_Base (path_Dir path)
      in if Walk_err entry \<noteq> None then (Walk_err entry, report, s)
         else if Walk_dir entry \<or> (path_Ext path \<noteq> ''.yaml'' \<and> path_Ext path \<noteq> ''.yml'') then (None, report, s)
         else if \<not> isSupportedConfigKind kind then (None, report, s)
         else (case Walk_content entry of
             Inl e \<Rightarrow> (Some e, report, s)
           | Inr content \<Rightarrow> sync_file repo yaml now enforce path kind content report s))"

fun sync_walk ::
  "'r Repository \<Rightarrow> yaml_lib \<Rightarrow> Time \<Rightarrow> bool \<Rightarrow> walk_entry list \<Rightarrow> managedConfigSyncReport \<Rightarrow> ('r, 'd) Server \<Rightarrow>
   error option \<times> managedConfigSyncReport \<times> ('r, 'd) Server" where
  "sync_walk repo yaml now enforce [] report s = (None, report, s)"
| "sync_walk repo yaml now enforce (entry # entries) report s =
     (case sync_entry repo yaml now enforce entry report s of
        (Some e, report, s) \<Rightarrow> (Some e, report, s)
      | (None, report, s) \<Rightarrow> sync_walk repo yaml now enforce entries report s)"

definition syncManagedConfigs ::
  "'r Repository \<Rightarrow> yaml_lib \<Rightarrow> (string \<Rightarrow> walk_entry list) \<Rightarrow> Time \<Rightarrow> string \<Rightarrow> bool \<Rightarrow> ('r, 'd) Server \<Rightarrow>
   error option \<times> managedConfigSyncReport \<times> ('r, 'd) Server" where
  "syncManagedConfigs repo yaml walk now dir enforce s =
     (if TrimSpace dir = [] then (None, zero_report, s) else sync_walk repo yaml now enforce (walk dir) zero_report s)"

section \<open>Handlers\<close>

definition decode_config_fields :: "managedConfigRequest field_decoder list" where
  "decode_config_fields =
     [struct_field ''id'' decode_string mc_ID mc_ID_update,
      struct_field ''name'' decode_string mc_Name mc_Name_update,
      struct_field ''yaml_content'' decode_string mc_YAMLContent mc_YAMLContent_update,
      struct_field ''active'' decode_bool_ptr mc_Active mc_Active_update]"

text \<open>The end of every handler that changes a configuration.\<close>

definition reload_and_answer :: "'r Repository \<Rightarrow> yaml_lib \<Rightarrow> int \<Rightarrow> Body \<Rightarrow> ('r, 'd) Server \<Rightarrow> Response \<times> ('r, 'd) Server" where
  "reload_and_answer repo yaml status body s =
     (case reloadManagedConfigs repo yaml s of
        (Some e, s) \<Rightarrow> (writeError 400 e, s) | (None, s) \<Rightarrow> (writeJSON status body, s))"

definition handleManagedConfigSync ::
  "'r Repository \<Rightarrow> yaml_lib \<Rightarrow> (string \<Rightarrow> walk_entry list) \<Rightarrow> Time \<Rightarrow> Request \<Rightarrow> ('r, 'd) Server \<Rightarrow> Response \<times> ('r, 'd) Server" where
  "handleManagedConfigSync repo yaml walk now r s =
     (case syncManagedConfigs repo yaml walk now (Config_ManagedConfigDir (Server_config s))
             (get_value (Req_Query r) ''enforce'' = ''true'') s of
        (Some e, _, s) \<Rightarrow> (writeError 400 e, s)
      | (None, report, s) \<Rightarrow>
          reload_and_answer repo yaml 200 (Body_sync (Sync_Imported report) (Sync_Updated report) (Sync_InSync report)
            (Sync_Drifted report)) s)"

definition handleSaveManagedConfig ::
  "'r Repository \<Rightarrow> yaml_lib \<Rightarrow> Time \<Rightarrow> Request \<Rightarrow> string \<Rightarrow> string \<Rightarrow> ('r, 'd) Server \<Rightarrow> Response \<times> ('r, 'd) Server" where
  "handleSaveManagedConfig repo yaml now r kind pathID s =
     (case json_Decode decode_config_fields (Req_Body r) \<lparr>mc_ID = [], mc_Name = [], mc_YAMLContent = [], mc_Active = None\<rparr> of
        Inl e \<Rightarrow> (writeError 400 e, s)
      | Inr req \<Rightarrow>
          (case managedConfigIdentity yaml kind (mc_YAMLContent req) of
             Inl e \<Rightarrow> (writeError 400 e, s)
           | Inr (ident, name) \<Rightarrow>
               let ident = (if mc_ID req \<noteq> [] then mc_ID req else ident);
                   ident = (if pathID \<noteq> [] then pathID else ident);
                   name = (if mc_Name req \<noteq> [] then mc_Name req else name);
                   active = (case mc_Active req of Some b \<Rightarrow> b | None \<Rightarrow> True)
               in (case save_config repo now ident kind name (mc_YAMLContent req) active zeroTime s of
                     (Inl e, s) \<Rightarrow> (writeError 500 e, s)
                   | (Inr cfg, s) \<Rightarrow> reload_and_answer repo yaml 201 (Body_config cfg) s)))"

definition handleManagedConfigActions ::
  "'r Repository \<Rightarrow> yaml_lib \<Rightarrow> (string \<Rightarrow> walk_entry list) \<Rightarrow> Time \<Rightarrow> ('r, 'd) handler" where
  "handleManagedConfigActions repo yaml walk now user r s =
     (case managedConfigPath (Req_Path r) of (kind, ident) \<Rightarrow>
        if kind = ''sync'' then handleManagedConfigSync repo yaml walk now r s
        else if \<not> isSupportedConfigKind kind then (writeError 400 (''unsupported config kind: '' @ kind), s)
        else if Req_Method r = ''GET''
        then (if ident \<noteq> []
              then (case repo_GetManagedConfig repo kind ident (Server_repo s) of
                  Inl e \<Rightarrow> (writeError 404 e, s) | Inr cfg \<Rightarrow> (writeJSON 200 (Body_config cfg), s))
              else (case repo_ListManagedConfigs repo kind (Server_repo s) of
                  Inl e \<Rightarrow> (writeError 500 e, s) | Inr cfgs \<Rightarrow> (writeJSON 200 (Body_configs cfgs), s)))
        else if Req_Method r = ''POST'' \<or> Req_Method r = ''PUT'' then handleSaveManagedConfig repo yaml now r kind ident s
        else if Req_Method r = ''DELETE''
        then (if ident = [] then (writeError 400 ''config id is required'', s)
              else (case repo_DeleteManagedConfig repo kind ident (Server_repo s) of
                  (Inl e, rp) \<Rightarrow> (writeError 404 e, s\<lparr>Server_repo := rp\<rparr>)
                | (Inr _, rp) \<Rightarrow>
                    reload_and_answer repo yaml 200 (Body_map [(''status'', VStr ''deleted'')]) (s\<lparr>Server_repo := rp\<rparr>)))
        else (writeError 405 ''unsupported method'', s))"

section \<open>Changes take effect\<close>

text \<open>The modules that the active template groups among some configurations define, in order.\<close>

fun config_modules :: "yaml_lib \<Rightarrow> ManagedConfig list \<Rightarrow> Module list" where
  "config_modules yaml [] = []"
| "config_modules yaml (cfg # cfgs) =
     (case (if ManagedConfig_Active cfg \<and> ManagedConfig_Kind cfg = configKindTemplate
            then yaml_group yaml (ManagedConfig_YAMLContent cfg) else Inl []) of
        Inl _ \<Rightarrow> [] | Inr grp \<Rightarrow> map newTemplateModuleFromYAML (tg_Templates grp)) @ config_modules yaml cfgs"

abbreviation last_with_code :: "Module list \<Rightarrow> string \<Rightarrow> Module option" where
  "last_with_code ms code \<equiv> map_of (rev (map (\<lambda>m. (mod_Code m, m)) ms)) code"

lemma kinds_differ [simp]: "configKindTemplate \<noteq> configKindPolicy" "configKindPolicy \<noteq> configKindTemplate"
  by (simp_all add: configKindTemplate_def configKindPolicy_def)

lemma foldl_registers:
  "foldl (\<lambda>reg t. Registry_Register (f t) reg) reg ts = foldl (\<lambda>reg m. Registry_Register m reg) reg (map f ts)"
  by (induction ts arbitrary: reg) auto

lemma apply_configs_registry:
  "apply_configs yaml cfgs s = (None, s') \<Longrightarrow>
   Server_moduleReg s' = foldl (\<lambda>reg m. Registry_Register m reg) (Server_moduleReg s) (config_modules yaml cfgs) \<and>
   Server_repo s' = Server_repo s"
proof (induction cfgs arbitrary: s)
  case (Cons cfg cfgs)
  show ?case
  proof (cases "ManagedConfig_Active cfg")
    case True
    then obtain s1 where s1: "applyManagedConfig yaml cfg s = (None, s1)" "apply_configs yaml cfgs s1 = (None, s')"
      using Cons.prems by (auto split: prod.splits option.splits)
    then have "Server_moduleReg s1 = foldl (\<lambda>reg m. Registry_Register m reg) (Server_moduleReg s)
        (config_modules yaml [cfg]) \<and> Server_repo s1 = Server_repo s"
      using True by (auto simp: applyManagedConfig_def foldl_registers[of newTemplateModuleFromYAML] split: if_splits sum.splits)
    then show ?thesis using Cons.IH[OF s1(2)] by simp
  next
    case False
    then show ?thesis using Cons by simp
  qed
qed simp

lemma registry_lookup:
  "map_of (Registry_modules (foldl (\<lambda>reg m. Registry_Register m reg) reg ms)) code =
   (case last_with_code ms code of Some m \<Rightarrow> Some m | None \<Rightarrow> map_of (Registry_modules reg) code)"
  by (induction ms rule: rev_induct) (auto simp: Registry_Register_def AList.update_conv' split: option.splits)

lemma reload_registry:
  assumes "reloadManagedConfigs repo yaml s = (None, s')" "repo_ListManagedConfigs repo [] (Server_repo s') = Inr cfgs"
  shows "map_of (Registry_modules (Server_moduleReg s')) code = last_with_code (config_modules yaml cfgs) code"
proof -
  let ?s = "s\<lparr>Server_moduleReg := Registry_Clear (Server_moduleReg s)\<rparr>"
  obtain cfgs' where c: "repo_ListManagedConfigs repo [] (Server_repo s) = Inr cfgs'" "apply_configs yaml cfgs' ?s = (None, s')"
    using assms(1) by (auto simp: reloadManagedConfigs_def Let_def split: sum.splits)
  note a = apply_configs_registry[OF c(2)]
  then have "cfgs' = cfgs" using assms(2) c(1) by simp
  then show ?thesis using a by (simp add: registry_lookup Registry_Clear_def split: option.splits)
qed

lemma reload_and_answer_registry:
  assumes "reload_and_answer repo yaml status body s = (resp, s')" "Resp_Status resp \<noteq> 400"
    and "repo_ListManagedConfigs repo [] (Server_repo s') = Inr cfgs"
  shows "map_of (Registry_modules (Server_moduleReg s')) code = last_with_code (config_modules yaml cfgs) code"
  using assms(1,2) reload_registry[OF _ assms(3)]
  by (auto simp: reload_and_answer_def writeError_def writeJSON_def split: prod.splits option.splits)

text \<open>C31. After a request that changes configurations has succeeded, the module registry holds, for every code,
  exactly the module that the active template groups in the repository define for it (the last one, when there
  are several): nothing of a deleted or deactivated group remains, and the registry and the repository agree.\<close>

theorem config_changes_take_effect:
  assumes "handleManagedConfigActions repo yaml walk now user r s = (resp, s')"
    and "Req_Method r \<in> {''POST'', ''PUT'', ''DELETE''}" "Resp_Status resp \<in> {200, 201}"
    and "repo_ListManagedConfigs repo [] (Server_repo s') = Inr cfgs"
  shows "map_of (Registry_modules (Server_moduleReg s')) code = last_with_code (config_modules yaml cfgs) code"
proof -
  have "\<exists>status body t. reload_and_answer repo yaml status body t = (resp, s')"
    using assms(1-3)
    by (auto simp: handleManagedConfigActions_def handleManagedConfigSync_def handleSaveManagedConfig_def Let_def
        writeError_def writeJSON_def split: prod.splits if_splits sum.splits option.splits)
  then show ?thesis using reload_and_answer_registry assms(3,4) by fastforce
qed

text \<open>A parser that knows two texts: a group with one module and a policy that allows it.\<close>

definition demo_yaml :: yaml_lib where
  "demo_yaml = \<lparr>
     yaml_group = (\<lambda>raw. if raw = ''G'' then Inr \<lparr>tg_ID = ''base'', tg_Name = ''Base'', tg_Templates =
          [\<lparr>ty_Code = ''df'', ty_Name = ''disk'', ty_Description = [], ty_ToolType = ''shell'', ty_Command = ''df -h'',
            ty_Parameters = [], ty_RiskLevel = RiskLevelLow\<rparr>]\<rparr> else Inl ''yaml: bad group''),
     yaml_policy = (\<lambda>raw. if raw = ''P'' then Inr \<lparr>py_ID = [], py_Name = ''open'', py_BlockedTools = [],
          py_AllowedTemplates = [''df''], py_HighRiskKeywords = [], py_ApprovalRiskLevels = []\<rparr> else Inl ''yaml: bad policy'')\<rparr>"

definition save_request :: "string \<Rightarrow> string \<Rightarrow> Request" where
  "save_request kind content =
     demo_request ''POST'' (''/api/v1/configs/'' @ kind) (json_print (JObj [(''yaml_content'', JStr content)]))"

definition config_action :: "Request \<Rightarrow> (MemoryRepository, unit) Server \<Rightarrow> Response \<times> (MemoryRepository, unit) Server" where
  "config_action r s = handleManagedConfigActions memory_repository demo_yaml (\<lambda>_. []) 5 zero_User r s"

theorem config_changes_take_effect_witness:
  "let s' = snd (config_action (save_request ''templates'' ''G'') demo_server)
   in map_option mod_Code (map_of (Registry_modules (Server_moduleReg s')) ''df'') = Some ''df''"
proof -
  let ?r = "save_request ''templates'' ''G''"
  let ?s = "snd (config_action ?r demo_server)"
  have status: "Resp_Status (fst (config_action ?r demo_server)) = 201" by code_simp
  have post: "Req_Method ?r = ''POST''" by (simp add: save_request_def demo_request_def)
  have cfgs: "map_option mod_Code (last_with_code (config_modules demo_yaml (vals (Mem_managedConfigs (Server_repo ?s)))) ''df'') = Some ''df''"
    by code_simp
  have list: "repo_ListManagedConfigs memory_repository [] (Server_repo ?s) = Inr (vals (Mem_managedConfigs (Server_repo ?s)))"
    by (simp add: memory_repository_def Mem_ListManagedConfigs_def)
  have "map_of (Registry_modules (Server_moduleReg ?s)) ''df'' =
      last_with_code (config_modules demo_yaml (vals (Mem_managedConfigs (Server_repo ?s)))) ''df''"
    by (rule config_changes_take_effect[OF prod.collapse[symmetric, of "config_action ?r demo_server", unfolded config_action_def]
          _ _ list[unfolded config_action_def], folded config_action_def])
      (simp_all add: status post)
  then show ?thesis using cfgs by (simp add: Let_def)
qed

text \<open>Reloading clears the module registry but not the policy engine: after the only policy has been deleted,
  and although the request succeeds, the templates it allowed stay allowed.\<close>

lemma deleted_policy_stays_in_force:
  "let s1 = snd (config_action (save_request ''policies'' ''P'') demo_server);
       (resp, s2) = config_action (demo_request ''DELETE'' ''/api/v1/configs/policies/default'' []) s1
   in isl (ValidateTemplate (Server_policyEng demo_server) ''df'') \<and>
      Resp_Status resp = 200 \<and> Mem_managedConfigs (Server_repo s2) = [] \<and>
      \<not> isl (ValidateTemplate (Server_policyEng s2) ''df'')"
  by code_simp

section \<open>Synchronisation without enforcement only adds\<close>

definition keeps_configs :: "(MemoryRepository, 'd) Server \<Rightarrow> (MemoryRepository, 'd) Server \<Rightarrow> bool" where
  "keeps_configs s s' \<longleftrightarrow> (\<forall>kind ident cfg. Mem_GetManagedConfig kind ident (Server_repo s) = Inr cfg \<longrightarrow>
     Mem_GetManagedConfig kind ident (Server_repo s') = Inr cfg)"

lemma keeps_configs_refl [simp]: "keeps_configs s s"
  by (simp add: keeps_configs_def)

lemma identity_named: "managedConfigIdentity yaml kind content = Inr (ident, name) \<Longrightarrow> ident \<noteq> []"
  by (auto simp: managedConfigIdentity_def split: if_splits sum.splits)

lemma save_absent_keeps:
  assumes "Mem_GetManagedConfig kind ident (Server_repo s) = Inl e" "ident \<noteq> []"
  shows "keeps_configs s (snd (save_config memory_repository now ident kind name content active created s))"
  using assms
  by (auto simp: keeps_configs_def save_config_def memory_repository_def Mem_SaveManagedConfig_def Mem_GetManagedConfig_def
      Let_def AList.update_conv' split: option.splits)

lemma sync_entry_keeps: "keeps_configs s (snd (snd (sync_entry memory_repository yaml now False entry report s)))"
proof -
  have one: "keeps_configs s (snd (snd (sync_file memory_repository yaml now False path kind content report s)))"
    for path kind content
  proof (cases "managedConfigIdentity yaml kind content")
    case (Inr p)
    obtain ident name where p: "p = (ident, name)" by force
    show ?thesis
    proof (cases "Mem_GetManagedConfig kind ident (Server_repo s)")
      case (Inl e)
      have get: "repo_GetManagedConfig memory_repository = Mem_GetManagedConfig" by (simp add: memory_repository_def)
      obtain res t where save: "save_config memory_repository now ident kind name content True zeroTime s = (res, t)" by force
      then have "keeps_configs s t"
        using save_absent_keeps[OF Inl identity_named[OF Inr[unfolded p]], of now name content True zeroTime] by simp
      then show ?thesis using Inr p Inl save by (cases res) (simp_all add: sync_file_def get)
    qed (use Inr p in \<open>simp add: sync_file_def memory_repository_def\<close>)
  qed (simp add: sync_file_def)
  show ?thesis by (simp add: sync_entry_def Let_def one split: sum.splits)
qed

text \<open>In \<open>missing\<close> mode the synchronisation with the directory imports what is absent and changes nothing
  else: every configuration in the repository stays as it was, whatever the directory holds and wherever an
  error stops the walk.\<close>

lemma sync_missing_only_adds:
  assumes "Mem_GetManagedConfig kind ident (Server_repo s) = Inr cfg"
  shows "Mem_GetManagedConfig kind ident
    (Server_repo (snd (snd (syncManagedConfigs memory_repository yaml walk now dir False s)))) = Inr cfg"
proof -
  have "keeps_configs s (snd (snd (sync_walk memory_repository yaml now False entries report s)))"
    for entries report and s :: "(MemoryRepository, 'a) Server"
  proof (induction entries arbitrary: report s)
    case (Cons entry entries)
    obtain err rep t where t: "sync_entry memory_repository yaml now False entry report s = (err, rep, t)"
      by (metis prod.exhaust)
    then have "keeps_configs s t" using sync_entry_keeps[of s yaml now entry report] by simp
    then show ?case using t Cons[of t rep] by (cases err) (auto simp: keeps_configs_def)
  qed simp
  then show ?thesis using assms by (simp add: syncManagedConfigs_def keeps_configs_def)
qed

theorem sync_missing_only_adds_witness:
  "\<exists>cfg. Mem_GetManagedConfig ''templates'' ''base''
     (Server_repo (snd (snd (syncManagedConfigs memory_repository demo_yaml (\<lambda>_. [\<lparr>Walk_path = ''c/templates/x.yaml'',
        Walk_err = None, Walk_dir = False, Walk_content = Inr ''G''\<rparr>]) 9 ''c'' False
        (snd (config_action (save_request ''templates'' ''G'') demo_server)))))) = Inr cfg"
proof -
  let ?s = "snd (config_action (save_request ''templates'' ''G'') demo_server)"
  have "\<not> isl (Mem_GetManagedConfig ''templates'' ''base'' (Server_repo ?s))" by code_simp
  then obtain cfg where "Mem_GetManagedConfig ''templates'' ''base'' (Server_repo ?s) = Inr cfg"
    by (cases "Mem_GetManagedConfig ''templates'' ''base'' (Server_repo ?s)") auto
  then show ?thesis using sync_missing_only_adds by blast
qed

end
