(* ===== verification/Http_Workers.thy ===== *)
theory Http_Workers
  imports Http_Base
begin

text \<open>
  \<open>internal/interfaces/http/worker.go\<close> and the worker log handler of \<open>job.go\<close>: registration, remote
  deployment, heartbeats, completion of jobs, stopping and deleting workers. The value of the environment
  variable and the path of the executable are arguments.
\<close>

section \<open>Numbers and time stamps in JSON\<close>

text \<open>A number field of type \<open>float64\<close>: the value of the literal; an error when it rounds to infinity.\<close>

definition split_at :: "(char \<Rightarrow> bool) \<Rightarrow> string \<Rightarrow> string \<times> string" where
  "split_at p s = (takeWhile (\<lambda>c. \<not> p c) s, drop 1 (dropWhile (\<lambda>c. \<not> p c) s))"

definition number_value :: "string \<Rightarrow> float64" where
  "number_value n =
     (let neg = HasPrefix n ''-'';
          (mant, ex) = split_at (\<lambda>c. c = CHR ''e'' \<or> c = CHR ''E'') (TrimPrefix n ''-'');
          (whole, frac) = split_at (\<lambda>c. c = CHR ''.'') mant;
          m = of_nat (undec (whole @ frac)) / 10 ^ length frac;
          k = undec (TrimPrefix (TrimPrefix ex ''+'') ''-'');
          v = (if HasPrefix ex ''-'' then m / 10 ^ k else m * 10 ^ k)
      in if neg then - v else v)"

definition decode_float :: "jval \<Rightarrow> float64 \<Rightarrow> float64 \<times> error option" where
  "decode_float v old =
     (case v of
        JNum n \<Rightarrow> if \<bar>number_value n\<bar> < (2 ^ 54 - 1) * 2 ^ 970 then (number_value n, None) else (old, Some json_mismatch)
      | JNull \<Rightarrow> (old, None)
      | _ \<Rightarrow> (old, Some json_mismatch))"

text \<open>\<open>time.Time.UnmarshalJSON\<close>: a string in the RFC 3339 form.\<close>

definition leap :: "nat \<Rightarrow> bool" where
  "leap y \<longleftrightarrow> y mod 4 = 0 \<and> (y mod 100 \<noteq> 0 \<or> y mod 400 = 0)"

definition month_days :: "nat \<Rightarrow> nat list" where
  "month_days y = [31, if leap y then 29 else 28, 31, 30, 31, 30, 31, 31, 30, 31, 30, 31]"

text \<open>Days from the first of January 1970; year 0 begins 719528 days before it.\<close>

definition days_of_date :: "nat \<Rightarrow> nat \<Rightarrow> nat \<Rightarrow> int" where
  "days_of_date y m d = int (365 * y + (y + 3) div 4 - (y + 99) div 100 + (y + 399) div 400 +
     sum_list (take (m - 1) (month_days y)) + (d - 1)) - 719528"

definition number_in :: "nat \<Rightarrow> nat \<Rightarrow> string \<Rightarrow> nat option" where
  "number_in lo hi s = (if s \<noteq> [] \<and> list_all is_digit s \<and> lo \<le> undec s \<and> undec s \<le> hi then Some (undec s) else None)"

definition slice :: "nat \<Rightarrow> nat \<Rightarrow> string \<Rightarrow> string" where
  "slice a b s = take (b - a) (drop a s)"

definition parse_zone :: "string \<Rightarrow> int option" where
  "parse_zone s =
     (if s = ''Z'' then Some 0
      else if length s = 6 \<and> (s ! 0 = CHR ''+'' \<or> s ! 0 = CHR ''-'') \<and> s ! 3 = CHR '':''
      then (case (number_in 0 23 (slice 1 3 s), number_in 0 59 (slice 4 6 s)) of
          (Some h, Some m) \<Rightarrow> Some ((if s ! 0 = CHR ''-'' then -1 else 1) * int (h * 3600 + m * 60))
        | _ \<Rightarrow> None)
      else None)"

definition parse_fraction :: "string \<Rightarrow> int \<times> string" where
  "parse_fraction s =
     (if HasPrefix s ''.'' \<and> takeWhile is_digit (drop 1 s) \<noteq> []
      then let ds = takeWhile is_digit (drop 1 s)
           in (int (undec (take 9 ds)) * 10 ^ (9 - length (take 9 ds)), dropWhile is_digit (drop 1 s))
      else (0, s))"

definition parseRFC3339 :: "string \<Rightarrow> Time option" where
  "parseRFC3339 s =
     (if length s < 19 \<or> s ! 4 \<noteq> CHR ''-'' \<or> s ! 7 \<noteq> CHR ''-'' \<or> s ! 10 \<noteq> CHR ''T'' \<or> s ! 13 \<noteq> CHR '':'' \<or> s ! 16 \<noteq> CHR '':''
      then None
      else (case (number_in 0 9999 (slice 0 4 s), number_in 1 12 (slice 5 7 s)) of
          (Some y, Some mo) \<Rightarrow>
            (case (number_in 1 (month_days y ! (mo - 1)) (slice 8 10 s), number_in 0 23 (slice 11 13 s),
                   number_in 0 59 (slice 14 16 s), number_in 0 59 (slice 17 19 s)) of
               (Some d, Some h, Some mi, Some sec) \<Rightarrow>
                 (case parse_fraction (drop 19 s) of (nsec, zone) \<Rightarrow>
                    map_option (\<lambda>off. ((days_of_date y mo d * 86400 + int (h * 3600 + mi * 60 + sec)) - off) * Second + nsec)
                      (parse_zone zone))
             | _ \<Rightarrow> None)
        | _ \<Rightarrow> None))"

definition decode_time :: "jval \<Rightarrow> Time \<Rightarrow> Time \<times> error option" where
  "decode_time v old =
     (case v of
        JStr s \<Rightarrow> (case parseRFC3339 s of Some t \<Rightarrow> (t, None) | None \<Rightarrow> (old, Some ''parsing time''))
      | JNull \<Rightarrow> (old, None)
      | _ \<Rightarrow> (old, Some ''Time.UnmarshalJSON: input is not a JSON string''))"

text \<open>\<open>decodeJSON\<close> where the caller ignores the error: what was decoded before it stays.\<close>

definition json_Decode_into :: "'a field_decoder list \<Rightarrow> string \<Rightarrow> 'a \<Rightarrow> 'a" where
  "json_Decode_into flds raw r =
     (case json_value (2 * length raw + 2) 10000 raw of
        None \<Rightarrow> r | Some (v, _) \<Rightarrow> fst (decode_struct True flds v r))"

lemma parseRFC3339_samples:
  "parseRFC3339 ''1970-01-01T00:00:00Z'' = Some 0"
  "parseRFC3339 ''0001-01-01T00:00:00Z'' = Some zeroTime"
  "parseRFC3339 ''2000-02-29T12:00:00.5+02:00'' = Some (951818400 * Second + 500000000)"
  "parseRFC3339 ''1900-02-29T00:00:00Z'' = None"
  by (simp_all add: parseRFC3339_def number_in_def slice_def parse_zone_def parse_fraction_def days_of_date_def
      month_days_def leap_def undec_def is_digit_def between_def zeroTime_def Second_def HasPrefix_def nth_Cons' take_Cons' drop_Cons')

section \<open>Registration and deployment\<close>

definition handleListWorkers :: "'r Repository \<Rightarrow> ('r, 'd) Server \<Rightarrow> Response" where
  "handleListWorkers repo s =
     writeJSON 200 (Body_workers (case repo_ListWorkers repo (Server_repo s) of Inr workers \<Rightarrow> workers | Inl _ \<Rightarrow> []))"

record registerWorkerRequest =
  rw_Name :: string
  rw_WorkerType :: string
  rw_SSHHost :: string
  rw_SSHPort :: int
  rw_SSHUser :: string
  rw_SSHPassword :: string
  rw_SSHKeyFile :: string
  rw_LogToDB :: bool

definition zero_registerWorkerRequest :: registerWorkerRequest where
  "zero_registerWorkerRequest = \<lparr>rw_Name = [], rw_WorkerType = [], rw_SSHHost = [], rw_SSHPort = 0, rw_SSHUser = [],
     rw_SSHPassword = [], rw_SSHKeyFile = [], rw_LogToDB = False\<rparr>"

definition register_fields :: "registerWorkerRequest field_decoder list" where
  "register_fields =
     [struct_field ''name'' decode_string rw_Name rw_Name_update,
      struct_field ''worker_type'' decode_string rw_WorkerType rw_WorkerType_update,
      struct_field ''ssh_host'' decode_string rw_SSHHost rw_SSHHost_update,
      struct_field ''ssh_port'' decode_int rw_SSHPort rw_SSHPort_update,
      struct_field ''ssh_user'' decode_string rw_SSHUser rw_SSHUser_update,
      struct_field ''ssh_password'' decode_string rw_SSHPassword rw_SSHPassword_update,
      struct_field ''ssh_key_file'' decode_string rw_SSHKeyFile rw_SSHKeyFile_update,
      struct_field ''log_to_db'' decode_bool rw_LogToDB rw_LogToDB_update]"

definition register_worker :: "'r Repository \<Rightarrow> Time \<Rightarrow> registerWorkerRequest \<Rightarrow> ('r, 'd) Server \<Rightarrow> Worker res \<times> ('r, 'd) Server" where
  "register_worker repo now req s =
     (case repo_RegisterWorker repo now (rw_Name req) (rw_WorkerType req) (Server_repo s) of
        (res, rp) \<Rightarrow> (res, s\<lparr>Server_repo := rp\<rparr>))"

text \<open>The checks of the remote branch and the deployment they allow.\<close>

definition remote_deployment ::
  "string \<Rightarrow> string res \<Rightarrow> registerWorkerRequest \<Rightarrow> Config \<Rightarrow> Response + (Target \<times> WorkerSpec \<times> string)" where
  "remote_deployment enabled executable req cfg =
     (if enabled \<noteq> ''true''
      then Inl (writeError 403 ''remote worker deployment is disabled; enable it explicitly only on a private management endpoint'')
      else if rw_SSHUser req = [] then Inl (writeError 400 ''ssh_user is required for remote deployment'')
      else if rw_SSHPassword req \<noteq> []
      then Inl (writeError 400 ''ssh_password is not accepted; provision a protected SSH key file on the server instead'')
      else if \<not> HasPrefix (Clean (rw_SSHKeyFile req)) ''/etc/adp/ssh/''
      then Inl (writeError 400 ''ssh_key_file must reference a protected key under /etc/adp/ssh/'')
      else (case executable of
          Inl e \<Rightarrow> Inl (writeError 500 (''cannot locate server binary: '' @ e))
        | Inr localBinary \<Rightarrow>
            Inr (\<lparr>Target_Host = rw_SSHHost req, Target_Port = rw_SSHPort req, Target_User = rw_SSHUser req,
                  Target_Password = rw_SSHPassword req, Target_KeyFile = Clean (rw_SSHKeyFile req)\<rparr>,
                 \<lparr>WorkerSpec_ServerURL = ''http://'' @ Config_Addr cfg, WorkerSpec_WorkerToken = Config_WorkerSharedToken cfg,
                  WorkerSpec_WorkerName = rw_Name req, WorkerSpec_WorkerType = rw_WorkerType req,
                  WorkerSpec_LogToDB = rw_LogToDB req\<rparr>, localBinary)))"

definition handleCreateWorker :: "'r Repository \<Rightarrow> string \<Rightarrow> string res \<Rightarrow> Time \<Rightarrow> ('r, 'd) handler" where
  "handleCreateWorker repo enabled executable now user r s =
     (case json_Decode register_fields (Req_Body r) zero_registerWorkerRequest of
        Inl e \<Rightarrow> (writeError 400 e, s)
      | Inr req \<Rightarrow>
          if rw_Name req = [] \<or> rw_WorkerType req = [] then (writeError 400 ''name and worker_type are required'', s)
          else if rw_SSHHost req \<noteq> []
          then (case remote_deployment enabled executable req (Server_config s) of
              Inl resp \<Rightarrow> (resp, s)
            | Inr deployment \<Rightarrow>
                (case register_worker repo now req (s\<lparr>Server_deployments := Server_deployments s @ [deployment]\<rparr>) of
                   (Inl e, s) \<Rightarrow> (writeError 500 e, s)
                 | (Inr worker, s) \<Rightarrow>
                     (writeJSON 202 (Body_deploying worker (rw_SSHHost req)),
                      recordAudit repo now ''user'' (User_Username user) ''worker.deploy_requested'' ''worker'' (Worker_ID worker)
                        [(''name'', VStr (Worker_Name worker)), (''worker_type'', VStr (Worker_WorkerType worker)),
                         (''ssh_host'', VStr (rw_SSHHost req))] s)))
          else (case register_worker repo now req s of
              (Inl e, s) \<Rightarrow> (writeError 500 e, s)
            | (Inr worker, s) \<Rightarrow>
                (writeJSON 201 (Body_worker worker),
                 recordAudit repo now ''user'' (User_Username user) ''worker.created'' ''worker'' (Worker_ID worker)
                   [(''name'', VStr (Worker_Name worker)), (''worker_type'', VStr (Worker_WorkerType worker))] s)))"

definition handleRegisterWorker ::
  "'r Repository \<Rightarrow> Time \<Rightarrow> Request \<Rightarrow> ('r, 'd) Server \<Rightarrow> Response \<times> ('r, 'd) Server" where
  "handleRegisterWorker repo now r s =
     (case json_Decode register_fields (Req_Body r) zero_registerWorkerRequest of
        Inl e \<Rightarrow> (writeError 400 e, s)
      | Inr req \<Rightarrow>
          if rw_Name req = [] \<or> rw_WorkerType req = [] then (writeError 400 ''name and worker_type are required'', s)
          else (case register_worker repo now req s of
              (Inl e, s) \<Rightarrow> (writeError 500 e, s)
            | (Inr worker, s) \<Rightarrow>
                (writeJSON 201 (Body_worker worker),
                 recordAudit repo now ''worker'' (Worker_ID worker) ''worker.registered'' ''worker'' (Worker_ID worker)
                   [(''name'', VStr (Worker_Name worker)), (''worker_type'', VStr (Worker_WorkerType worker))] s)))"

section \<open>Heartbeats, polls, completion\<close>

definition host_fields :: "HostInfo field_decoder list" where
  "host_fields =
     [struct_field ''hostname'' decode_string HostInfo_Hostname HostInfo_Hostname_update,
      struct_field ''ip_address'' decode_string HostInfo_IPAddress HostInfo_IPAddress_update,
      struct_field ''cpu_usage'' decode_float HostInfo_CPUUsage HostInfo_CPUUsage_update,
      struct_field ''storage_usage'' decode_float HostInfo_StorageUsage HostInfo_StorageUsage_update]"

text \<open>A pointer to a struct: null resets it, an object fills the old or a new value.\<close>

definition decode_host_ptr :: "jval \<Rightarrow> HostInfo option \<Rightarrow> HostInfo option \<times> error option" where
  "decode_host_ptr v old =
     (case v of
        JNull \<Rightarrow> (None, None)
      | _ \<Rightarrow> (case decode_struct True host_fields v (case old of Some h \<Rightarrow> h | None \<Rightarrow> zero_HostInfo) of (h, e) \<Rightarrow> (Some h, e)))"

definition heartbeat_fields :: "HostInfo option field_decoder list" where
  "heartbeat_fields = [struct_field ''host_info'' decode_host_ptr (\<lambda>x. x) (\<lambda>f x. f x)]"

definition handleWorkerHeartbeat ::
  "'r Repository \<Rightarrow> Time \<Rightarrow> Request \<Rightarrow> string \<Rightarrow> ('r, 'd) Server \<Rightarrow> Response \<times> ('r, 'd) Server" where
  "handleWorkerHeartbeat repo now r workerID s =
     (case repo_HeartbeatWorker repo now workerID (json_Decode_into heartbeat_fields (Req_Body r) None) (Server_repo s) of
        (Inl e, rp) \<Rightarrow> (writeError 404 e, s\<lparr>Server_repo := rp\<rparr>)
      | (Inr worker, rp) \<Rightarrow> (writeJSON 200 (Body_worker worker), s\<lparr>Server_repo := rp\<rparr>))"

definition poll_command :: "WorkerStatus \<Rightarrow> string" where
  "poll_command status =
     (if status = ''stopping'' then ''stop'' else if status = ''restarting'' then ''restart''
      else if status = ''force_stopping'' then ''force_stop'' else [])"

definition handleWorkerPoll :: "'r Repository \<Rightarrow> string \<Rightarrow> ('r, 'd) Server \<Rightarrow> Response" where
  "handleWorkerPoll repo workerID s =
     (case repo_GetWorker repo workerID (Server_repo s) of
        Inl _ \<Rightarrow> writeJSON 200 (Body_map [(''job'', VNil)])
      | Inr worker \<Rightarrow>
          writeJSON 200 (Body_map [(''job'', VNil), (''command'', VStr (poll_command (Worker_Status worker)))]))"

record completeJobRequest =
  complete_Success :: bool
  complete_Output :: string

definition complete_fields :: "completeJobRequest field_decoder list" where
  "complete_fields = [struct_field ''success'' decode_bool complete_Success complete_Success_update,
     struct_field ''output'' decode_string complete_Output complete_Output_update]"

definition handleWorkerCompleteJob ::
  "'r Repository \<Rightarrow> Time \<Rightarrow> string \<Rightarrow> string \<Rightarrow> Request \<Rightarrow> ('r, 'd) Server \<Rightarrow> Response \<times> ('r, 'd) Server" where
  "handleWorkerCompleteJob repo now workerID jobID r s =
     (case json_Decode complete_fields (Req_Body r) \<lparr>complete_Success = False, complete_Output = []\<rparr> of
        Inl e \<Rightarrow> (writeError 400 e, s)
      | Inr req \<Rightarrow>
          (case repo_CompleteJob repo now workerID jobID (complete_Output req) (complete_Success req) (Server_repo s) of
             (Inl e, rp) \<Rightarrow> (writeError 400 e, s\<lparr>Server_repo := rp\<rparr>)
           | (Inr job, rp) \<Rightarrow>
               (writeJSON 200 (Body_job job),
                recordAudit repo now ''worker'' workerID
                  (if complete_Success req then ''job.completed'' else ''job.failed'') ''job'' (Job_ID job)
                  [(''success'', VBool (complete_Success req))] (s\<lparr>Server_repo := rp\<rparr>))))"

definition handleUpdateHostInfo ::
  "'r Repository \<Rightarrow> Time \<Rightarrow> Request \<Rightarrow> string \<Rightarrow> ('r, 'd) Server \<Rightarrow> Response \<times> ('r, 'd) Server" where
  "handleUpdateHostInfo repo now r workerID s =
     (case json_Decode host_fields (Req_Body r) zero_HostInfo of
        Inl e \<Rightarrow> (writeError 400 e, s)
      | Inr info \<Rightarrow>
          (case repo_HeartbeatWorker repo now workerID (Some info) (Server_repo s) of
             (Inl e, rp) \<Rightarrow> (writeError 500 e, s\<lparr>Server_repo := rp\<rparr>)
           | (Inr _, rp) \<Rightarrow> (writeJSON 200 (Body_map [(''status'', VStr ''ok'')]), s\<lparr>Server_repo := rp\<rparr>)))"

section \<open>Stop, restart, delete\<close>

definition handleDeleteWorker :: "'r Repository \<Rightarrow> Time \<Rightarrow> User \<Rightarrow> string \<Rightarrow> ('r, 'd) Server \<Rightarrow> Response \<times> ('r, 'd) Server" where
  "handleDeleteWorker repo now user workerID s =
     (let s = push_command workerID ''force_stop'' s
      in case repo_DeleteWorker repo workerID (Server_repo s) of
           (Inl e, rp) \<Rightarrow> (writeError 500 e, s\<lparr>Server_repo := rp\<rparr>)
         | (Inr _, rp) \<Rightarrow>
             (writeJSON 200 (Body_map [(''status'', VStr ''deleted'')]),
              recordAudit repo now ''user'' (User_Username user) ''worker.deleted'' ''worker'' workerID [] (s\<lparr>Server_repo := rp\<rparr>)))"

definition handleStopWorker ::
  "'r Repository \<Rightarrow> Time \<Rightarrow> User \<Rightarrow> Request \<Rightarrow> string \<Rightarrow> ('r, 'd) Server \<Rightarrow> Response \<times> ('r, 'd) Server" where
  "handleStopWorker repo now user r workerID s =
     (let force = (TrimSpace (get_value (Req_Query r) ''force'') = ''true'');
          targetStatus = (if force then ''force_stopping'' else ''stopping'')
      in case repo_UpdateWorkerStatus repo now workerID targetStatus (Server_repo s) of
           (Inl e, rp) \<Rightarrow> (writeError 500 e, s\<lparr>Server_repo := rp\<rparr>)
         | (Inr _, rp) \<Rightarrow>
             (writeJSON 202 (Body_map [(''status'', VStr targetStatus)]),
              recordAudit repo now ''user'' (User_Username user) ''worker.stop_requested'' ''worker'' workerID
                [(''force'', VBool force)]
                (push_command workerID (if force then ''force_stop'' else ''stop'') (s\<lparr>Server_repo := rp\<rparr>))))"

definition handleRestartWorker ::
  "'r Repository \<Rightarrow> Time \<Rightarrow> User \<Rightarrow> string \<Rightarrow> ('r, 'd) Server \<Rightarrow> Response \<times> ('r, 'd) Server" where
  "handleRestartWorker repo now user workerID s =
     (case repo_UpdateWorkerStatus repo now workerID ''restarting'' (Server_repo s) of
        (Inl e, rp) \<Rightarrow> (writeError 500 e, s\<lparr>Server_repo := rp\<rparr>)
      | (Inr _, rp) \<Rightarrow>
          (writeJSON 202 (Body_map [(''status'', VStr ''restarting'')]),
           recordAudit repo now ''user'' (User_Username user) ''worker.restart_requested'' ''worker'' workerID []
             (push_command workerID ''restart'' (s\<lparr>Server_repo := rp\<rparr>))))"

definition handleWorkerUserAction :: "'r Repository \<Rightarrow> Time \<Rightarrow> ('r, 'd) handler" where
  "handleWorkerUserAction repo now user r s =
     (let parts = Split (TrimPrefix (Req_Path r) ''/api/v1/workers/'') (CHR ''/'')
      in if length parts < 1 \<or> parts ! 0 = [] then (writeError 404 ''unsupported route'', s)
         else let workerID = parts ! 0; action = (if length parts > 1 then parts ! 1 else [])
         in if action = ''stop'' \<and> Req_Method r = ''POST'' then handleStopWorker repo now user r workerID s
            else if action = ''restart'' \<and> Req_Method r = ''POST'' then handleRestartWorker repo now user workerID s
            else if action = [] \<and> Req_Method r = ''DELETE'' then handleDeleteWorker repo now user workerID s
            else (writeError 404 ''unsupported route'', s))"

text \<open>With a worker's token there is no current user: the zero \<open>User\<close>.\<close>

definition handleWorkerActions ::
  "'r Repository \<Rightarrow> Time \<Rightarrow> Request \<Rightarrow> ('r, 'd) Server \<Rightarrow> Response \<times> ('r, 'd) Server" where
  "handleWorkerActions repo now r s =
     (let parts = Split (TrimPrefix (Req_Path r) ''/api/v1/workers/'') (CHR ''/'')
      in if length parts < 2 then (writeError 404 ''unsupported worker route'', s)
         else let workerID = parts ! 0; action = parts ! 1; post = (Req_Method r = ''POST'')
         in if action = ''heartbeat'' \<and> post then handleWorkerHeartbeat repo now r workerID s
            else if action = ''poll'' \<and> post then (handleWorkerPoll repo workerID s, s)
            else if action = ''jobs'' \<and> length parts = 4 \<and> parts ! 3 = ''complete'' \<and> post
            then handleWorkerCompleteJob repo now workerID (parts ! 2) r s
            else if action = ''stop'' \<and> post then handleStopWorker repo now zero_User r workerID s
            else if action = ''restart'' \<and> post then handleRestartWorker repo now zero_User workerID s
            else if action = ''hostinfo'' \<and> Req_Method r = ''PUT'' then handleUpdateHostInfo repo now r workerID s
            else if action = ''command-ack'' \<and> post then (writeJSON 200 (Body_map [(''status'', VStr ''ok'')]), s)
            else (writeError 404 ''unsupported worker route'', s))"

section \<open>Worker logs\<close>

definition worker_log_fields :: "WorkerLog field_decoder list" where
  "worker_log_fields =
     [struct_field ''id'' decode_int WorkerLog_ID WorkerLog_ID_update,
      struct_field ''worker_id'' decode_string WorkerLog_WorkerID WorkerLog_WorkerID_update,
      struct_field ''job_id'' decode_string WorkerLog_JobID WorkerLog_JobID_update,
      struct_field ''command'' decode_string WorkerLog_Command WorkerLog_Command_update,
      struct_field ''progress'' decode_string WorkerLog_Progress WorkerLog_Progress_update,
      struct_field ''result'' decode_string WorkerLog_Result WorkerLog_Result_update,
      struct_field ''success'' decode_bool WorkerLog_Success WorkerLog_Success_update,
      struct_field ''created_at'' decode_time WorkerLog_CreatedAt WorkerLog_CreatedAt_update]"

definition handleAddWorkerLog ::
  "'r Repository \<Rightarrow> Time \<Rightarrow> Request \<Rightarrow> ('r, 'd) Server \<Rightarrow> Response \<times> ('r, 'd) Server" where
  "handleAddWorkerLog repo now r s =
     (case json_Decode worker_log_fields (Req_Body r)
             \<lparr>WorkerLog_ID = 0, WorkerLog_WorkerID = [], WorkerLog_JobID = [], WorkerLog_Command = [],
              WorkerLog_Progress = [], WorkerLog_Result = [], WorkerLog_Success = False, WorkerLog_CreatedAt = zeroTime\<rparr> of
        Inl e \<Rightarrow> (writeError 400 e, s)
      | Inr entry \<Rightarrow>
          (case repo_AddWorkerLog repo now entry (Server_repo s) of
             (Inl e, rp) \<Rightarrow> (writeError 500 e, s\<lparr>Server_repo := rp\<rparr>)
           | (Inr _, rp) \<Rightarrow> (writeJSON 201 (Body_map [(''status'', VStr ''logged'')]), s\<lparr>Server_repo := rp\<rparr>)))"

section \<open>The key file of a deployment is confined\<close>

lemma Split_Join: "ps \<noteq> [] \<Longrightarrow> list_all (\<lambda>p. d \<notin> set p) ps \<Longrightarrow> Split (Join ps [d]) d = ps"
  by (induction ps "[d]" rule: Join.induct) (auto simp: Split_append_sep Split_no_sep)

lemma clean_parts_named:
  "list_all (\<lambda>p. p \<noteq> [] \<and> CHR ''/'' \<notin> set p) kept \<Longrightarrow> list_all (\<lambda>p. CHR ''/'' \<notin> set p) ps \<Longrightarrow>
   list_all (\<lambda>p. p \<noteq> [] \<and> CHR ''/'' \<notin> set p) (clean_parts rooted kept ps)"
  by (induction rooted kept ps rule: clean_parts.induct) (auto split: list.splits)

lemma Join_relative: "list_all (\<lambda>p. p \<noteq> [] \<and> CHR ''/'' \<notin> set p) ps \<Longrightarrow> \<not> HasPrefix (Join ps ''/'') ''/''"
  by (cases ps; cases "tl ps") (auto simp: HasPrefix_def neq_Nil_conv)

lemma Clean_relative:
  assumes "\<not> HasPrefix path ''/''"
  shows "\<not> HasPrefix (Clean path) ''/''"
proof -
  let ?ps = "clean_parts False [] (Split path (CHR ''/''))"
  have "list_all (\<lambda>p. p \<noteq> [] \<and> CHR ''/'' \<notin> set p) ?ps"
    by (rule clean_parts_named) (simp_all add: Split_pieces_plain)
  then have "\<not> HasPrefix (Join ?ps ''/'') ''/''" by (rule Join_relative)
  then show ?thesis using assms by (simp add: Clean_def Let_def HasPrefix_def)
qed

lemma Clean_confined:
  assumes "HasPrefix (Clean path) ''/etc/adp/ssh/''"
  shows "\<exists>ps. ps \<noteq> [] \<and> list_all plain_part ps \<and> Clean path = ''/etc/adp/ssh/'' @ Join ps ''/''"
proof -
  obtain rest where rest: "Clean path = ''/etc/adp/ssh/'' @ rest"
    using assms by (metis HasPrefix_def append_take_drop_id)
  then have "HasPrefix path ''/''" using Clean_relative[of path] by (auto simp: HasPrefix_def)
  then obtain ps where ps: "list_all plain_part ps" "Clean path = ''/'' @ Join ps ''/''"
    using Clean_rooted by blast
  then have Join_eq: "Join ps ''/'' = ''etc'' @ CHR ''/'' # ''adp'' @ CHR ''/'' # ''ssh'' @ CHR ''/'' # rest"
    using rest by simp
  have "ps \<noteq> []" using Join_eq by auto
  then have "ps = Split (Join ps ''/'') (CHR ''/'')"
    using ps(1) by (simp add: Split_Join plain_part_def list_all_iff)
  also have "\<dots> = ''etc'' # ''adp'' # ''ssh'' # Split rest (CHR ''/'')"
    unfolding Join_eq by (subst Split_append_sep, simp)+ simp
  finally have "list_all plain_part (Split rest (CHR ''/''))" using ps(1) by simp
  then show ?thesis using rest Split_not_Nil[of rest] by (metis Join_Split)
qed

lemma register_worker_simps [simp]:
  "Server_deployments (snd (register_worker repo now req s)) = Server_deployments s"
  by (simp add: register_worker_def split: prod.splits)

lemma recordAudit_deployments [simp]:
  "Server_deployments (recordAudit repo now t i a rt ri dets s) = Server_deployments s"
  by (simp add: recordAudit_def)

lemma handleCreateWorker_deploys:
  assumes "dep \<in> set (Server_deployments (snd (handleCreateWorker repo enabled executable now user r s)))"
    and "dep \<notin> set (Server_deployments s)"
  shows "\<exists>req. remote_deployment enabled executable req (Server_config s) = Inr dep"
proof -
  have reg: "Server_deployments s2 = Server_deployments s1" if "register_worker repo now req s1 = (res, s2)" for req s1 res s2
    using that register_worker_simps[of repo now req s1] by simp
  show ?thesis using assms
    by (auto simp: handleCreateWorker_def reg split: sum.splits if_splits prod.splits dest!: reg)
qed

text \<open>C33. A remote deployment starts only when the operator has enabled it, never with a password, and its key
  file is a path below \<open>/etc/adp/ssh/\<close> whose remaining components are plain names: no request can name a file
  elsewhere on the server.\<close>

theorem deployment_confined:
  assumes "(target, spec, binary) \<in> set (Server_deployments (snd (handleCreateWorker repo enabled executable now user r s)))"
    and "(target, spec, binary) \<notin> set (Server_deployments s)"
  shows "enabled = ''true'' \<and> Target_User target \<noteq> [] \<and> Target_Password target = [] \<and>
    (\<exists>ps. ps \<noteq> [] \<and> list_all plain_part ps \<and> Target_KeyFile target = ''/etc/adp/ssh/'' @ Join ps ''/'')"
proof -
  obtain req where dep: "remote_deployment enabled executable req (Server_config s) = Inr (target, spec, binary)"
    using handleCreateWorker_deploys[OF assms] by blast
  then have "enabled = ''true''" "Target_User target \<noteq> []" "Target_Password target = []"
      "Target_KeyFile target = Clean (rw_SSHKeyFile req)" "HasPrefix (Clean (rw_SSHKeyFile req)) ''/etc/adp/ssh/''"
    by (auto simp: remote_deployment_def split: if_splits sum.splits)
  then show ?thesis using Clean_confined by metis
qed

definition deploy_body :: string where
  "deploy_body = json_print (JObj [(''name'', JStr ''w''), (''worker_type'', JStr ''shell''), (''ssh_host'', JStr ''h''),
     (''ssh_user'', JStr ''u''), (''ssh_key_file'', JStr ''/etc/adp/ssh/x/../k'')])"

definition deploy_demo :: "Target \<times> WorkerSpec \<times> string" where
  "deploy_demo = (\<lparr>Target_Host = ''h'', Target_Port = 0, Target_User = ''u'', Target_Password = [],
      Target_KeyFile = ''/etc/adp/ssh/k''\<rparr>,
    \<lparr>WorkerSpec_ServerURL = ''http://'', WorkerSpec_WorkerToken = ''tok'', WorkerSpec_WorkerName = ''w'',
      WorkerSpec_WorkerType = ''shell'', WorkerSpec_LogToDB = False\<rparr>, ''/bin/adp'')"

definition demo_actor :: User where
  "demo_actor = \<lparr>User_Username = ''root'', User_Role = ''admin''\<rparr>"

lemma deploy_demo_started:
  "Server_deployments (snd (handleCreateWorker memory_repository ''true'' (Inr ''/bin/adp'') 5 demo_actor
     (demo_request ''POST'' ''/api/v1/workers'' deploy_body) demo_server)) = [deploy_demo]"
  by code_simp

theorem deployment_confined_witness:
  "\<exists>ps. ps \<noteq> [] \<and> list_all plain_part ps \<and> Target_KeyFile (fst deploy_demo) = ''/etc/adp/ssh/'' @ Join ps ''/''"
proof -
  have "deploy_demo \<notin> set (Server_deployments demo_server)" by (simp add: demo_server_def)
  then show ?thesis
    using deployment_confined[where repo = memory_repository and enabled = "''true''" and executable = "Inr ''/bin/adp''"
        and now = 5 and user = demo_actor and r = "demo_request ''POST'' ''/api/v1/workers'' deploy_body"
        and s = demo_server and target = "fst deploy_demo" and spec = "fst (snd deploy_demo)"
        and binary = "snd (snd deploy_demo)"]
    by (simp add: deploy_demo_started)
qed

section \<open>Completion through the interface\<close>

context job_repository
begin

text \<open>A completion that is answered with 200 was sent for the worker the job is assigned to; the job ends with the
  reported result, which the answer shows, and the audit record leaves it there. Any other answer leaves the
  repository alone.\<close>

lemma completion:
  assumes "inv (Server_repo s)"
    and "handleWorkerCompleteJob repo now w j r s = (resp, s')"
  shows "if Resp_Status resp = 200
    then \<exists>old job. repo_GetJob repo j (Server_repo s) = Inr old \<and> Job_AssignedWorkerID old = w \<and>
      repo_GetJob repo j (Server_repo s') = Inr job \<and> Resp_Body resp = Body_job job \<and>
      Job_Status job \<in> {JobStatusSuccess, JobStatusFailed}
    else s' = s"
proof -
  let ?zero = "\<lparr>complete_Success = False, complete_Output = []\<rparr>"
  show ?thesis
  proof (cases "json_Decode complete_fields (Req_Body r) ?zero")
    case (Inl e)
    then show ?thesis using assms(2) by (auto simp: handleWorkerCompleteJob_def writeError_def writeJSON_def)
  next
    case (Inr req)
    obtain res rp where
      call: "repo_CompleteJob repo now w j (complete_Output req) (complete_Success req) (Server_repo s) = (res, rp)"
      by force
    show ?thesis
    proof (cases res)
      case (Inl e)
      then show ?thesis using assms(2) Inr call complete_err[OF assms(1), of now w j _ _ e rp]
        by (auto simp: handleWorkerCompleteJob_def writeError_def writeJSON_def)
    next
      case res: (Inr job)
      then show ?thesis using assms(2) Inr call complete_ok[OF assms(1), of now w j _ _ job rp]
        by (auto simp: handleWorkerCompleteJob_def writeJSON_def recordAudit_def audit_jobs)
    qed
  qed
qed

end

end
