(* ===== verification/Http_Pages.thy ===== *)
theory Http_Pages
  imports Http_Workers Http_Jobs
begin

text \<open>
  The handlers that mostly read, \<open>internal/interfaces/http\<close>: conversations (\<open>conversation.go\<close>), incident cases
  (\<open>case.go\<close>), the dashboard (\<open>dashboard.go\<close>), the Prometheus text (\<open>metrics.go\<close>) and the pages (\<open>ui.go\<close>). The
  embedded files are a parameter. The current time in the dashboard is kept as a time instead of its text.
\<close>

section \<open>Conversations\<close>

definition handleListConversations :: "'r Repository \<Rightarrow> ('r, 'd) Server \<Rightarrow> Response" where
  "handleListConversations repo s =
     (case repo_ListConversations repo (Server_repo s) of
        Inl e \<Rightarrow> writeError 500 e | Inr convs \<Rightarrow> writeJSON 200 (Body_conversations convs))"

definition title_fields :: "string field_decoder list" where
  "title_fields = [struct_field ''title'' decode_string (\<lambda>x. x) (\<lambda>f x. f x)]"

definition handleCreateConversation :: "'r Repository \<Rightarrow> Time \<Rightarrow> ('r, 'd) handler" where
  "handleCreateConversation repo now user r s =
     (case repo_CreateConversation repo now (TrimSpace (json_Decode_into title_fields (Req_Body r) [])) (Server_repo s) of
        (Inl e, rp) \<Rightarrow> (writeError 500 e, s\<lparr>Server_repo := rp\<rparr>)
      | (Inr conv, rp) \<Rightarrow>
          (writeJSON 201 (Body_conversation conv),
           recordAudit repo now ''user'' (User_Username user) ''conversation.created'' ''conversation'' (Conversation_ID conv) []
             (s\<lparr>Server_repo := rp\<rparr>)))"

definition handleConversationActions :: "'r Repository \<Rightarrow> Time \<Rightarrow> ('r, 'd) handler" where
  "handleConversationActions repo now user r s =
     (let ident = TrimSuffix (TrimPrefix (Req_Path r) ''/api/v1/conversations/'') ''/messages''
      in if ident = [] then (writeError 400 ''conversation id is required'', s)
         else if Req_Method r = ''GET'' \<and> HasSuffix (Req_Path r) ''/messages''
         then (case repo_ListConversationMessages repo ident (Server_repo s) of
             Inl e \<Rightarrow> (writeError 500 e, s) | Inr msgs \<Rightarrow> (writeJSON 200 (Body_messages msgs), s))
         else if Req_Method r = ''GET''
         then (case repo_GetConversation repo ident (Server_repo s) of
             Inl e \<Rightarrow> (writeError 404 e, s)
           | Inr conv \<Rightarrow>
               (case repo_ListConversationMessages repo ident (Server_repo s) of
                  Inl e \<Rightarrow> (writeError 500 e, s) | Inr msgs \<Rightarrow> (writeJSON 200 (Body_thread conv msgs), s)))
         else if Req_Method r = ''DELETE''
         then (case repo_DeleteConversation repo ident (Server_repo s) of
             (Inl e, rp) \<Rightarrow> (writeError 404 e, s\<lparr>Server_repo := rp\<rparr>)
           | (Inr _, rp) \<Rightarrow>
               (writeJSON 200 (Body_map [(''status'', VStr ''deleted'')]),
                recordAudit repo now ''user'' (User_Username user) ''conversation.deleted'' ''conversation'' ident []
                  (s\<lparr>Server_repo := rp\<rparr>)))
         else (writeError 405 ''unsupported method'', s))"

section \<open>Incident cases\<close>

definition parsePositiveInt :: "string \<Rightarrow> int" where
  "parsePositiveInt v = (if v = [] then 0 else (case Atoi v of Some n \<Rightarrow> if n \<le> 0 then 0 else n | None \<Rightarrow> 0))"

definition handleListIncidentCases :: "'r Repository \<Rightarrow> Request \<Rightarrow> ('r, 'd) Server \<Rightarrow> Response" where
  "handleListIncidentCases repo r s =
     (let q = (\<lambda>k. TrimSpace (get_value (Req_Query r) k));
          filt = \<lparr>IncidentCaseFilter_Query = q ''q'', IncidentCaseFilter_TriggerType = q ''trigger_type'',
             IncidentCaseFilter_FaultType = q ''fault_type'', IncidentCaseFilter_EnvironmentTags = [],
             IncidentCaseFilter_Limit = parsePositiveInt (get_value (Req_Query r) ''limit'')\<rparr>
      in writeJSON 200 (Body_cases (case repo_ListIncidentCases repo filt (Server_repo s) of Inr cs \<Rightarrow> cs | Inl _ \<Rightarrow> [])))"

definition buildHistoricalHints :: "IncidentCase list \<Rightarrow> string list" where
  "buildHistoricalHints cases =
     map (\<lambda>c. IncidentCase_Title c @ '': '' @ hd (IncidentCase_Suggestions c)) (filter (\<lambda>c. IncidentCase_Suggestions c \<noteq> []) cases)"

definition handleSuggestIncidentCases :: "'r Repository \<Rightarrow> Request \<Rightarrow> ('r, 'd) Server \<Rightarrow> Response" where
  "handleSuggestIncidentCases repo r s =
     (let q = (\<lambda>k. TrimSpace (get_value (Req_Query r) k));
          limit = parsePositiveInt (get_value (Req_Query r) ''limit'');
          limit = (if limit = 0 then 3 else limit);
          cases = (case repo_FindSimilarIncidentCases repo (q ''description'') (q ''trigger_type'') (q ''fault_type'') limit
                     (Server_repo s) of Inr cs \<Rightarrow> cs | Inl _ \<Rightarrow> [])
      in writeJSON 200 (Body_suggestions cases (buildHistoricalHints cases)))"

section \<open>The dashboard\<close>

text \<open>A value read from the repository, or the empty list where reading failed.\<close>

definition read_list :: "'a list res \<Rightarrow> 'a list" where
  "read_list x = (case x of Inr xs \<Rightarrow> xs | Inl _ \<Rightarrow> [])"

definition zero_MetricsSnapshot :: MetricsSnapshot where
  "zero_MetricsSnapshot = \<lparr>MetricsSnapshot_JobsTotal = 0, MetricsSnapshot_JobsSuccess = 0, MetricsSnapshot_JobsFailed = 0,
     MetricsSnapshot_JobsWaitingApproval = 0, MetricsSnapshot_WorkersOnline = 0, MetricsSnapshot_IncidentCasesTotal = 0,
     MetricsSnapshot_JobSuccessRate = 0, MetricsSnapshot_JobFailureRate = 0, MetricsSnapshot_AvgScheduleLatencySeconds = 0\<rparr>"

text \<open>\<open>limitJobs\<close> and \<open>limitAuditLogs\<close>.\<close>

definition limit_list :: "'a list \<Rightarrow> nat \<Rightarrow> 'a list" where
  "limit_list vs n = (if length vs \<le> n then vs else take n vs)"

definition newest :: "('a \<Rightarrow> Time) \<Rightarrow> 'a \<Rightarrow> 'a \<Rightarrow> bool" where
  "newest time a b \<longleftrightarrow> time a > time b"

definition handleDashboardSummary :: "'r Repository \<Rightarrow> Time \<Rightarrow> User \<Rightarrow> ('r, 'd) Server \<Rightarrow> Response" where
  "handleDashboardSummary repo now user s =
     (let rp = Server_repo s;
          jobs = read_list (repo_ListJobs repo \<lparr>JobFilter_SourceType = [], JobFilter_WorkerType = [], JobFilter_Status = [],
                   JobFilter_Limit = 8\<rparr> rp);
          cases = read_list (repo_ListIncidentCases repo \<lparr>IncidentCaseFilter_Query = [], IncidentCaseFilter_TriggerType = [],
                    IncidentCaseFilter_FaultType = [], IncidentCaseFilter_EnvironmentTags = [], IncidentCaseFilter_Limit = 4\<rparr> rp);
          templates = ListTemplates (Server_templateEng s)
      in writeJSON 200 (Body_dashboard
           \<lparr>Dash_User = user, Dash_CurrentTime = now,
            Dash_Metrics = (case repo_MetricsSnapshot repo now rp of Inr m \<Rightarrow> m | Inl _ \<Rightarrow> zero_MetricsSnapshot),
            Dash_AgentMetrics = metrics_dashboard (Server_agentMetrics s),
            Dash_RecentJobs = limit_list (sort_Slice (newest Job_CreatedAt) jobs) 8,
            Dash_Workers = sort_Slice (newest Worker_UpdatedAt) (read_list (repo_ListWorkers repo rp)),
            Dash_PendingApprovals =
              limit_list (sort_Slice (newest Job_CreatedAt) (read_list (repo_ListPendingApprovalJobs repo rp))) 6,
            Dash_RecentCases = cases,
            Dash_RecentAuditLogs =
              limit_list (sort_Slice (newest AuditLog_CreatedAt) (read_list (repo_ListAuditLogs repo [] [] rp))) 8,
            Dash_TemplatesTotal = length templates, Dash_Templates = templates\<rparr>))"

section \<open>The metrics page\<close>

text \<open>\<open>%.nf\<close>: the nearest decimal with \<open>n\<close> digits, the even one of two.\<close>

definition fixed :: "nat \<Rightarrow> float64 \<Rightarrow> string" where
  "fixed n x =
     (case quotient_of x of (a, b) \<Rightarrow>
        let num = nat \<bar>a\<bar> * 10 ^ n; d = nat b; k = num div d; r = num mod d;
            k = (if 2 * r > d \<or> 2 * r = d \<and> odd k then k + 1 else k); frac = dec (k mod 10 ^ n)
        in (if a < 0 then ''-'' else []) @ dec (k div 10 ^ n) @ (if n = 0 then [] else ''.'' @ replicate (n - length frac) (CHR ''0'') @ frac))"

definition metric :: "string \<Rightarrow> string \<Rightarrow> string \<Rightarrow> string \<Rightarrow> string" where
  "metric name kind help v = ''# HELP '' @ name @ '' '' @ help @ [CHR 0x0A] @ ''# TYPE '' @ name @ '' '' @ kind @ [CHR 0x0A] @
     name @ '' '' @ v @ [CHR 0x0A]"

text \<open>An average, or 0 without observations.\<close>

definition average :: "float64 \<Rightarrow> int \<Rightarrow> float64" where
  "average x n = (if n > 0 then x / of_int n else 0)"

definition snapshot_metrics :: "MetricsSnapshot \<Rightarrow> string list" where
  "snapshot_metrics m =
     [metric ''adp_jobs_total'' ''gauge'' ''Total number of jobs created.'' (dec (MetricsSnapshot_JobsTotal m)),
      metric ''adp_jobs_success_total'' ''gauge'' ''Total number of successful jobs.'' (dec (MetricsSnapshot_JobsSuccess m)),
      metric ''adp_jobs_failed_total'' ''gauge'' ''Total number of failed jobs.'' (dec (MetricsSnapshot_JobsFailed m)),
      metric ''adp_jobs_waiting_approval'' ''gauge'' ''Total number of jobs waiting for approval.''
        (dec (MetricsSnapshot_JobsWaitingApproval m)),
      metric ''adp_workers_online'' ''gauge'' ''Current number of online workers.'' (dec (MetricsSnapshot_WorkersOnline m)),
      metric ''adp_incident_cases_total'' ''gauge'' ''Total number of stored incident cases.''
        (dec (MetricsSnapshot_IncidentCasesTotal m)),
      metric ''adp_job_success_rate'' ''gauge'' ''Success rate of completed jobs.'' (fixed 6 (MetricsSnapshot_JobSuccessRate m)),
      metric ''adp_job_failure_rate'' ''gauge'' ''Failure rate of completed jobs.'' (fixed 6 (MetricsSnapshot_JobFailureRate m)),
      metric ''adp_job_schedule_latency_seconds_avg'' ''gauge'' ''Average queue-to-start latency in seconds.''
        (fixed 6 (MetricsSnapshot_AvgScheduleLatencySeconds m))]"

definition agent_metric_lines :: "agentMetrics \<Rightarrow> string list" where
  "agent_metric_lines m =
     [metric ''adp_agent_run_success_rate'' ''gauge'' ''Successful controlled Agent runs divided by completed runs.''
        (fixed 6 (average (of_int (m_successfulRuns m)) (m_runs m))),
      metric ''adp_agent_tool_error_total'' ''counter'' ''Tool calls returning an error.'' (dec_int (m_toolErrors m)),
      metric ''adp_agent_policy_rejection_total'' ''counter'' ''Policy-enforced tool rejections.'' (dec_int (m_policyRejections m)),
      metric ''adp_agent_steps_avg'' ''gauge'' ''Average LLM steps per Agent run.'' (fixed 6 (average (of_int (m_steps m)) (m_runs m))),
      metric ''adp_agent_approval_wait_seconds_avg'' ''gauge'' ''Average time a job waited for human approval.''
        (fixed 6 (average (Seconds (m_approvalWait m)) (m_approvals m))),
      metric ''adp_agent_model_latency_seconds_avg'' ''gauge'' ''Average model completion latency.''
        (fixed 6 (average (Seconds (m_modelLatency m)) (m_modelCalls m))),
      metric ''adp_agent_tool_latency_seconds_avg'' ''gauge'' ''Average local tool latency.''
        (fixed 6 (average (Seconds (m_toolLatency m)) (m_toolLatencyCalls m))),
      metric ''adp_agent_tokens_total'' ''counter'' ''Model token usage reported by the provider.'' (dec_int (m_totalTokens m)),
      metric ''adp_agent_prompt_tokens_total'' ''counter'' ''Prompt token usage reported by the provider.''
        (dec_int (m_promptTokens m)),
      metric ''adp_agent_completion_tokens_total'' ''counter'' ''Completion token usage reported by the provider.''
        (dec_int (m_completionTokens m)),
      metric ''adp_agent_token_cost_usd_total'' ''counter'' ''Configured-price estimate of model token cost in USD.''
        (fixed 8 (m_tokenCostUSD m))]"

definition handleMetrics :: "'r Repository \<Rightarrow> Time \<Rightarrow> ('r, 'd) Server \<Rightarrow> Response" where
  "handleMetrics repo now s =
     (let snapshot = (case repo_MetricsSnapshot repo now (Server_repo s) of Inr m \<Rightarrow> m | Inl _ \<Rightarrow> zero_MetricsSnapshot);
          online = filter (\<lambda>w. Worker_LastHeartbeatAt w > now - 30 * Second) (read_list (repo_ListWorkers repo (Server_repo s)))
      in writeJSON 200 (Body_text (concat (snapshot_metrics (snapshot\<lparr>MetricsSnapshot_WorkersOnline := length online\<rparr>) @
           agent_metric_lines (Server_agentMetrics s)))))"

section \<open>Pages\<close>

definition uiPageName :: "string \<Rightarrow> string res" where
  "uiPageName p =
     (case map_of [(''/'', ''index.html''), (''/login'', ''login.html''), (''/users'', ''users.html''),
          (''/workers'', ''workers.html''), (''/jobs'', ''jobs.html''), (''/tasks'', ''tasks.html''),
          (''/configs'', ''configs.html'')] p of
        Some f \<Rightarrow> Inr f | None \<Rightarrow> Inl ''page not found'')"

definition not_found_page :: Response where
  "not_found_page = writeJSON 404 (Body_text (''404 page not found'' @ [CHR 0x0A]))"

definition handleDashboardPage :: "(string \<Rightarrow> string option) \<Rightarrow> Request \<Rightarrow> Response" where
  "handleDashboardPage uiFiles r =
     (case uiPageName (Req_Path r) of
        Inl _ \<Rightarrow> not_found_page
      | Inr f \<Rightarrow>
          (case uiFiles (''ui/'' @ f) of
             None \<Rightarrow> writeJSON 500 (Body_text (''dashboard unavailable'' @ [CHR 0x0A]))
           | Some index \<Rightarrow> writeJSON 200 (Body_text index)))"

definition handleHealthz :: Response where
  "handleHealthz = writeJSON 200 (Body_map [(''status'', VStr ''ok'')])"

end
