(* ===== verification/Http_Server.thy ===== *)
theory Http_Server
  imports Http_Runs Http_Config Http_Pages
begin

text \<open>
  \<open>internal/interfaces/http/server.go\<close>: construction of the server, and the routing of a request through
  authentication to its handler. \<open>http.ServeMux\<close> is modelled for cleaned paths without escapes: the routes of the
  method are searched segment by segment, a literal before a wildcard before the rest of the path. A panic of a
  handler is the value \<open>Inl\<close>; the HTTP library catches it and drops the connection.
\<close>

section \<open>Authentication\<close>

text \<open>The response writer \<open>w\<close> says what becomes of a response that ends the request before its handler.\<close>

definition withUserAuth ::
  "Time \<Rightarrow> (Response \<Rightarrow> 'a) \<Rightarrow> (User \<Rightarrow> Request \<Rightarrow> ('r, 'd) Server \<Rightarrow> 'a) \<Rightarrow> Request \<Rightarrow> ('r, 'd) Server \<Rightarrow> 'a" where
  "withUserAuth now w h r s =
     (let token = bearerToken (get_value (Req_Headers r) ''Authorization'')
      in if token = [] then w (writeError 401 ''missing bearer token'')
         else (case ParseToken now (Server_auth s) token of
             Inl e \<Rightarrow> w (writeError 401 e)
           | Inr user \<Rightarrow> h user r s))"

definition withAdminAuth ::
  "Time \<Rightarrow> (Response \<Rightarrow> 'a) \<Rightarrow> (User \<Rightarrow> Request \<Rightarrow> ('r, 'd) Server \<Rightarrow> 'a) \<Rightarrow> Request \<Rightarrow> ('r, 'd) Server \<Rightarrow> 'a" where
  "withAdminAuth now w h r s =
     withUserAuth now w (\<lambda>user r s. if User_Role user \<noteq> ''admin'' then w (writeError 403 ''admin role required'')
       else h user r s) r s"

definition withWorkerAuth ::
  "(Response \<Rightarrow> 'a) \<Rightarrow> (Request \<Rightarrow> ('r, 'd) Server \<Rightarrow> 'a) \<Rightarrow> Request \<Rightarrow> ('r, 'd) Server \<Rightarrow> 'a" where
  "withWorkerAuth w h r s =
     (let token = get_value (Req_Headers r) ''X-Worker-Token''
      in if token = [] \<or> token \<noteq> Config_WorkerSharedToken (Server_config s)
         then w (writeError 401 ''invalid worker token'') else h r s)"

section \<open>The multiplexer\<close>

datatype segment = Lit string | Wild | Multi

text \<open>A pattern: the segments of its path; an empty last segment stands for the rest of a path.\<close>

definition pattern_segments :: "string \<Rightarrow> segment list" where
  "pattern_segments p =
     map (\<lambda>t. if t = [] then Multi else if HasPrefix t ''{'' then Wild else Lit t) (tl (Split p (CHR ''/'')))"

definition path_segments :: "string \<Rightarrow> string list" where
  "path_segments p = tl (Split p (CHR ''/''))"

definition after :: "segment \<Rightarrow> (segment list \<times> 'h) list \<Rightarrow> (segment list \<times> 'h) list" where
  "after seg rs = List.map_filter (\<lambda>(p, h). case p of x # q \<Rightarrow> if x = seg then Some (q, h) else None | [] \<Rightarrow> None) rs"

fun match_path :: "(segment list \<times> 'h) list \<Rightarrow> string list \<Rightarrow> (segment list \<times> 'h) option" where
  "match_path rs [] = map_option (\<lambda>h. ([], h)) (map_of rs [])"
| "match_path rs (x # xs) =
     (case match_path (after (Lit x) rs) xs of
        Some (p, h) \<Rightarrow> Some (Lit x # p, h)
      | None \<Rightarrow>
          (case if x = [] then None else match_path (after Wild rs) xs of
             Some (p, h) \<Rightarrow> Some (Wild # p, h)
           | None \<Rightarrow> map_option (\<lambda>h. ([Multi], h)) (map_of rs [Multi])))"

type_synonym 'h route = "string \<times> string \<times> 'h"

text \<open>The routes of a method; those for \<open>GET\<close> serve \<open>HEAD\<close> as well.\<close>

definition routes_of :: "'h route list \<Rightarrow> string \<Rightarrow> (segment list \<times> 'h) list" where
  "routes_of rs m = List.map_filter (\<lambda>(m', p, h). if m' = m then Some (pattern_segments p, h) else None) rs"

definition match_method :: "'h route list \<Rightarrow> string \<Rightarrow> string \<Rightarrow> (segment list \<times> 'h) option" where
  "match_method rs m path =
     (case match_path (routes_of rs m) (path_segments path) of
        Some x \<Rightarrow> Some x
      | None \<Rightarrow> if m = ''HEAD'' then match_path (routes_of rs ''GET'') (path_segments path) else None)"

definition cleanPath :: "string \<Rightarrow> string" where
  "cleanPath p =
     (if p = [] then ''/''
      else let p = (if HasPrefix p ''/'' then p else ''/'' @ p); np = Clean p
      in if HasSuffix p ''/'' \<and> np \<noteq> ''/'' then np @ ''/'' else np)"

definition exactMatch :: "(segment list \<times> 'h) option \<Rightarrow> string \<Rightarrow> bool" where
  "exactMatch n path \<longleftrightarrow>
     (case n of
        None \<Rightarrow> False
      | Some (p, _) \<Rightarrow> if last p \<noteq> Multi then True
          else HasSuffix path ''/'' \<and> length p = length (filter (\<lambda>c. c = CHR ''/'') path))"

datatype 'h found = Found 'h | Redirect string | MethodNotAllowed | NotFound

definition methods :: "string list" where
  "methods = [''GET'', ''HEAD'', ''POST'', ''PUT'', ''DELETE'']"

definition findHandler :: "'h route list \<Rightarrow> string \<Rightarrow> string \<Rightarrow> 'h found" where
  "findHandler rs m escaped =
     (let path = cleanPath escaped; n = match_method rs m path
      in if \<not> exactMatch n path \<and> \<not> HasSuffix path ''/'' \<and> exactMatch (match_method rs m (path @ ''/'')) (path @ ''/'')
         then Redirect (path @ ''/'')
         else if path \<noteq> escaped then Redirect path
         else (case n of
             Some (_, h) \<Rightarrow> Found h
           | None \<Rightarrow> if list_ex (\<lambda>m'. match_method rs m' path \<noteq> None) methods then MethodNotAllowed else NotFound))"

section \<open>The routes\<close>

text \<open>What the handlers use of the outside: the environment of the agent, bcrypt with its salt, the YAML parser, the
  directory of configurations, the environment variable and the path of the binary for remote deployment, the
  goroutine that resumes a run, and the embedded files.\<close>

record ('r, 'd, 'm) http_env =
  Http_agent :: "('r, 'm) agent_env"
  Http_bcrypt :: bcrypt
  Http_salt :: string
  Http_yaml :: yaml_lib
  Http_yaml_job :: "string \<Rightarrow> YAMLJobSpec res"
  Http_walk :: "string \<Rightarrow> walk_entry list"
  Http_remote_deploy :: string
  Http_executable :: "string res"
  Http_resume :: "string \<Rightarrow> ('r, 'd) Server \<Rightarrow> ('r, 'd) Server"
  Http_uiFiles :: "string \<Rightarrow> string option"
  Http_assets :: "Request \<Rightarrow> Response"

type_synonym ('r, 'd, 'm) outcome = "(error + Response) \<times> ('r, 'd) Server \<times> 'm"

datatype ('r, 'd, 'm) endpoint =
    Open "Request \<Rightarrow> ('r, 'd) Server \<Rightarrow> Response"
  | UserAuth "User \<Rightarrow> Request \<Rightarrow> ('r, 'd) Server \<Rightarrow> 'm \<Rightarrow> ('r, 'd, 'm) outcome"
  | AdminAuth "('r, 'd) handler"
  | WorkerAuth "Request \<Rightarrow> ('r, 'd) Server \<Rightarrow> Response \<times> ('r, 'd) Server"

definition with_model :: "Response \<times> ('r, 'd) Server \<Rightarrow> 'm \<Rightarrow> ('r, 'd, 'm) outcome" where
  "with_model x m = (case x of (resp, s) \<Rightarrow> (Inr resp, s, m))"

definition UserReads :: "(User \<Rightarrow> Request \<Rightarrow> ('r, 'd) Server \<Rightarrow> Response) \<Rightarrow> ('r, 'd, 'm) endpoint" where
  "UserReads f = UserAuth (\<lambda>user r s m. (Inr (f user r s), s, m))"

definition UserActs :: "('r, 'd) handler \<Rightarrow> ('r, 'd, 'm) endpoint" where
  "UserActs h = UserAuth (\<lambda>user r s m. with_model (h user r s) m)"

definition public_routes :: "('r, 'd, 'm) http_env \<Rightarrow> ('r, 'd, 'm) endpoint route list" where
  "public_routes env =
     (let repo = Env_repo (Http_agent env); now = Env_now (Http_agent env);
          page = Open (\<lambda>r s. handleDashboardPage (Http_uiFiles env) r)
      in [(''GET'', ''/'', page), (''GET'', ''/login'', page), (''GET'', ''/users'', page), (''GET'', ''/workers'', page),
          (''GET'', ''/jobs'', page), (''GET'', ''/tasks'', page), (''GET'', ''/configs'', page),
          (''GET'', ''/static/'', Open (\<lambda>r s. Http_assets env r)),
          (''GET'', ''/healthz'', Open (\<lambda>r s. handleHealthz)),
          (''GET'', ''/metrics'', Open (\<lambda>r s. handleMetrics repo now s)),
          (''POST'', ''/api/v1/auth/login'', Open (\<lambda>r s. handleLogin (Http_bcrypt env) now r s))])"

definition user_routes :: "('r, 'd, 'm) http_env \<Rightarrow> ('r, 'd, 'm) endpoint route list" where
  "user_routes env =
     (let agent = Http_agent env; repo = Env_repo agent; now = Env_now agent; bc = Http_bcrypt env; salt = Http_salt env;
          jobs = UserActs (handleJobActions repo now);
          workers = UserActs (handleWorkerUserAction repo now);
          conversations = UserActs (handleConversationActions repo now);
          runs = UserActs (\<lambda>user. handleGetAgentRun repo now)
      in [(''GET'', ''/api/v1/users'', UserActs handleListUsers),
          (''POST'', ''/api/v1/users'', UserActs (handleCreateUser repo bc salt now)),
          (''DELETE'', ''/api/v1/users/'', UserActs (handleDeleteUser repo now)),
          (''PUT'', ''/api/v1/users/'', UserActs (handleChangePassword repo bc salt now)),
          (''GET'', ''/api/v1/dashboard/summary'', UserReads (\<lambda>user r s. handleDashboardSummary repo now user s)),
          (''POST'', ''/api/v1/jobs'', UserActs (handleCreateJob repo now)),
          (''GET'', ''/api/v1/jobs'', UserReads (\<lambda>user. handleListJobs repo)),
          (''GET'', ''/api/v1/jobs/'', jobs), (''POST'', ''/api/v1/jobs/'', jobs), (''DELETE'', ''/api/v1/jobs/'', jobs),
          (''POST'', ''/api/v1/jobs/yaml'', UserActs (handleCreateJobFromYAML repo (Env_other agent) (Http_yaml_job env) now)),
          (''POST'', ''/api/v1/workers'', UserActs (handleCreateWorker repo (Http_remote_deploy env) (Http_executable env) now)),
          (''GET'', ''/api/v1/workers'', UserReads (\<lambda>user r s. handleListWorkers repo s)),
          (''POST'', ''/api/v1/workers/{id}/stop'', workers), (''POST'', ''/api/v1/workers/{id}/restart'', workers),
          (''DELETE'', ''/api/v1/workers/{id}'', workers),
          (''POST'', ''/api/v1/agent/runs'', UserAuth (handleAgentRun agent)),
          (''GET'', ''/api/v1/agent/runs/'', runs), (''POST'', ''/api/v1/agent/runs/'', runs),
          (''GET'', ''/api/v1/conversations'', UserReads (\<lambda>user r s. handleListConversations repo s)),
          (''POST'', ''/api/v1/conversations'', UserActs (handleCreateConversation repo now)),
          (''GET'', ''/api/v1/conversations/'', conversations), (''DELETE'', ''/api/v1/conversations/'', conversations),
          (''GET'', ''/api/v1/approvals/jobs'', UserReads (\<lambda>user r s. handleListPendingApprovalJobs repo s)),
          (''POST'', ''/api/v1/approvals/jobs/'', UserActs (handleApproveJob repo (Http_resume env) now)),
          (''GET'', ''/api/v1/audit/logs'', UserReads (\<lambda>user. handleListAuditLogs repo)),
          (''GET'', ''/api/v1/cases'', UserReads (\<lambda>user. handleListIncidentCases repo)),
          (''GET'', ''/api/v1/cases/suggestions'', UserReads (\<lambda>user. handleSuggestIncidentCases repo))])"

definition admin_routes :: "('r, 'd, 'm) http_env \<Rightarrow> ('r, 'd, 'm) endpoint route list" where
  "admin_routes env =
     (let configs = AdminAuth (handleManagedConfigActions (Env_repo (Http_agent env)) (Http_yaml env) (Http_walk env)
            (Env_now (Http_agent env)))
      in map (\<lambda>m. (m, ''/api/v1/configs/'', configs)) [''GET'', ''POST'', ''PUT'', ''DELETE''])"

definition worker_routes :: "('r, 'd, 'm) http_env \<Rightarrow> ('r, 'd, 'm) endpoint route list" where
  "worker_routes env =
     (let repo = Env_repo (Http_agent env); now = Env_now (Http_agent env); actions = WorkerAuth (handleWorkerActions repo now)
      in [(''POST'', ''/api/v1/workers/register'', WorkerAuth (handleRegisterWorker repo now)),
          (''POST'', ''/api/v1/workers/'', actions), (''PUT'', ''/api/v1/workers/'', actions),
          (''POST'', ''/api/v1/job-logs'', WorkerAuth (handleAddWorkerLog repo now))])"

definition routes :: "('r, 'd, 'm) http_env \<Rightarrow> ('r, 'd, 'm) endpoint route list" where
  "routes env = public_routes env @ user_routes env @ admin_routes env @ worker_routes env"

section \<open>Serving a request\<close>

definition call_endpoint ::
  "Time \<Rightarrow> ('r, 'd, 'm) endpoint \<Rightarrow> Request \<Rightarrow> ('r, 'd) Server \<Rightarrow> 'm \<Rightarrow> ('r, 'd, 'm) outcome" where
  "call_endpoint now e r s m =
     (let w = (\<lambda>resp. (Inr resp, s, m))
      in case e of
           Open f \<Rightarrow> w (f r s)
         | UserAuth h \<Rightarrow> withUserAuth now w (\<lambda>user r s. h user r s m) r s
         | AdminAuth h \<Rightarrow> withAdminAuth now w (\<lambda>user r s. with_model (h user r s) m) r s
         | WorkerAuth h \<Rightarrow> withWorkerAuth w (\<lambda>r s. with_model (h r s) m) r s)"

definition serve :: "('r, 'd, 'm) http_env \<Rightarrow> Request \<Rightarrow> ('r, 'd) Server \<Rightarrow> 'm \<Rightarrow> ('r, 'd, 'm) outcome" where
  "serve env r s m =
     (case findHandler (routes env) (Req_Method r) (Req_Path r) of
        Found e \<Rightarrow> call_endpoint (Env_now (Http_agent env)) e r s m
      | Redirect p \<Rightarrow> (Inr (writeJSON 301 (Body_text p)), s, m)
      | MethodNotAllowed \<Rightarrow> (Inr (writeJSON 405 (Body_text (''Method Not Allowed'' @ [CHR 0x0A]))), s, m)
      | NotFound \<Rightarrow> (Inr not_found_page, s, m))"

section \<open>Construction\<close>

text \<open>The goroutine that resumes interrupted runs starts before the configurations are loaded; \<open>early\<close> says on which
  side of the loading it runs. A panic there ends the program.\<close>

definition bare_server ::
  "bcrypt \<Rightarrow> string \<Rightarrow> Config \<Rightarrow> 'r \<Rightarrow> 'd Service option \<Rightarrow> 'd \<Rightarrow> ('r, 'd) Server" where
  "bare_server bc salt cfg rp authSvc d =
     (let reg = NewRegistry
      in \<lparr>Server_config = cfg, Server_repo = rp,
          Server_auth = (case authSvc of Some a \<Rightarrow> a
            | None \<Rightarrow> Auth_NewService bc salt (Config_AdminUsername cfg) (Config_AdminPassword cfg) (Config_AuthSecret cfg)),
          Server_db = d, Server_templateEng = fold RegisterModule (Registry_List reg) Template_NewEngine,
          Server_policyEng = Policy_NewEngine, Server_moduleReg = reg, Server_workerHub = NewHub,
          Server_agentMetrics = new_agentMetrics (Config_AgentInputTokenCostUSDPer1K cfg) (Config_AgentOutputTokenCostUSDPer1K cfg),
          Server_deployments = []\<rparr>)"

definition load_configs :: "('r, 'd, 'm) http_env \<Rightarrow> ('r, 'd) Server \<Rightarrow> ('r, 'd) Server" where
  "load_configs env s =
     (let repo = Env_repo (Http_agent env); cfg = Server_config s
      in case syncManagedConfigs repo (Http_yaml env) (Http_walk env) (Env_now (Http_agent env)) (Config_ManagedConfigDir cfg)
             (Config_ManagedConfigSyncMode cfg = ''enforce'') s of
           (_, _, s) \<Rightarrow> snd (reloadManagedConfigs repo (Http_yaml env) s))"

definition NewServer ::
  "('r, 'd, 'm) http_env \<Rightarrow> bool \<Rightarrow> Config \<Rightarrow> 'r \<Rightarrow> 'd Service option \<Rightarrow> 'd \<Rightarrow> 'm \<Rightarrow> error option \<times> ('r, 'd) Server \<times> 'm" where
  "NewServer env early cfg rp authSvc d m =
     (let s = bare_server (Http_bcrypt env) (Http_salt env) cfg rp authSvc d
      in if early
         then (case resumeInterruptedAgentRuns (Http_agent env) s m of (p, s, m) \<Rightarrow> (p, load_configs env s, m))
         else resumeInterruptedAgentRuns (Http_agent env) (load_configs env s) m)"

end
