(* ===== verification/Http_Access.thy ===== *)
theory Http_Access
  imports Http_Server
begin

text \<open>
  Who can do what over HTTP: what an unauthenticated request gets, and that only administrators change the rules
  (configuration, accounts, policy, modules). Each handler has a frame lemma on \<open>rules_of\<close>; the properties are about
  \<open>serve\<close>, the whole way from a path to an answer.
\<close>

section \<open>What the handlers leave alone\<close>

lemma job_steps_rules:
  "create_job repo now job s = (res, s1) \<Longrightarrow> rules_of s1 = rules_of s"
  "dispatchJobToWorker repo now j w s = (res, s1) \<Longrightarrow> rules_of s1 = rules_of s"
  by (auto simp: create_job_def dispatchJobToWorker_def split: prod.splits sum.splits)

lemma create_for_workers_rules: "create_for_workers repo now req wids s = (out, s1) \<Longrightarrow> rules_of s1 = rules_of s"
  by (induction wids arbitrary: s out s1)
    (auto split: sum.splits prod.splits if_splits dest!: job_steps_rules)

lemma dispatch_to_rules: "dispatch_to repo now base first wids s = (out, s1) \<Longrightarrow> rules_of s1 = rules_of s"
  by (induction wids arbitrary: s out s1 first)
    (auto split: sum.splits prod.splits if_splits dest!: job_steps_rules)

lemma yaml_targets_rules: "yaml_targets repo now spec task tmpl cmd wids s = (out, s1) \<Longrightarrow> rules_of s1 = rules_of s"
  by (induction wids arbitrary: s out s1)
    (auto split: sum.splits prod.splits if_splits dest!: job_steps_rules)

lemma yaml_tasks_rules: "yaml_tasks repo other now spec wids tasks s = (out, s1) \<Longrightarrow> rules_of s1 = rules_of s"
  by (induction tasks arbitrary: s out s1)
    (auto split: sum.splits prod.splits dest!: yaml_targets_rules)

lemma fold_audit_rules: "rules_of (fold (\<lambda>x s. recordAudit repo now a b c d (f x) (g x) s) xs s) = rules_of s"
  by (induction xs arbitrary: s) auto

lemma job_handlers_rules:
  "rules_of (snd (handleCreateJob repo now user r s)) = rules_of s"
  "rules_of (snd (handleJobActions repo now user r s)) = rules_of s"
  "rules_of (snd (handleCreateJobFromYAML repo other yaml now user r s)) = rules_of s"
proof -
  show "rules_of (snd (handleCreateJob repo now user r s)) = rules_of s"
    by (auto simp: handleCreateJob_def split: sum.splits prod.splits dest!: job_steps_rules create_for_workers_rules)
  have "rules_of (snd (handleDispatchJob repo now user r s)) = rules_of s"
    by (auto simp: handleDispatchJob_def Let_def split: sum.splits prod.splits dest!: dispatch_to_rules)
  moreover have "rules_of (snd (handleDeleteJob repo now user r s)) = rules_of s"
    by (auto simp: handleDeleteJob_def Let_def split: sum.splits prod.splits)
  ultimately show "rules_of (snd (handleJobActions repo now user r s)) = rules_of s"
    by (simp add: handleJobActions_def)
  show "rules_of (snd (handleCreateJobFromYAML repo other yaml now user r s)) = rules_of s"
    by (auto simp: handleCreateJobFromYAML_def fold_audit_rules split: sum.splits prod.splits dest!: yaml_tasks_rules)
qed

lemma auto_dispatch_rules: "rules_of (snd (auto_dispatch repo now js)) = rules_of (snd js)"
  by (auto simp: auto_dispatch_def split: sum.splits prod.splits dest!: job_steps_rules)

lemma cancel_run_rules: "rules_of (cancel_run repo now job s) = rules_of s"
  by (simp add: cancel_run_def Let_def split: sum.splits)

lemma approve_rules:
  assumes "\<And>i s. rules_of (resume i s) = rules_of s"
  shows "rules_of (snd (handleApproveJob repo resume now user r s)) = rules_of s"
proof -
  have dispatch: "auto_dispatch repo now (job, s0) = (job1, s1) \<Longrightarrow> rules_of s1 = rules_of s0" for job s0 job1 s1
    using auto_dispatch_rules[of repo now "(job, s0)"] by simp
  show ?thesis
    by (auto simp: handleApproveJob_def Let_def assms cancel_run_rules
        split: sum.splits prod.splits option.splits if_splits dest!: dispatch)
qed

lemma register_worker_rules: "register_worker repo now req s = (res, s1) \<Longrightarrow> rules_of s1 = rules_of s"
  by (auto simp: register_worker_def split: prod.splits)

lemma worker_handlers_rules:
  "rules_of (snd (handleCreateWorker repo enabled executable now user r s)) = rules_of s"
  "rules_of (snd (handleRegisterWorker repo now r s)) = rules_of s"
  "rules_of (snd (handleStopWorker repo now user r wid s)) = rules_of s"
  "rules_of (snd (handleRestartWorker repo now user wid s)) = rules_of s"
  "rules_of (snd (handleDeleteWorker repo now user wid s)) = rules_of s"
  "rules_of (snd (handleAddWorkerLog repo now r s)) = rules_of s"
  by (auto simp: handleCreateWorker_def handleRegisterWorker_def handleStopWorker_def handleRestartWorker_def
      handleDeleteWorker_def handleAddWorkerLog_def Let_def split: sum.splits prod.splits dest!: register_worker_rules)

lemma worker_actions_rules:
  "rules_of (snd (handleWorkerUserAction repo now user r s)) = rules_of s"
  "rules_of (snd (handleWorkerActions repo now r s)) = rules_of s"
proof -
  have "rules_of (snd (handleWorkerHeartbeat repo now r wid s)) = rules_of s"
    "rules_of (snd (handleWorkerCompleteJob repo now wid j r s)) = rules_of s"
    "rules_of (snd (handleUpdateHostInfo repo now r wid s)) = rules_of s" for wid j
    by (auto simp: handleWorkerHeartbeat_def handleWorkerCompleteJob_def handleUpdateHostInfo_def Let_def
        split: sum.splits prod.splits)
  then show "rules_of (snd (handleWorkerUserAction repo now user r s)) = rules_of s"
    "rules_of (snd (handleWorkerActions repo now r s)) = rules_of s"
    by (simp_all add: handleWorkerUserAction_def handleWorkerActions_def Let_def worker_handlers_rules)
qed

lemma conversation_rules:
  "rules_of (snd (handleCreateConversation repo now user r s)) = rules_of s"
  "rules_of (snd (handleConversationActions repo now user r s)) = rules_of s"
  by (auto simp: handleCreateConversation_def handleConversationActions_def Let_def split: sum.splits prod.splits)

section \<open>Agent runs leave the rules alone\<close>

definition rules_from :: "('r, 'd) Server \<Rightarrow> ('r, 'd, 'm) World \<Rightarrow> bool" where
  "rules_from s w \<longleftrightarrow> rules_of (W_server w) = rules_of s"

lemma on_repo_rules: "rules_from s w \<Longrightarrow> rules_from s (snd (on_repo f w))"
  by (simp add: rules_from_def on_repo_def case_prod_beta)

lemma rules_from_simps [simp]:
  "rules_from s (w\<lparr>W_transcript := t\<rparr>) = rules_from s w"
  "rules_from s (w\<lparr>W_run := run\<rparr>) = rules_from s w"
  "rules_from s (w\<lparr>W_panic := p\<rparr>) = rules_from s w"
  "rules_from s (w\<lparr>W_model := m\<rparr>) = rules_from s w"
  "rules_from s (on_metrics f w) = rules_from s w"
  by (simp_all add: rules_from_def on_metrics_def)

lemma persist_rules: "keeps (rules_from s) (persist env)"
  by (simp add: keeps_def persist_def Let_def on_repo_rules)

lemma observer_rules: "observer_keeps (rules_from s) (run_observer env)"
proof -
  have repo: "keeps (rules_from s) (on_repo f)" for f :: "'a \<Rightarrow> 'x res \<times> 'a"
    by (simp add: keeps_def on_repo_rules)
  have assistant: "keeps (rules_from s) (on_assistant env n m)" for n m
    unfolding keeps_def on_assistant_def Let_def
    by (intro allI impI, rule then_do_keeps[OF _ persist_rules]) (simp add: on_repo_rules)
  have call: "keeps (rules_from s) (on_tool_call env n c)" for n c
    by (simp add: keeps_def on_tool_call_def on_repo_rules)
  have result: "keeps (rules_from s) (on_tool_result env n c p)" for n c p
    unfolding keeps_def on_tool_result_def Let_def
    by (intro allI impI, rule then_do_keeps[OF then_do_keeps[OF _ repo] persist_rules]) (simp add: on_repo_rules)
  show ?thesis
    by (simp add: observer_keeps_def run_observer_def assistant call result) (simp add: keeps_def)
qed

lemma tools_rules: "tools_keep (rules_from s) (agent_runtime env s0)"
proof -
  have reading: "keeps I (reading_tool f c raw)" for I f c raw
    by (simp add: keeps_def reading_tool_def)
  have operation: "keeps (rules_from s) (operation_tool env c raw)" for c raw
    by (auto simp: keeps_def operation_tool_def rules_from_def split: prod.splits sum.splits
        dest!: createModuleOperation_rules[unfolded same_rules_def])
  have "t \<in> set (agentTools env) \<Longrightarrow> keeps (rules_from s) (Tool_Execute t c raw)" for t c raw
    by (auto simp: agentTools_def tool_definitions_def reading operation)
  then show ?thesis
    by (auto simp: tools_keep_def agent_runtime_def Runtime_New_def dest!: runtime_tools)
qed

lemma client_rules: "client_keeps (rules_from s) (lift_client c)"
  by (auto simp: client_keeps_def keeps_def lift_client_def Let_def split: prod.splits)

lemma finish_rules: "rules_from s (Loop_world l) \<Longrightarrow> rules_from s (snd (finish_run env (err, l)))"
  using persist_rules[of s env, unfolded keeps_def, rule_format]
  by (auto simp: finish_run_def Let_def split: option.splits)

lemma run_rules: "executePersistentRun env runID stream s m = (out, s', m') \<Longrightarrow> rules_of s' = rules_of s"
proof -
  have finished: "rules_of (W_server w) = rules_of s"
    if "finish_run env (RunMessages js rid (agent_runtime env s) ts k stream (run_observer env)
          \<lparr>W_server = s\<lparr>Server_repo := rp\<rparr>, W_model = m, W_transcript = ts, W_run = run, W_panic = None\<rparr>) = (out, w)"
    for js rid ts k rp run out w
  proof -
    let ?w = "\<lparr>W_server = s\<lparr>Server_repo := rp\<rparr>, W_model = m, W_transcript = ts, W_run = run, W_panic = None\<rparr>"
    have "rules_from s ?w" by (simp add: rules_from_def)
    then have "rules_from s (Loop_world (snd (RunMessages js rid (agent_runtime env s) ts k stream (run_observer env) ?w)))"
      by (rule RunMessages_keeps[OF _ tools_rules observer_rules, rotated])
        (auto simp: agent_runtime_def Runtime_New_def client_rules)
    then show ?thesis using finish_rules[of s "snd (RunMessages js rid (agent_runtime env s) ts k stream (run_observer env) ?w)"]
        that by (metis prod.collapse rules_from_def snd_conv)
  qed
  show "executePersistentRun env runID stream s m = (out, s', m') \<Longrightarrow> rules_of s' = rules_of s"
    by (auto simp: executePersistentRun_def Let_def split: sum.splits if_splits prod.splits dest!: finished)
qed

lemma resume_all_rules: "resume_all env runs s m = (p, s', m') \<Longrightarrow> rules_of s' = rules_of s"
  by (induction runs arbitrary: s m) (auto split: prod.splits run_outcome.splits dest!: run_rules)

lemma resume_rules: "resumeInterruptedAgentRuns env s m = (p, s', m') \<Longrightarrow> rules_of s' = rules_of s"
  by (auto simp: resumeInterruptedAgentRuns_def split: sum.splits dest: resume_all_rules)

lemma open_conversation_rules: "open_conversation env req s = (res, s') \<Longrightarrow> rules_of s' = rules_of s"
  by (auto simp: open_conversation_def split: if_splits prod.splits sum.splits)

lemma createPersistentRun_rules: "createPersistentRun env inp c h s = (res, s') \<Longrightarrow> rules_of s' = rules_of s"
  by (auto simp: createPersistentRun_def Let_def split: prod.splits)

lemma add_message_rules [simp]: "rules_of (add_message env msg s) = rules_of s"
  by (simp add: add_message_def)

lemma fold_messages_rules [simp]: "rules_of (fold (\<lambda>ev. add_message env (event_message c ev)) evs s) = rules_of s"
  by (induction evs arbitrary: s) auto

lemma record_messages_rules [simp]: "rules_of (record_messages env c run events s) = rules_of s"
  by (simp add: record_messages_def Let_def)

lemma run_handler_rules:
  "handleAgentRun env user r s m = (out, s', m') \<Longrightarrow> rules_of s' = rules_of s"
  "rules_of (snd (handleGetAgentRun repo now r s)) = rules_of s"
proof -
  have stream: "handleAgentRunStream env user req s m = (out, s', m') \<Longrightarrow> rules_of s' = rules_of s" for req
    by (auto simp: handleAgentRunStream_def run_completed_def split: prod.splits sum.splits run_outcome.splits
        dest!: open_conversation_rules createPersistentRun_rules run_rules)
  then show "handleAgentRun env user r s m = (out, s', m') \<Longrightarrow> rules_of s' = rules_of s"
    by (auto simp: handleAgentRun_def run_completed_def split: prod.splits sum.splits run_outcome.splits option.splits if_splits
        dest!: open_conversation_rules createPersistentRun_rules run_rules)
  show "rules_of (snd (handleGetAgentRun repo now r s)) = rules_of s"
    by (simp add: handleGetAgentRun_def handleAgentRunActions_def Let_def split: sum.splits)
qed

section \<open>Routing\<close>

fun seg_match :: "segment list \<Rightarrow> string list \<Rightarrow> bool" where
  "seg_match [] [] \<longleftrightarrow> True"
| "seg_match (Lit x # p) (y # ys) \<longleftrightarrow> x = y \<and> seg_match p ys"
| "seg_match (Wild # p) (y # ys) \<longleftrightarrow> y \<noteq> [] \<and> seg_match p ys"
| "seg_match [Multi] (y # ys) \<longleftrightarrow> True"
| "seg_match _ _ \<longleftrightarrow> False"

lemma in_after [simp]: "(q, h) \<in> set (after seg rs) \<longleftrightarrow> (seg # q, h) \<in> set rs"
  by (force simp: after_def List.map_filter_def split: list.splits if_splits)

lemma match_path_sound: "match_path rs xs = Some (p, h) \<Longrightarrow> (p, h) \<in> set rs \<and> seg_match p xs"
proof (induction rs xs arbitrary: p rule: match_path.induct)
  case (2 rs x xs)
  then show ?case
    by (fastforce split: option.splits prod.splits if_splits dest: map_of_SomeD)
qed (auto dest: map_of_SomeD)

lemma routes_of_mem: "(p, h) \<in> set (routes_of rs m) \<Longrightarrow> \<exists>q. (m, q, h) \<in> set rs \<and> p = pattern_segments q"
  by (force simp: routes_of_def List.map_filter_def split: if_splits)

lemma found_route:
  assumes "findHandler rs m path = Found h"
  shows "\<exists>m' q. (m', q, h) \<in> set rs \<and> seg_match (pattern_segments q) (path_segments path) \<and>
    (m' = m \<or> m = ''HEAD'' \<and> m' = ''GET'') \<and> cleanPath path = path"
proof -
  have clean: "cleanPath path = path" and "\<exists>p. match_method rs m path = Some (p, h)"
    using assms by (auto simp: findHandler_def Let_def split: if_splits option.splits)
  then show ?thesis
    by (fastforce simp: match_method_def split: option.splits if_splits dest!: match_path_sound routes_of_mem)
qed

section \<open>Only administrators change the rules\<close>

definition authenticated :: "Time \<Rightarrow> Request \<Rightarrow> ('r, 'd) Server \<Rightarrow> User option" where
  "authenticated now r s =
     (let token = bearerToken (get_value (Req_Headers r) ''Authorization'')
      in if token = [] then None
         else (case ParseToken now (Server_auth s) token of Inr user \<Rightarrow> Some user | Inl _ \<Rightarrow> None))"

definition worker_token :: "Request \<Rightarrow> ('r, 'd) Server \<Rightarrow> bool" where
  "worker_token r s \<longleftrightarrow> get_value (Req_Headers r) ''X-Worker-Token'' \<noteq> [] \<and>
     get_value (Req_Headers r) ''X-Worker-Token'' = Config_WorkerSharedToken (Server_config s)"

lemma withUserAuth_Some: "authenticated now r s = Some u \<Longrightarrow> withUserAuth now w h r s = h u r s"
  by (auto simp: authenticated_def withUserAuth_def Let_def split: if_splits sum.splits)

lemma withUserAuth_None: "authenticated now r s = None \<Longrightarrow> \<exists>e. withUserAuth now w h r s = w (writeError 401 e)"
  by (auto simp: authenticated_def withUserAuth_def Let_def split: if_splits sum.splits)

text \<open>Configuration, templates, policy and modules are the same, and so are the accounts outside \<open>own\<close>.\<close>

definition rules_kept :: "(string \<Rightarrow> bool) \<Rightarrow> ('r, 'd) Server \<Rightarrow> ('r, 'd) Server \<Rightarrow> bool" where
  "rules_kept own s s' \<longleftrightarrow> Server_config s' = Server_config s \<and> Server_templateEng s' = Server_templateEng s \<and>
     Server_policyEng s' = Server_policyEng s \<and> Server_moduleReg s' = Server_moduleReg s \<and>
     (\<forall>v. \<not> own v \<longrightarrow> map_of (Service_users (Server_auth s')) v = map_of (Service_users (Server_auth s)) v)"

lemma rules_kept_same: "rules_of s' = rules_of s \<Longrightarrow> rules_kept own s s'"
  by (simp add: rules_of_def rules_kept_def)

lemma change_password_kept: "rules_kept (\<lambda>v. v = TrimSpace (User_Username u)) s (snd (handleChangePassword repo bc salt now u r s))"
  if "User_Role u \<noteq> ''admin''"
proof -
  have "map_of (Service_users (Server_auth (snd (handleChangePassword repo bc salt now u r s)))) v =
      map_of (Service_users (Server_auth s)) v" if "v \<noteq> TrimSpace (User_Username u)" for v
    using \<open>User_Role u \<noteq> ''admin''\<close> that
    by (auto simp: handleChangePassword_def Let_def ChangePassword_others[where u = v] split: sum.splits prod.splits)
  moreover have "Server_config (snd (handleChangePassword repo bc salt now u r s)) = Server_config s"
    "Server_templateEng (snd (handleChangePassword repo bc salt now u r s)) = Server_templateEng s"
    "Server_policyEng (snd (handleChangePassword repo bc salt now u r s)) = Server_policyEng s"
    "Server_moduleReg (snd (handleChangePassword repo bc salt now u r s)) = Server_moduleReg s"
    by (auto simp: handleChangePassword_def Let_def recordAudit_def split: sum.splits prod.splits)
  ultimately show ?thesis by (simp add: rules_kept_def)
qed

lemmas user_rules = job_handlers_rules worker_actions_rules worker_handlers_rules conversation_rules run_handler_rules(2)
  approve_rules

lemma user_routes_kept:
  assumes "(met, p, UserAuth h) \<in> set (user_routes env)" "User_Role u \<noteq> ''admin''"
    and resume: "\<And>i s. rules_of (Http_resume env i s) = rules_of s"
  shows "rules_kept (\<lambda>v. v = TrimSpace (User_Username u)) s (fst (snd (h u r s m)))"
proof -
  have run: "rules_of (fst (snd (handleAgentRun agent u r s m))) = rules_of s" for agent
    by (metis prod.collapse run_handler_rules(1))
  have users: "snd (handleListUsers u r s) = s" "snd (handleCreateUser repo bc salt now u r s) = s"
    "snd (handleDeleteUser repo now u r s) = s" for repo bc salt now
    using assms(2) by (simp_all add: handleListUsers_def handleCreateUser_def handleDeleteUser_def)
  show ?thesis
    using assms(1)
    by (auto simp: user_routes_def Let_def UserActs_def UserReads_def with_model_def case_prod_beta users
        rules_kept_same user_rules resume run change_password_kept[OF assms(2)])
qed

lemma route_classes:
  assumes "(met, p, e) \<in> set (routes env)"
  obtains (public) f where "e = Open f" "(met, p, e) \<in> set (public_routes env)"
  | (user) h where "e = UserAuth h" "(met, p, UserAuth h) \<in> set (user_routes env)"
  | (admin) h where "e = AdminAuth h" "(met, p, AdminAuth h) \<in> set (admin_routes env)"
  | (worker) h where "e = WorkerAuth h" "(met, p, WorkerAuth h) \<in> set (worker_routes env)"
proof -
  have "(met, p, e) \<in> set (public_routes env) \<Longrightarrow> \<exists>f. e = Open f" by (auto simp: public_routes_def Let_def)
  moreover have "(met, p, e) \<in> set (user_routes env) \<Longrightarrow> \<exists>h. e = UserAuth h"
    by (auto simp: user_routes_def Let_def UserActs_def UserReads_def)
  moreover have "(met, p, e) \<in> set (admin_routes env) \<Longrightarrow> \<exists>h. e = AdminAuth h" by (auto simp: admin_routes_def Let_def)
  moreover have "(met, p, e) \<in> set (worker_routes env) \<Longrightarrow> \<exists>h. e = WorkerAuth h" by (auto simp: worker_routes_def Let_def)
  ultimately show ?thesis using assms that by (auto simp: routes_def)
qed

lemma token_required:
  assumes "authenticated now r s = None" "e = UserAuth h \<or> e = AdminAuth h'"
  shows "\<exists>err. call_endpoint now e r s m = (Inr (writeError 401 err), s, m)"
  using assms(2) withUserAuth_None[OF assms(1), of "\<lambda>resp. (Inr resp, s, m)"]
  by (auto simp: call_endpoint_def Let_def withAdminAuth_def)

lemma call_endpoint_cases:
  assumes "call_endpoint now e r s m = (out, s', m')"
  shows "s' = s \<or> (\<exists>h u. e = UserAuth h \<and> authenticated now r s = Some u \<and> s' = fst (snd (h u r s m))) \<or>
    (\<exists>h u. e = AdminAuth h \<and> authenticated now r s = Some u \<and> User_Role u = ''admin'' \<and> s' = snd (h u r s)) \<or>
    (\<exists>h. e = WorkerAuth h \<and> s' = snd (h r s))"
proof (cases e)
  case (UserAuth h)
  then show ?thesis using assms token_required[of now r s e h _ m]
    by (cases "authenticated now r s") (auto simp: call_endpoint_def Let_def withUserAuth_Some)
next
  case (AdminAuth h)
  then show ?thesis using assms token_required[of now r s e _ h m]
    by (cases "authenticated now r s")
      (auto simp: call_endpoint_def Let_def withAdminAuth_def withUserAuth_Some with_model_def split: if_splits prod.splits)
qed (use assms in \<open>auto simp: call_endpoint_def Let_def withWorkerAuth_def with_model_def split: if_splits prod.splits\<close>)

text \<open>Whatever changes the state is a registered handler behind its check.\<close>

lemma serve_cases:
  assumes "serve env r s m = (out, s', m')"
  obtains (same) "s' = s"
  | (user) met p h u where "(met, p, UserAuth h) \<in> set (user_routes env)" "s' = fst (snd (h u r s m))"
      "authenticated (Env_now (Http_agent env)) r s = Some u"
  | (admin) met p h u where "(met, p, AdminAuth h) \<in> set (admin_routes env)" "s' = snd (h u r s)"
      "authenticated (Env_now (Http_agent env)) r s = Some u" "User_Role u = ''admin''"
  | (worker) met p h where "(met, p, WorkerAuth h) \<in> set (worker_routes env)" "s' = snd (h r s)"
proof (cases "findHandler (routes env) (Req_Method r) (Req_Path r)")
  case (Found e)
  obtain met p where e: "(met, p, e) \<in> set (routes env)" using found_route[OF Found] by blast
  have "call_endpoint (Env_now (Http_agent env)) e r s m = (out, s', m')" using assms Found by (simp add: serve_def)
  from call_endpoint_cases[OF this] e show thesis
    by (elim disjE exE conjE) (auto elim: route_classes intro: that)
qed (use assms that(1) in \<open>auto simp: serve_def\<close>)

lemma worker_routes_kept:
  "(met, p, WorkerAuth h) \<in> set (worker_routes env) \<Longrightarrow> rules_of (snd (h r s)) = rules_of s"
  by (auto simp: worker_routes_def Let_def user_rules)


section \<open>Without a token\<close>

lemma api_segments:
  assumes "HasPrefix path ''/api/''"
  obtains x xs where "path_segments path = ''api'' # x # xs"
proof -
  obtain rest where "path = ''/api/'' @ rest" using assms by (metis HasPrefixE)
  then have "path_segments path = ''api'' # Split rest (CHR ''/'')"
    using Split_append_sep[of "CHR ''/''" "''api''" rest] by (simp add: path_segments_def)
  then show thesis using that by (metis Split_not_Nil neq_Nil_conv)
qed

lemma public_paths:
  "(met, q, Open f) \<in> set (public_routes env) \<Longrightarrow>
   q = ''/'' \<and> (\<exists>files. f = (\<lambda>r s. handleDashboardPage files r)) \<or>
   q \<in> set [''/login'', ''/users'', ''/workers'', ''/jobs'', ''/tasks'', ''/configs'', ''/static/'', ''/healthz'', ''/metrics''] \<or>
   met = ''POST'' \<and> q = ''/api/v1/auth/login''"
  by (auto simp: public_routes_def Let_def)

lemma public_api_answer:
  assumes "(met, q, Open f) \<in> set (public_routes env)" "seg_match (pattern_segments q) (path_segments (Req_Path r))"
    and api: "HasPrefix (Req_Path r) ''/api/''" and "met = ''POST'' \<Longrightarrow> Req_Path r \<noteq> ''/api/v1/auth/login''"
  shows "Resp_Status (f r s) = 404"
proof -
  obtain x xs where segs: "path_segments (Req_Path r) = ''api'' # x # xs" using api_segments[OF api] .
  obtain rest where rest: "Req_Path r = ''/api/'' @ rest" using api by (metis HasPrefixE)
  have page: "handleDashboardPage files r = not_found_page" for files
    by (simp add: handleDashboardPage_def uiPageName_def rest)
  have login: "path_segments (Req_Path r) = [''api'', ''v1'', ''auth'', ''login''] \<Longrightarrow> Req_Path r = ''/api/v1/auth/login''"
    using Join_Split[of "''api/'' @ rest" "CHR ''/''"] rest by (simp add: path_segments_def)
  have "seg_match (pattern_segments ''/api/v1/auth/login'') (path_segments (Req_Path r)) \<Longrightarrow>
      path_segments (Req_Path r) = [''api'', ''v1'', ''auth'', ''login'']"
    unfolding segs by (cases xs; cases "tl xs"; cases "tl (tl xs)") (auto simp: pattern_segments_def HasPrefix_def)
  moreover have "\<not> seg_match (pattern_segments p) (path_segments (Req_Path r))"
    if "p \<in> set [''/login'', ''/users'', ''/workers'', ''/jobs'', ''/tasks'', ''/configs'', ''/static/'', ''/healthz'', ''/metrics'']" for p
    using that segs by (auto simp: pattern_segments_def HasPrefix_def)
  ultimately have "q = ''/'' \<and> (\<exists>files. f = (\<lambda>r s. handleDashboardPage files r))"
    using public_paths[OF assms(1)] assms(2,4) login by blast
  then show ?thesis using page by (auto simp: not_found_page_def writeJSON_def)
qed

text \<open>C7. Below \<open>/api/\<close>, a request with neither a valid user token nor the worker token gets no answer but a
  redirection, \<open>401\<close>, \<open>404\<close> or \<open>405\<close> and changes nothing, whatever its method, path and body; logging in is the
  only exception.\<close>

theorem unauthenticated_refused:
  assumes "authenticated (Env_now (Http_agent env)) r s = None" "\<not> worker_token r s"
    and "HasPrefix (Req_Path r) ''/api/''" "\<not> (Req_Method r = ''POST'' \<and> Req_Path r = ''/api/v1/auth/login'')"
  shows "\<exists>resp. serve env r s m = (Inr resp, s, m) \<and> Resp_Status resp \<in> {301, 401, 404, 405}"
proof (cases "findHandler (routes env) (Req_Method r) (Req_Path r)")
  case (Found e)
  obtain met p where e: "(met, p, e) \<in> set (routes env)" and
      route: "seg_match (pattern_segments p) (path_segments (Req_Path r))" "met = Req_Method r \<or> Req_Method r = ''HEAD'' \<and> met = ''GET''"
    using found_route[OF Found] by blast
  have serve: "serve env r s m = call_endpoint (Env_now (Http_agent env)) e r s m" using Found by (simp add: serve_def)
  have refused: "\<exists>resp. serve env r s m = (Inr resp, s, m) \<and> Resp_Status resp = 401"
    if "e = UserAuth h \<or> e = AdminAuth h'" for h h'
    using token_required[OF assms(1) that, of m] serve by (auto simp: writeError_def writeJSON_def)
  from e show ?thesis
  proof (cases rule: route_classes)
    case (public f)
    then have "Resp_Status (f r s) = 404"
      using public_api_answer[of met p f env r s] route assms(3,4) by auto
    then show ?thesis using serve public(1) by (simp add: call_endpoint_def)
  next
    case (user h)
    then show ?thesis using refused by blast
  next
    case (admin h)
    then show ?thesis using refused by blast
  next
    case (worker h)
    then show ?thesis using serve assms(2)
      by (auto simp: call_endpoint_def Let_def withWorkerAuth_def worker_token_def writeError_def writeJSON_def)
  qed
qed (auto simp: serve_def writeJSON_def not_found_page_def)

section \<open>Batch jobs never find a template\<close>

lemma apply_configs_templates: "apply_configs yaml cfgs s = (e, s') \<Longrightarrow> Server_templateEng s' = Server_templateEng s"
  by (induction cfgs arbitrary: s)
    (auto simp: applyManagedConfig_def split: if_splits sum.splits option.splits prod.splits)

lemma reload_templates: "reloadManagedConfigs repo yaml s = (e, s') \<Longrightarrow> Server_templateEng s' = Server_templateEng s"
  by (auto simp: reloadManagedConfigs_def Let_def split: sum.splits dest: apply_configs_templates)

lemma sync_file_templates: "sync_file repo yaml now enforce path kind content report s = (e, rep, s') \<Longrightarrow>
    Server_templateEng s' = Server_templateEng s"
  by (auto simp: sync_file_def save_config_def split: sum.splits if_splits prod.splits)

lemma sync_walk_templates: "sync_walk repo yaml now enforce es report s = (e, rep, s') \<Longrightarrow>
    Server_templateEng s' = Server_templateEng s"
  by (induction es arbitrary: report s)
    (auto simp: sync_entry_def Let_def split: option.splits prod.splits sum.splits if_splits dest!: sync_file_templates)

lemma sync_templates: "syncManagedConfigs repo yaml walk now dir enforce s = (e, rep, s') \<Longrightarrow>
    Server_templateEng s' = Server_templateEng s"
  by (auto simp: syncManagedConfigs_def split: if_splits dest: sync_walk_templates)

lemma answer_templates [simp]: "Server_templateEng (snd (reload_and_answer repo yaml status body s)) = Server_templateEng s"
  by (auto simp: reload_and_answer_def split: prod.splits option.splits dest: reload_templates)

lemma config_templates: "Server_templateEng (snd (handleManagedConfigActions repo yaml walk now user r s)) = Server_templateEng s"
proof -
  have "Server_templateEng (snd (handleManagedConfigSync repo yaml walk now r s)) = Server_templateEng s"
    by (auto simp: handleManagedConfigSync_def split: prod.splits option.splits dest!: sync_templates)
  moreover have "Server_templateEng (snd (handleSaveManagedConfig repo yaml now r kind ident s)) = Server_templateEng s" for kind ident
    by (auto simp: handleSaveManagedConfig_def save_config_def Let_def split: prod.splits sum.splits)
  ultimately show ?thesis
    by (auto simp: handleManagedConfigActions_def split: prod.splits sum.splits)
qed

text \<open>The states of a server: constructed by \<open>NewServer\<close>, then any requests.\<close>

inductive served :: "('r, 'd, 'm) http_env \<Rightarrow> ('r, 'd) Server \<Rightarrow> bool" for env where
  start: "NewServer env early cfg rp authSvc d m = (None, s, m') \<Longrightarrow> served env s"
| request: "served env s \<Longrightarrow> serve env r s m = (out, s', m') \<Longrightarrow> served env s'"

definition same_templates :: "('r, 'd) Server \<Rightarrow> ('r, 'd) Server \<Rightarrow> bool" where
  "same_templates s s' \<longleftrightarrow> Server_templateEng s' = Server_templateEng s"

lemma same_templates_rules: "rules_of s' = rules_of s \<Longrightarrow> same_templates s s'"
  by (simp add: rules_of_def same_templates_def)

lemma user_routes_templates:
  assumes "(met, p, UserAuth h) \<in> set (user_routes env)"
    and resume: "\<And>i s. rules_of (Http_resume env i s) = rules_of s"
  shows "same_templates s (fst (snd (h u r s m)))"
proof -
  have run: "rules_of (fst (snd (handleAgentRun agent u r s m))) = rules_of s" for agent
    by (metis prod.collapse run_handler_rules(1))
  have users: "same_templates s (snd (handleListUsers u r s))"
    "same_templates s (snd (handleCreateUser repo bc salt now u r s))"
    "same_templates s (snd (handleDeleteUser repo now u r s))"
    "same_templates s (snd (handleChangePassword repo bc salt now u r s))" for repo bc salt now
    by (auto simp: same_templates_def handleListUsers_def handleCreateUser_def handleDeleteUser_def handleChangePassword_def
        Let_def split: sum.splits prod.splits)
  show ?thesis
    using assms(1)
    by (auto simp: user_routes_def Let_def UserActs_def UserReads_def with_model_def case_prod_beta users
        same_templates_rules user_rules resume run)
qed

lemma serve_templates:
  assumes "serve env r s m = (out, s', m')" and resume: "\<And>i s. rules_of (Http_resume env i s) = rules_of s"
  shows "same_templates s s'"
  using assms(1)
proof (cases rule: serve_cases)
  case (user met p h u)
  then show ?thesis using user_routes_templates[OF user(1) resume] by simp
next
  case (admin met p h u)
  then show ?thesis by (auto simp: admin_routes_def Let_def config_templates same_templates_def)
next
  case (worker met p h)
  then show ?thesis using worker_routes_kept[OF worker(1)] by (simp add: same_templates_rules)
qed (simp add: same_templates_def)

lemma NewServer_templates: "NewServer env early cfg rp authSvc d m = (p, s, m') \<Longrightarrow> Server_templateEng s = Template_NewEngine"
proof -
  have bare: "Server_templateEng (bare_server bc salt cfg rp authSvc d) = Template_NewEngine" for bc salt
    by (simp add: bare_server_def Let_def NewRegistry_def Registry_List_def)
  have load: "Server_templateEng (load_configs env s) = Server_templateEng s" for s
    by (auto simp: load_configs_def Let_def split: prod.splits) (metis prod.collapse reload_templates sync_templates)
  have resume: "resumeInterruptedAgentRuns agent s m = (p, s', m') \<Longrightarrow> Server_templateEng s' = Server_templateEng s"
    for agent s m p s' m'
    using resume_rules by (fastforce simp: rules_of_def)
  show "NewServer env early cfg rp authSvc d m = (p, s, m') \<Longrightarrow> Server_templateEng s = Template_NewEngine"
    by (auto simp: NewServer_def Let_def bare load split: if_splits prod.splits dest!: resume)
qed

lemma served_templates:
  assumes "served env s" and "\<And>i s. rules_of (Http_resume env i s) = rules_of s"
  shows "Server_templateEng s = Template_NewEngine"
  using assms(1)
proof (induction rule: served.induct)
  case (request s r m out s' m')
  then show ?case using serve_templates[OF request(2) assms(2)] by (simp add: same_templates_def)
qed (rule NewServer_templates)

lemma yaml_tasks_fail:
  assumes "Server_templateEng s = Template_NewEngine" "validateAndFixYAML spec s = Inr x"
  shows "\<exists>e. yaml_tasks repo other now spec wids (YAMLJobSpec_Tasks spec) s = (Inl (writeError 400 e), s)"
  using assms
  by (cases "YAMLJobSpec_Tasks spec")
    (auto simp: validateAndFixYAML_def Render_def Template_NewEngine_def task_error_def)

text \<open>C36. Batch jobs are never created: in every state a server can reach, with any configured templates, the YAML
  handler refuses the request and changes nothing, because the template engine it renders with is filled from the
  registry before the configurations are loaded and never again.\<close>

theorem yaml_jobs_always_fail:
  assumes "served env s" and "\<And>i s. rules_of (Http_resume env i s) = rules_of s"
    and "handleCreateJobFromYAML repo other yaml now user r s = (resp, s')"
  shows "s' = s \<and> Resp_Status resp = 400"
proof -
  have "\<exists>e. handleCreateJobFromYAML repo other yaml now user r s = (writeError 400 e, s)"
  proof (cases "json_Decode yaml_fields (Req_Body r) []")
    case decoded: (Inr content)
    show ?thesis
    proof (cases "yaml content")
      case (Inr spec)
      then show ?thesis
        using decoded yaml_tasks_fail[OF served_templates[OF assms(1,2)], of spec _ repo other now "yaml_workers repo spec s"]
        by (cases "validateAndFixYAML spec s") (force simp: handleCreateJobFromYAML_def)+
    qed (use decoded in \<open>force simp: handleCreateJobFromYAML_def\<close>)
  qed (force simp: handleCreateJobFromYAML_def)
  then show ?thesis using assms(3) by (auto simp: writeError_def writeJSON_def)
qed

section \<open>Concrete requests\<close>

definition demo_http :: "(MemoryRepository, unit, nat) http_env" where
  "demo_http = \<lparr>Http_agent = demo_env, Http_bcrypt = marked_bcrypt, Http_salt = [], Http_yaml = demo_yaml,
     Http_yaml_job = (\<lambda>_. Inr \<lparr>YAMLJobSpec_Name = ''batch'', YAMLJobSpec_Tasks =
       [\<lparr>YAMLTask_Name = ''t'', YAMLTask_Template = ''df'', YAMLTask_Parameters = []\<rparr>], YAMLJobSpec_WorkerType = ''shell'',
       YAMLJobSpec_Workers = []\<rparr>),
     Http_walk = (\<lambda>_. []), Http_remote_deploy = [], Http_executable = Inr ''/usr/bin/adp'',
     Http_resume = (\<lambda>i s. fst (snd (executePersistentRun demo_env i False s 0))), Http_uiFiles = (\<lambda>_. None),
     Http_assets = (\<lambda>_. not_found_page)\<rparr>"

lemma demo_resume: "rules_of (Http_resume demo_http i s) = rules_of s"
  by (simp add: demo_http_def) (metis prod.collapse run_rules)

definition token_request :: "string \<Rightarrow> string \<Rightarrow> string \<Rightarrow> string \<Rightarrow> Request" where
  "token_request token met path body =
     (demo_request met path body)\<lparr>Req_Headers := [(''Authorization'', ''Bearer '' @ token)]\<rparr>"

definition operator_token :: string where
  "operator_token = sign (Server_auth demo_server) \<lparr>Claims_Subject = ''eve'', Claims_Role = ''operator'', Claims_Expiry = 100\<rparr>"

lemma operator_authenticated:
  "authenticated 9 (token_request operator_token met path body) demo_server = Some \<lparr>User_Username = ''eve'', User_Role = ''operator''\<rparr>"
proof -
  have ok: "claims_ok \<lparr>Claims_Subject = ''eve'', Claims_Role = ''operator'', Claims_Expiry = 100\<rparr>"
    unfolding claims_ok_def by (intro conjI) code_simp+
  have "operator_token \<noteq> []" by (simp add: operator_token_def sign_def Let_def)
  moreover have "Unix 9 = 0" by code_simp
  ultimately show ?thesis
    using ParseToken_sign[OF ok, of 9 "Server_auth demo_server"]
    by (simp add: authenticated_def token_request_def get_value_def bearerToken_def HasPrefix_def TrimPrefix_def
        Let_def operator_token_def)
qed


theorem unauthenticated_refused_witness:
  "\<exists>resp. serve demo_http (demo_request ''POST'' ''/api/v1/jobs'' ''{}'') demo_server 0 = (Inr resp, demo_server, 0) \<and>
     Resp_Status resp \<in> {301, 401, 404, 405}"
  by (rule unauthenticated_refused)
    (simp_all add: authenticated_def worker_token_def demo_request_def get_value_def bearerToken_def HasPrefix_def)

definition demo_config :: Config where
  "demo_config = Server_config demo_server"

theorem yaml_jobs_always_fail_witness:
  "let s = fst (snd (NewServer demo_http False demo_config NewMemoryRepository None () 0));
       (resp, s') = handleCreateJobFromYAML memory_repository (\<lambda>_ _. Tpl_exec_error []) (Http_yaml_job demo_http) 9
          \<lparr>User_Username = ''eve'', User_Role = ''operator''\<rparr> (demo_request ''POST'' ''/api/v1/jobs/yaml'' ''{\"yaml\":\"x\"}'') s
   in s' = s \<and> Resp_Status resp = 400"
proof -
  obtain p s m where new: "NewServer demo_http False demo_config NewMemoryRepository None () 0 = (p, s, m)" by (metis prod_cases3)
  have "p = None"
  proof -
    have "fst (NewServer demo_http False demo_config NewMemoryRepository None () 0) = None" by code_simp
    then show ?thesis using new by simp
  qed
  then have "served demo_http s" using new by (auto intro: served.start)
  then show ?thesis
    using yaml_jobs_always_fail[OF _ demo_resume prod.collapse[symmetric]] new by (simp add: case_prod_beta)
qed

lemma stop_route:
  "findHandler (routes env) ''POST'' ''/api/v1/workers/w1/stop/x'' =
   Found (WorkerAuth (handleWorkerActions (Env_repo (Http_agent env)) (Env_now (Http_agent env))))"
  by (simp add: findHandler_def Let_def cleanPath_def Clean_def HasPrefix_def HasSuffix_def match_method_def routes_of_def
      List.map_filter_def routes_def public_routes_def user_routes_def admin_routes_def worker_routes_def after_def
      pattern_segments_def path_segments_def exactMatch_def UserActs_def UserReads_def)



end
