(* ===== verification/Stream_Service.thy ===== *)
theory Stream_Service
  imports Hub Memory_Repo
begin

text \<open>
  \<open>internal/infrastructure/workerstream/service.go\<close>: the server side of the worker stream. A stream is
  opened by \<open>stream\_open\<close> (token check, registration, hub), then the receive loop handles incoming
  messages one by one (\<open>receive\_message\<close>, \<open>receiveLoop\<close>) while the send loop forwards the messages of
  the worker's channel. The transport is a parameter: the metadata of the call and the messages and
  errors that arrive. The repository is any value of the repository interface.
\<close>

section \<open>The service\<close>

datatype grpc_error =
    Status string string
  | Transport string

type_synonym 'a grpc = "grpc_error + 'a"

definition audit_entry ::
  "string \<Rightarrow> string \<Rightarrow> string \<Rightarrow> string \<Rightarrow> string \<Rightarrow> details \<Rightarrow> AuditLog" where
  "audit_entry actorType actorID action resourceType resourceID dets =
     \<lparr>AuditLog_ID = [], AuditLog_ActorType = actorType, AuditLog_ActorID = actorID,
      AuditLog_Action = action, AuditLog_ResourceType = resourceType, AuditLog_ResourceID = resourceID,
      AuditLog_Details = dets, AuditLog_CreatedAt = zeroTime\<rparr>"

text \<open>The incoming metadata: \<open>None\<close> when the call has none, otherwise the values of
  \<open>x-worker-token\<close>.\<close>

definition service_authorize :: "string \<Rightarrow> string list option \<Rightarrow> unit grpc" where
  "service_authorize workerToken md =
     (if workerToken = [] then Inr ()
      else case md of
          None \<Rightarrow> Inl (Status ''Unauthenticated'' ''missing worker token'')
        | Some tokens \<Rightarrow>
            if tokens = [] \<or> hd tokens \<noteq> workerToken
            then Inl (Status ''Unauthenticated'' ''invalid worker token'')
            else Inr ())"

definition stream_open ::
  "'r Repository \<Rightarrow> string \<Rightarrow> Time \<Rightarrow> string list option \<Rightarrow> WorkerEnvelope grpc \<Rightarrow> 'r \<Rightarrow> Hub \<Rightarrow>
   (ServerEnvelope \<times> Worker \<times> chan_ref) grpc \<times> 'r \<times> Hub" where
  "stream_open repo workerToken now md first r h =
     (case service_authorize workerToken md of
        Inl e \<Rightarrow> (Inl e, r, h)
      | Inr _ \<Rightarrow>
          (case first of
             Inl e \<Rightarrow> (Inl e, r, h)
           | Inr (WorkerEnvelope_Register name workerType) \<Rightarrow>
               if TrimSpace name = [] \<or> TrimSpace workerType = []
               then (Inl (Status ''InvalidArgument'' ''worker name and type are required''), r, h)
               else
                 (case repo_RegisterWorker repo now name workerType r of
                    (Inl e, r) \<Rightarrow> (Inl (Status ''Internal'' (''register worker: '' @ e)), r, h)
                  | (Inr worker, r) \<Rightarrow>
                      let r = snd (repo_AddAuditLog repo now (audit_entry ''worker'' (Worker_ID worker)
                            ''worker.registered'' ''worker'' (Worker_ID worker)
                            [(''name'', VStr (Worker_Name worker)),
                             (''worker_type'', VStr (Worker_WorkerType worker)),
                             (''transport'', VStr ''grpc_stream'')]) r)
                      in (case hub_register (Worker_ID worker) h of
                            Inl e \<Rightarrow> (Inl (Transport e), r, h)
                          | Inr (outbound, h) \<Rightarrow>
                              (Inr (ServerEnvelope_Registered (Worker_ID worker) (Worker_Name worker)
                                 (Worker_WorkerType worker), worker, outbound), r, h)))
           | Inr _ \<Rightarrow>
               (Inl (Status ''InvalidArgument'' ''first worker stream message must be register''), r, h)))"

definition protoHostInfo :: "HostInfo option \<Rightarrow> HostInfo" where
  "protoHostInfo info = (case info of None \<Rightarrow> zero_HostInfo | Some i \<Rightarrow> i)"

definition handleHeartbeat ::
  "'r Repository \<Rightarrow> Time \<Rightarrow> string \<Rightarrow> HostInfo option \<Rightarrow> 'r \<Rightarrow> unit grpc \<times> 'r" where
  "handleHeartbeat repo now workerID info r =
     (case repo_HeartbeatWorker repo now workerID (Some (protoHostInfo info)) r of
        (Inl e, r) \<Rightarrow> (Inl (Status ''NotFound'' (''heartbeat worker: '' @ e)), r)
      | (Inr _, r) \<Rightarrow> (Inr (), r))"

definition handleJobResult ::
  "'r Repository \<Rightarrow> Time \<Rightarrow> string \<Rightarrow> PbJobResult \<Rightarrow> 'r \<Rightarrow> unit grpc \<times> 'r" where
  "handleJobResult repo now workerID result r =
     (case repo_CompleteJob repo now workerID (PbJobResult_JobId result) (PbJobResult_Output result)
             (PbJobResult_Success result) r of
        (Inl e, r) \<Rightarrow> (Inl (Status ''FailedPrecondition'' (''complete job: '' @ e)), r)
      | (Inr job, r) \<Rightarrow>
          let action = (if \<not> PbJobResult_Success result then ''job.failed'' else ''job.completed'');
              r = snd (repo_AddAuditLog repo now (audit_entry ''worker'' workerID action ''job'' (Job_ID job)
                    [(''success'', VBool (PbJobResult_Success result)),
                     (''transport'', VStr ''grpc_stream'')]) r)
          in (Inr (), if PbJobResult_LogToDb result
                then snd (repo_AddWorkerLog repo now
                  \<lparr>WorkerLog_ID = 0, WorkerLog_WorkerID = workerID, WorkerLog_JobID = PbJobResult_JobId result,
                   WorkerLog_Command = PbJobResult_Command result, WorkerLog_Progress = ''completed'',
                   WorkerLog_Result = PbJobResult_Output result,
                   WorkerLog_Success = PbJobResult_Success result, WorkerLog_CreatedAt = zeroTime\<rparr> r)
                else r))"

definition receive_message ::
  "'r Repository \<Rightarrow> Time \<Rightarrow> string \<Rightarrow> WorkerEnvelope \<Rightarrow> 'r \<Rightarrow> unit grpc \<times> 'r" where
  "receive_message repo now workerID msg r =
     (case msg of
        WorkerEnvelope_Heartbeat _ info \<Rightarrow> handleHeartbeat repo now workerID info r
      | WorkerEnvelope_JobResult result \<Rightarrow> handleJobResult repo now workerID result r
      | _ \<Rightarrow> (Inr (), r))"

text \<open>The loop, on the messages that arrive with the time each is handled at; \<open>ending\<close> is the error that
  ends the transport (\<open>io.EOF\<close> when the worker closes).\<close>

fun receiveLoop ::
  "'r Repository \<Rightarrow> string \<Rightarrow> (Time \<times> WorkerEnvelope) list \<Rightarrow> grpc_error \<Rightarrow> 'r \<Rightarrow> grpc_error \<times> 'r" where
  "receiveLoop repo workerID [] ending r = (ending, r)"
| "receiveLoop repo workerID ((now, msg) # msgs) ending r =
     (case receive_message repo now workerID msg r of
        (Inl e, r) \<Rightarrow> (e, r)
      | (Inr _, r) \<Rightarrow> receiveLoop repo workerID msgs ending r)"

section \<open>Clients of the repository contract\<close>

context job_repository
begin

lemma result_is_of_assigned_worker:
  assumes "inv r" "handleJobResult repo now w res r = (Inr (), r')"
  shows "(\<exists>old. repo_GetJob repo (PbJobResult_JobId res) r = Inr old \<and> Job_AssignedWorkerID old = w) \<and>
    (\<exists>job. repo_GetJob repo (PbJobResult_JobId res) r' = Inr job \<and> Job_Output job = PbJobResult_Output res \<and>
      Job_Status job = (if PbJobResult_Success res then JobStatusSuccess else JobStatusFailed))"
proof -
  obtain job r1 where c: "repo_CompleteJob repo now w (PbJobResult_JobId res) (PbJobResult_Output res)
      (PbJobResult_Success res) r = (Inr job, r1)"
    and r': "repo_GetJob repo k r' = repo_GetJob repo k r1" for k
    using assms(2) by (auto simp: handleJobResult_def Let_def audit_jobs log_jobs split: prod.splits sum.splits)
  show ?thesis using complete_ok[OF assms(1) c] r' by auto
qed

lemma rejected_result_no_effect:
  "inv r \<Longrightarrow> handleJobResult repo now w res r = (Inl e, r') \<Longrightarrow> r' = r"
  by (auto simp: handleJobResult_def Let_def split: prod.splits sum.splits dest: complete_err)

end

section \<open>Properties\<close>

text \<open>C32. No worker reaches the scheduler without the shared token: when the service has a token and the
  call does not present it first, the stream is refused as unauthenticated, no worker is registered
  and the hub is unchanged; likewise nothing changes when the first message is not a registration
  with a name and a type.\<close>

theorem stream_requires_token:
  assumes "stream_open repo token now md first r h = (Inr x, r', h')"
  shows "(token = [] \<or> (\<exists>rest. md = Some (token # rest))) \<and>
    (\<exists>n t. first = Inr (WorkerEnvelope_Register n t) \<and> TrimSpace n \<noteq> [] \<and> TrimSpace t \<noteq> [])"
proof -
  have "service_authorize token md = Inr ()"
    using assms by (auto simp: stream_open_def split: sum.splits)
  then have "token = [] \<or> (\<exists>rest. md = Some (token # rest))"
    by (auto simp: service_authorize_def neq_Nil_conv split: if_splits option.splits)
  moreover have "\<exists>n t. first = Inr (WorkerEnvelope_Register n t) \<and> TrimSpace n \<noteq> [] \<and> TrimSpace t \<noteq> []"
    using assms by (auto simp: stream_open_def split: sum.splits WorkerEnvelope.splits if_splits)
  ultimately show ?thesis by blast
qed

theorem stream_requires_token_witness:
  "\<exists>x r' h'. stream_open memory_repository ''tok'' 5 (Some [''tok''])
     (Inr (WorkerEnvelope_Register ''w'' ''host'')) NewMemoryRepository NewHub = (Inr x, r', h') \<and>
   (''tok'' = [] \<or> (\<exists>rest. Some [''tok''] = Some (''tok'' # rest)))"
proof -
  let ?s = "stream_open memory_repository ''tok'' 5 (Some [''tok''])
     (Inr (WorkerEnvelope_Register ''w'' ''host'')) NewMemoryRepository NewHub"
  have "\<not> isl (fst ?s)" by code_simp
  then obtain x where s: "?s = (Inr x, fst (snd ?s), snd (snd ?s))"
    by (metis isl_def old.sum.exhaust prod.collapse)
  show ?thesis using stream_requires_token[OF s] s by blast
qed

text \<open>C29. A worker reports only on its own jobs: if the service accepts a result on the stream of worker
  \<open>w\<close>, the job was assigned to \<open>w\<close>, and afterwards it has the reported output and outcome; the worker
  identifier inside the message is not consulted. A refused result leaves the repository alone.\<close>

theorem job_result_own_jobs:
  assumes "mem_ok r"
  shows "case handleJobResult memory_repository now w res r of
      (Inr _, r') \<Rightarrow> \<exists>old job. Mem_GetJob (PbJobResult_JobId res) r = Inr old \<and> Job_AssignedWorkerID old = w \<and>
        Mem_GetJob (PbJobResult_JobId res) r' = Inr job \<and> Job_Output job = PbJobResult_Output res \<and>
        Job_Status job = (if PbJobResult_Success res then JobStatusSuccess else JobStatusFailed)
    | (Inl e, r') \<Rightarrow> r' = r"
proof (cases "handleJobResult memory_repository now w res r")
  case (Pair x r')
  then show ?thesis
    using mem_jobs.result_is_of_assigned_worker[OF assms, of now w res r']
      mem_jobs.rejected_result_no_effect[OF assms, of now w res]
    by (cases x) (auto simp: memory_repository_def)
qed

definition stolen_result :: PbJobResult where
  "stolen_result = \<lparr>PbJobResult_WorkerId = ''worker-000001'', PbJobResult_JobId = ''job-000001'',
     PbJobResult_Command = [], PbJobResult_Success = True, PbJobResult_Output = ''done'',
     PbJobResult_LogToDb = False\<rparr>"

theorem job_result_own_jobs_witness:
  "snd (handleJobResult memory_repository 7 ''worker-000002'' stolen_result
      (snd (Mem_CreateJob 5 keyed_job NewMemoryRepository))) =
   snd (Mem_CreateJob 5 keyed_job NewMemoryRepository)"
proof -
  let ?r = "snd (Mem_CreateJob 5 keyed_job NewMemoryRepository)"
  let ?h = "handleJobResult memory_repository 7 ''worker-000002'' stolen_result ?r"
  have "mem_ok ?r" by (rule keyed_repo_ok)
  moreover have "isl (fst ?h)" by code_simp
  then obtain e where "?h = (Inl e, snd ?h)" by (metis isl_def prod.collapse)
  ultimately show ?thesis
    using job_result_own_jobs[where r = ?r and now = 7 and w = "''worker-000002''" and res = stolen_result]
    by (auto split: prod.splits sum.splits)
qed

end
