(* ===== verification/Stream_Session.thy ===== *)
theory Stream_Session
  imports Stream_Service
begin

text \<open>
  The rest of \<open>Stream\<close> in \<open>internal/infrastructure/workerstream/service.go\<close>: after a stream is open, one goroutine
  receives while the loop forwards the messages of the worker's channel, and the end of the stream takes the worker
  out of the hub. The interleaving, with what the rest of the server does meanwhile, is a list of events.
\<close>

section \<open>The loop\<close>

text \<open>The context of the call ends; the receiving goroutine handles a message or reaches the end of the transport; the loop takes
  the error the goroutine left, or the next message of the channel; something else of the server runs.\<close>

datatype 'r stream_event =
    Cancelled grpc_error
  | Incoming Time WorkerEnvelope
  | Incoming_end grpc_error
  | Take_error
  | Outgoing
  | Elsewhere "'r \<Rightarrow> Hub \<Rightarrow> 'r \<times> Hub"

definition EOF :: grpc_error where
  "EOF = Transport ''EOF''"

text \<open>What \<open>Stream\<close> returned, \<open>None\<close> for nil.\<close>

datatype session_state = Stream_open | Stream_returned "grpc_error option"

type_synonym 'n sender = "ServerEnvelope \<Rightarrow> 'n \<Rightarrow> unit grpc \<times> 'n"

fun stream_select ::
  "'r Repository \<Rightarrow> string \<Rightarrow> chan_ref \<Rightarrow> 'n sender \<Rightarrow> 'r stream_event list \<Rightarrow> grpc_error option \<Rightarrow> 'r \<Rightarrow> Hub \<Rightarrow> 'n \<Rightarrow>
   session_state \<times> 'r \<times> Hub \<times> 'n" where
  "stream_select repo w ch send [] errCh r h n = (Stream_open, r, h, n)"
| "stream_select repo w ch send (Cancelled e # es) errCh r h n = (Stream_returned (Some e), r, h, n)"
| "stream_select repo w ch send (Incoming now msg # es) errCh r h n =
     (if errCh \<noteq> None then stream_select repo w ch send es errCh r h n
      else (case receive_message repo now w msg r of
              (Inl e, r) \<Rightarrow> stream_select repo w ch send es (Some e) r h n
            | (Inr _, r) \<Rightarrow> stream_select repo w ch send es None r h n))"
| "stream_select repo w ch send (Incoming_end e # es) errCh r h n =
     stream_select repo w ch send es (if errCh \<noteq> None then errCh else Some e) r h n"
| "stream_select repo w ch send (Take_error # es) errCh r h n =
     (case errCh of
        None \<Rightarrow> stream_select repo w ch send es errCh r h n
      | Some e \<Rightarrow> (Stream_returned (if e = EOF then None else Some e), r, h, n))"
| "stream_select repo w ch send (Outgoing # es) errCh r h n =
     (case hub_receive ch h of
        (Received msg, h) \<Rightarrow>
          (case send msg n of
             (Inl e, n) \<Rightarrow> (Stream_returned (Some e), r, h, n)
           | (Inr _, n) \<Rightarrow> stream_select repo w ch send es errCh r h n)
      | (Recv_closed, h) \<Rightarrow> (Stream_returned None, r, h, n)
      | (Recv_blocks, h) \<Rightarrow> stream_select repo w ch send es errCh r h n)"
| "stream_select repo w ch send (Elsewhere f # es) errCh r h n =
     (case f r h of (r, h) \<Rightarrow> stream_select repo w ch send es errCh r h n)"

text \<open>The deferred \<open>unregister\<close>; \<open>Inl\<close> is a panic.\<close>

definition leave_stream ::
  "string \<Rightarrow> chan_ref \<Rightarrow> session_state \<times> 'r \<times> Hub \<times> 'n \<Rightarrow> error + session_state \<times> 'r \<times> Hub \<times> 'n" where
  "leave_stream w ch out =
     (case out of
        (Stream_open, r, h, n) \<Rightarrow> Inr out
      | (Stream_returned e, r, h, n) \<Rightarrow>
          (case hub_unregister w ch h of Inl p \<Rightarrow> Inl p | Inr h \<Rightarrow> Inr (Stream_returned e, r, h, n)))"

definition Service_Stream ::
  "'r Repository \<Rightarrow> string \<Rightarrow> Time \<Rightarrow> string list option \<Rightarrow> WorkerEnvelope grpc \<Rightarrow> 'n sender \<Rightarrow> 'r stream_event list \<Rightarrow>
   'r \<Rightarrow> Hub \<Rightarrow> 'n \<Rightarrow> error + session_state \<times> 'r \<times> Hub \<times> 'n" where
  "Service_Stream repo token now md first send es r h n =
     (case stream_open repo token now md first r h of
        (Inl e, r, h) \<Rightarrow> Inr (Stream_returned (Some e), r, h, n)
      | (Inr (registered, worker, ch), r, h) \<Rightarrow>
          leave_stream (Worker_ID worker) ch
            (case send registered n of
               (Inl e, n) \<Rightarrow> (Stream_returned (Some e), r, h, n)
             | (Inr _, n) \<Rightarrow> stream_select repo (Worker_ID worker) ch send es None r h n))"

section \<open>The end of a stream\<close>

definition keeps_hub :: "'r stream_event \<Rightarrow> bool" where
  "keeps_hub e \<longleftrightarrow> (\<forall>f r h. e = Elsewhere f \<longrightarrow> hub_ok h \<longrightarrow> hub_ok (snd (f r h)))"

lemma stream_select_ok:
  "stream_select repo w ch send es errCh r h n = (st, r', h', n') \<Longrightarrow> \<forall>e \<in> set es. keeps_hub e \<Longrightarrow> hub_ok h \<Longrightarrow> hub_ok h'"
proof (induction es arbitrary: errCh r h n)
  case (Cons e es)
  note IH = Cons.IH
  show ?case
  proof (cases e)
    case Outgoing
    obtain x h1 where x: "hub_receive ch h = (x, h1)" by fastforce
    have "hub_ok h1" using hub_receive_ok[OF Cons.prems(3), of ch] x by simp
    then show ?thesis using Cons.prems(1,2) IH Outgoing x
      by (cases x) (auto split: prod.splits sum.splits)
  next
    case (Elsewhere f)
    obtain r1 h1 where f: "f r h = (r1, h1)" by fastforce
    have "hub_ok h1" using Cons.prems(2,3) Elsewhere f unfolding keeps_hub_def by (metis list.set_intros(1) snd_conv)
    then show ?thesis using Cons.prems(1,2) IH Elsewhere f by auto
  qed (use Cons.prems IH in \<open>auto split: if_splits option.splits prod.splits sum.splits\<close>)
qed simp

lemma unregistered:
  assumes "hub_ok h" "hub_unregister w ch h = Inr h'"
  shows "map_of (Hub_workers h') w \<noteq> Some ch"
  using assms by (auto simp: hub_unregister_def close_ref_def close_chan_def delete_conv split: if_splits)

text \<open>Whatever the interleaving, a stream never panics and keeps the hub well formed, and once it has returned the
  hub does not route messages to its channel any more.\<close>

lemma stream_leaves_hub:
  assumes "stream_open repo token now md first r h = (Inr (registered, worker, ch), r1, h1)" "hub_ok h1"
    and "\<forall>e \<in> set es. keeps_hub e"
  shows "\<exists>st r' h' n'. Service_Stream repo token now md first send es r h n = Inr (st, r', h', n') \<and> hub_ok h' \<and>
    (st \<noteq> Stream_open \<longrightarrow> map_of (Hub_workers h') (Worker_ID worker) \<noteq> Some ch)"
proof -
  let ?out = "case send registered n of
      (Inl e, n) \<Rightarrow> (Stream_returned (Some e), r1, h1, n)
    | (Inr _, n) \<Rightarrow> stream_select repo (Worker_ID worker) ch send es None r1 h1 n"
  obtain st r2 h2 n2 where out: "?out = (st, r2, h2, n2)" by (cases ?out)
  then have h2: "hub_ok h2"
    using assms(2,3) stream_select_ok by (fastforce split: prod.splits sum.splits)
  obtain h3 where h3: "hub_unregister (Worker_ID worker) ch h2 = Inr h3" "hub_ok h3" using hub_unregister_ok[OF h2] by blast
  show ?thesis
    using assms(1) out h2 h3 unregistered[OF h2 h3(1)] by (cases st) (auto simp: Service_Stream_def leave_stream_def)
qed

end
