(* ===== verification/Postgres_DB.thy ===== *)
theory Postgres_DB
  imports Memory_Repo Json
begin

text \<open>
  The database behind \<open>internal/infrastructure/db/postgres.go\<close>: the tables of \<open>schema.sql\<close> and the SQL
  the repository sends. A table is the list of its rows; the order of the list is the order in which the
  server returns rows that \<open>ORDER BY\<close> leaves open. A row is the record of the domain model, with the
  text of a JSONB column beside it. What the server does outside the statements is a field of
  \<open>Database\<close> that no statement changes:

  \<^item> \<open>Db_fault\<close>: the error of a statement that does not reach the server (named by method and step);
  \<^item> \<open>Db_violation\<close>: the wording of the server's constraint errors;
  \<^item> \<open>Db_jsonb\<close>: the text a JSONB column returns for the text written, or the error for a text that is not
    JSON; \<open>Db_time\<close>: the rounding of a time to the resolution of \<open>TIMESTAMPTZ\<close>;
  \<^item> \<open>Db_marshal\<close>: \<open>json.Marshal\<close> of a map of dynamic values, \<open>None\<close> when it fails.
\<close>

section \<open>Tables\<close>

record UserRow =
  UserRow_Username :: string
  UserRow_Password :: string
  UserRow_Role :: string
  UserRow_CreatedAt :: Time
  UserRow_UpdatedAt :: Time

datatype violation =
    UniqueViolation string
  | ForeignKeyViolation string
  | NotNullViolation string
  | StringTooLong nat
  | OutOfRange
  | InvalidBytes

record Database =
  Db_fault :: "string \<Rightarrow> error option"
  Db_violation :: "violation \<Rightarrow> error"
  Db_jsonb :: "string \<Rightarrow> string res"
  Db_time :: "Time \<Rightarrow> Time"
  Db_marshal :: "details \<Rightarrow> string option"
  Db_users :: "UserRow list"
  Db_workers :: "Worker list"
  Db_jobs :: "(Job \<times> string) list"
  Db_plans :: "(DiagnosisPlan \<times> string) list"
  Db_auditLogs :: "(AuditLog \<times> string) list"
  Db_cases :: "IncidentCase list"
  Db_yamls :: "JobYAML list"
  Db_workerLogs :: "WorkerLog list"
  Db_configs :: "ManagedConfig list"
  Db_conversations :: "Conversation list"
  Db_messages :: "(ConversationMessage \<times> string option) list"
  Db_runs :: "AgentRun list"
  Db_events :: "(AgentEvent \<times> string) list"
  Db_toolCalls :: "AgentToolCall list"
  Db_workerLogSeq :: int
  Db_messageSeq :: int
  Db_eventSeq :: int

text \<open>
  \<open>Pg_nextID\<close> is the counter in the process. \<open>Pg_clock\<close> is the time read by the methods whose interface
  passes none.
\<close>

record PostgresRepository =
  Pg_db :: Database
  Pg_nextID :: "64 word"
  Pg_clock :: Time

section \<open>Arguments of a statement\<close>

text \<open>
  A text argument must be valid UTF-8 without NUL; assigned to a \<open>VARCHAR(n)\<close> column it has at most \<open>n\<close>
  characters (an excess that is all spaces, which the server would cut off, is refused here as well). An
  argument of an \<open>INTEGER\<close> column fits 32 bits.
\<close>

datatype arg = Varchar nat string | Txt string | Int4 int

definition text_ok :: "string \<Rightarrow> bool" where
  "text_ok s \<longleftrightarrow> utf8_valid s \<and> CHR 0x00 \<notin> set s"

definition characters :: "string \<Rightarrow> nat" where
  "characters s = length (filter (\<lambda>c. \<not> cont c) s)"

fun arg_violation :: "arg \<Rightarrow> violation option" where
  "arg_violation (Varchar n s) =
     (if \<not> text_ok s then Some InvalidBytes else if characters s > n then Some (StringTooLong n) else None)"
| "arg_violation (Txt s) = (if \<not> text_ok s then Some InvalidBytes else None)"
| "arg_violation (Int4 k) = (if - (2 ^ 31) \<le> k \<and> k < 2 ^ 31 then None else Some OutOfRange)"

definition args_violation :: "arg list \<Rightarrow> violation option" where
  "args_violation xs = (case List.map_filter arg_violation xs of [] \<Rightarrow> None | v # _ \<Rightarrow> Some v)"

text \<open>Why a statement does not run: the connection or one of its arguments.\<close>

definition refused :: "string \<Rightarrow> arg list \<Rightarrow> PostgresRepository \<Rightarrow> error option" where
  "refused stmt xs r =
     (case Db_fault (Pg_db r) stmt of
        Some e \<Rightarrow> Some e
      | None \<Rightarrow> map_option (Db_violation (Pg_db r)) (args_violation xs))"

text \<open>\<open>Query\<close> and \<open>Exec\<close>: a statement reads the database or maps it to a result and a new database.\<close>

definition query :: "string \<Rightarrow> arg list \<Rightarrow> (Database \<Rightarrow> 'a) \<Rightarrow> PostgresRepository \<Rightarrow> 'a res" where
  "query stmt xs f r = (case refused stmt xs r of Some e \<Rightarrow> Inl e | None \<Rightarrow> Inr (f (Pg_db r)))"

definition exec ::
  "string \<Rightarrow> arg list \<Rightarrow> (Database \<Rightarrow> 'a res \<times> Database) \<Rightarrow> PostgresRepository \<Rightarrow> 'a res \<times> PostgresRepository" where
  "exec stmt xs f r =
     (case refused stmt xs r of
        Some e \<Rightarrow> (Inl e, r)
      | None \<Rightarrow> (case f (Pg_db r) of (x, db) \<Rightarrow> (x, r\<lparr>Pg_db := db\<rparr>)))"

section \<open>Statements on a table\<close>

text \<open>\<open>UPDATE ... WHERE\<close> and \<open>DELETE ... WHERE\<close>: the number of rows affected and the rows after it.\<close>

definition set_where :: "('a \<Rightarrow> bool) \<Rightarrow> ('a \<Rightarrow> 'a) \<Rightarrow> 'a list \<Rightarrow> 'a list" where
  "set_where p f rows = map (\<lambda>x. if p x then f x else x) rows"

definition affected :: "('a \<Rightarrow> bool) \<Rightarrow> 'a list \<Rightarrow> nat" where
  "affected p rows = length (filter p rows)"

definition delete_where :: "('a \<Rightarrow> bool) \<Rightarrow> 'a list \<Rightarrow> 'a list" where
  "delete_where p rows = filter (\<lambda>x. \<not> p x) rows"

text \<open>\<open>ORDER BY\<close> with a descending time, and \<open>LIMIT\<close> when the argument is positive.\<close>

definition newest :: "('a \<Rightarrow> Time) \<Rightarrow> 'a list \<Rightarrow> 'a list" where
  "newest t rows = sort_Slice (\<lambda>x y. t x > t y) rows"

definition limit_rows :: "int \<Rightarrow> 'a list \<Rightarrow> 'a list" where
  "limit_rows n rows = (if n > 0 then take (nat n) rows else rows)"

text \<open>An optional filter \<open>AND column = $n\<close>, present when the Go string is not empty.\<close>

definition opt_eq :: "string \<Rightarrow> string \<Rightarrow> bool" where
  "opt_eq wanted actual \<longleftrightarrow> wanted = [] \<or> actual = wanted"

text \<open>All results of a scan, or the first error.\<close>

fun scan_all :: "'a res list \<Rightarrow> 'a list res" where
  "scan_all [] = Inr []"
| "scan_all (Inl e # xs) = Inl e"
| "scan_all (Inr x # xs) = (case scan_all xs of Inl e \<Rightarrow> Inl e | Inr ys \<Rightarrow> Inr (x # ys))"

text \<open>\<open>fmt.Errorf\<close> with a prefix.\<close>

definition wrap :: "string \<Rightarrow> error \<Rightarrow> error" where
  "wrap what e = what @ '': '' @ e"

definition wrapped :: "string \<Rightarrow> 'a res \<Rightarrow> 'a res" where
  "wrapped what x = map_sum (wrap what) id x"

section \<open>JSON columns\<close>

text \<open>\<open>marshalStringMap\<close>: an object with the keys in order; a nil map is written as the empty object.\<close>

definition marshalStringMap :: "(string, string) gomap \<Rightarrow> string" where
  "marshalStringMap m = json_print (JObj (map (\<lambda>kv. (fst kv, JStr (snd kv))) (sort_key fst m)))"

definition unmarshalStringMap :: "string \<Rightarrow> (string, string) gomap res" where
  "unmarshalStringMap t =
     (case json_parse t of
        Inl e \<Rightarrow> Inl e
      | Inr v \<Rightarrow>
          (case decode_string_map v None of
             (_, Some e) \<Rightarrow> Inl e
           | (None, None) \<Rightarrow> Inr []
           | (Some m, None) \<Rightarrow> Inr m))"

text \<open>Reading into \<open>map[string]any\<close>: a number becomes a \<open>float64\<close>, kept by its literal.\<close>

fun goval_of :: "jval \<Rightarrow> goval" where
  "goval_of JNull = VNil"
| "goval_of (JBool b) = VBool b"
| "goval_of (JNum n) = VOther n"
| "goval_of (JStr s) = VStr s"
| "goval_of (JArr vs) = VList (map goval_of vs)"
| "goval_of (JObj kvs) = VMap (foldl (\<lambda>m kv. AList.update (fst kv) (snd kv) m) []
     (map (\<lambda>kv. (fst kv, goval_of (snd kv))) kvs))"

definition unmarshalDetails :: "string \<Rightarrow> details" where
  "unmarshalDetails t =
     (case json_parse t of
        Inr (JObj kvs) \<Rightarrow> (case goval_of (JObj kvs) of VMap m \<Rightarrow> m | _ \<Rightarrow> [])
      | _ \<Rightarrow> [])"

section \<open>Lemmas\<close>

lemma refused_counter [simp]: "refused stmt xs (r\<lparr>Pg_nextID := n\<rparr>) = refused stmt xs r"
  by (simp add: refused_def split: option.split)

lemma set_where_simps [simp]:
  "length (set_where p f rows) = length rows"
  "set_where p f [] = []"
  "set_where p f (x # rows) = (if p x then f x else x) # set_where p f rows"
  by (simp_all add: set_where_def)

lemma set_where_keys: "(\<And>x. k (f x) = k x) \<Longrightarrow> map k (set_where p f rows) = map k rows"
  by (simp add: set_where_def comp_def)

lemma set_where_none: "affected p rows = 0 \<Longrightarrow> set_where p f rows = rows"
  by (induction rows) (auto simp: affected_def split: if_splits)

lemma affected_iff: "affected p rows \<noteq> 0 \<longleftrightarrow> (\<exists>x \<in> set rows. p x)"
  by (auto simp: affected_def filter_empty_conv)

lemma find_set_where:
  assumes "\<And>x. k (f x) = k x"
  shows "find (\<lambda>x. k x = i) (set_where p f rows) =
    map_option (\<lambda>x. if p x then f x else x) (find (\<lambda>x. k x = i) rows)"
  using assms by (induction rows) auto

lemma find_append: "find p (xs @ ys) = (case find p xs of Some x \<Rightarrow> Some x | None \<Rightarrow> find p ys)"
  by (induction xs) auto

lemma find_key_distinct:
  "distinct (map k rows) \<Longrightarrow> x \<in> set rows \<Longrightarrow> find (\<lambda>y. k y = k x) rows = Some x"
  by (induction rows) force+

lemma scan_all_Inr [simp]: "scan_all (map Inr ys) = Inr ys"
  by (induction ys) simp_all

end
