(* ===== verification/Postgres_Repo.thy ===== *)
theory Postgres_Repo
  imports Postgres_DB
begin

text \<open>
  \<open>internal/infrastructure/db/postgres.go\<close>, method by method, on the tables of \<open>Postgres_DB\<close>. A
  method is the sequence of its statements; the two methods whose statements interleave with those of
  other callers in the properties, \<open>CreateJob\<close> and \<open>AssignNextJob\<close>, have one definition per statement.
  \<open>postgres_repository\<close> is the interface value.
\<close>

section \<open>Identifiers\<close>

text \<open>\<open>SUBSTRING(id FROM '[0-9]+$')\<close>: the longest run of digits at the end.\<close>

definition trailing_digits :: "string \<Rightarrow> string" where
  "trailing_digits s = rev (takeWhile is_digit (rev s))"

text \<open>\<open>COALESCE(MAX(CAST(... AS BIGINT)), 0)\<close>; the cast fails beyond 63 bits, and the statement with it.\<close>

definition max_suffix :: "string list \<Rightarrow> nat option" where
  "max_suffix ids =
     (let suffixes = map undec (filter (\<lambda>d. d \<noteq> []) (map trailing_digits ids))
      in if list_all (\<lambda>n. int n < 2 ^ 63) suffixes then Some (foldl max 0 suffixes) else None)"

definition id_tables :: "Database \<Rightarrow> (string \<times> string list) list" where
  "id_tables db =
     [(''workers'', map Worker_ID (Db_workers db)), (''jobs'', map (Job_ID \<circ> fst) (Db_jobs db)),
      (''audit_logs'', map (AuditLog_ID \<circ> fst) (Db_auditLogs db)), (''incident_cases'', map IncidentCase_ID (Db_cases db)),
      (''diagnosis_plans'', map (DiagnosisPlan_ID \<circ> fst) (Db_plans db)), (''job_yamls'', map JobYAML_ID (Db_yamls db)),
      (''managed_configs'', map ManagedConfig_ID (Db_configs db)),
      (''conversations'', map Conversation_ID (Db_conversations db)), (''agent_runs'', map AgentRun_ID (Db_runs db))]"

definition seed_table :: "PostgresRepository \<Rightarrow> nat \<Rightarrow> string \<times> string list \<Rightarrow> nat" where
  "seed_table r maxVal t =
     (case refused (''seedCounter.'' @ fst t) [] r of
        Some _ \<Rightarrow> maxVal
      | None \<Rightarrow> (case max_suffix (snd t) of None \<Rightarrow> maxVal | Some n \<Rightarrow> if n > maxVal then n else maxVal))"

definition seedCounter :: "PostgresRepository \<Rightarrow> PostgresRepository" where
  "seedCounter r =
     (let maxVal = foldl (seed_table r) 0 (id_tables (Pg_db r))
      in if maxVal > 0 then r\<lparr>Pg_nextID := of_nat maxVal\<rparr> else r)"

definition genID :: "string \<Rightarrow> PostgresRepository \<Rightarrow> string \<times> PostgresRepository" where
  "genID prefix r =
     (let value = Pg_nextID r + 1 in (fmtID prefix (unat value), r\<lparr>Pg_nextID := value\<rparr>))"

text \<open>
  Opening the repository on an existing database: the ping and the migration may fail; the counter
  starts from 0 and is seeded from the tables. The schema is created with \<open>IF NOT EXISTS\<close>, so the
  migration leaves the rows of an existing database alone.
\<close>

definition Migrate :: "PostgresRepository \<Rightarrow> unit res" where
  "Migrate r = query ''Migrate'' [] (\<lambda>_. ()) r"

definition Ping :: "PostgresRepository \<Rightarrow> unit res" where
  "Ping r = query ''Ping'' [] (\<lambda>_. ()) r"

definition NewPostgresRepository :: "Time \<Rightarrow> Database \<Rightarrow> PostgresRepository res" where
  "NewPostgresRepository now db =
     (let r = \<lparr>Pg_db = db, Pg_nextID = 0, Pg_clock = now\<rparr>
      in case Db_fault db ''Open'' of
           Some e \<Rightarrow> Inl (wrap ''open database'' e)
         | None \<Rightarrow>
             (case Ping r of
                Inl e \<Rightarrow> Inl (wrap ''ping database'' e)
              | Inr _ \<Rightarrow>
                  (case Migrate r of
                     Inl e \<Rightarrow> Inl (wrap ''migrate'' e)
                   | Inr _ \<Rightarrow> Inr (seedCounter r))))"

section \<open>Users\<close>

definition Pg_CreateUser ::
  "Time \<Rightarrow> string \<Rightarrow> string \<Rightarrow> string \<Rightarrow> PostgresRepository \<Rightarrow> User res \<times> PostgresRepository" where
  "Pg_CreateUser now username passwordHash role r =
     apfst (wrapped ''create user'')
       (exec ''CreateUser'' [Varchar 128 username, Varchar 256 passwordHash, Varchar 32 role]
          (\<lambda>db. if username \<in> UserRow_Username ` set (Db_users db)
                then (Inl (Db_violation db (UniqueViolation ''users_pkey'')), db)
                else (Inr \<lparr>User_Username = username, User_Role = role\<rparr>,
                      db\<lparr>Db_users := Db_users db @ [\<lparr>UserRow_Username = username, UserRow_Password = passwordHash,
                        UserRow_Role = role, UserRow_CreatedAt = Db_time db now, UserRow_UpdatedAt = Db_time db now\<rparr>]\<rparr>)) r)"

definition Pg_GetUser :: "string \<Rightarrow> PostgresRepository \<Rightarrow> (string \<times> User \<times> bool) res" where
  "Pg_GetUser username r =
     (case query ''GetUser'' [Txt username] (\<lambda>db. find (\<lambda>u. UserRow_Username u = username) (Db_users db)) r of
        Inl e \<Rightarrow> Inl (wrap ''get user'' e)
      | Inr None \<Rightarrow> Inr ([], zero_User, False)
      | Inr (Some u) \<Rightarrow>
          Inr (UserRow_Password u, \<lparr>User_Username = UserRow_Username u, User_Role = UserRow_Role u\<rparr>, True))"

definition Pg_ListUsers :: "PostgresRepository \<Rightarrow> User list res" where
  "Pg_ListUsers r =
     wrapped ''list users'' (query ''ListUsers'' []
       (\<lambda>db. map (\<lambda>u. \<lparr>User_Username = UserRow_Username u, User_Role = UserRow_Role u\<rparr>)
              (sort_key UserRow_Username (Db_users db))) r)"

definition Pg_DeleteUser :: "string \<Rightarrow> PostgresRepository \<Rightarrow> unit res \<times> PostgresRepository" where
  "Pg_DeleteUser username r =
     (let p = (\<lambda>u. UserRow_Username u = username)
      in case exec ''DeleteUser'' [Txt username]
             (\<lambda>db. (Inr (affected p (Db_users db)), db\<lparr>Db_users := delete_where p (Db_users db)\<rparr>)) r of
           (Inl e, r) \<Rightarrow> (Inl (wrap ''delete user'' e), r)
         | (Inr n, r) \<Rightarrow> (if n = 0 then Inl (''user not found: '' @ username) else Inr (), r))"

definition Pg_UpdatePassword :: "Time \<Rightarrow> string \<Rightarrow> string \<Rightarrow> PostgresRepository \<Rightarrow> unit res \<times> PostgresRepository" where
  "Pg_UpdatePassword now username newHash r =
     (let p = (\<lambda>u. UserRow_Username u = username)
      in case exec ''UpdatePassword'' [Varchar 256 newHash, Txt username]
             (\<lambda>db. (Inr (affected p (Db_users db)), db\<lparr>Db_users := set_where p
                (\<lambda>u. u\<lparr>UserRow_Password := newHash, UserRow_UpdatedAt := Db_time db now\<rparr>) (Db_users db)\<rparr>)) r of
           (Inl e, r) \<Rightarrow> (Inl (wrap ''update password'' e), r)
         | (Inr n, r) \<Rightarrow> (if n = 0 then Inl (''user not found: '' @ username) else Inr (), r))"

section \<open>Workers\<close>

definition insert_worker :: "Worker \<Rightarrow> Database \<Rightarrow> unit res \<times> Database" where
  "insert_worker w db =
     (if Worker_ID w \<in> Worker_ID ` set (Db_workers db)
      then (Inl (Db_violation db (UniqueViolation ''workers_pkey'')), db)
      else (Inr (), db\<lparr>Db_workers := Db_workers db @ [w\<lparr>Worker_LastHeartbeatAt := Db_time db (Worker_LastHeartbeatAt w),
              Worker_CreatedAt := Db_time db (Worker_CreatedAt w), Worker_UpdatedAt := Db_time db (Worker_UpdatedAt w)\<rparr>]\<rparr>))"

text \<open>A failed lookup is treated like an absent worker; the update of a known one may fail unnoticed.\<close>

definition Pg_RegisterWorker ::
  "Time \<Rightarrow> string \<Rightarrow> string \<Rightarrow> PostgresRepository \<Rightarrow> Worker res \<times> PostgresRepository" where
  "Pg_RegisterWorker now name workerType r =
     (case query ''RegisterWorker.select'' [Txt name, Txt workerType]
           (\<lambda>db. find (\<lambda>w. Worker_Name w = name \<and> Worker_WorkerType w = workerType) (Db_workers db)) r of
        Inr (Some w) \<Rightarrow>
          (Inr (w\<lparr>Worker_Status := WorkerStatusOnline, Worker_LastHeartbeatAt := now, Worker_UpdatedAt := now\<rparr>),
           snd (exec ''RegisterWorker.update'' [Varchar 32 WorkerStatusOnline, Txt (Worker_ID w)]
             (\<lambda>db. (Inr (), db\<lparr>Db_workers := set_where (\<lambda>x. Worker_ID x = Worker_ID w)
                (\<lambda>x. x\<lparr>Worker_Status := WorkerStatusOnline, Worker_LastHeartbeatAt := Db_time db now,
                       Worker_UpdatedAt := Db_time db now\<rparr>) (Db_workers db)\<rparr>)) r))
      | _ \<Rightarrow>
          (let (ident, r) = genID ''worker'' r;
               w = zero_Worker\<lparr>Worker_ID := ident, Worker_Name := name, Worker_WorkerType := workerType,
                     Worker_Status := WorkerStatusOnline, Worker_LastHeartbeatAt := now, Worker_CreatedAt := now,
                     Worker_UpdatedAt := now\<rparr>
           in case exec ''RegisterWorker.insert''
                  [Varchar 64 ident, Varchar 256 name, Varchar 128 workerType, Varchar 32 WorkerStatusOnline]
                  (insert_worker w) r of
                (Inl e, r) \<Rightarrow> (Inl (wrap ''register worker'' e), r)
              | (Inr _, r) \<Rightarrow> (Inr w, r)))"

text \<open>The status follows from the age of the last heartbeat; what is stored is overwritten.\<close>

definition Pg_GetWorker :: "Time \<Rightarrow> string \<Rightarrow> PostgresRepository \<Rightarrow> Worker res" where
  "Pg_GetWorker now ident r =
     (case query ''GetWorker'' [Txt ident] (\<lambda>db. find (\<lambda>w. Worker_ID w = ident) (Db_workers db)) r of
        Inl e \<Rightarrow> Inl (wrap ''get worker'' e)
      | Inr None \<Rightarrow> Inl (''worker not found: '' @ ident)
      | Inr (Some w) \<Rightarrow>
          Inr (w\<lparr>Worker_Status := (if timeSub now (Worker_LastHeartbeatAt w) > WorkerOnlineThreshold
                                  then WorkerStatusOffline else WorkerStatusOnline)\<rparr>))"

definition Pg_HeartbeatWorker ::
  "Time \<Rightarrow> string \<Rightarrow> HostInfo option \<Rightarrow> PostgresRepository \<Rightarrow> Worker res \<times> PostgresRepository" where
  "Pg_HeartbeatWorker now ident info r =
     (let p = (\<lambda>w. Worker_ID w = ident)
      in case exec ''HeartbeatWorker''
             ((case info of None \<Rightarrow> []
               | Some i \<Rightarrow> [Varchar 256 (HostInfo_Hostname i), Varchar 64 (HostInfo_IPAddress i)]) @ [Txt ident])
             (\<lambda>db. (Inr (affected p (Db_workers db)), db\<lparr>Db_workers := set_where p
                (\<lambda>w. w\<lparr>Worker_LastHeartbeatAt := Db_time db now, Worker_Status := WorkerStatusOnline,
                       Worker_UpdatedAt := Db_time db now,
                       Worker_HostInfo := (case info of None \<Rightarrow> Worker_HostInfo w | Some i \<Rightarrow> i)\<rparr>) (Db_workers db)\<rparr>)) r of
           (Inl e, r) \<Rightarrow> (Inl (wrap ''heartbeat worker'' e), r)
         | (Inr n, r) \<Rightarrow>
             (if n = 0 then Inl (''worker not found: '' @ ident) else Pg_GetWorker now ident r, r))"

definition Pg_ListWorkers :: "Time \<Rightarrow> PostgresRepository \<Rightarrow> Worker list res" where
  "Pg_ListWorkers now r =
     wrapped ''list workers'' (query ''ListWorkers'' []
       (\<lambda>db. map (\<lambda>w. if Worker_Status w = WorkerStatusOnline \<and>
                       timeSub now (Worker_LastHeartbeatAt w) > WorkerOnlineThreshold
                     then w\<lparr>Worker_Status := WorkerStatusOffline\<rparr> else w)
              (newest Worker_CreatedAt (Db_workers db))) r)"

definition Pg_UpdateWorkerStatus ::
  "Time \<Rightarrow> string \<Rightarrow> WorkerStatus \<Rightarrow> PostgresRepository \<Rightarrow> unit res \<times> PostgresRepository" where
  "Pg_UpdateWorkerStatus now ident status r =
     exec ''UpdateWorkerStatus'' [Varchar 32 status, Txt ident]
       (\<lambda>db. (Inr (), db\<lparr>Db_workers := set_where (\<lambda>w. Worker_ID w = ident)
          (\<lambda>w. w\<lparr>Worker_Status := status, Worker_UpdatedAt := Db_time db now\<rparr>) (Db_workers db)\<rparr>)) r"

definition Pg_DeleteWorker :: "string \<Rightarrow> PostgresRepository \<Rightarrow> unit res \<times> PostgresRepository" where
  "Pg_DeleteWorker ident r =
     exec ''DeleteWorker'' [Txt ident]
       (\<lambda>db. (Inr (), db\<lparr>Db_workers := delete_where (\<lambda>w. Worker_ID w = ident) (Db_workers db)\<rparr>)) r"

section \<open>Jobs\<close>

text \<open>The statement that looks an idempotency key up.\<close>

definition find_key :: "string \<Rightarrow> string \<Rightarrow> PostgresRepository \<Rightarrow> string option res" where
  "find_key stmt key r =
     query stmt [Txt key]
       (\<lambda>db. map_option (Job_ID \<circ> fst) (find (\<lambda>row. Job_IdempotencyKey (fst row) = key) (Db_jobs db))) r"

text \<open>A row as \<open>GetJob\<close> and \<open>ListJobs\<close> scan it: the idempotency key is not selected.\<close>

definition scan_job :: "Job \<times> string \<Rightarrow> Job res" where
  "scan_job row =
     (case row of (j, parametersJSON) \<Rightarrow>
        let j = j\<lparr>Job_IdempotencyKey := [], Job_Parameters := []\<rparr>
        in if length parametersJSON > 0
           then (case unmarshalStringMap parametersJSON of
                   Inl e \<Rightarrow> Inl (wrap ''unmarshal job parameters'' e)
                 | Inr m \<Rightarrow> Inr (j\<lparr>Job_Parameters := m\<rparr>))
           else Inr j)"

definition Pg_GetJob :: "string \<Rightarrow> PostgresRepository \<Rightarrow> Job res" where
  "Pg_GetJob ident r =
     (case query ''GetJob'' [Txt ident] (\<lambda>db. find (\<lambda>row. Job_ID (fst row) = ident) (Db_jobs db)) r of
        Inl e \<Rightarrow> Inl (wrap ''get job'' e)
      | Inr None \<Rightarrow> Inl (''job not found: '' @ ident)
      | Inr (Some row) \<Rightarrow> scan_job row)"

definition prepare_job :: "Time \<Rightarrow> string \<Rightarrow> Job \<Rightarrow> Job" where
  "prepare_job now ident job =
     (let job = job\<lparr>Job_ID := ident, Job_CreatedAt := now, Job_UpdatedAt := now\<rparr>;
          job = (if Job_Status job = [] then job\<lparr>Job_Status := JobStatusPending\<rparr> else job)
      in if Job_ApprovalStatus job = []
         then job\<lparr>Job_ApprovalStatus :=
                (if Job_ApprovalRequired job then ApprovalStatusPending else ApprovalStatusNotRequired)\<rparr>
         else job)"

text \<open>The job as the table keeps it: times in the resolution of the column, the parameters in the text.\<close>

definition job_row :: "Database \<Rightarrow> Job \<Rightarrow> string \<Rightarrow> Job \<times> string" where
  "job_row db job parametersJSON =
     (job\<lparr>Job_Parameters := [], Job_CreatedAt := Db_time db (Job_CreatedAt job),
          Job_UpdatedAt := Db_time db (Job_UpdatedAt job), Job_ApprovedAt := map_option (Db_time db) (Job_ApprovedAt job),
          Job_RejectedAt := map_option (Db_time db) (Job_RejectedAt job),
          Job_StartedAt := map_option (Db_time db) (Job_StartedAt job),
          Job_FinishedAt := map_option (Db_time db) (Job_FinishedAt job)\<rparr>, parametersJSON)"

text \<open>The primary key and the partial unique index on non-empty idempotency keys.\<close>

definition insert_job :: "Job \<Rightarrow> Database \<Rightarrow> unit res \<times> Database" where
  "insert_job job db =
     (case Db_jsonb db (marshalStringMap (Job_Parameters job)) of
        Inl e \<Rightarrow> (Inl e, db)
      | Inr parametersJSON \<Rightarrow>
          if Job_ID job \<in> (Job_ID \<circ> fst) ` set (Db_jobs db)
          then (Inl (Db_violation db (UniqueViolation ''jobs_pkey'')), db)
          else if Job_IdempotencyKey job \<noteq> [] \<and>
             Job_IdempotencyKey job \<in> (Job_IdempotencyKey \<circ> fst) ` set (Db_jobs db)
          then (Inl (Db_violation db (UniqueViolation ''idx_jobs_idempotency_key'')), db)
          else (Inr (), db\<lparr>Db_jobs := Db_jobs db @ [job_row db job parametersJSON]\<rparr>))"

definition job_args :: "Job \<Rightarrow> arg list" where
  "job_args job =
     [Varchar 64 (Job_ID job), Varchar 512 (Job_Name job), Varchar 128 (Job_WorkerType job), Txt (Job_Command job),
      Varchar 32 (Job_Status job), Varchar 16 (Job_RiskLevel job), Varchar 32 (Job_ApprovalStatus job),
      Txt (Job_ApprovalComment job), Varchar 128 (Job_ApprovedBy job), Varchar 128 (Job_RejectedBy job),
      Varchar 128 (Job_TemplateCode job), Varchar 64 (Job_SourceType job), Varchar 64 (Job_SourceID job),
      Varchar 256 (Job_IdempotencyKey job), Varchar 64 (Job_AssignedWorkerID job), Txt (Job_Output job)]"

text \<open>
  \<open>CreateJob\<close> in the steps other callers can see: look the key up, draw an identifier, insert, and, when
  the insert failed, look the key up again. \<open>Inl\<close> ends the call with its result.
\<close>

definition create_lookup :: "Job \<Rightarrow> PostgresRepository \<Rightarrow> Job res option" where
  "create_lookup job r =
     (if Job_IdempotencyKey job = [] then None
      else case find_key ''CreateJob.lookup'' (Job_IdempotencyKey job) r of
          Inl e \<Rightarrow> Some (Inl (wrap ''find idempotent job'' e))
        | Inr (Some ident) \<Rightarrow> Some (Pg_GetJob ident r)
        | Inr None \<Rightarrow> None)"

definition create_prepare :: "Time \<Rightarrow> Job \<Rightarrow> PostgresRepository \<Rightarrow> Job \<times> PostgresRepository" where
  "create_prepare now job r = (case genID ''job'' r of (ident, r) \<Rightarrow> (prepare_job now ident job, r))"

definition create_insert :: "Job \<Rightarrow> PostgresRepository \<Rightarrow> unit res \<times> PostgresRepository" where
  "create_insert job r = exec ''CreateJob.insert'' (job_args job) (insert_job job) r"

definition create_again :: "Job \<Rightarrow> error \<Rightarrow> PostgresRepository \<Rightarrow> Job res" where
  "create_again job e r =
     (if Job_IdempotencyKey job \<noteq> []
      then (case find_key ''CreateJob.again'' (Job_IdempotencyKey job) r of
              Inr (Some ident) \<Rightarrow> Pg_GetJob ident r
            | _ \<Rightarrow> Inl (wrap ''create job'' e))
      else Inl (wrap ''create job'' e))"

definition Pg_CreateJob :: "Time \<Rightarrow> Job \<Rightarrow> PostgresRepository \<Rightarrow> Job res \<times> PostgresRepository" where
  "Pg_CreateJob now job r =
     (case create_lookup job r of
        Some found \<Rightarrow> (found, r)
      | None \<Rightarrow>
          (let (job, r) = create_prepare now job r
           in case create_insert job r of
                (Inl e, r) \<Rightarrow> (create_again job e r, r)
              | (Inr _, r) \<Rightarrow> (Inr job, r)))"

definition Pg_ListJobs :: "JobFilter \<Rightarrow> PostgresRepository \<Rightarrow> Job list res" where
  "Pg_ListJobs f r =
     (case query ''ListJobs'' [Txt (JobFilter_SourceType f), Txt (JobFilter_WorkerType f), Txt (JobFilter_Status f)]
         (\<lambda>db. limit_rows (JobFilter_Limit f) (newest (Job_CreatedAt \<circ> fst)
            (filter (\<lambda>row. opt_eq (JobFilter_SourceType f) (Job_SourceType (fst row)) \<and>
               opt_eq (JobFilter_WorkerType f) (Job_WorkerType (fst row)) \<and>
               opt_eq (JobFilter_Status f) (Job_Status (fst row))) (Db_jobs db)))) r of
        Inl e \<Rightarrow> Inl (wrap ''list jobs'' e)
      | Inr rows \<Rightarrow> scan_all (map scan_job rows))"

text \<open>The choice of the next job, the statement that starts it, and the method of both.\<close>

definition next_before :: "Job \<Rightarrow> Job \<Rightarrow> bool" where
  "next_before a b \<longleftrightarrow> Job_CreatedAt a < Job_CreatedAt b \<or> Job_CreatedAt a = Job_CreatedAt b \<and> Job_ID a < Job_ID b"

definition select_next :: "Worker \<Rightarrow> PostgresRepository \<Rightarrow> string res" where
  "select_next worker r =
     (let general = NormalizeWorkerType (Worker_WorkerType worker) = ''shell''
      in case query ''AssignNextJob.select'' (if general then [] else [Txt (Worker_WorkerType worker)])
             (\<lambda>db. sort_Slice next_before (filter (\<lambda>j. Job_Status j \<in> {JobStatusQueued, JobStatusPending} \<and>
                (general \<or> Job_WorkerType j = Worker_WorkerType worker)) (map fst (Db_jobs db)))) r of
           Inl e \<Rightarrow> Inl (wrap ''assign next job'' e)
         | Inr [] \<Rightarrow> Inl (''no queued jobs for worker type '' @ Worker_WorkerType worker)
         | Inr (j # _) \<Rightarrow> Inr (Job_ID j))"

definition start_job_row :: "string \<Rightarrow> Time \<Rightarrow> string \<Rightarrow> string \<Rightarrow> PostgresRepository \<Rightarrow> unit res \<times> PostgresRepository" where
  "start_job_row stmt now workerID jobID r =
     exec stmt [Varchar 32 JobStatusRunning, Varchar 64 workerID, Txt jobID]
       (\<lambda>db. (Inr (), db\<lparr>Db_jobs := set_where (\<lambda>row. Job_ID (fst row) = jobID)
          (apfst (\<lambda>j. j\<lparr>Job_Status := JobStatusRunning, Job_AssignedWorkerID := workerID,
             Job_StartedAt := Some (Db_time db now), Job_UpdatedAt := Db_time db now\<rparr>)) (Db_jobs db)\<rparr>)) r"

definition assign_update :: "Time \<Rightarrow> string \<Rightarrow> string \<Rightarrow> PostgresRepository \<Rightarrow> Job res \<times> PostgresRepository" where
  "assign_update now workerID jobID r =
     (case start_job_row ''AssignNextJob.update'' now workerID jobID r of
        (Inl e, r) \<Rightarrow> (Inl (wrap ''assign next job update'' e), r)
      | (Inr _, r) \<Rightarrow> (Pg_GetJob jobID r, r))"

definition Pg_AssignNextJob :: "Time \<Rightarrow> string \<Rightarrow> PostgresRepository \<Rightarrow> Job res \<times> PostgresRepository" where
  "Pg_AssignNextJob now workerID r =
     (case Pg_GetWorker now workerID r of
        Inl e \<Rightarrow> (Inl e, r)
      | Inr worker \<Rightarrow>
          (case select_next worker r of
             Inl e \<Rightarrow> (Inl e, r)
           | Inr jobID \<Rightarrow> assign_update now workerID jobID r))"

fun assign_each ::
  "Time \<Rightarrow> Job \<Rightarrow> string \<Rightarrow> string list \<Rightarrow> PostgresRepository \<Rightarrow> unit res \<times> PostgresRepository" where
  "assign_each now job jobID [] r = (Inr (), r)"
| "assign_each now job jobID (wid # wids) r =
     (case Pg_GetWorker now wid r of
        Inl e \<Rightarrow> (Inl e, r)
      | Inr worker \<Rightarrow>
          if \<not> WorkerCanRunType (Worker_WorkerType worker) (Job_WorkerType job)
          then (Inl (''worker '' @ wid @ '' type '' @ Worker_WorkerType worker @ '' cannot run job type '' @
                  Job_WorkerType job), r)
          else (case start_job_row ''AssignJobToWorkers'' now wid jobID r of
                  (Inl e, r) \<Rightarrow> (Inl (wrap (''assign job '' @ jobID @ '' to worker '' @ wid) e), r)
                | (Inr _, r) \<Rightarrow> assign_each now job jobID wids r))"

definition Pg_AssignJobToWorkers ::
  "Time \<Rightarrow> string \<Rightarrow> string list \<Rightarrow> PostgresRepository \<Rightarrow> unit res \<times> PostgresRepository" where
  "Pg_AssignJobToWorkers now jobID workerIDs r =
     (case Pg_GetJob jobID r of Inl e \<Rightarrow> (Inl e, r) | Inr job \<Rightarrow> assign_each now job jobID workerIDs r)"

text \<open>
  The guarded updates of \<open>CompleteJob\<close>, \<open>ApproveJob\<close> and \<open>RejectJob\<close>: one \<open>UPDATE\<close> whose \<open>WHERE\<close> holds the
  guard, the number of rows it changed, and a second statement that reads the job back.
\<close>

definition guarded_update ::
  "string \<Rightarrow> string \<Rightarrow> arg list \<Rightarrow> (Job \<Rightarrow> bool) \<Rightarrow> (Database \<Rightarrow> Job \<Rightarrow> Job) \<Rightarrow> error \<Rightarrow> string \<Rightarrow> PostgresRepository \<Rightarrow>
   Job res \<times> PostgresRepository" where
  "guarded_update stmt what xs guard change none jobID r =
     (let p = (\<lambda>row :: Job \<times> string. Job_ID (fst row) = jobID \<and> guard (fst row))
      in case exec stmt (xs @ [Txt jobID])
             (\<lambda>db. (Inr (affected p (Db_jobs db)), db\<lparr>Db_jobs := set_where p (apfst (change db)) (Db_jobs db)\<rparr>)) r of
           (Inl e, r) \<Rightarrow> (Inl (wrap what e), r)
         | (Inr n, r) \<Rightarrow> (if n = 0 then Inl none else Pg_GetJob jobID r, r))"

definition Pg_CompleteJob ::
  "Time \<Rightarrow> string \<Rightarrow> string \<Rightarrow> string \<Rightarrow> bool \<Rightarrow> PostgresRepository \<Rightarrow> Job res \<times> PostgresRepository" where
  "Pg_CompleteJob now workerID jobID output success r =
     (let status = (if \<not> success then JobStatusFailed else JobStatusSuccess)
      in guarded_update ''CompleteJob'' ''complete job'' [Varchar 32 status, Txt output, Txt workerID]
           (\<lambda>j. Job_AssignedWorkerID j = workerID \<and> Job_Status j = JobStatusRunning)
           (\<lambda>db j. j\<lparr>Job_Status := status, Job_Output := output, Job_FinishedAt := Some (Db_time db now),
              Job_UpdatedAt := Db_time db now\<rparr>)
           ''job not found or not assigned to worker'' jobID r)"

definition Pg_DeleteJob :: "string \<Rightarrow> PostgresRepository \<Rightarrow> unit res \<times> PostgresRepository" where
  "Pg_DeleteJob ident r =
     (case Pg_GetJob ident r of
        Inl e \<Rightarrow> (Inl e, r)
      | Inr job \<Rightarrow>
          if Job_Status job \<in> {JobStatusPending, JobStatusQueued, JobStatusWaitingApproval}
          then exec ''DeleteJob'' [Txt ident]
                 (\<lambda>db. (Inr (), db\<lparr>Db_jobs := delete_where (\<lambda>row. Job_ID (fst row) = ident) (Db_jobs db)\<rparr>)) r
          else (Inl (''cannot delete job with status '' @ Job_Status job), r))"

definition Pg_ListPendingApprovalJobs :: "PostgresRepository \<Rightarrow> Job list res" where
  "Pg_ListPendingApprovalJobs r =
     Pg_ListJobs \<lparr>JobFilter_SourceType = [], JobFilter_WorkerType = [], JobFilter_Status = JobStatusWaitingApproval,
       JobFilter_Limit = 0\<rparr> r"

definition Pg_ApproveJob ::
  "Time \<Rightarrow> string \<Rightarrow> string \<Rightarrow> string \<Rightarrow> PostgresRepository \<Rightarrow> Job res \<times> PostgresRepository" where
  "Pg_ApproveJob now jobID approvedBy comment r =
     guarded_update ''ApproveJob'' ''approve job'' [Varchar 128 approvedBy, Txt comment]
       (\<lambda>j. Job_Status j = JobStatusWaitingApproval)
       (\<lambda>db j. j\<lparr>Job_Status := JobStatusPending, Job_ApprovalStatus := ApprovalStatusApproved,
          Job_ApprovedBy := approvedBy, Job_ApprovedAt := Some (Db_time db now), Job_ApprovalComment := comment,
          Job_UpdatedAt := Db_time db now\<rparr>)
       ''job not found or not waiting for approval'' jobID r"

definition Pg_RejectJob ::
  "Time \<Rightarrow> string \<Rightarrow> string \<Rightarrow> string \<Rightarrow> PostgresRepository \<Rightarrow> Job res \<times> PostgresRepository" where
  "Pg_RejectJob now jobID rejectedBy reason r =
     guarded_update ''RejectJob'' ''reject job'' [Varchar 128 rejectedBy, Txt reason]
       (\<lambda>j. Job_Status j = JobStatusWaitingApproval)
       (\<lambda>db j. j\<lparr>Job_Status := JobStatusCancelled, Job_ApprovalStatus := ApprovalStatusRejected,
          Job_RejectedBy := rejectedBy, Job_RejectedAt := Some (Db_time db now), Job_ApprovalComment := reason,
          Job_UpdatedAt := Db_time db now\<rparr>)
       ''job not found or not waiting for approval'' jobID r"

section \<open>Diagnosis plans\<close>

definition step_json :: "DiagnosisStep \<Rightarrow> jval" where
  "step_json s = JObj
     ([(''step_no'', JNum (int_text (DiagnosisStep_StepNo s))), (''name'', JStr (DiagnosisStep_Name s)),
       (''description'', JStr (DiagnosisStep_Description s)), (''template_code'', JStr (DiagnosisStep_TemplateCode s)),
       (''parameters'', JObj (map (\<lambda>kv. (fst kv, JStr (snd kv))) (sort_key fst (DiagnosisStep_Parameters s)))),
       (''timeout_seconds'', JNum (int_text (DiagnosisStep_TimeoutSec s))), (''status'', JStr (DiagnosisStep_Status s))] @
      (if DiagnosisStep_JobID s \<noteq> [] then [(''job_id'', JStr (DiagnosisStep_JobID s))] else []) @
      (case DiagnosisStep_Result s of
         None \<Rightarrow> []
       | Some x \<Rightarrow> [(''result'', JObj
           ([(''stdout'', JStr (StepResult_Stdout x)), (''stderr'', JStr (StepResult_Stderr x)),
             (''exit_code'', JNum (int_text (StepResult_ExitCode x))), (''success'', JBool (StepResult_Success x))] @
            (if StepResult_Summary x \<noteq> [] then [(''summary'', JStr (StepResult_Summary x))] else [])))]))"

definition marshalSteps :: "DiagnosisStep list \<Rightarrow> string" where
  "marshalSteps steps = json_print (JArr (map step_json steps))"

definition decode_params :: "jval \<Rightarrow> (string, string) gomap \<Rightarrow> (string, string) gomap \<times> error option" where
  "decode_params v old =
     (case decode_string_map v (Some old) of (m, e) \<Rightarrow> (case m of None \<Rightarrow> [] | Some m \<Rightarrow> m, e))"

definition result_fields :: "StepResult field_decoder list" where
  "result_fields =
     [struct_field ''stdout'' decode_string StepResult_Stdout StepResult_Stdout_update,
      struct_field ''stderr'' decode_string StepResult_Stderr StepResult_Stderr_update,
      struct_field ''exit_code'' decode_int StepResult_ExitCode StepResult_ExitCode_update,
      struct_field ''success'' decode_bool StepResult_Success StepResult_Success_update,
      struct_field ''summary'' decode_string StepResult_Summary StepResult_Summary_update]"

definition zero_StepResult :: StepResult where
  "zero_StepResult = \<lparr>StepResult_Stdout = [], StepResult_Stderr = [], StepResult_ExitCode = 0,
     StepResult_Success = False, StepResult_Summary = []\<rparr>"

definition decode_result :: "jval \<Rightarrow> StepResult option \<Rightarrow> StepResult option \<times> error option" where
  "decode_result v old =
     (if v = JNull then (None, None)
      else apfst Some (decode_struct False result_fields v (case old of None \<Rightarrow> zero_StepResult | Some x \<Rightarrow> x)))"

definition step_fields :: "DiagnosisStep field_decoder list" where
  "step_fields =
     [struct_field ''step_no'' decode_int DiagnosisStep_StepNo DiagnosisStep_StepNo_update,
      struct_field ''name'' decode_string DiagnosisStep_Name DiagnosisStep_Name_update,
      struct_field ''description'' decode_string DiagnosisStep_Description DiagnosisStep_Description_update,
      struct_field ''template_code'' decode_string DiagnosisStep_TemplateCode DiagnosisStep_TemplateCode_update,
      struct_field ''parameters'' decode_params DiagnosisStep_Parameters DiagnosisStep_Parameters_update,
      struct_field ''timeout_seconds'' decode_int DiagnosisStep_TimeoutSec DiagnosisStep_TimeoutSec_update,
      struct_field ''status'' decode_string DiagnosisStep_Status DiagnosisStep_Status_update,
      struct_field ''job_id'' decode_string DiagnosisStep_JobID DiagnosisStep_JobID_update,
      struct_field ''result'' decode_result DiagnosisStep_Result DiagnosisStep_Result_update]"

definition zero_DiagnosisStep :: DiagnosisStep where
  "zero_DiagnosisStep = \<lparr>DiagnosisStep_StepNo = 0, DiagnosisStep_Name = [], DiagnosisStep_Description = [],
     DiagnosisStep_TemplateCode = [], DiagnosisStep_Parameters = [], DiagnosisStep_TimeoutSec = 0,
     DiagnosisStep_Status = [], DiagnosisStep_JobID = [], DiagnosisStep_Result = None\<rparr>"

definition unmarshalSteps :: "string \<Rightarrow> DiagnosisStep list res" where
  "unmarshalSteps t =
     (case json_parse t of
        Inl e \<Rightarrow> Inl e
      | Inr JNull \<Rightarrow> Inr []
      | Inr (JArr vs) \<Rightarrow>
          scan_all (map (\<lambda>v. case decode_struct False step_fields v zero_DiagnosisStep of
             (s, None) \<Rightarrow> Inr s | (_, Some e) \<Rightarrow> Inl e) vs)
      | Inr _ \<Rightarrow> Inl json_mismatch)"

definition insert_plan :: "Time \<Rightarrow> DiagnosisPlan \<Rightarrow> Database \<Rightarrow> unit res \<times> Database" where
  "insert_plan now plan db =
     (case Db_jsonb db (marshalSteps (DiagnosisPlan_Steps plan)) of
        Inl e \<Rightarrow> (Inl e, db)
      | Inr stepsJSON \<Rightarrow>
          if DiagnosisPlan_ID plan \<in> (DiagnosisPlan_ID \<circ> fst) ` set (Db_plans db)
          then (Inl (Db_violation db (UniqueViolation ''diagnosis_plans_pkey'')), db)
          else (Inr (), db\<lparr>Db_plans := Db_plans db @ [(plan\<lparr>DiagnosisPlan_Steps := [],
                  DiagnosisPlan_CreatedAt := Db_time db now, DiagnosisPlan_UpdatedAt := Db_time db now\<rparr>, stepsJSON)]\<rparr>))"

definition Pg_CreatePlan :: "Time \<Rightarrow> DiagnosisPlan \<Rightarrow> PostgresRepository \<Rightarrow> unit res \<times> PostgresRepository" where
  "Pg_CreatePlan now plan r =
     exec ''CreatePlan'' [Varchar 64 (DiagnosisPlan_ID plan), Varchar 512 (DiagnosisPlan_Title plan),
         Txt (DiagnosisPlan_Description plan), Varchar 128 (DiagnosisPlan_TriggerType plan),
         Varchar 32 (DiagnosisPlan_Status plan)] (insert_plan now plan) r"

definition Pg_GetPlan :: "string \<Rightarrow> PostgresRepository \<Rightarrow> DiagnosisPlan res" where
  "Pg_GetPlan ident r =
     (case query ''GetPlan'' [Txt ident] (\<lambda>db. find (\<lambda>row. DiagnosisPlan_ID (fst row) = ident) (Db_plans db)) r of
        Inl e \<Rightarrow> Inl (wrap ''get plan'' e)
      | Inr None \<Rightarrow> Inl (''plan not found: '' @ ident)
      | Inr (Some (plan, stepsJSON)) \<Rightarrow>
          (case unmarshalSteps stepsJSON of
             Inl e \<Rightarrow> Inl (wrap ''unmarshal steps'' e)
           | Inr steps \<Rightarrow> Inr (plan\<lparr>DiagnosisPlan_Steps := steps\<rparr>)))"

definition Pg_UpdatePlan ::
  "Time \<Rightarrow> string \<Rightarrow> DiagnosisPlan \<Rightarrow> PostgresRepository \<Rightarrow> unit res \<times> PostgresRepository" where
  "Pg_UpdatePlan now ident plan r =
     exec ''UpdatePlan'' [Varchar 512 (DiagnosisPlan_Title plan), Txt (DiagnosisPlan_Description plan),
         Varchar 128 (DiagnosisPlan_TriggerType plan), Varchar 32 (DiagnosisPlan_Status plan), Txt ident]
       (\<lambda>db. case Db_jsonb db (marshalSteps (DiagnosisPlan_Steps plan)) of
          Inl e \<Rightarrow> (Inl e, db)
        | Inr stepsJSON \<Rightarrow>
            (Inr (), db\<lparr>Db_plans := set_where (\<lambda>row. DiagnosisPlan_ID (fst row) = ident)
               (\<lambda>(old, _). (old\<lparr>DiagnosisPlan_Title := DiagnosisPlan_Title plan,
                  DiagnosisPlan_Description := DiagnosisPlan_Description plan,
                  DiagnosisPlan_TriggerType := DiagnosisPlan_TriggerType plan,
                  DiagnosisPlan_Status := DiagnosisPlan_Status plan, DiagnosisPlan_UpdatedAt := Db_time db now\<rparr>, stepsJSON))
               (Db_plans db)\<rparr>)) r"

section \<open>Audit records\<close>

definition json_column :: "string \<Rightarrow> details \<Rightarrow> Database \<Rightarrow> string res" where
  "json_column col d db =
     (case Db_marshal db d of
        None \<Rightarrow> Inl (Db_violation db (NotNullViolation col))
      | Some t \<Rightarrow> Db_jsonb db t)"

definition Pg_AddAuditLog :: "Time \<Rightarrow> AuditLog \<Rightarrow> PostgresRepository \<Rightarrow> unit res \<times> PostgresRepository" where
  "Pg_AddAuditLog now entry r =
     (let (ident, r) = genID ''audit'' r
      in exec ''AddAuditLog'' [Varchar 64 ident, Varchar 64 (AuditLog_ActorType entry),
             Varchar 128 (AuditLog_ActorID entry), Varchar 256 (AuditLog_Action entry),
             Varchar 128 (AuditLog_ResourceType entry), Varchar 128 (AuditLog_ResourceID entry)]
           (\<lambda>db. case json_column ''details'' (AuditLog_Details entry) db of
              Inl e \<Rightarrow> (Inl e, db)
            | Inr detailsJSON \<Rightarrow>
                if ident \<in> (AuditLog_ID \<circ> fst) ` set (Db_auditLogs db)
                then (Inl (Db_violation db (UniqueViolation ''audit_logs_pkey'')), db)
                else (Inr (), db\<lparr>Db_auditLogs := Db_auditLogs db @ [(entry\<lparr>AuditLog_ID := ident, AuditLog_Details := [],
                        AuditLog_CreatedAt := Db_time db now\<rparr>, detailsJSON)]\<rparr>)) r)"

definition Pg_ListAuditLogs :: "string \<Rightarrow> string \<Rightarrow> PostgresRepository \<Rightarrow> AuditLog list res" where
  "Pg_ListAuditLogs resourceType resourceID r =
     wrapped ''list audit logs'' (query ''ListAuditLogs'' [Txt resourceType, Txt resourceID]
       (\<lambda>db. map (\<lambda>(l, detailsJSON). if length detailsJSON > 0
                   then l\<lparr>AuditLog_Details := unmarshalDetails detailsJSON\<rparr> else l)
              (newest (AuditLog_CreatedAt \<circ> fst)
                (filter (\<lambda>row. opt_eq resourceType (AuditLog_ResourceType (fst row)) \<and>
                   opt_eq resourceID (AuditLog_ResourceID (fst row))) (Db_auditLogs db)))) r)"

section \<open>Incident cases\<close>

text \<open>
  \<open>ILIKE\<close>: \<open>%\<close> matches any text, \<open>_\<close> any character, a backslash quotes the next one; letter case is
  ignored (of ASCII letters here). The query text of the caller is not quoted.
\<close>

fun like :: "string \<Rightarrow> string \<Rightarrow> bool" where
  "like [] s = (s = [])"
| "like (q # p) s =
     (if q = CHR ''%'' then like p s \<or> (case s of [] \<Rightarrow> False | _ # t \<Rightarrow> like (q # p) t)
      else case s of
          [] \<Rightarrow> False
        | c # t \<Rightarrow>
            if q = CHR ''_'' then like p (dropWhile cont t)
            else if q = CHR 0x5C then (case p of [] \<Rightarrow> False | q' # p' \<Rightarrow> q' = c \<and> like p' t)
            else q = c \<and> like p t)"

definition ilike :: "string \<Rightarrow> string \<Rightarrow> bool" where
  "ilike s pattern = like (ToLower pattern) (ToLower s)"

definition case_document :: "IncidentCase \<Rightarrow> string" where
  "case_document c = Join
     [IncidentCase_Title c, IncidentCase_TriggerType c, IncidentCase_FaultType c, IncidentCase_Summary c,
      IncidentCase_AlertSymptoms c, IncidentCase_EvidenceSummary c, IncidentCase_RootCause c,
      IncidentCase_ResolutionResult c, Join (IncidentCase_EnvironmentTags c) '' '',
      Join (IncidentCase_ResolutionSteps c) '' '', Join (IncidentCase_PossibleCauses c) '' '',
      Join (IncidentCase_Suggestions c) '' ''] '' ''"

definition case_texts :: "IncidentCase \<Rightarrow> arg list" where
  "case_texts c =
     [Varchar 512 (IncidentCase_Title c), Varchar 128 (IncidentCase_TriggerType c), Varchar 256 (IncidentCase_FaultType c),
      Txt (IncidentCase_Summary c), Txt (IncidentCase_AlertSymptoms c), Txt (IncidentCase_EvidenceSummary c),
      Txt (IncidentCase_RootCause c), Txt (IncidentCase_ResolutionResult c)] @
     map Txt (IncidentCase_PossibleCauses c @ IncidentCase_Suggestions c @ IncidentCase_EnvironmentTags c @
       IncidentCase_ResolutionSteps c)"

text \<open>
  \<open>nils\<close> says that one of the four slices of \<open>c\<close> is nil: the insert replaces it by the empty slice, the
  update sends it as \<open>NULL\<close>.
\<close>

definition Pg_UpsertIncidentCase ::
  "Time \<Rightarrow> bool \<Rightarrow> string \<Rightarrow> IncidentCase \<Rightarrow> PostgresRepository \<Rightarrow> IncidentCase res \<times> PostgresRepository" where
  "Pg_UpsertIncidentCase now nils planID c r =
     (case query ''UpsertIncidentCase.select'' [Txt planID]
           (\<lambda>db. map_option IncidentCase_ID (find (\<lambda>x. IncidentCase_SourcePlanID x = planID) (Db_cases db))) r of
        Inr (Some existingID) \<Rightarrow>
          (let c = c\<lparr>IncidentCase_ID := existingID, IncidentCase_UpdatedAt := now\<rparr>
           in case exec ''UpsertIncidentCase.update'' (case_texts c @ [Txt existingID])
                (\<lambda>db. if nils then (Inl (Db_violation db (NotNullViolation ''incident_cases'')), db)
                  else (Inr (), db\<lparr>Db_cases := set_where (\<lambda>x. IncidentCase_ID x = existingID)
                    (\<lambda>x. c\<lparr>IncidentCase_ID := IncidentCase_ID x, IncidentCase_SourcePlanID := IncidentCase_SourcePlanID x,
                           IncidentCase_CreatedAt := IncidentCase_CreatedAt x, IncidentCase_UpdatedAt := Db_time db now\<rparr>)
                    (Db_cases db)\<rparr>)) r of
                (Inl e, r) \<Rightarrow> (Inl (wrap ''update incident case'' e), r)
              | (Inr _, r) \<Rightarrow> (Inr c, r))
      | _ \<Rightarrow>
          (let (ident, r) = genID ''case'' r;
               c = c\<lparr>IncidentCase_ID := ident, IncidentCase_CreatedAt := now, IncidentCase_UpdatedAt := now,
                     IncidentCase_SourcePlanID := planID\<rparr>
           in case exec ''UpsertIncidentCase.insert'' ([Varchar 64 ident, Varchar 64 planID] @ case_texts c)
                (\<lambda>db. if ident \<in> IncidentCase_ID ` set (Db_cases db)
                  then (Inl (Db_violation db (UniqueViolation ''incident_cases_pkey'')), db)
                  else (Inr (), db\<lparr>Db_cases := Db_cases db @ [c\<lparr>IncidentCase_CreatedAt := Db_time db now,
                          IncidentCase_UpdatedAt := Db_time db now\<rparr>]\<rparr>)) r of
                (Inl e, r) \<Rightarrow> (Inl (wrap ''insert incident case'' e), r)
              | (Inr _, r) \<Rightarrow> (Inr c, r)))"

definition Pg_ListIncidentCases :: "IncidentCaseFilter \<Rightarrow> PostgresRepository \<Rightarrow> IncidentCase list res" where
  "Pg_ListIncidentCases f r =
     wrapped ''list incident cases'' (query ''ListIncidentCases''
       ([Txt (IncidentCaseFilter_TriggerType f), Txt (IncidentCaseFilter_FaultType f)] @
        map Txt (IncidentCaseFilter_EnvironmentTags f) @ [Txt (IncidentCaseFilter_Query f)])
       (\<lambda>db. limit_rows (IncidentCaseFilter_Limit f) (newest IncidentCase_UpdatedAt
          (filter (\<lambda>c. opt_eq (IncidentCaseFilter_TriggerType f) (IncidentCase_TriggerType c) \<and>
             opt_eq (IncidentCaseFilter_FaultType f) (IncidentCase_FaultType c) \<and>
             set (IncidentCaseFilter_EnvironmentTags f) \<subseteq> set (IncidentCase_EnvironmentTags c) \<and>
             (IncidentCaseFilter_Query f \<noteq> [] \<longrightarrow>
                ilike (case_document c) (''%'' @ IncidentCaseFilter_Query f @ ''%''))) (Db_cases db)))) r)"

definition Pg_FindSimilarIncidentCases ::
  "string \<Rightarrow> string \<Rightarrow> string \<Rightarrow> int \<Rightarrow> PostgresRepository \<Rightarrow> IncidentCase list res" where
  "Pg_FindSimilarIncidentCases description triggerType faultType limit r =
     Pg_ListIncidentCases \<lparr>IncidentCaseFilter_Query = description, IncidentCaseFilter_TriggerType = triggerType,
       IncidentCaseFilter_FaultType = faultType, IncidentCaseFilter_EnvironmentTags = [],
       IncidentCaseFilter_Limit = limit\<rparr> r"

section \<open>YAML jobs and worker logs\<close>

definition Pg_SaveJobYAML :: "Time \<Rightarrow> JobYAML \<Rightarrow> PostgresRepository \<Rightarrow> JobYAML res \<times> PostgresRepository" where
  "Pg_SaveJobYAML now jy r =
     (let (jy, r) = (if JobYAML_ID jy = []
            then (case genID ''yaml'' r of (ident, r) \<Rightarrow> (jy\<lparr>JobYAML_ID := ident\<rparr>, r)) else (jy, r));
          jy = jy\<lparr>JobYAML_CreatedAt := now, JobYAML_UpdatedAt := now\<rparr>
      in case exec ''SaveJobYAML'' [Varchar 64 (JobYAML_ID jy), Varchar 256 (JobYAML_Name jy),
             Txt (JobYAML_Description jy), Txt (JobYAML_YAMLContent jy), Varchar 32 (JobYAML_Source jy)]
           (\<lambda>db. let row = jy\<lparr>JobYAML_CreatedAt := Db_time db now, JobYAML_UpdatedAt := Db_time db now\<rparr>
              in (Inr (), db\<lparr>Db_yamls :=
                if JobYAML_ID jy \<in> JobYAML_ID ` set (Db_yamls db)
                then set_where (\<lambda>x. JobYAML_ID x = JobYAML_ID jy)
                       (\<lambda>x. row\<lparr>JobYAML_CreatedAt := JobYAML_CreatedAt x\<rparr>) (Db_yamls db)
                else Db_yamls db @ [row]\<rparr>)) r of
           (Inl e, r) \<Rightarrow> (Inl (wrap ''save job yaml'' e), r)
         | (Inr _, r) \<Rightarrow> (Inr jy, r))"

definition Pg_ListJobYAMLs :: "PostgresRepository \<Rightarrow> JobYAML list res" where
  "Pg_ListJobYAMLs r = query ''ListJobYAMLs'' [] (\<lambda>db. newest JobYAML_UpdatedAt (Db_yamls db)) r"

definition Pg_GetJobYAML :: "string \<Rightarrow> PostgresRepository \<Rightarrow> JobYAML res" where
  "Pg_GetJobYAML ident r =
     (case query ''GetJobYAML'' [Txt ident] (\<lambda>db. find (\<lambda>x. JobYAML_ID x = ident) (Db_yamls db)) r of
        Inl e \<Rightarrow> Inl e
      | Inr None \<Rightarrow> Inl ''sql: no rows in result set''
      | Inr (Some x) \<Rightarrow> Inr x)"

definition Pg_DeleteJobYAML :: "string \<Rightarrow> PostgresRepository \<Rightarrow> unit res \<times> PostgresRepository" where
  "Pg_DeleteJobYAML ident r =
     exec ''DeleteJobYAML'' [Txt ident]
       (\<lambda>db. (Inr (), db\<lparr>Db_yamls := delete_where (\<lambda>x. JobYAML_ID x = ident) (Db_yamls db)\<rparr>)) r"

definition Pg_AddWorkerLog :: "Time \<Rightarrow> WorkerLog \<Rightarrow> PostgresRepository \<Rightarrow> unit res \<times> PostgresRepository" where
  "Pg_AddWorkerLog now entry r =
     exec ''AddWorkerLog'' [Varchar 64 (WorkerLog_WorkerID entry), Varchar 64 (WorkerLog_JobID entry),
         Txt (WorkerLog_Command entry), Varchar 256 (WorkerLog_Progress entry), Txt (WorkerLog_Result entry)]
       (\<lambda>db. let n = Db_workerLogSeq db + 1
          in (Inr (), db\<lparr>Db_workerLogSeq := n,
               Db_workerLogs := Db_workerLogs db @ [entry\<lparr>WorkerLog_ID := n, WorkerLog_CreatedAt := Db_time db now\<rparr>]\<rparr>)) r"

definition Pg_ListWorkerLogs :: "string \<Rightarrow> string \<Rightarrow> int \<Rightarrow> PostgresRepository \<Rightarrow> WorkerLog list res" where
  "Pg_ListWorkerLogs workerID jobID limit r =
     wrapped ''list worker logs'' (query ''ListWorkerLogs'' [Txt workerID, Txt jobID]
       (\<lambda>db. limit_rows limit (newest WorkerLog_CreatedAt
          (filter (\<lambda>l. opt_eq workerID (WorkerLog_WorkerID l) \<and> opt_eq jobID (WorkerLog_JobID l)) (Db_workerLogs db)))) r)"

section \<open>Managed configurations\<close>

definition config_key :: "ManagedConfig \<Rightarrow> string \<times> string" where
  "config_key c = (ManagedConfig_Kind c, ManagedConfig_ID c)"

definition upsert_config :: "ManagedConfig \<Rightarrow> Database \<Rightarrow> unit res \<times> Database" where
  "upsert_config c db =
     (let row = c\<lparr>ManagedConfig_CreatedAt := Db_time db (ManagedConfig_CreatedAt c),
                 ManagedConfig_UpdatedAt := Db_time db (ManagedConfig_UpdatedAt c)\<rparr>
      in (Inr (), db\<lparr>Db_configs :=
           if config_key c \<in> config_key ` set (Db_configs db)
           then set_where (\<lambda>x. config_key x = config_key c)
                  (\<lambda>x. row\<lparr>ManagedConfig_CreatedAt := ManagedConfig_CreatedAt x\<rparr>) (Db_configs db)
           else Db_configs db @ [row]\<rparr>))"

definition Pg_SaveManagedConfig ::
  "Time \<Rightarrow> ManagedConfig \<Rightarrow> PostgresRepository \<Rightarrow> ManagedConfig res \<times> PostgresRepository" where
  "Pg_SaveManagedConfig now config r =
     (let (config, r) = (if ManagedConfig_ID config = []
            then (case genID ''cfg'' r of (ident, r) \<Rightarrow> (config\<lparr>ManagedConfig_ID := ident\<rparr>, r)) else (config, r));
          config = (if ManagedConfig_CreatedAt config = zeroTime
            then config\<lparr>ManagedConfig_CreatedAt := now\<rparr> else config);
          config = config\<lparr>ManagedConfig_UpdatedAt := now\<rparr>
      in case exec ''SaveManagedConfig'' [Varchar 128 (ManagedConfig_ID config), Varchar 64 (ManagedConfig_Kind config),
             Varchar 256 (ManagedConfig_Name config), Txt (ManagedConfig_YAMLContent config)] (upsert_config config) r of
           (Inl e, r) \<Rightarrow> (Inl (wrap ''save managed config'' e), r)
         | (Inr _, r) \<Rightarrow> (Inr config, r))"

definition Pg_ListManagedConfigs :: "string \<Rightarrow> PostgresRepository \<Rightarrow> ManagedConfig list res" where
  "Pg_ListManagedConfigs kind r =
     wrapped ''list managed configs'' (query ''ListManagedConfigs'' [Txt kind]
       (\<lambda>db. sort_Slice (\<lambda>a b. ManagedConfig_Kind a < ManagedConfig_Kind b \<or>
            ManagedConfig_Kind a = ManagedConfig_Kind b \<and> ManagedConfig_UpdatedAt a > ManagedConfig_UpdatedAt b)
          (filter (\<lambda>c. opt_eq kind (ManagedConfig_Kind c)) (Db_configs db))) r)"

definition Pg_GetManagedConfig :: "string \<Rightarrow> string \<Rightarrow> PostgresRepository \<Rightarrow> ManagedConfig res" where
  "Pg_GetManagedConfig kind ident r =
     (case query ''GetManagedConfig'' [Txt kind, Txt ident]
           (\<lambda>db. find (\<lambda>c. config_key c = (kind, ident)) (Db_configs db)) r of
        Inl e \<Rightarrow> Inl (wrap ''get managed config'' e)
      | Inr None \<Rightarrow> Inl (''managed config not found: '' @ kind @ ''/'' @ ident)
      | Inr (Some c) \<Rightarrow> Inr c)"

definition Pg_DeleteManagedConfig ::
  "string \<Rightarrow> string \<Rightarrow> PostgresRepository \<Rightarrow> unit res \<times> PostgresRepository" where
  "Pg_DeleteManagedConfig kind ident r =
     (let p = (\<lambda>c. config_key c = (kind, ident))
      in case exec ''DeleteManagedConfig'' [Txt kind, Txt ident]
             (\<lambda>db. (Inr (affected p (Db_configs db)), db\<lparr>Db_configs := delete_where p (Db_configs db)\<rparr>)) r of
           (Inl e, r) \<Rightarrow> (Inl (wrap ''delete managed config'' e), r)
         | (Inr n, r) \<Rightarrow>
             (if n = 0 then Inl (''managed config not found: '' @ kind @ ''/'' @ ident) else Inr (), r))"

section \<open>Metrics\<close>

definition count_jobs :: "string \<Rightarrow> (Job \<Rightarrow> bool) \<Rightarrow> PostgresRepository \<Rightarrow> nat res" where
  "count_jobs stmt p r = query stmt [] (\<lambda>db. affected (p \<circ> fst) (Db_jobs db)) r"

definition average :: "rat list \<Rightarrow> rat option" where
  "average xs = (if xs = [] then None else Some (sum_list xs / of_nat (length xs)))"

definition schedule_latencies :: "Database \<Rightarrow> rat list" where
  "schedule_latencies db = List.map_filter
     (\<lambda>(j, _). map_option (\<lambda>s. of_int (s - Job_CreatedAt j) / of_int Second) (Job_StartedAt j)) (Db_jobs db)"

definition Pg_MetricsSnapshot :: "Time \<Rightarrow> PostgresRepository \<Rightarrow> MetricsSnapshot res" where
  "Pg_MetricsSnapshot now r =
     (case (count_jobs ''MetricsSnapshot.jobs'' (\<lambda>_. True) r,
            count_jobs ''MetricsSnapshot.success'' (\<lambda>j. Job_Status j = JobStatusSuccess) r,
            count_jobs ''MetricsSnapshot.failed'' (\<lambda>j. Job_Status j = JobStatusFailed) r,
            count_jobs ''MetricsSnapshot.waiting'' (\<lambda>j. Job_Status j = JobStatusWaitingApproval) r,
            query ''MetricsSnapshot.workers'' [] (\<lambda>db. affected
              (\<lambda>w. Worker_LastHeartbeatAt w \<ge> Db_time db (now - WorkerOnlineThreshold)) (Db_workers db)) r,
            query ''MetricsSnapshot.cases'' [] (\<lambda>db. length (Db_cases db)) r,
            query ''MetricsSnapshot.latency'' [] (\<lambda>db. average (schedule_latencies db)) r) of
        (Inl e, _) \<Rightarrow> Inl (wrap ''count jobs'' e)
      | (Inr _, Inl e, _) \<Rightarrow> Inl (wrap ''count successful jobs'' e)
      | (Inr _, Inr _, Inl e, _) \<Rightarrow> Inl (wrap ''count failed jobs'' e)
      | (Inr _, Inr _, Inr _, Inl e, _) \<Rightarrow> Inl (wrap ''count waiting approval jobs'' e)
      | (Inr _, Inr _, Inr _, Inr _, Inl e, _) \<Rightarrow> Inl (wrap ''count online workers'' e)
      | (Inr _, Inr _, Inr _, Inr _, Inr _, Inl e, _) \<Rightarrow> Inl (wrap ''count incident cases'' e)
      | (Inr _, Inr _, Inr _, Inr _, Inr _, Inr _, Inl e) \<Rightarrow> Inl (wrap ''average schedule latency'' e)
      | (Inr all, Inr success, Inr failed, Inr waiting, Inr online, Inr cases, Inr avg) \<Rightarrow>
          Inr \<lparr>MetricsSnapshot_JobsTotal = all, MetricsSnapshot_JobsSuccess = success, MetricsSnapshot_JobsFailed = failed,
            MetricsSnapshot_JobsWaitingApproval = waiting, MetricsSnapshot_WorkersOnline = online,
            MetricsSnapshot_IncidentCasesTotal = cases,
            MetricsSnapshot_JobSuccessRate = (if success + failed > 0 then of_nat success / of_nat (success + failed) else 0),
            MetricsSnapshot_JobFailureRate = (if success + failed > 0 then of_nat failed / of_nat (success + failed) else 0),
            MetricsSnapshot_AvgScheduleLatencySeconds = (case avg of None \<Rightarrow> 0 | Some x \<Rightarrow> x)\<rparr>)"

section \<open>Conversations\<close>

definition Pg_CreateConversation ::
  "Time \<Rightarrow> string \<Rightarrow> PostgresRepository \<Rightarrow> Conversation res \<times> PostgresRepository" where
  "Pg_CreateConversation now title r =
     (let (ident, r) = genID ''conv'' r;
          c = \<lparr>Conversation_ID = ident, Conversation_Title = title, Conversation_CreatedAt = now,
               Conversation_UpdatedAt = now\<rparr>
      in case exec ''CreateConversation'' [Txt ident, Txt title]
           (\<lambda>db. if ident \<in> Conversation_ID ` set (Db_conversations db)
              then (Inl (Db_violation db (UniqueViolation ''conversations_pkey'')), db)
              else (Inr (), db\<lparr>Db_conversations := Db_conversations db @ [c\<lparr>Conversation_CreatedAt := Db_time db now,
                      Conversation_UpdatedAt := Db_time db now\<rparr>]\<rparr>)) r of
           (Inl e, r) \<Rightarrow> (Inl (wrap ''create conversation'' e), r)
         | (Inr _, r) \<Rightarrow> (Inr c, r))"

definition Pg_GetConversation :: "string \<Rightarrow> PostgresRepository \<Rightarrow> Conversation res" where
  "Pg_GetConversation ident r =
     (case query ''GetConversation'' [Txt ident] (\<lambda>db. find (\<lambda>c. Conversation_ID c = ident) (Db_conversations db)) r of
        Inl e \<Rightarrow> Inl (wrap ''get conversation'' e)
      | Inr None \<Rightarrow> Inl (''conversation not found: '' @ ident)
      | Inr (Some c) \<Rightarrow> Inr c)"

definition Pg_ListConversations :: "PostgresRepository \<Rightarrow> Conversation list res" where
  "Pg_ListConversations r =
     wrapped ''list conversations''
       (query ''ListConversations'' [] (\<lambda>db. newest Conversation_UpdatedAt (Db_conversations db)) r)"

text \<open>The messages go with their conversation: \<open>ON DELETE CASCADE\<close>.\<close>

definition Pg_DeleteConversation :: "string \<Rightarrow> PostgresRepository \<Rightarrow> unit res \<times> PostgresRepository" where
  "Pg_DeleteConversation ident r =
     (let p = (\<lambda>c. Conversation_ID c = ident)
      in case exec ''DeleteConversation'' [Txt ident]
             (\<lambda>db. (Inr (affected p (Db_conversations db)),
                db\<lparr>Db_conversations := delete_where p (Db_conversations db),
                   Db_messages := delete_where (\<lambda>m. ConversationMessage_ConversationID (fst m) = ident)
                     (Db_messages db)\<rparr>)) r of
           (Inl e, r) \<Rightarrow> (Inl (wrap ''delete conversation'' e), r)
         | (Inr n, r) \<Rightarrow> (if n = 0 then Inl (''conversation not found: '' @ ident) else Inr (), r))"

definition insert_message :: "Time \<Rightarrow> ConversationMessage \<Rightarrow> Database \<Rightarrow> unit res \<times> Database" where
  "insert_message now msg db =
     (let n = Db_messageSeq db + 1;
          toolData = (case Db_marshal db (ConversationMessage_ToolData msg) of
             None \<Rightarrow> Inr None | Some t \<Rightarrow> map_sum id Some (Db_jsonb db t))
      in case toolData of
           Inl e \<Rightarrow> (Inl e, db)
         | Inr toolDataJSON \<Rightarrow>
             if ConversationMessage_ConversationID msg \<notin> Conversation_ID ` set (Db_conversations db)
             then (Inl (Db_violation db (ForeignKeyViolation ''conversation_messages_conversation_id_fkey'')),
                   db\<lparr>Db_messageSeq := n\<rparr>)
             else (Inr (), db\<lparr>Db_messageSeq := n, Db_messages := Db_messages db @ [(msg\<lparr>ConversationMessage_ID := n,
                     ConversationMessage_ToolData := [], ConversationMessage_CreatedAt := Db_time db now\<rparr>, toolDataJSON)]\<rparr>))"

definition Pg_AddConversationMessage ::
  "Time \<Rightarrow> ConversationMessage \<Rightarrow> PostgresRepository \<Rightarrow> unit res \<times> PostgresRepository" where
  "Pg_AddConversationMessage now msg r =
     (let cid = ConversationMessage_ConversationID msg
      in case exec ''AddConversationMessage.insert'' [Txt cid, Txt (ConversationMessage_Role msg),
             Txt (ConversationMessage_Content msg), Txt (ConversationMessage_ToolName msg), Int4 (ConversationMessage_Step msg)]
             (insert_message now msg) r of
           (Inl e, r) \<Rightarrow> (Inl (wrap ''add conversation message'' e), r)
         | (Inr _, r) \<Rightarrow>
             (Inr (), snd (exec ''AddConversationMessage.touch'' [Txt cid]
                (\<lambda>db. (Inr (), db\<lparr>Db_conversations := set_where (\<lambda>c. Conversation_ID c = cid)
                   (\<lambda>c. c\<lparr>Conversation_UpdatedAt := Db_time db now\<rparr>) (Db_conversations db)\<rparr>)) r)))"

definition Pg_ListConversationMessages :: "string \<Rightarrow> PostgresRepository \<Rightarrow> ConversationMessage list res" where
  "Pg_ListConversationMessages conversationID r =
     wrapped ''list conversation messages'' (query ''ListConversationMessages'' [Txt conversationID]
       (\<lambda>db. map (\<lambda>(m, toolDataJSON). case toolDataJSON of
                None \<Rightarrow> m
              | Some t \<Rightarrow> if length t > 0 then m\<lparr>ConversationMessage_ToolData := unmarshalDetails t\<rparr> else m)
          (sort_key (ConversationMessage_ID \<circ> fst)
            (filter (\<lambda>m. ConversationMessage_ConversationID (fst m) = conversationID) (Db_messages db)))) r)"

section \<open>Agent runs\<close>

definition insert_run :: "AgentRun \<Rightarrow> Database \<Rightarrow> unit res \<times> Database" where
  "insert_run run db =
     (case Db_jsonb db (AgentRun_Transcript run) of
        Inl e \<Rightarrow> (Inl e, db)
      | Inr transcript \<Rightarrow>
          if AgentRun_ID run \<in> AgentRun_ID ` set (Db_runs db)
          then (Inl (Db_violation db (UniqueViolation ''agent_runs_pkey'')), db)
          else (Inr (), db\<lparr>Db_runs := Db_runs db @ [run\<lparr>AgentRun_Transcript := transcript,
                  AgentRun_CreatedAt := Db_time db (AgentRun_CreatedAt run),
                  AgentRun_UpdatedAt := Db_time db (AgentRun_UpdatedAt run)\<rparr>]\<rparr>))"

definition Pg_CreateAgentRun :: "Time \<Rightarrow> AgentRun \<Rightarrow> PostgresRepository \<Rightarrow> AgentRun res \<times> PostgresRepository" where
  "Pg_CreateAgentRun now run r =
     (let (run, r) = (if AgentRun_ID run = []
            then (case genID ''run'' r of (ident, r) \<Rightarrow> (run\<lparr>AgentRun_ID := ident\<rparr>, r)) else (run, r));
          run = run\<lparr>AgentRun_CreatedAt := now, AgentRun_UpdatedAt := now\<rparr>;
          run = (if AgentRun_Status run = [] then run\<lparr>AgentRun_Status := AgentRunStatusQueued\<rparr> else run);
          run = (if length (AgentRun_Transcript run) = 0 then run\<lparr>AgentRun_Transcript := ''[]''\<rparr> else run)
      in case exec ''CreateAgentRun'' [Varchar 64 (AgentRun_ID run), Txt (AgentRun_Input run),
             Varchar 64 (AgentRun_ConversationID run), Varchar 32 (AgentRun_Status run), Varchar 128 (AgentRun_TraceID run),
             Varchar 128 (AgentRun_PolicyVersion run), Varchar 128 (AgentRun_PromptVersion run),
             Int4 (AgentRun_NextStep run), Txt (AgentRun_Answer run), Txt (AgentRun_Error run)] (insert_run run) r of
           (Inl e, r) \<Rightarrow> (Inl (wrap ''create agent run'' e), r)
         | (Inr _, r) \<Rightarrow> (Inr run, r))"

definition Pg_GetAgentRun :: "string \<Rightarrow> PostgresRepository \<Rightarrow> AgentRun res" where
  "Pg_GetAgentRun ident r =
     (case query ''GetAgentRun'' [Txt ident] (\<lambda>db. find (\<lambda>run. AgentRun_ID run = ident) (Db_runs db)) r of
        Inl e \<Rightarrow> Inl (wrap ''get agent run'' e)
      | Inr None \<Rightarrow> Inl (''agent run not found: '' @ ident)
      | Inr (Some run) \<Rightarrow> Inr run)"

definition Pg_ListAgentRunsByStatus :: "AgentRunStatus list \<Rightarrow> PostgresRepository \<Rightarrow> AgentRun list res" where
  "Pg_ListAgentRunsByStatus statuses r =
     (if length statuses = 0 then Inr []
      else wrapped ''list agent runs'' (query ''ListAgentRunsByStatus'' (map Txt statuses)
        (\<lambda>db. sort_key AgentRun_CreatedAt (filter (\<lambda>run. AgentRun_Status run \<in> set statuses) (Db_runs db))) r))"

definition Pg_UpdateAgentRun :: "Time \<Rightarrow> AgentRun \<Rightarrow> PostgresRepository \<Rightarrow> unit res \<times> PostgresRepository" where
  "Pg_UpdateAgentRun now run r =
     (let run = (if length (AgentRun_Transcript run) = 0 then run\<lparr>AgentRun_Transcript := ''[]''\<rparr> else run);
          p = (\<lambda>x. AgentRun_ID x = AgentRun_ID run)
      in case exec ''UpdateAgentRun'' [Varchar 32 (AgentRun_Status run), Int4 (AgentRun_NextStep run),
             Txt (AgentRun_Answer run), Txt (AgentRun_Error run), Txt (AgentRun_ID run)]
           (\<lambda>db. case Db_jsonb db (AgentRun_Transcript run) of
              Inl e \<Rightarrow> (Inl e, db)
            | Inr transcript \<Rightarrow>
                (Inr (affected p (Db_runs db)), db\<lparr>Db_runs := set_where p
                  (\<lambda>x. x\<lparr>AgentRun_Status := AgentRun_Status run, AgentRun_Transcript := transcript,
                     AgentRun_NextStep := AgentRun_NextStep run, AgentRun_Answer := AgentRun_Answer run,
                     AgentRun_Error := AgentRun_Error run, AgentRun_UpdatedAt := Db_time db now\<rparr>) (Db_runs db)\<rparr>)) r of
           (Inl e, r) \<Rightarrow> (Inl (wrap ''update agent run'' e), r)
         | (Inr n, r) \<Rightarrow> (if n = 0 then Inl (''agent run not found: '' @ AgentRun_ID run) else Inr (), r))"

definition insert_event :: "Time \<Rightarrow> AgentEvent \<Rightarrow> Database \<Rightarrow> int res \<times> Database" where
  "insert_event now event db =
     (let n = Db_eventSeq db + 1
      in case json_column ''data'' (AgentEvent_Data event) db of
           Inl e \<Rightarrow> (Inl e, db)
         | Inr data \<Rightarrow>
             if AgentEvent_RunID event \<notin> AgentRun_ID ` set (Db_runs db)
             then (Inl (Db_violation db (ForeignKeyViolation ''agent_events_run_id_fkey'')), db\<lparr>Db_eventSeq := n\<rparr>)
             else (Inr n, db\<lparr>Db_eventSeq := n, Db_events := Db_events db @ [(event\<lparr>AgentEvent_ID := n,
                     AgentEvent_Data := [], AgentEvent_CreatedAt := Db_time db now\<rparr>, data)]\<rparr>))"

definition Pg_AddAgentEvent :: "Time \<Rightarrow> AgentEvent \<Rightarrow> PostgresRepository \<Rightarrow> AgentEvent res \<times> PostgresRepository" where
  "Pg_AddAgentEvent now event r =
     (case exec ''AddAgentEvent'' [Varchar 64 (AgentEvent_RunID event), Int4 (AgentEvent_Step event),
            Varchar 64 (AgentEvent_Type event), Varchar 128 (AgentEvent_Name event)] (insert_event now event) r of
        (Inl e, r) \<Rightarrow> (Inl (wrap ''add agent event'' e), r)
      | (Inr n, r) \<Rightarrow> (Inr (event\<lparr>AgentEvent_ID := n, AgentEvent_CreatedAt := now\<rparr>), r))"

definition Pg_ListAgentEvents :: "string \<Rightarrow> int \<Rightarrow> PostgresRepository \<Rightarrow> AgentEvent list res" where
  "Pg_ListAgentEvents runID afterID r =
     wrapped ''list agent events'' (query ''ListAgentEvents'' [Txt runID]
       (\<lambda>db. map (\<lambda>(e, data). e\<lparr>AgentEvent_Data := unmarshalDetails data\<rparr>)
          (sort_key (AgentEvent_ID \<circ> fst)
            (filter (\<lambda>e. AgentEvent_RunID (fst e) = runID \<and> AgentEvent_ID (fst e) > afterID) (Db_events db)))) r)"

definition insert_call :: "Time \<Rightarrow> AgentToolCall \<Rightarrow> Database \<Rightarrow> unit res \<times> Database" where
  "insert_call now call db =
     (case Db_jsonb db (if length (AgentToolCall_Arguments call) = 0 then ''{}'' else AgentToolCall_Arguments call) of
        Inl e \<Rightarrow> (Inl e, db)
      | Inr arguments \<Rightarrow>
          if AgentToolCall_ID call \<in> AgentToolCall_ID ` set (Db_toolCalls db) then (Inr (), db)
          else if AgentToolCall_RunID call \<notin> AgentRun_ID ` set (Db_runs db)
          then (Inl (Db_violation db (ForeignKeyViolation ''agent_tool_calls_run_id_fkey'')), db)
          else (Inr (), db\<lparr>Db_toolCalls := Db_toolCalls db @ [call\<lparr>AgentToolCall_Arguments := arguments,
                  AgentToolCall_Result := ''{}'', AgentToolCall_Error := [], AgentToolCall_CreatedAt := Db_time db now,
                  AgentToolCall_CompletedAt := None\<rparr>]\<rparr>))"

definition Pg_CreateAgentToolCall ::
  "Time \<Rightarrow> AgentToolCall \<Rightarrow> PostgresRepository \<Rightarrow> unit res \<times> PostgresRepository" where
  "Pg_CreateAgentToolCall now call r =
     (if AgentToolCall_ID call = [] then (Inl ''tool call id is required'', r)
      else exec ''CreateAgentToolCall'' [Varchar 128 (AgentToolCall_ID call), Varchar 64 (AgentToolCall_RunID call),
             Int4 (AgentToolCall_Step call), Varchar 128 (AgentToolCall_ToolName call), Varchar 32 (AgentToolCall_Status call)]
             (insert_call now call) r)"

definition Pg_CompleteAgentToolCall ::
  "Time \<Rightarrow> AgentToolCall \<Rightarrow> PostgresRepository \<Rightarrow> unit res \<times> PostgresRepository" where
  "Pg_CompleteAgentToolCall now call r =
     exec ''CompleteAgentToolCall'' [Txt (AgentToolCall_Error call), Varchar 32 (AgentToolCall_Status call),
         Txt (AgentToolCall_ID call)]
       (\<lambda>db. case Db_jsonb db (if length (AgentToolCall_Result call) = 0 then ''{}'' else AgentToolCall_Result call) of
          Inl e \<Rightarrow> (Inl e, db)
        | Inr result \<Rightarrow>
            (Inr (), db\<lparr>Db_toolCalls := set_where (\<lambda>x. AgentToolCall_ID x = AgentToolCall_ID call)
               (\<lambda>x. x\<lparr>AgentToolCall_Result := result, AgentToolCall_Error := AgentToolCall_Error call,
                  AgentToolCall_Status := AgentToolCall_Status call, AgentToolCall_CompletedAt := Some (Db_time db now)\<rparr>)
               (Db_toolCalls db)\<rparr>)) r"

section \<open>The interface value\<close>

definition postgres_repository :: "PostgresRepository Repository" where
  "postgres_repository = \<lparr>
     repo_RegisterWorker = Pg_RegisterWorker, repo_HeartbeatWorker = Pg_HeartbeatWorker,
     repo_GetWorker = (\<lambda>ident r. Pg_GetWorker (Pg_clock r) ident r), repo_ListWorkers = (\<lambda>r. Pg_ListWorkers (Pg_clock r) r),
     repo_UpdateWorkerStatus = Pg_UpdateWorkerStatus, repo_DeleteWorker = Pg_DeleteWorker,
     repo_CreateJob = Pg_CreateJob, repo_GetJob = Pg_GetJob, repo_ListJobs = Pg_ListJobs,
     repo_AssignNextJob = Pg_AssignNextJob, repo_AssignJobToWorkers = Pg_AssignJobToWorkers,
     repo_CompleteJob = Pg_CompleteJob, repo_DeleteJob = Pg_DeleteJob,
     repo_ListPendingApprovalJobs = Pg_ListPendingApprovalJobs, repo_ApproveJob = Pg_ApproveJob,
     repo_RejectJob = Pg_RejectJob, repo_AddAuditLog = Pg_AddAuditLog,
     repo_ListAuditLogs = Pg_ListAuditLogs, repo_ListIncidentCases = Pg_ListIncidentCases,
     repo_FindSimilarIncidentCases = Pg_FindSimilarIncidentCases, repo_AddWorkerLog = Pg_AddWorkerLog,
     repo_SaveManagedConfig = Pg_SaveManagedConfig, repo_ListManagedConfigs = Pg_ListManagedConfigs,
     repo_GetManagedConfig = Pg_GetManagedConfig, repo_DeleteManagedConfig = Pg_DeleteManagedConfig,
     repo_CreateAgentRun = Pg_CreateAgentRun, repo_GetAgentRun = Pg_GetAgentRun,
     repo_ListAgentRunsByStatus = Pg_ListAgentRunsByStatus, repo_UpdateAgentRun = Pg_UpdateAgentRun,
     repo_AddAgentEvent = Pg_AddAgentEvent, repo_ListAgentEvents = Pg_ListAgentEvents,
     repo_CreateAgentToolCall = Pg_CreateAgentToolCall, repo_CompleteAgentToolCall = Pg_CompleteAgentToolCall,
     repo_CreateConversation = Pg_CreateConversation, repo_GetConversation = Pg_GetConversation,
     repo_ListConversations = Pg_ListConversations, repo_DeleteConversation = Pg_DeleteConversation,
     repo_AddConversationMessage = Pg_AddConversationMessage,
     repo_ListConversationMessages = Pg_ListConversationMessages, repo_MetricsSnapshot = Pg_MetricsSnapshot\<rparr>"

end
