(* ===== verification/Postgres_Laws.thy ===== *)
theory Postgres_Laws
  imports Postgres_Repo Id_Source
begin

text \<open>
  The PostgreSQL repository keeps the contracts its clients rely on: the interpretations of
  \<open>id_source\<close>, \<open>job_repository\<close> and \<open>job_writes\<close>. The invariant \<open>pg_ok\<close> asks for the primary key of
  the job table, for readable parameter texts, and for a connection that answers the statement that reads
  a job back; without the last, a decision may be stored although an error is returned.
\<close>

section \<open>Identifiers\<close>

interpretation pg_ids: id_source genID "\<lambda>r. unat (Pg_nextID r)" "\<lambda>r. Pg_nextID r \<noteq> - 1"
  by unfold_locales (simp_all add: genID_def Let_def word_counter)

lemma trailing_digits_fmtID: "trailing_digits (fmtID p n) = pad6 (dec n)"
proof -
  have "list_all is_digit (pad6 (dec n))" using dec_digits[of n] by (auto simp: pad6_def is_digit_def between_def list_all_iff)
  then have "takeWhile is_digit (rev (pad6 (dec n)) @ rev (p @ ''-'')) = rev (pad6 (dec n))"
    by (subst takeWhile_append2) (auto simp: list_all_iff is_digit_def between_def)
  then show ?thesis by (simp add: trailing_digits_def fmtID_def)
qed

lemma foldl_max: "y \<in> set (m # xs) \<Longrightarrow> (y :: nat) \<le> foldl max m xs"
proof (induction xs arbitrary: m y)
  case (Cons x xs)
  show ?case using Cons.IH[of "max m x" "max m x"] Cons.IH[of y "max m x"] Cons.prems by auto
qed simp

lemma max_suffix_bound:
  assumes "max_suffix ids = Some n" "i \<in> set ids" "trailing_digits i \<noteq> []"
  shows "undec (trailing_digits i) \<le> n"
proof -
  have "undec (trailing_digits i) \<in> set (map undec (filter (\<lambda>d. d \<noteq> []) (map trailing_digits ids)))"
    using assms(2,3) by auto
  then show ?thesis using assms(1) foldl_max by (auto simp: max_suffix_def Let_def split: if_splits)
qed

text \<open>What the seed covers: every table that could be read and whose numbers fit.\<close>

lemma seed_covers:
  assumes "t \<in> set ts" "refused (''seedCounter.'' @ fst t) [] r = None" "max_suffix (snd t) = Some n"
  shows "n \<le> foldl (seed_table r) m ts"
proof -
  have grow: "m \<le> foldl (seed_table r) m ts" for m ts
  proof (induction ts arbitrary: m)
    case (Cons t ts)
    have "m \<le> seed_table r m t" by (simp add: seed_table_def split: option.split)
    then show ?case using Cons[of "seed_table r m t"] by simp
  qed simp
  show ?thesis using assms
  proof (induction ts arbitrary: m)
    case (Cons u ts)
    show ?case
    proof (cases "t = u")
      case True
      then have "n \<le> seed_table r m u" using Cons.prems by (simp add: seed_table_def)
      then show ?thesis using grow[of "seed_table r m u" ts] by simp
    next
      case False
      then show ?thesis using Cons by simp
    qed
  qed simp
qed

lemma seed_small:
  assumes "m < 2 ^ 63"
  shows "foldl (seed_table r) m ts < 2 ^ 63"
proof -
  have fold: "(m :: nat) < b \<Longrightarrow> list_all (\<lambda>n. n < b) xs \<Longrightarrow> foldl max m xs < b" for m b xs
    by (induction xs arbitrary: m) auto
  have "max_suffix ids = Some n \<Longrightarrow> n < 2 ^ 63" for ids n
    using fold[of 0 "2 ^ 63"] by (auto simp: max_suffix_def Let_def list_all_iff nat_less_iff split: if_splits)
  then have step: "seed_table r m t < 2 ^ 63" if "m < 2 ^ 63" for m t
    using that by (auto simp: seed_table_def split: option.splits)
  show ?thesis using assms
  proof (induction ts arbitrary: m)
    case (Cons t ts)
    show ?case using Cons.IH[OF step[OF Cons.prems]] by simp
  qed simp
qed

section \<open>Reading jobs\<close>

text \<open>The parameters a row's text gives, and the job a row shows with them.\<close>

definition row_params :: "string \<Rightarrow> (string, string) gomap res" where
  "row_params t = (if length t > 0 then wrapped ''unmarshal job parameters'' (unmarshalStringMap t) else Inr [])"

definition shown :: "Job \<Rightarrow> (string, string) gomap \<Rightarrow> Job" where
  "shown j m = j\<lparr>Job_IdempotencyKey := [], Job_Parameters := m\<rparr>"

lemma scan_job_shown: "scan_job (j, t) = map_sum id (shown j) (row_params t)"
  by (simp add: scan_job_def row_params_def shown_def wrapped_def Let_def split: sum.split)

lemma shown_simps [simp]:
  "Job_ID (shown j m) = Job_ID j" "Job_Status (shown j m) = Job_Status j" "Job_Command (shown j m) = Job_Command j"
  "Job_TemplateCode (shown j m) = Job_TemplateCode j" "Job_WorkerType (shown j m) = Job_WorkerType j"
  "Job_AssignedWorkerID (shown j m) = Job_AssignedWorkerID j" "Job_Output (shown j m) = Job_Output j"
  "Job_ApprovalStatus (shown j m) = Job_ApprovalStatus j" "Job_ApprovedBy (shown j m) = Job_ApprovedBy j"
  "Job_RejectedBy (shown j m) = Job_RejectedBy j" "Job_Parameters (shown j m) = m"
  "Job_IdempotencyKey (shown j m) = []"
  by (simp_all add: shown_def)

definition job_at :: "string \<Rightarrow> Database \<Rightarrow> (Job \<times> string) option" where
  "job_at i db = find (\<lambda>row. Job_ID (fst row) = i) (Db_jobs db)"

lemma job_at_ID: "job_at i db = Some row \<Longrightarrow> Job_ID (fst row) = i"
  by (auto simp: job_at_def find_Some_iff)

lemma job_at_mem: "job_at i db = Some row \<Longrightarrow> row \<in> set (Db_jobs db)"
  by (auto simp: job_at_def find_Some_iff)

lemma map_sum_Inr: "map_sum f g x = Inr y \<longleftrightarrow> (\<exists>z. x = Inr z \<and> y = g z)"
  by (cases x) auto

lemma GetJob_Inr:
  "Pg_GetJob i r = Inr job \<longleftrightarrow>
   refused ''GetJob'' [Txt i] r = None \<and>
   (\<exists>j t m. job_at i (Pg_db r) = Some (j, t) \<and> row_params t = Inr m \<and> job = shown j m)"
  by (cases "refused ''GetJob'' [Txt i] r"; cases "job_at i (Pg_db r)")
    (auto simp: Pg_GetJob_def query_def job_at_def scan_job_shown map_sum_Inr)

text \<open>\<open>GetJob\<close> reads the job table only.\<close>

lemma refused_cong:
  "Db_fault (Pg_db r') = Db_fault (Pg_db r) \<Longrightarrow> Db_violation (Pg_db r') = Db_violation (Pg_db r) \<Longrightarrow>
   refused stmt xs r' = refused stmt xs r"
  by (simp add: refused_def cong: option.case_cong)

lemma GetJob_cong:
  assumes "Db_jobs (Pg_db r') = Db_jobs (Pg_db r)" "Db_fault (Pg_db r') = Db_fault (Pg_db r)"
    "Db_violation (Pg_db r') = Db_violation (Pg_db r)"
  shows "Pg_GetJob i r' = Pg_GetJob i r"
  using assms refused_cong[OF assms(2,3)] by (simp add: Pg_GetJob_def query_def split: option.split)

section \<open>Arguments\<close>

abbreviation accepted :: "arg list \<Rightarrow> bool" where
  "accepted xs \<equiv> args_violation xs = None"

lemma accepted_Nil [simp]: "accepted []"
  by (simp add: args_violation_def map_filter_def)

lemma accepted_Cons [simp]: "accepted (x # xs) \<longleftrightarrow> arg_violation x = None \<and> accepted xs"
  by (auto simp: args_violation_def map_filter_def split: list.splits option.splits)

lemma accepted_append [simp]: "accepted (xs @ ys) \<longleftrightarrow> accepted xs \<and> accepted ys"
  by (induction xs) simp_all

lemma refused_None [simp]:
  "Db_fault (Pg_db r) = (\<lambda>_. None) \<Longrightarrow> refused stmt xs r = None \<longleftrightarrow> accepted xs"
  by (auto simp: refused_def split: option.splits)

lemma exec_ok:
  "Db_fault (Pg_db r) = (\<lambda>_. None) \<Longrightarrow> accepted xs \<Longrightarrow>
   exec stmt xs f r = (fst (f (Pg_db r)), r\<lparr>Pg_db := snd (f (Pg_db r))\<rparr>)"
  by (simp add: exec_def refused_def case_prod_beta)

lemma query_ok: "Db_fault (Pg_db r) = (\<lambda>_. None) \<Longrightarrow> accepted xs \<Longrightarrow> query stmt xs f r = Inr (f (Pg_db r))"
  by (simp add: query_def refused_def)

lemma length_dec: "n < 10 ^ Suc k \<Longrightarrow> length (dec n) \<le> Suc k"
proof (induction k arbitrary: n)
  case (Suc k)
  show ?case
  proof (cases "n < 10")
    case False
    then have "n div 10 < 10 ^ Suc k" using Suc.prems by (simp add: less_mult_imp_div_less)
    then show ?thesis using Suc.IH False by (subst dec.simps) simp
  qed (subst dec.simps, simp)
qed (subst dec.simps, simp)

lemma characters_le: "characters s \<le> length s"
  by (simp add: characters_def)

lemma arg_fmtID:
  assumes "list_all (\<lambda>c. 0 < byte c \<and> byte c < 0x80) p" "length p \<le> 10"
  shows "arg_violation (Varchar 64 (fmtID p (unat (n :: 64 word)))) = None"
proof -
  let ?s = "fmtID p (unat n)"
  have d: "list_all (\<lambda>c. 0 < byte c \<and> byte c < 0x80) (dec (unat n))"
    using dec_digits[of "unat n"] by (auto simp: list_all_iff is_digit_def between_def)
  then have ascii: "list_all (\<lambda>c. 0 < byte c \<and> byte c < 0x80) ?s"
    using assms(1) by (auto simp: fmtID_def pad6_def list_all_iff)
  then have "utf8_valid ?s" "CHR 0x00 \<notin> set ?s"
    using utf8_valid_ascii[of ?s] by (auto simp: list_all_iff)
  moreover have "unat n < 10 ^ Suc 19" using unsigned_less[of n] by (rule order.strict_trans) simp
  then have "length ?s \<le> 31" using length_dec[of "unat n" 19] assms(2) by (simp add: fmtID_def pad6_def)
  then have "characters ?s \<le> 64" using characters_le[of ?s] by linarith
  ultimately show ?thesis by (simp add: text_ok_def)
qed

section \<open>Guarded updates\<close>

definition pg_ok :: "PostgresRepository \<Rightarrow> bool" where
  "pg_ok r \<longleftrightarrow> Db_fault (Pg_db r) ''GetJob'' = None \<and> distinct (map (Job_ID \<circ> fst) (Db_jobs (Pg_db r))) \<and>
     (\<forall>row \<in> set (Db_jobs (Pg_db r)). \<not> isl (row_params (snd row)))"

lemma refused_args:
  "refused stmt (xs @ [Txt i]) r = None \<Longrightarrow> Db_fault (Pg_db r) ''GetJob'' = None \<Longrightarrow>
   refused ''GetJob'' [Txt i] r = None"
  by (auto simp: refused_def args_violation_def map_filter_def filter_empty_conv split: option.splits list.splits if_splits)

lemma job_at_update:
  assumes "\<And>j. Job_ID (f j) = Job_ID j"
  shows "job_at i (db\<lparr>Db_jobs := set_where p (apfst f) (Db_jobs db)\<rparr>) =
    map_option (\<lambda>row. if p row then apfst f row else row) (job_at i db)"
  unfolding job_at_def using find_set_where[of "\<lambda>row. Job_ID (fst row)" "apfst f" i p "Db_jobs db"] assms
  by (simp add: apfst_def map_prod_def split: prod.splits)

text \<open>
  A guarded update answers with the job when the job exists and the guard holds of it; then the job is
  changed and shown as it is now. Otherwise nothing changes, unless the job cannot be read back.
\<close>

lemma guarded_update_ok:
  assumes up: "guarded_update stmt what xs guard change none i r = (Inr job, r')"
    and id: "\<And>db j. Job_ID (change db j) = Job_ID j" and dist: "distinct (map (Job_ID \<circ> fst) (Db_jobs (Pg_db r)))"
  obtains j t m where "job_at i (Pg_db r) = Some (j, t)" "guard j" "row_params t = Inr m"
    "job = shown (change (Pg_db r) j) m" "Pg_GetJob i r = Inr (shown j m)" "Pg_GetJob i r' = Inr job" "Job_ID j = i"
proof -
  let ?p = "\<lambda>row :: Job \<times> string. Job_ID (fst row) = i \<and> guard (fst row)"
  let ?db = "Pg_db r"
  have ref: "refused stmt (xs @ [Txt i]) r = None" and n: "affected ?p (Db_jobs ?db) \<noteq> 0"
    and r': "r' = r\<lparr>Pg_db := ?db\<lparr>Db_jobs := set_where ?p (apfst (change ?db)) (Db_jobs ?db)\<rparr>\<rparr>"
    and get: "Pg_GetJob i r' = Inr job"
    using up by (auto simp: guarded_update_def exec_def Let_def split: option.splits if_splits prod.splits)
  obtain row where row: "row \<in> set (Db_jobs ?db)" "Job_ID (fst row) = i" "guard (fst row)"
    using n unfolding affected_iff by blast
  obtain j t where jt: "row = (j, t)" by force
  have at: "job_at i ?db = Some (j, t)"
    using find_key_distinct[of "Job_ID \<circ> fst" "Db_jobs ?db" row] dist row jt by (simp add: job_at_def)
  have "job_at i (Pg_db r') = Some (change ?db j, t)"
    using job_at_update[where f = "change ?db" and db = ?db and p = ?p and i = i] id at row jt r' by simp
  moreover have same: "refused ''GetJob'' [Txt i] r' = refused ''GetJob'' [Txt i] r"
    using r' by (intro refused_cong) simp_all
  ultimately obtain m where "row_params t = Inr m" "job = shown (change ?db j) m"
    and "refused ''GetJob'' [Txt i] r = None"
    using get unfolding GetJob_Inr by auto
  then show ?thesis using that[OF at] row jt get at by (simp add: GetJob_Inr)
qed

lemma guarded_update_err:
  assumes "pg_ok r" "guarded_update stmt what xs guard change none i r = (Inl e, r')"
    and id: "\<And>db j. Job_ID (change db j) = Job_ID j"
  shows "r' = r"
proof (cases "refused stmt (xs @ [Txt i]) r")
  case (Some x)
  then show ?thesis using assms(2) by (simp add: guarded_update_def exec_def)
next
  case None
  let ?p = "\<lambda>row :: Job \<times> string. Job_ID (fst row) = i \<and> guard (fst row)"
  let ?db = "Pg_db r"
  let ?r = "r\<lparr>Pg_db := ?db\<lparr>Db_jobs := set_where ?p (apfst (change ?db)) (Db_jobs ?db)\<rparr>\<rparr>"
  have r': "r' = ?r" using assms(2) None by (auto simp: guarded_update_def exec_def Let_def split: if_splits)
  show ?thesis
  proof (cases "affected ?p (Db_jobs ?db) = 0")
    case True
    then show ?thesis using r' by (simp add: set_where_none)
  next
    case False
    then have bad: "Pg_GetJob i ?r = Inl e"
      using assms(2) None by (auto simp: guarded_update_def exec_def Let_def split: if_splits)
    obtain row where row: "row \<in> set (Db_jobs ?db)" "?p row" using False unfolding affected_iff by blast
    obtain x where x: "job_at i ?db = Some x"
      using row by (metis (mono_tags, lifting) find_None_iff job_at_def option.exhaust)
    then obtain m where "row_params (snd x) = Inr m"
      using assms(1) job_at_mem[OF x] unfolding pg_ok_def by (metis isl_def sum.exhaust)
    moreover have "refused ''GetJob'' [Txt i] ?r = None"
      using refused_args[OF None] assms(1) refused_cong[of ?r r] by (simp add: pg_ok_def)
    moreover have "\<exists>y. job_at i (Pg_db ?r) = Some (y, snd x)"
      using job_at_update[where f = "change ?db" and db = ?db and p = ?p and i = i] id x by (cases x) auto
    ultimately have "\<exists>job. Pg_GetJob i ?r = Inr job" unfolding GetJob_Inr by blast
    then show ?thesis using bad by simp
  qed
qed

section \<open>The contract of jobs\<close>

lemma pg_approve:
  assumes "pg_ok r" "Pg_ApproveJob now i who c r = (Inr job, r')"
  shows "(\<exists>old. Pg_GetJob i r = Inr old \<and> Job_Status old = JobStatusWaitingApproval) \<and>
    Pg_GetJob i r' = Inr job \<and> Job_Status job = JobStatusPending \<and>
    Job_ApprovalStatus job = ApprovalStatusApproved \<and> Job_ApprovedBy job = who \<and> Job_ID job = i"
  by (rule guarded_update_ok[OF assms(2)[unfolded Pg_ApproveJob_def]]) (use assms(1) in \<open>auto simp: pg_ok_def\<close>)

lemma pg_reject:
  assumes "pg_ok r" "Pg_RejectJob now i who c r = (Inr job, r')"
  shows "(\<exists>old. Pg_GetJob i r = Inr old \<and> Job_Status old = JobStatusWaitingApproval) \<and>
    Pg_GetJob i r' = Inr job \<and> Job_Status job = JobStatusCancelled \<and>
    Job_ApprovalStatus job = ApprovalStatusRejected \<and> Job_RejectedBy job = who \<and> Job_ID job = i"
  by (rule guarded_update_ok[OF assms(2)[unfolded Pg_RejectJob_def]]) (use assms(1) in \<open>auto simp: pg_ok_def\<close>)

lemma pg_complete:
  assumes "pg_ok r" "Pg_CompleteJob now w i out done r = (Inr job, r')"
  shows "(\<exists>old. Pg_GetJob i r = Inr old \<and> Job_AssignedWorkerID old = w) \<and>
    Pg_GetJob i r' = Inr job \<and> Job_ID job = i \<and> Job_Output job = out \<and>
    Job_Status job = (if done then JobStatusSuccess else JobStatusFailed)"
  by (rule guarded_update_ok[OF assms(2)[unfolded Pg_CompleteJob_def Let_def]])
    (use assms(1) in \<open>auto simp: pg_ok_def\<close>)

lemma pg_audit_job: "Pg_GetJob i (snd (Pg_AddAuditLog now entry r)) = Pg_GetJob i r"
  by (rule GetJob_cong)
    (simp_all add: Pg_AddAuditLog_def genID_def exec_def Let_def split: option.split sum.split)

lemma pg_log_job: "Pg_GetJob i (snd (Pg_AddWorkerLog now entry r)) = Pg_GetJob i r"
  by (rule GetJob_cong) (simp_all add: Pg_AddWorkerLog_def exec_def Let_def split: option.split)

lemma pg_error:
  assumes "pg_ok r"
  shows "Pg_ApproveJob now i who c r = (Inl e, r') \<Longrightarrow> r' = r" "Pg_RejectJob now i who c r = (Inl e, r') \<Longrightarrow> r' = r"
    "Pg_CompleteJob now w i out done r = (Inl e, r') \<Longrightarrow> r' = r"
  unfolding Pg_ApproveJob_def Pg_RejectJob_def Pg_CompleteJob_def Let_def
  by (erule guarded_update_err[OF assms]; simp)+

interpretation pg_jobs: job_repository postgres_repository pg_ok
  by unfold_locales
    (use pg_approve pg_reject pg_complete pg_error pg_audit_job pg_log_job in \<open>force simp: postgres_repository_def\<close>)+

section \<open>What creating and assigning change\<close>

lemma create_prepare_simps [simp]:
  "Pg_db (snd (create_prepare now job r)) = Pg_db r"
  "fst (create_prepare now job r) = prepare_job now (fst (genID ''job'' r)) job"
  "snd (create_prepare now job r) = snd (genID ''job'' r)"
  by (simp_all add: create_prepare_def genID_def Let_def)

lemma genID_db [simp]: "Pg_db (snd (genID p r)) = Pg_db r"
  by (simp add: genID_def Let_def)

lemma create_insert_cases:
  assumes "create_insert job r = (x, r')"
  obtains (failed) e where "x = Inl e" "r' = r"
  | (stored) t where "x = Inr ()" "refused ''CreateJob.insert'' (job_args job) r = None"
      "Db_jsonb (Pg_db r) (marshalStringMap (Job_Parameters job)) = Inr t"
      "job_at (Job_ID job) (Pg_db r) = None"
      "Job_IdempotencyKey job \<noteq> [] \<Longrightarrow> Job_IdempotencyKey job \<notin> (Job_IdempotencyKey \<circ> fst) ` set (Db_jobs (Pg_db r))"
      "r' = r\<lparr>Pg_db := (Pg_db r)\<lparr>Db_jobs := Db_jobs (Pg_db r) @ [job_row (Pg_db r) job t]\<rparr>\<rparr>"
proof -
  have none: "job_at i db = None \<longleftrightarrow> i \<notin> (Job_ID \<circ> fst) ` set (Db_jobs db)" for i db
    by (force simp: job_at_def find_None_iff)
  have same: "r\<lparr>Pg_db := Pg_db r\<rparr> = r" by simp
  show ?thesis
    using assms that
    by (auto simp: create_insert_def exec_def insert_job_def none same split: option.splits sum.splits if_splits)
qed

lemma prepare_job_simps [simp]:
  "Job_ID (prepare_job now i job) = i" "Job_Command (prepare_job now i job) = Job_Command job"
  "Job_TemplateCode (prepare_job now i job) = Job_TemplateCode job"
  "Job_WorkerType (prepare_job now i job) = Job_WorkerType job"
  "Job_AssignedWorkerID (prepare_job now i job) = Job_AssignedWorkerID job"
  "Job_IdempotencyKey (prepare_job now i job) = Job_IdempotencyKey job"
  "Job_Parameters (prepare_job now i job) = Job_Parameters job"
  "Job_Status (prepare_job now i job) = (if Job_Status job = [] then JobStatusPending else Job_Status job)"
  by (simp_all add: prepare_job_def Let_def)

lemma job_row_simps [simp]:
  "Job_ID (fst (job_row db job t)) = Job_ID job" "Job_Command (fst (job_row db job t)) = Job_Command job"
  "Job_TemplateCode (fst (job_row db job t)) = Job_TemplateCode job"
  "Job_WorkerType (fst (job_row db job t)) = Job_WorkerType job"
  "Job_AssignedWorkerID (fst (job_row db job t)) = Job_AssignedWorkerID job"
  "Job_IdempotencyKey (fst (job_row db job t)) = Job_IdempotencyKey job"
  "Job_Status (fst (job_row db job t)) = Job_Status job" "snd (job_row db job t) = t"
  by (simp_all add: job_row_def)

lemma job_at_append:
  "job_at i (db\<lparr>Db_jobs := Db_jobs db @ [row]\<rparr>) =
   (case job_at i db of Some x \<Rightarrow> Some x | None \<Rightarrow> if Job_ID (fst row) = i then Some row else None)"
  by (auto simp: job_at_def find_append split: option.split)

lemma pg_create_frame:
  assumes "Pg_CreateJob now job r = (res, r')" "Pg_GetJob i r' = Inr new"
  shows "Pg_GetJob i r = Inr new \<or> same_work new job \<and> Job_AssignedWorkerID new = Job_AssignedWorkerID job \<and>
    Job_Status new = (if Job_Status job = [] then JobStatusPending else Job_Status job)"
proof (cases "create_lookup job r")
  case None
  let ?job = "prepare_job now (fst (genID ''job'' r)) job" and ?r = "snd (genID ''job'' r)"
  obtain x r1 where ins: "create_insert ?job ?r = (x, r1)" by force
  have r': "r' = r1" using assms(1) None ins by (auto simp: Pg_CreateJob_def Let_def case_prod_beta split: sum.splits)
  have get: "Pg_GetJob i ?r = Pg_GetJob i r" by (rule GetJob_cong) simp_all
  from ins show ?thesis
  proof (cases rule: create_insert_cases)
    case failed
    then show ?thesis using assms(2) r' get by simp
  next
    case (stored t)
    have ref: "refused stmt xs r1 = refused stmt xs ?r" for stmt xs
      using stored by (intro refused_cong) simp_all
    obtain j t' m where at: "job_at i (Pg_db r1) = Some (j, t')" "row_params t' = Inr m" "new = shown j m"
      and ok: "refused ''GetJob'' [Txt i] ?r = None"
      using assms(2) r' ref unfolding GetJob_Inr by auto
    show ?thesis
    proof (cases "job_at i (Pg_db r)")
      case (Some x)
      then have "Pg_GetJob i ?r = Inr new" using at ok stored by (simp add: GetJob_Inr job_at_append)
      then show ?thesis using get by simp
    next
      case None
      then have "(j, t') = job_row (Pg_db r) ?job t" using at stored by (simp add: job_at_append split: if_splits)
      then have "j = fst (job_row (Pg_db r) ?job t)" by (metis fst_conv)
      then show ?thesis using at(3) by (simp add: same_work_def)
    qed
  qed
qed (use assms in \<open>simp add: Pg_CreateJob_def\<close>)

lemma start_row_frame:
  assumes "start_job_row stmt now w k r = (x, r1)" "Pg_GetJob i r1 = Inr new"
  shows "\<exists>old. Pg_GetJob i r = Inr old \<and> same_work new old \<and> (i \<noteq> k \<longrightarrow> new = old)"
proof (cases "refused stmt [Varchar 32 JobStatusRunning, Varchar 64 w, Txt k] r")
  case None
  let ?f = "\<lambda>j. j\<lparr>Job_Status := JobStatusRunning, Job_AssignedWorkerID := w,
     Job_StartedAt := Some (Db_time (Pg_db r) now), Job_UpdatedAt := Db_time (Pg_db r) now\<rparr>"
  have r1: "r1 = r\<lparr>Pg_db := (Pg_db r)\<lparr>Db_jobs := set_where (\<lambda>row. Job_ID (fst row) = k) (apfst ?f) (Db_jobs (Pg_db r))\<rparr>\<rparr>"
    using assms(1) None by (auto simp: start_job_row_def exec_def)
  then have ref: "refused ''GetJob'' [Txt i] r1 = refused ''GetJob'' [Txt i] r" by (intro refused_cong) simp_all
  have "job_at i (Pg_db r1) = map_option (\<lambda>row. if Job_ID (fst row) = k then apfst ?f row else row) (job_at i (Pg_db r))"
    using r1 job_at_update[where f = ?f and p = "\<lambda>row. Job_ID (fst row) = k" and db = "Pg_db r" and i = i] by simp
  then show ?thesis
    using assms(2) ref job_at_ID[of i "Pg_db r"] unfolding GetJob_Inr
    by (cases "job_at i (Pg_db r)") (auto simp: same_work_def split: if_splits)
qed (use assms in \<open>auto simp: start_job_row_def exec_def\<close>)

lemma pg_assign_frame:
  assumes "Pg_AssignJobToWorkers now k ids r = (x, r')" "Pg_GetJob i r' = Inr new"
  shows "\<exists>old. Pg_GetJob i r = Inr old \<and> same_work new old \<and> (i \<noteq> k \<longrightarrow> new = old)"
proof -
  have "assign_each now job k ids r = (x, r') \<Longrightarrow> Pg_GetJob i r' = Inr new \<Longrightarrow>
    \<exists>old. Pg_GetJob i r = Inr old \<and> same_work new old \<and> (i \<noteq> k \<longrightarrow> new = old)" for job ids r new
  proof (induction now job k ids r arbitrary: new rule: assign_each.induct)
    case (2 now job k wid wids r)
    obtain y r1 where st: "start_job_row ''AssignJobToWorkers'' now wid k r = (y, r1)" by force
    show ?case
    proof (cases "r' = r")
      case False
      then obtain worker where w: "Pg_GetWorker now wid r = Inr worker"
          "WorkerCanRunType (Worker_WorkerType worker) (Job_WorkerType job)"
        using 2(2) by (auto split: sum.splits if_splits)
      show ?thesis
      proof (cases y)
        case (Inl e)
        then show ?thesis using 2(2,3) w st start_row_frame[OF st] by auto
      next
        case (Inr u)
        then obtain mid where "Pg_GetJob i r1 = Inr mid" "same_work new mid" "i \<noteq> k \<longrightarrow> new = mid"
          using 2(1)[OF w(1) _ st[symmetric] Inr] 2(2,3) w st by auto
        then show ?thesis using start_row_frame[OF st] same_work_trans by metis
      qed
    qed (use 2 in auto)
  qed auto
  then show ?thesis using assms by (auto simp: Pg_AssignJobToWorkers_def split: sum.splits)
qed

lemma exec_frame:
  assumes "\<And>db. Db_jobs (snd (f db)) = Db_jobs db \<and> Db_fault (snd (f db)) = Db_fault db \<and>
      Db_violation (snd (f db)) = Db_violation db"
  shows "Pg_GetJob i (snd (exec stmt xs f r)) = Pg_GetJob i r"
  by (rule GetJob_cong) (use assms in \<open>simp_all add: exec_def case_prod_beta split: option.split\<close>)

lemma pg_run_frames:
  "Pg_GetJob i (snd (Pg_UpdateAgentRun now run r)) = Pg_GetJob i r"
  "Pg_GetJob i (snd (Pg_AddAgentEvent now ev r)) = Pg_GetJob i r"
  "Pg_GetJob i (snd (Pg_CreateAgentToolCall now call r)) = Pg_GetJob i r"
  "Pg_GetJob i (snd (Pg_CompleteAgentToolCall now call r)) = Pg_GetJob i r"
proof -
  have tidy: "snd (case x of (Inl e, r) \<Rightarrow> (f e r, r) | (Inr n, r) \<Rightarrow> (g n r, r)) = snd x"
    for x :: "('a + 'b) \<times> PostgresRepository" and f :: "'a \<Rightarrow> PostgresRepository \<Rightarrow> 'c" and g
    by (simp split: prod.split sum.split)
  show "Pg_GetJob i (snd (Pg_UpdateAgentRun now run r)) = Pg_GetJob i r"
    unfolding Pg_UpdateAgentRun_def Let_def tidy by (rule exec_frame) (simp split: sum.split)
  show "Pg_GetJob i (snd (Pg_AddAgentEvent now ev r)) = Pg_GetJob i r"
    unfolding Pg_AddAgentEvent_def tidy by (rule exec_frame) (simp add: insert_event_def Let_def split: sum.split)
  show "Pg_GetJob i (snd (Pg_CreateAgentToolCall now call r)) = Pg_GetJob i r"
    by (simp add: Pg_CreateAgentToolCall_def, intro impI exec_frame) (simp add: insert_call_def split: sum.split)
  show "Pg_GetJob i (snd (Pg_CompleteAgentToolCall now call r)) = Pg_GetJob i r"
    unfolding Pg_CompleteAgentToolCall_def by (rule exec_frame) (simp split: sum.split)
qed

interpretation pg_writes: run_repository postgres_repository
  by unfold_locales
    (use pg_create_frame pg_assign_frame pg_run_frames in \<open>simp_all add: postgres_repository_def\<close>)

end
