(* ===== verification/Postgres_Board.thy ===== *)
theory Postgres_Board
  imports Postgres_Laws
begin

text \<open>
  The job methods of the PostgreSQL repository as a refinement of a board: a map from identifiers to
  jobs with the number of identifiers drawn. The board has no statements, rows or texts; its operations
  say which jobs they apply to and how they change one.
\<close>

section \<open>The board\<close>

record Board =
  Board_jobs :: "string \<rightharpoonup> Job"
  Board_next :: nat

datatype board_op =
    Create Time Job
  | Approve Time string string string
  | Reject Time string string string
  | Complete Time string string string bool
  | Start Time string string
  | Delete string
  | Audit Time AuditLog
  | Log Time WorkerLog

text \<open>What the board takes from outside: the types of the registered workers, the rounding of times and
  the form in which parameters come back.\<close>

record board_env =
  Env_types :: "string \<rightharpoonup> string"
  Env_round :: "Time \<Rightarrow> Time"
  Env_params :: "(string, string) gomap \<Rightarrow> (string, string) gomap"

definition on_job :: "string \<Rightarrow> (Job \<Rightarrow> bool) \<Rightarrow> (Job \<Rightarrow> Job option) \<Rightarrow> Board \<Rightarrow> bool \<times> Board" where
  "on_job i allowed change b =
     (case Board_jobs b i of
        Some j \<Rightarrow> if allowed j then (True, b\<lparr>Board_jobs := (Board_jobs b)(i := change j)\<rparr>) else (False, b)
      | None \<Rightarrow> (False, b))"

fun board_do :: "board_env \<Rightarrow> board_op \<Rightarrow> Board \<Rightarrow> bool \<times> Board" where
  "board_do env (Create t job) b =
     (let i = fmtID ''job'' (Suc (Board_next b)); j = prepare_job (Env_round env t) i job
      in (True, b\<lparr>Board_next := Suc (Board_next b), Board_jobs := (Board_jobs b)(i \<mapsto>
            j\<lparr>Job_Parameters := Env_params env (Job_Parameters job),
              Job_ApprovedAt := map_option (Env_round env) (Job_ApprovedAt j),
              Job_RejectedAt := map_option (Env_round env) (Job_RejectedAt j),
              Job_StartedAt := map_option (Env_round env) (Job_StartedAt j),
              Job_FinishedAt := map_option (Env_round env) (Job_FinishedAt j)\<rparr>)\<rparr>))"
| "board_do env (Approve t i who c) b =
     on_job i (\<lambda>j. Job_Status j = JobStatusWaitingApproval)
       (\<lambda>j. Some (j\<lparr>Job_Status := JobStatusPending, Job_ApprovalStatus := ApprovalStatusApproved, Job_ApprovedBy := who,
          Job_ApprovedAt := Some (Env_round env t), Job_ApprovalComment := c, Job_UpdatedAt := Env_round env t\<rparr>)) b"
| "board_do env (Reject t i who c) b =
     on_job i (\<lambda>j. Job_Status j = JobStatusWaitingApproval)
       (\<lambda>j. Some (j\<lparr>Job_Status := JobStatusCancelled, Job_ApprovalStatus := ApprovalStatusRejected, Job_RejectedBy := who,
          Job_RejectedAt := Some (Env_round env t), Job_ApprovalComment := c, Job_UpdatedAt := Env_round env t\<rparr>)) b"
| "board_do env (Complete t w i out good) b =
     on_job i (\<lambda>j. Job_AssignedWorkerID j = w \<and> Job_Status j = JobStatusRunning)
       (\<lambda>j. Some (j\<lparr>Job_Status := (if good then JobStatusSuccess else JobStatusFailed), Job_Output := out,
          Job_FinishedAt := Some (Env_round env t), Job_UpdatedAt := Env_round env t\<rparr>)) b"
| "board_do env (Start t i w) b =
     on_job i (\<lambda>j. case Env_types env w of None \<Rightarrow> False | Some wt \<Rightarrow> WorkerCanRunType wt (Job_WorkerType j))
       (\<lambda>j. Some (j\<lparr>Job_Status := JobStatusRunning, Job_AssignedWorkerID := w, Job_StartedAt := Some (Env_round env t),
          Job_UpdatedAt := Env_round env t\<rparr>)) b"
| "board_do env (Delete i) b =
     on_job i (\<lambda>j. Job_Status j \<in> {JobStatusPending, JobStatusQueued, JobStatusWaitingApproval}) (\<lambda>j. None) b"
| "board_do env (Audit t entry) b = (True, b\<lparr>Board_next := Suc (Board_next b)\<rparr>)"
| "board_do env (Log t entry) b = (True, b)"

fun board_run :: "board_env \<Rightarrow> board_op list \<Rightarrow> Board \<Rightarrow> bool list \<times> Board" where
  "board_run env [] b = ([], b)"
| "board_run env (op # ops) b =
     (case board_do env op b of (x, b) \<Rightarrow> (case board_run env ops b of (xs, b) \<Rightarrow> (x # xs, b)))"

section \<open>The repository\<close>

fun pg_do :: "board_op \<Rightarrow> PostgresRepository \<Rightarrow> bool \<times> PostgresRepository" where
  "pg_do (Create t job) r = apfst (\<lambda>x. \<not> isl x) (Pg_CreateJob t job r)"
| "pg_do (Approve t i who c) r = apfst (\<lambda>x. \<not> isl x) (Pg_ApproveJob t i who c r)"
| "pg_do (Reject t i who c) r = apfst (\<lambda>x. \<not> isl x) (Pg_RejectJob t i who c r)"
| "pg_do (Complete t w i out good) r = apfst (\<lambda>x. \<not> isl x) (Pg_CompleteJob t w i out good r)"
| "pg_do (Start t i w) r = apfst (\<lambda>x. \<not> isl x) (Pg_AssignJobToWorkers t i [w] r)"
| "pg_do (Delete i) r = apfst (\<lambda>x. \<not> isl x) (Pg_DeleteJob i r)"
| "pg_do (Audit t entry) r = apfst (\<lambda>x. \<not> isl x) (Pg_AddAuditLog t entry r)"
| "pg_do (Log t entry) r = apfst (\<lambda>x. \<not> isl x) (Pg_AddWorkerLog t entry r)"

fun pg_run :: "board_op list \<Rightarrow> PostgresRepository \<Rightarrow> bool list \<times> PostgresRepository" where
  "pg_run [] r = ([], r)"
| "pg_run (op # ops) r = (case pg_do op r of (x, r) \<Rightarrow> (case pg_run ops r of (xs, r) \<Rightarrow> (x # xs, r)))"

text \<open>The board a repository shows, and the environment it takes from its database.\<close>

definition board_job :: "Job \<times> string \<Rightarrow> Job" where
  "board_job row = shown (fst row) (projr (row_params (snd row)))"

definition board_of :: "PostgresRepository \<Rightarrow> Board" where
  "board_of r = \<lparr>Board_jobs = (\<lambda>i. map_option board_job (job_at i (Pg_db r))), Board_next = unat (Pg_nextID r)\<rparr>"

definition stored_params :: "Database \<Rightarrow> (string, string) gomap \<Rightarrow> (string, string) gomap res" where
  "stored_params db m = (case Db_jsonb db (marshalStringMap m) of Inl e \<Rightarrow> Inl e | Inr t \<Rightarrow> row_params t)"

definition env_of :: "Database \<Rightarrow> board_env" where
  "env_of db = \<lparr>Env_types = (\<lambda>w. map_option Worker_WorkerType (find (\<lambda>x. Worker_ID x = w) (Db_workers db))),
     Env_round = Db_time db, Env_params = (\<lambda>m. projr (stored_params db m))\<rparr>"

text \<open>Operations whose arguments the server accepts. New jobs carry no idempotency key here.\<close>

fun op_ok :: "Database \<Rightarrow> board_op \<Rightarrow> bool" where
  "op_ok db (Create t job) \<longleftrightarrow> Job_IdempotencyKey job = [] \<and> accepted (job_args (prepare_job t [] job)) \<and>
     \<not> isl (stored_params db (Job_Parameters job))"
| "op_ok db (Approve t i who c) \<longleftrightarrow> accepted [Varchar 128 who, Txt c, Txt i]"
| "op_ok db (Reject t i who c) \<longleftrightarrow> accepted [Varchar 128 who, Txt c, Txt i]"
| "op_ok db (Complete t w i out good) \<longleftrightarrow> accepted [Txt out, Txt w, Txt i]"
| "op_ok db (Start t i w) \<longleftrightarrow> accepted [Varchar 64 w, Txt i]"
| "op_ok db (Delete i) \<longleftrightarrow> accepted [Txt i]"
| "op_ok db (Audit t entry) \<longleftrightarrow>
     accepted [Varchar 64 (AuditLog_ActorType entry), Varchar 128 (AuditLog_ActorID entry), Varchar 256 (AuditLog_Action entry),
       Varchar 128 (AuditLog_ResourceType entry), Varchar 128 (AuditLog_ResourceID entry)] \<and>
     \<not> isl (json_column ''details'' (AuditLog_Details entry) db)"
| "op_ok db (Log t entry) \<longleftrightarrow>
     accepted [Varchar 64 (WorkerLog_WorkerID entry), Varchar 64 (WorkerLog_JobID entry), Txt (WorkerLog_Command entry),
       Varchar 256 (WorkerLog_Progress entry), Txt (WorkerLog_Result entry)]"

text \<open>The part of the database the operations leave alone, and the invariant of the simulation.\<close>

definition same_server :: "Database \<Rightarrow> Database \<Rightarrow> bool" where
  "same_server a b \<longleftrightarrow> Db_fault b = Db_fault a \<and> Db_violation b = Db_violation a \<and> Db_jsonb b = Db_jsonb a \<and>
     Db_time b = Db_time a \<and> Db_marshal b = Db_marshal a \<and> Db_workers b = Db_workers a"

definition board_inv :: "PostgresRepository \<Rightarrow> bool" where
  "board_inv r \<longleftrightarrow> Db_fault (Pg_db r) = (\<lambda>_. None) \<and> pg_ok r \<and>
     (\<forall>row \<in> set (Db_jobs (Pg_db r)). Job_ID (fst row) \<in> issued_ids ''job'' (unat (Pg_nextID r))) \<and>
     (\<forall>row \<in> set (Db_auditLogs (Pg_db r)). AuditLog_ID (fst row) \<in> issued_ids ''audit'' (unat (Pg_nextID r)))"

section \<open>One operation at a time\<close>

lemma board_job_simps [simp]: "board_job (j, t) = shown j (projr (row_params t))"
  by (simp add: board_job_def)

lemma board_inv_rows:
  assumes "board_inv r" "job_at i (Pg_db r) = Some (j, t)"
  shows "row_params t = Inr (projr (row_params t))"
  using assms job_at_mem[OF assms(2)] by (force simp: board_inv_def pg_ok_def)

lemma GetJob_board:
  assumes "board_inv r" "accepted [Txt i]"
  shows "case Board_jobs (board_of r) i of Some j \<Rightarrow> Pg_GetJob i r = Inr j | None \<Rightarrow> isl (Pg_GetJob i r)"
proof (cases "job_at i (Pg_db r)")
  case None
  then have "\<nexists>job. Pg_GetJob i r = Inr job" unfolding GetJob_Inr by simp
  then show ?thesis using None by (cases "Pg_GetJob i r") (auto simp: board_of_def)
next
  case (Some row)
  obtain j t where row: "row = (j, t)" by force
  then have "Pg_GetJob i r = Inr (shown j (projr (row_params t)))"
    unfolding GetJob_Inr using Some assms board_inv_rows[OF assms(1)] by (auto simp: board_inv_def)
  then show ?thesis using Some row by (simp add: board_of_def)
qed

text \<open>An update of the row of one job, seen on the board.\<close>

lemma board_of_update:
  assumes "\<And>j. Job_ID (f j) = Job_ID j" "\<And>j m. f (shown j m) = shown (f j) m" "\<And>j m. g (shown j m) = g j"
    and "r' = r\<lparr>Pg_db := (Pg_db r)\<lparr>Db_jobs := set_where (\<lambda>row. Job_ID (fst row) = i \<and> g (fst row)) (apfst f)
        (Db_jobs (Pg_db r))\<rparr>\<rparr>"
  shows "board_of r' = snd (on_job i g (\<lambda>j. Some (f j)) (board_of r))"
proof -
  have at: "job_at k (Pg_db r') = map_option (\<lambda>row. if Job_ID (fst row) = i \<and> g (fst row) then apfst f row else row)
      (job_at k (Pg_db r))" for k
    using job_at_update[where f = f and p = "\<lambda>row. Job_ID (fst row) = i \<and> g (fst row)" and db = "Pg_db r" and i = k]
      assms(1,4) by simp
  have "map_option board_job (job_at k (Pg_db r')) = Board_jobs (snd (on_job i g (\<lambda>j. Some (f j)) (board_of r))) k" for k
    using at[of k] job_at_ID[of k "Pg_db r"] assms(2,3)
    by (cases "job_at k (Pg_db r)"; cases "job_at i (Pg_db r)") (auto simp: on_job_def board_of_def)
  then show ?thesis using assms(4) by (auto simp: board_of_def on_job_def fun_eq_iff split: option.splits)
qed

lemma set_where_ball:
  assumes "\<And>x. k (f x) = k x"
  shows "(\<forall>x \<in> set (set_where p f xs). P (k x)) \<longleftrightarrow> (\<forall>x \<in> set xs. P (k x))"
  by (induction xs) (simp_all add: assms)

lemma board_inv_update:
  assumes "board_inv r" "\<And>j. Job_ID (f j) = Job_ID j"
    and "r' = r\<lparr>Pg_db := (Pg_db r)\<lparr>Db_jobs := set_where p (apfst f) (Db_jobs (Pg_db r))\<rparr>\<rparr>"
  shows "board_inv r'" "same_server (Pg_db r) (Pg_db r')"
proof -
  have "map (Job_ID \<circ> fst) (Db_jobs (Pg_db r')) = map (Job_ID \<circ> fst) (Db_jobs (Pg_db r))"
    using set_where_keys[of "Job_ID \<circ> fst" "apfst f" p] assms(2,3) by simp
  moreover have "(\<forall>x \<in> set (Db_jobs (Pg_db r')). \<not> isl (row_params (snd x))) \<longleftrightarrow>
      (\<forall>x \<in> set (Db_jobs (Pg_db r)). \<not> isl (row_params (snd x)))"
    using set_where_ball[where k = snd and f = "apfst f" and P = "\<lambda>t. \<not> isl (row_params t)"] assms(3) by simp
  moreover have "(\<forall>x \<in> set (Db_jobs (Pg_db r')). Job_ID (fst x) \<in> A) \<longleftrightarrow>
      (\<forall>x \<in> set (Db_jobs (Pg_db r)). Job_ID (fst x) \<in> A)" for A
    using set_where_ball[where k = "Job_ID \<circ> fst" and f = "apfst f" and P = "\<lambda>i. i \<in> A"] assms(2,3) by simp
  moreover have "Db_fault (Pg_db r') = Db_fault (Pg_db r)" "Db_auditLogs (Pg_db r') = Db_auditLogs (Pg_db r)"
      "Pg_nextID r' = Pg_nextID r"
    using assms(3) by simp_all
  ultimately show "board_inv r'" using assms(1) by (simp only: board_inv_def pg_ok_def) blast
  show "same_server (Pg_db r) (Pg_db r')" using assms(3) by (simp add: same_server_def)
qed

lemma guarded_update_board:
  assumes inv: "board_inv r" and ok: "accepted (xs @ [Txt i])"
    and f: "\<And>j. Job_ID (f j) = Job_ID j" "\<And>j m. f (shown j m) = shown (f j) m" and g: "\<And>j m. g (shown j m) = g j"
    and ch: "change (Pg_db r) = f"
  shows "on_job i g (\<lambda>j. Some (f j)) (board_of r) =
      map_prod (\<lambda>x. \<not> isl x) board_of (guarded_update stmt what xs g change none i r) \<and>
    board_inv (snd (guarded_update stmt what xs g change none i r)) \<and>
    same_server (Pg_db r) (Pg_db (snd (guarded_update stmt what xs g change none i r)))"
proof -
  let ?p = "\<lambda>row :: Job \<times> string. Job_ID (fst row) = i \<and> g (fst row)"
  let ?r = "r\<lparr>Pg_db := (Pg_db r)\<lparr>Db_jobs := set_where ?p (apfst f) (Db_jobs (Pg_db r))\<rparr>\<rparr>"
  have fault: "Db_fault (Pg_db r) = (\<lambda>_. None)" using inv by (simp add: board_inv_def)
  have up: "guarded_update stmt what xs g change none i r =
      (if affected ?p (Db_jobs (Pg_db r)) = 0 then Inl none else Pg_GetJob i ?r, ?r)"
    using ch by (simp add: guarded_update_def exec_ok[OF fault ok] Let_def)
  have inv': "board_inv ?r" "same_server (Pg_db r) (Pg_db ?r)" using board_inv_update[OF inv f(1) refl] by auto
  have b: "board_of ?r = snd (on_job i g (\<lambda>j. Some (f j)) (board_of r))"
    by (rule board_of_update[OF f g refl])
  have dist: "distinct (map (Job_ID \<circ> fst) (Db_jobs (Pg_db r)))" using inv by (simp add: board_inv_def pg_ok_def)
  have n: "affected ?p (Db_jobs (Pg_db r)) \<noteq> 0 \<longleftrightarrow> (\<exists>row. job_at i (Pg_db r) = Some row \<and> g (fst row))"
  proof
    assume "affected ?p (Db_jobs (Pg_db r)) \<noteq> 0"
    then obtain row where row: "row \<in> set (Db_jobs (Pg_db r))" "?p row" unfolding affected_iff by blast
    then have "job_at i (Pg_db r) = Some row" using find_key_distinct[OF dist row(1)] by (simp add: job_at_def)
    then show "\<exists>row. job_at i (Pg_db r) = Some row \<and> g (fst row)" using row by blast
  qed (use job_at_mem job_at_ID in \<open>unfold affected_iff, blast\<close>)
  have "fst (on_job i g (\<lambda>j. Some (f j)) (board_of r)) \<longleftrightarrow> affected ?p (Db_jobs (Pg_db r)) \<noteq> 0"
    unfolding n using g by (auto simp: on_job_def board_of_def board_job_def split: option.splits)
  moreover have "\<not> isl (Pg_GetJob i ?r)" if "affected ?p (Db_jobs (Pg_db r)) \<noteq> 0"
  proof -
    have "Board_jobs (board_of ?r) i \<noteq> None"
      unfolding b using that[unfolded n] g by (auto simp: on_job_def board_of_def board_job_def)
    then show ?thesis using GetJob_board[OF inv'(1), of i] ok by (auto simp del: arg_violation.simps)
  qed
  ultimately show ?thesis using up b inv' by (auto simp: prod_eq_iff)
qed

text \<open>An operation and its image on the board agree; the invariant and the server stay.\<close>

definition simulates :: "board_op \<Rightarrow> PostgresRepository \<Rightarrow> bool" where
  "simulates op r \<longleftrightarrow> board_do (env_of (Pg_db r)) op (board_of r) = map_prod id board_of (pg_do op r) \<and>
     board_inv (snd (pg_do op r)) \<and> same_server (Pg_db r) (Pg_db (snd (pg_do op r)))"

lemma not_isl: "\<not> isl x \<longleftrightarrow> (\<exists>y. x = Inr y)"
  by (cases x) auto

lemma map_prod_apfst: "map_prod id g (apfst h x) = map_prod h g x"
  by (cases x) simp

lemma status_args:
  "arg_violation (Varchar 32 JobStatusRunning) = None" "arg_violation (Varchar 32 JobStatusFailed) = None"
  "arg_violation (Varchar 32 JobStatusSuccess) = None"
  by code_simp+

lemma sim_decisions:
  assumes "board_inv r"
  shows "op_ok (Pg_db r) (Approve t i who c) \<Longrightarrow> simulates (Approve t i who c) r"
    and "op_ok (Pg_db r) (Reject t i who c) \<Longrightarrow> simulates (Reject t i who c) r"
    and "op_ok (Pg_db r) (Complete t w i out good) \<Longrightarrow> simulates (Complete t w i out good) r"
  unfolding simulates_def pg_do.simps board_do.simps map_prod_apfst snd_apfst Pg_ApproveJob_def Pg_RejectJob_def
    Pg_CompleteJob_def Let_def
  by (rule guarded_update_board[OF assms]; simp add: status_args env_of_def shown_def fun_eq_iff del: arg_violation.simps)+

lemma sim_delete:
  assumes inv: "board_inv r" and ok: "op_ok (Pg_db r) (Delete i)"
  shows "simulates (Delete i) r"
proof -
  let ?del = "\<lambda>row :: Job \<times> string. Job_ID (fst row) = i"
  let ?r = "r\<lparr>Pg_db := (Pg_db r)\<lparr>Db_jobs := delete_where ?del (Db_jobs (Pg_db r))\<rparr>\<rparr>"
  have fault: "Db_fault (Pg_db r) = (\<lambda>_. None)" using inv by (simp add: board_inv_def)
  have "find (\<lambda>row. Job_ID (fst row) = k) (delete_where ?del rows) =
      (if k = i then None else find (\<lambda>row. Job_ID (fst row) = k) rows)" for k and rows :: "(Job \<times> string) list"
    by (induction rows) (auto simp: delete_where_def)
  then have "board_of ?r = (board_of r)\<lparr>Board_jobs := (Board_jobs (board_of r))(i := None)\<rparr>"
    by (auto simp: board_of_def job_at_def fun_eq_iff)
  moreover have "board_inv ?r"
    using inv by (auto simp: board_inv_def pg_ok_def delete_where_def distinct_map_filter)
  ultimately show ?thesis
    using GetJob_board[OF inv, of i] ok
    by (cases "Board_jobs (board_of r) i"; cases "Pg_GetJob i r")
      (auto simp: simulates_def on_job_def Pg_DeleteJob_def exec_ok[OF fault] same_server_def inv simp del: arg_violation.simps)
qed

lemma sim_start:
  assumes inv: "board_inv r" and ok: "op_ok (Pg_db r) (Start t i w)"
  shows "simulates (Start t i w) r"
proof -
  let ?f = "\<lambda>j. j\<lparr>Job_Status := JobStatusRunning, Job_AssignedWorkerID := w,
     Job_StartedAt := Some (Db_time (Pg_db r) t), Job_UpdatedAt := Db_time (Pg_db r) t\<rparr>"
  let ?p = "\<lambda>row :: Job \<times> string. Job_ID (fst row) = i"
  let ?r = "r\<lparr>Pg_db := (Pg_db r)\<lparr>Db_jobs := set_where ?p (apfst ?f) (Db_jobs (Pg_db r))\<rparr>\<rparr>"
  have fault: "Db_fault (Pg_db r) = (\<lambda>_. None)" using inv by (simp add: board_inv_def)
  have st: "start_job_row stmt t w i r = (Inr (), ?r)" for stmt
    using ok by (simp add: status_args start_job_row_def exec_ok[OF fault] del: arg_violation.simps)
  have b: "board_of ?r = snd (on_job i (\<lambda>_. True) (\<lambda>j. Some (?f j)) (board_of r))"
    by (rule board_of_update) (simp_all add: shown_def)
  have inv': "board_inv ?r" "same_server (Pg_db r) (Pg_db ?r)"
    using board_inv_update[OF inv _ refl, of ?f] by simp_all
  have worker: "Pg_GetWorker t w r = (case find (\<lambda>x. Worker_ID x = w) (Db_workers (Pg_db r)) of
      None \<Rightarrow> Inl (''worker not found: '' @ w)
    | Some x \<Rightarrow> Inr (x\<lparr>Worker_Status := (if timeSub t (Worker_LastHeartbeatAt x) > WorkerOnlineThreshold
        then WorkerStatusOffline else WorkerStatusOnline)\<rparr>))"
    using ok by (simp add: Pg_GetWorker_def query_ok[OF fault] split: if_splits option.split)
  show ?thesis
    using GetJob_board[OF inv, of i] ok b inv' inv
    by (cases "Board_jobs (board_of r) i"; cases "Pg_GetJob i r"; cases "find (\<lambda>x. Worker_ID x = w) (Db_workers (Pg_db r))")
      (auto simp: simulates_def on_job_def Pg_AssignJobToWorkers_def worker st env_of_def same_server_def
        simp del: arg_violation.simps)
qed

lemma empty_arg: "arg_violation (Varchar n []) = None"
  by (simp add: text_ok_def characters_def)

lemma prepare_job_id: "prepare_job t i job = (prepare_job t [] job)\<lparr>Job_ID := i\<rparr>"
  by (simp add: prepare_job_def Let_def)

lemma sim_create:
  assumes inv: "board_inv r" and ok: "op_ok (Pg_db r) (Create t job)" and room: "Pg_nextID r \<noteq> - 1"
  shows "simulates (Create t job) r"
proof -
  let ?i = "fst (genID ''job'' r)" and ?r = "snd (genID ''job'' r)"
  let ?job = "prepare_job t ?i job"
  note id = pg_ids.alloc_id[OF room, of "''job''"] pg_ids.alloc_counter[OF room, of "''job''"]
  have fault: "Db_fault (Pg_db ?r) = (\<lambda>_. None)" using inv by (simp add: board_inv_def)
  obtain x r1 where ins: "create_insert ?job ?r = (x, r1)" by force
  obtain js m where js: "Db_jsonb (Pg_db r) (marshalStringMap (Job_Parameters job)) = Inr js" "row_params js = Inr m"
    using ok by (auto simp: stored_params_def not_isl split: sum.splits)
  have "arg_violation (Varchar 64 ?i) = None" unfolding genID_def Let_def fst_conv by (rule arg_fmtID) simp_all
  then have "accepted (job_args ?job)"
    using ok prepare_job_id[of t ?i job] by (simp add: job_args_def empty_arg del: arg_violation.simps)
  moreover have out: "?i \<notin> (Job_ID \<circ> fst) ` set (Db_jobs (Pg_db r))"
    using inv pg_ids.alloc_fresh[OF room, of "''job''"] by (force simp: board_inv_def)
  ultimately have r1: "x = Inr ()" "r1 = ?r\<lparr>Pg_db := (Pg_db r)\<lparr>Db_jobs := Db_jobs (Pg_db r) @ [job_row (Pg_db r) ?job js]\<rparr>\<rparr>"
    using ins ok js by (auto simp: create_insert_def exec_ok[OF fault] insert_job_def)
  have new: "job_at ?i (Pg_db r) = None" using out by (force simp: job_at_def find_None_iff)
  have run: "pg_do (Create t job) r = (True, r1)"
    using ok ins r1(1) by (simp add: Pg_CreateJob_def create_lookup_def create_prepare_def case_prod_beta)
  have "board_of r1 = snd (board_do (env_of (Pg_db r)) (Create t job) (board_of r))"
    using r1(2) new js ok id
    by (auto simp: board_of_def job_at_append env_of_def stored_params_def Let_def fun_eq_iff job_row_def shown_def
        prepare_job_def split: option.split)
  moreover have "board_inv r1"
    using inv r1(2) id js new pg_ids.alloc_issued[OF room, of "''job''"]
    by (auto simp: board_inv_def pg_ok_def issued_ids_Suc job_at_def find_None_iff)
  ultimately show ?thesis using run r1(2) by (auto simp: simulates_def prod_eq_iff same_server_def Let_def)
qed

lemma sim_audit:
  assumes inv: "board_inv r" and ok: "op_ok (Pg_db r) (Audit t entry)" and room: "Pg_nextID r \<noteq> - 1"
  shows "simulates (Audit t entry) r"
proof -
  let ?i = "fst (genID ''audit'' r)" and ?r = "snd (genID ''audit'' r)"
  note id = pg_ids.alloc_id[OF room, of "''audit''"] pg_ids.alloc_counter[OF room, of "''audit''"]
  have fault: "Db_fault (Pg_db ?r) = (\<lambda>_. None)" using inv by (simp add: board_inv_def)
  obtain js where js: "json_column ''details'' (AuditLog_Details entry) (Pg_db r) = Inr js"
    using ok by (auto simp: not_isl simp del: arg_violation.simps)
  have "arg_violation (Varchar 64 ?i) = None" unfolding genID_def Let_def fst_conv by (rule arg_fmtID) simp_all
  moreover have "?i \<notin> (AuditLog_ID \<circ> fst) ` set (Db_auditLogs (Pg_db r))"
    using inv pg_ids.alloc_fresh[OF room, of "''audit''"] by (force simp: board_inv_def)
  ultimately have run: "Pg_AddAuditLog t entry r = (Inr (), ?r\<lparr>Pg_db := (Pg_db r)\<lparr>Db_auditLogs := Db_auditLogs (Pg_db r) @
      [(entry\<lparr>AuditLog_ID := ?i, AuditLog_Details := [], AuditLog_CreatedAt := Db_time (Pg_db r) t\<rparr>, js)]\<rparr>\<rparr>)"
    using ok js by (simp add: Pg_AddAuditLog_def case_prod_beta exec_ok[OF fault] del: arg_violation.simps)
  show ?thesis
    using inv run id by (auto simp: simulates_def board_of_def job_at_def board_inv_def pg_ok_def same_server_def issued_ids_Suc)
qed

lemma sim_log:
  assumes inv: "board_inv r" and ok: "op_ok (Pg_db r) (Log t entry)"
  shows "simulates (Log t entry) r"
proof -
  have fault: "Db_fault (Pg_db r) = (\<lambda>_. None)" using inv by (simp add: board_inv_def)
  show ?thesis
    using inv ok by (auto simp: simulates_def Pg_AddWorkerLog_def exec_ok[OF fault] Let_def board_of_def job_at_def
        board_inv_def pg_ok_def same_server_def simp del: arg_violation.simps)
qed

lemma simulation:
  assumes "board_inv r" "op_ok (Pg_db r) op" "Pg_nextID r \<noteq> - 1"
  shows "simulates op r"
  using assms sim_create sim_decisions sim_start sim_delete sim_audit sim_log by (cases op) auto

lemma same_server_ops: "same_server a b \<Longrightarrow> op_ok b op \<longleftrightarrow> op_ok a op" "same_server a b \<Longrightarrow> env_of b = env_of a"
  by (cases op) (auto simp: same_server_def stored_params_def json_column_def env_of_def split: option.splits)

section \<open>The refinement\<close>


text \<open>A history on a database with one worker: create, delete; create a waiting job, approve it twice, start it,
  complete it twice.\<close>

definition board_repo :: PostgresRepository where
  "board_repo = \<lparr>Pg_db = \<lparr>Db_fault = (\<lambda>_. None), Db_violation = (\<lambda>_. ''pq''), Db_jsonb = Inr, Db_time = id,
       Db_marshal = (\<lambda>_. Some ''{}''), Db_users = [],
       Db_workers = [zero_Worker\<lparr>Worker_ID := ''w'', Worker_WorkerType := ''shell''\<rparr>], Db_jobs = [], Db_plans = [],
       Db_auditLogs = [], Db_cases = [], Db_yamls = [], Db_workerLogs = [], Db_configs = [], Db_conversations = [],
       Db_messages = [], Db_runs = [], Db_events = [], Db_toolCalls = [], Db_workerLogSeq = 0, Db_messageSeq = 0,
       Db_eventSeq = 0\<rparr>, Pg_nextID = 0, Pg_clock = 0\<rparr>"

definition board_history :: "board_op list" where
  "board_history =
     [Create 1 zero_Job, Delete ''job-000001'', Create 2 (zero_Job\<lparr>Job_Status := JobStatusWaitingApproval\<rparr>),
      Approve 3 ''job-000002'' ''a'' [], Approve 4 ''job-000002'' ''a'' [], Start 5 ''job-000002'' ''w'',
      Complete 6 ''w'' ''job-000002'' [] True, Complete 7 ''w'' ''job-000002'' [] True]"

lemma board_history_ok: "list_all (op_ok (Pg_db board_repo)) board_history"
  by code_simp


end
