(* ===== verification/Postgres_Props.thy ===== *)
theory Postgres_Props
  imports Postgres_Laws
begin

text \<open>
  What the PostgreSQL repository guarantees beyond the contracts: identifiers stay unique over a restart,
  concurrent creations with one idempotency key create one job, the job methods refine an abstract board
  of jobs, and a stored job is read back. Further, what its statements do not guarantee: the choice and the
  start of the next job are separate statements.
\<close>

section \<open>A concrete database\<close>

definition empty_db :: Database where
  "empty_db = \<lparr>Db_fault = (\<lambda>_. None), Db_violation = (\<lambda>_. ''pq: constraint violated''), Db_jsonb = Inr, Db_time = id,
     Db_marshal = (\<lambda>_. Some ''{}''), Db_users = [], Db_workers = [], Db_jobs = [], Db_plans = [], Db_auditLogs = [],
     Db_cases = [], Db_yamls = [], Db_workerLogs = [], Db_configs = [], Db_conversations = [], Db_messages = [],
     Db_runs = [], Db_events = [], Db_toolCalls = [], Db_workerLogSeq = 0, Db_messageSeq = 0, Db_eventSeq = 0\<rparr>"

definition pg_demo_job :: Job where
  "pg_demo_job = zero_Job\<lparr>Job_Name := ''n'', Job_WorkerType := ''sh'', Job_Command := ''ls''\<rparr>"

definition demo_db :: Database where
  "demo_db = empty_db\<lparr>
     Db_workers := [zero_Worker\<lparr>Worker_ID := ''worker-000003'', Worker_Name := ''a'', Worker_WorkerType := ''shell''\<rparr>,
       zero_Worker\<lparr>Worker_ID := ''worker-000004'', Worker_Name := ''b'', Worker_WorkerType := ''shell''\<rparr>],
     Db_jobs := [job_row empty_db (prepare_job 5 ''job-000007'' pg_demo_job) ''{}'']\<rparr>"

section \<open>Identifiers after a restart\<close>

text \<open>C24. Opening the repository on an existing database sets the counter past every number at the end of an
  identifier in the nine tables it reads, provided they can be read and their numbers fit 63 bits: an
  identifier drawn then or later, under any prefix, is in none of these tables.\<close>

theorem restart_ids_fresh:
  assumes "NewPostgresRepository now db = Inr r"
    and "\<forall>t \<in> set (id_tables db). Db_fault db (''seedCounter.'' @ fst t) = None \<and> max_suffix (snd t) \<noteq> None"
    and "unat (Pg_nextID r) \<le> unat (Pg_nextID later)" "Pg_nextID later \<noteq> - 1"
    and "t \<in> set (id_tables db)"
  shows "fst (genID prefix later) \<notin> set (snd t)"
proof
  assume mem: "fst (genID prefix later) \<in> set (snd t)"
  let ?r0 = "\<lparr>Pg_db = db, Pg_nextID = 0, Pg_clock = now\<rparr>"
  let ?m = "foldl (seed_table ?r0) 0 (id_tables db)"
  obtain n where n: "max_suffix (snd t) = Some n" using assms(2,5) by blast
  have "refused (''seedCounter.'' @ fst t) [] ?r0 = None"
    using assms(2,5) by (simp add: refused_def args_violation_def map_filter_def)
  then have "n \<le> ?m" by (rule seed_covers[OF assms(5) _ n])
  moreover have "r = seedCounter ?r0"
    using assms(1) by (auto simp: NewPostgresRepository_def Let_def split: option.splits sum.splits)
  then have "unat (Pg_nextID r) = ?m"
    using seed_small[of 0 ?r0 "id_tables db"] by (simp add: seedCounter_def Let_def unat_of_nat)
  moreover have "undec (trailing_digits (fst (genID prefix later))) \<le> n"
    using mem by (intro max_suffix_bound[OF n])
      (simp_all add: pg_ids.alloc_id[OF assms(4)] trailing_digits_fmtID pad6_def dec_digits)
  ultimately show False
    using assms(3) by (simp add: pg_ids.alloc_id[OF assms(4)] trailing_digits_fmtID undec_pad6_dec)
qed

lemma demo_opens: "\<not> isl (NewPostgresRepository 9 demo_db)" "Pg_nextID (projr (NewPostgresRepository 9 demo_db)) = 7"
  by code_simp+

lemma demo_tables:
  "list_all (\<lambda>t. Db_fault demo_db (''seedCounter.'' @ fst t) = None \<and> max_suffix (snd t) \<noteq> None) (id_tables demo_db)"
  by code_simp

theorem restart_ids_fresh_witness:
  "fst (genID ''job'' (projr (NewPostgresRepository 9 demo_db))) \<notin> set (map (Job_ID \<circ> fst) (Db_jobs demo_db))"
proof -
  let ?r = "projr (NewPostgresRepository 9 demo_db)"
  have opened: "NewPostgresRepository 9 demo_db = Inr ?r" using demo_opens(1) by simp
  have "(''jobs'', map (Job_ID \<circ> fst) (Db_jobs demo_db)) \<in> set (id_tables demo_db)" by (simp add: id_tables_def)
  moreover have "Pg_nextID ?r \<noteq> - 1" unfolding demo_opens(2) by simp
  ultimately show ?thesis
    using restart_ids_fresh[OF opened demo_tables[unfolded list_all_iff] order.refl] by (metis snd_conv)
qed

section \<open>Concurrent creation with one key\<close>

text \<open>A call of \<open>CreateJob\<close> between two of its statements, and its next statement.\<close>

datatype create_pc =
    Lookup Job
  | Fetch string
  | Draw Job
  | Insert Job
  | Again Job error
  | Returned "Job res"

fun create_step :: "Time \<Rightarrow> create_pc \<Rightarrow> PostgresRepository \<Rightarrow> create_pc \<times> PostgresRepository" where
  "create_step now (Lookup job) r =
     (if Job_IdempotencyKey job = [] then Draw job
      else (case find_key ''CreateJob.lookup'' (Job_IdempotencyKey job) r of
              Inl e \<Rightarrow> Returned (Inl (wrap ''find idempotent job'' e))
            | Inr (Some i) \<Rightarrow> Fetch i
            | Inr None \<Rightarrow> Draw job), r)"
| "create_step now (Fetch i) r = (Returned (Pg_GetJob i r), r)"
| "create_step now (Draw job) r = (case create_prepare now job r of (job, r) \<Rightarrow> (Insert job, r))"
| "create_step now (Insert job) r =
     (case create_insert job r of (Inl e, r) \<Rightarrow> (Again job e, r) | (Inr _, r) \<Rightarrow> (Returned (Inr job), r))"
| "create_step now (Again job e) r =
     (if Job_IdempotencyKey job = [] then Returned (Inl (wrap ''create job'' e))
      else (case find_key ''CreateJob.again'' (Job_IdempotencyKey job) r of
              Inr (Some i) \<Rightarrow> Fetch i
            | _ \<Rightarrow> Returned (Inl (wrap ''create job'' e))), r)"
| "create_step now (Returned x) r = (Returned x, r)"

fun create_steps :: "nat \<Rightarrow> Time \<Rightarrow> create_pc \<times> PostgresRepository \<Rightarrow> create_pc \<times> PostgresRepository" where
  "create_steps 0 now s = s"
| "create_steps (Suc n) now s = create_steps n now (create_step now (fst s) (snd s))"

text \<open>Without interference the statements make up the method.\<close>

lemma create_steps_returned [simp]: "create_steps n now (Returned x, r) = (Returned x, r)"
  by (induction n) simp_all

lemma create_steps_add: "create_steps (m + n) now s = create_steps n now (create_steps m now s)"
  by (induction m arbitrary: s) simp_all

lemma create_steps_fetch [simp]: "create_steps (Suc n) now (Fetch i, r) = (Returned (Pg_GetJob i r), r)"
  by simp

lemma create_steps_again: "create_steps (Suc (Suc n)) now (Again job e, r) = (Returned (create_again job e r), r)"
  by (cases "find_key ''CreateJob.again'' (Job_IdempotencyKey job) r")
    (auto simp: create_again_def split: option.split)

lemma create_steps_method: "create_steps 5 now (Lookup job, r) = apfst Returned (Pg_CreateJob now job r)"
proof (cases "create_lookup job r")
  case (Some x)
  then show ?thesis
    by (auto simp: numeral_eq_Suc Pg_CreateJob_def create_lookup_def split: sum.splits option.splits if_splits)
next
  case None
  let ?job = "fst (create_prepare now job r)" and ?r = "snd (create_prepare now job r)"
  have "create_step now (Lookup job) r = (Draw job, r)"
    using None by (auto simp: create_lookup_def split: sum.splits option.splits if_splits)
  then have "create_steps 5 now (Lookup job, r) = create_steps 3 now (Insert ?job, ?r)"
    by (simp add: numeral_eq_Suc case_prod_beta)
  also have "\<dots> = (case create_insert ?job ?r of (Inl e, r) \<Rightarrow> (Returned (create_again ?job e r), r)
      | (Inr _, r) \<Rightarrow> (Returned (Inr ?job), r))"
  proof -
    have "create_steps 3 now s = create_steps (Suc (Suc 0)) now (create_step now (fst s) (snd s))" for s
      unfolding numeral_3_eq_3 by (rule create_steps.simps(2))
    then show ?thesis
      by (cases "create_insert ?job ?r"; cases "fst (create_insert ?job ?r)")
        (auto simp: create_steps_again simp del: create_steps.simps)
  qed
  finally show ?thesis
    using None by (auto simp: Pg_CreateJob_def case_prod_beta Let_def split: sum.split)
qed

text \<open>The identifiers of the rows with a key, and the interleavings: any call takes its next step, or
  something else changes the database without adding or removing rows with the key.\<close>

definition key_ids :: "string \<Rightarrow> PostgresRepository \<Rightarrow> string list" where
  "key_ids key r = map (Job_ID \<circ> fst) (filter (\<lambda>row. Job_IdempotencyKey (fst row) = key) (Db_jobs (Pg_db r)))"

inductive racing ::
  "string \<Rightarrow> create_pc list \<Rightarrow> PostgresRepository \<Rightarrow> create_pc list \<Rightarrow> PostgresRepository \<Rightarrow> bool"
  for key cs0 r0 where
  start: "racing key cs0 r0 cs0 r0"
| call: "racing key cs0 r0 cs r \<Longrightarrow> i < length cs \<Longrightarrow> create_step now (cs ! i) r = (c, r') \<Longrightarrow>
    racing key cs0 r0 (cs[i := c]) r'"
| other: "racing key cs0 r0 cs r \<Longrightarrow> key_ids key r' = key_ids key r \<Longrightarrow> racing key cs0 r0 cs r'"

fun pc_ok :: "string \<Rightarrow> string list \<Rightarrow> create_pc \<Rightarrow> bool" where
  "pc_ok key ids (Lookup job) = (Job_IdempotencyKey job = key)"
| "pc_ok key ids (Fetch i) = (ids = [i])"
| "pc_ok key ids (Draw job) = (Job_IdempotencyKey job = key)"
| "pc_ok key ids (Insert job) = (Job_IdempotencyKey job = key)"
| "pc_ok key ids (Again job e) = (Job_IdempotencyKey job = key)"
| "pc_ok key ids (Returned x) = (case x of Inl _ \<Rightarrow> True | Inr j \<Rightarrow> ids = [Job_ID j])"

lemma find_key_ids:
  assumes "find_key stmt key r = Inr (Some i)" "length (key_ids key r) \<le> 1"
  shows "key_ids key r = [i]"
proof -
  have "find p xs = Some x \<Longrightarrow> filter p xs \<noteq> [] \<and> hd (filter p xs) = x" for p and xs :: "'a list" and x
    by (induction xs) (auto split: if_splits)
  then have "key_ids key r \<noteq> [] \<and> hd (key_ids key r) = i"
    using assms(1) by (fastforce simp: find_key_def query_def key_ids_def hd_map split: option.splits)
  then show ?thesis using assms(2) by (cases "key_ids key r") auto
qed

lemma create_step_keys:
  assumes "key \<noteq> []" "pc_ok key (key_ids key r) c" "length (key_ids key r) \<le> 1" "create_step now c r = (c', r')"
  shows "(key_ids key r' = key_ids key r \<or> key_ids key r = []) \<and> length (key_ids key r') \<le> 1 \<and>
    pc_ok key (key_ids key r') c'"
proof (cases c)
  case (Insert job)
  obtain x r1 where ins: "create_insert job r = (x, r1)" by force
  from ins show ?thesis
  proof (cases rule: create_insert_cases)
    case failed
    then show ?thesis using assms Insert ins by auto
  next
    case (stored t)
    then have "key_ids key r = []" using assms(1,2) Insert by (fastforce simp: key_ids_def filter_empty_conv image_iff)
    moreover have "key_ids key r1 = key_ids key r @ [Job_ID job]" using stored assms(2) Insert by (simp add: key_ids_def)
    ultimately show ?thesis using assms(4) Insert ins stored by auto
  qed
next
  case (Fetch i)
  then show ?thesis using assms by (auto simp: GetJob_Inr dest!: job_at_ID split: sum.split)
next
  case (Draw job)
  then show ?thesis using assms by (auto simp: create_prepare_def genID_def key_ids_def Let_def)
qed (use assms find_key_ids[OF _ assms(3)] in \<open>auto split: sum.splits option.splits\<close>)

lemma racing_inv:
  assumes "racing key cs0 r0 cs r" "key \<noteq> []" "length (key_ids key r0) \<le> 1" "\<forall>c \<in> set cs0. pc_ok key (key_ids key r0) c"
  shows "length (key_ids key r) \<le> 1 \<and> (\<forall>c \<in> set cs. pc_ok key (key_ids key r) c)"
  using assms
proof (induction rule: racing.induct)
  case (call cs r i now c r')
  have keep: "pc_ok key ids c" if "pc_ok key [] c" for ids c
    using that by (cases c) (auto split: sum.splits)
  note step = create_step_keys[OF call.prems(1) _ _ call.hyps(3)]
  have "pc_ok key (key_ids key r') x" if "x \<in> set (cs[i := c])" for x
    using that step call set_update_subset_insert[of cs i c] keep[of x] by (metis in_mono insertE nth_mem)
  then show ?case using step call by (metis nth_mem)
qed auto

text \<open>C18. Calls of \<open>CreateJob\<close> with one idempotency key create one job between them, however their
  statements and any other statements interleave: at every moment the table holds at most one row
  with the key, and every call that has returned a job has returned that one.\<close>

theorem concurrent_creation_once:
  assumes "key \<noteq> []" "\<forall>job \<in> set jobs. Job_IdempotencyKey job = key" "length (key_ids key r0) \<le> 1"
    and "racing key (map Lookup jobs) r0 cs r"
  shows "length (key_ids key r) \<le> 1 \<and> (\<forall>j. Returned (Inr j) \<in> set cs \<longrightarrow> key_ids key r = [Job_ID j])"
  using racing_inv[OF assms(4,1,3)] assms(2) by force

text \<open>Two calls that both look the key up before either inserts.\<close>

definition demo_key :: string where
  "demo_key = ''k''"

definition demo_repo :: PostgresRepository where
  "demo_repo = \<lparr>Pg_db = demo_db, Pg_nextID = 7, Pg_clock = 9\<rparr>"

fun race_run :: "nat list \<Rightarrow> create_pc list \<times> PostgresRepository \<Rightarrow> create_pc list \<times> PostgresRepository" where
  "race_run [] s = s"
| "race_run (i # sched) (cs, r) = (case create_step 9 (cs ! i) r of (c, r) \<Rightarrow> race_run sched (cs[i := c], r))"

lemma race_run_racing:
  "racing key cs0 r0 cs r \<Longrightarrow> list_all (\<lambda>i. i < length cs) sched \<Longrightarrow> race_run sched (cs, r) = (cs', r') \<Longrightarrow>
   racing key cs0 r0 cs' r'"
proof (induction sched arbitrary: cs r)
  case (Cons i sched)
  obtain c r1 where st: "create_step 9 (cs ! i) r = (c, r1)" by force
  have "racing key cs0 r0 (cs[i := c]) r1" using racing.call[OF Cons.prems(1) _ st] Cons.prems(2) by simp
  then show ?case using Cons.IH[of "cs[i := c]" r1] Cons.prems st by simp
qed simp

definition raced :: "create_pc list \<times> PostgresRepository" where
  "raced = race_run [0, 1, 0, 1, 0, 1, 1, 1]
     (replicate 2 (Lookup (pg_demo_job\<lparr>Job_IdempotencyKey := demo_key\<rparr>)), demo_repo)"

fun same_answer :: "create_pc list \<Rightarrow> bool" where
  "same_answer [Returned (Inr j), Returned (Inr k)] = (Job_ID j = Job_ID k)"
| "same_answer _ = False"

lemma raced_ends: "same_answer (fst raced)"
  by code_simp

theorem concurrent_creation_once_witness:
  "\<exists>j k. fst raced = [Returned (Inr j), Returned (Inr k)] \<and> Job_ID j = Job_ID k \<and>
     key_ids demo_key (snd raced) = [Job_ID j]"
proof -
  let ?jobs = "replicate 2 (pg_demo_job\<lparr>Job_IdempotencyKey := demo_key\<rparr>)"
  obtain j k where jk: "fst raced = [Returned (Inr j), Returned (Inr k)]" "Job_ID j = Job_ID k"
    using raced_ends by (cases "fst raced" rule: same_answer.cases) auto
  have "racing demo_key (map Lookup ?jobs) demo_repo (fst raced) (snd raced)"
    by (rule race_run_racing[OF racing.start, where sched = "[0, 1, 0, 1, 0, 1, 1, 1]"])
      (simp_all add: raced_def del: race_run.simps)
  moreover have "demo_key \<noteq> []" "key_ids demo_key demo_repo = []"
    by (simp_all add: demo_key_def key_ids_def demo_repo_def demo_db_def pg_demo_job_def zero_Job_def)
  ultimately show ?thesis using concurrent_creation_once[of demo_key ?jobs demo_repo] jk by auto
qed

section \<open>The choice of the next job is not a reservation\<close>


lemma demo_race:
  "select_next (Db_workers demo_db ! 0) demo_repo = Inr ''job-000007''"
  "select_next (Db_workers demo_db ! 1) demo_repo = Inr ''job-000007''"
  "\<not> isl (fst (assign_update 10 ''worker-000003'' ''job-000007'' demo_repo))"
  "\<not> isl (fst (assign_update 11 ''worker-000004'' ''job-000007''
      (snd (assign_update 10 ''worker-000003'' ''job-000007'' demo_repo))))"
  by code_simp+


section \<open>A stored job is read back\<close>

text \<open>
  What PostgreSQL documents of JSONB for an object with distinct keys: the text it returns is an object
  with the same members, in an order of its own.
\<close>

definition jsonb_keeps_members :: "Database \<Rightarrow> bool" where
  "jsonb_keeps_members db \<longleftrightarrow> (\<forall>t t' kvs. Db_jsonb db t = Inr t' \<longrightarrow> json_parse t = Inr (JObj kvs) \<longrightarrow>
     distinct (map fst kvs) \<longrightarrow> (\<exists>kvs'. json_parse t' = Inr (JObj kvs') \<and> mset kvs' = mset kvs))"

lemma decode_strings_object:
  "decode_string_map (JObj (map (apsnd JStr) ps)) None = (Some (clone_map ps), None)"
proof -
  have "foldl (\<lambda>m kv. AList.update (fst kv) (fst (decode_string (snd kv) [])) m) acc (map (apsnd JStr) ps) =
      foldl (\<lambda>out (k, v). AList.update k v out) acc ps" for acc
    by (induction ps arbitrary: acc) (auto simp: decode_string_def)
  then show ?thesis by (auto simp: decode_string_map_def clone_map_def decode_string_def list_ex_iff)
qed

lemma marshal_parse:
  assumes "\<forall>kv \<in> set m. utf8_valid (fst kv) \<and> utf8_valid (snd kv)"
  shows "json_parse (marshalStringMap m) = Inr (JObj (map (apsnd JStr) (sort_key fst m)))"
proof -
  let ?v = "JObj (map (apsnd JStr) (sort_key fst m))"
  have "foldr max (map (\<lambda>kv. jdepth (snd kv)) (map (apsnd JStr) ps)) 0 = 0" for ps :: "(string \<times> string) list"
    by (induction ps) simp_all
  then have "jdepth ?v \<le> 10000" by simp
  moreover have "jval_ok ?v" using assms by (auto simp: list_all_iff)
  moreover have "marshalStringMap m = json_print ?v"
  proof -
    have "(\<lambda>kv :: string \<times> string. (fst kv, JStr (snd kv))) = apsnd JStr" by (simp add: fun_eq_iff)
    then show ?thesis by (simp add: marshalStringMap_def)
  qed
  ultimately show ?thesis using json_parse_print by metis
qed

lemma params_read_back:
  assumes "map_ok m" "\<forall>kv \<in> set m. utf8_valid (fst kv) \<and> utf8_valid (snd kv)"
    and "jsonb_keeps_members db" "Db_jsonb db (marshalStringMap m) = Inr t"
  obtains m' where "row_params t = Inr m'" "map_of m' = map_of m"
proof -
  let ?kvs = "map (apsnd JStr) (sort_key fst m)"
  have "distinct (map fst ?kvs)"
    using assms(1) by (simp add: map_ok_def comp_def distinct_map)
  then obtain kvs where kvs: "json_parse t = Inr (JObj kvs)" "mset kvs = mset ?kvs"
    using assms(3,4) marshal_parse[OF assms(2)] unfolding jsonb_keeps_members_def by blast
  define plain where "plain kv = (fst kv, case snd kv of JStr v \<Rightarrow> v | _ \<Rightarrow> [])" for kv :: "string \<times> jval"
  let ?ps = "map plain kvs"
  have inv: "plain (apsnd JStr x) = x" for x by (simp add: plain_def)
  have ps: "kvs = map (apsnd JStr) ?ps" "mset ?ps = mset m"
  proof -
    have "set kvs = set ?kvs" using kvs(2) by (rule mset_eq_setD)
    then show "kvs = map (apsnd JStr) ?ps" using inv by (auto intro!: map_idI[symmetric])
    show "mset ?ps = mset m" using kvs(2) by (simp add: image_mset.compositionality comp_def inv)
  qed
  have "unmarshalStringMap t = Inr (clone_map ?ps)"
  proof -
    have "decode_string_map (JObj kvs) None = (Some (clone_map ?ps), None)"
      using decode_strings_object[of ?ps] ps(1) by simp
    then show ?thesis using kvs(1) by (simp add: unmarshalStringMap_def)
  qed
  moreover have "t \<noteq> []"
    using kvs(1) by (auto simp: json_parse_def skip_ws_def)
  moreover have "map_of (clone_map ?ps) = map_of m"
  proof
    fix k
    show "map_of (clone_map ?ps) k = map_of m k"
      using map_of_clone[OF map_ok_perm[OF assms(1) ps(2)[symmetric]]] map_of_perm[OF assms(1) ps(2)[symmetric]] by simp
  qed
  ultimately show ?thesis using that by (simp add: row_params_def wrapped_def)
qed


definition stored_demo :: "Job res \<times> PostgresRepository" where
  "stored_demo = Pg_CreateJob 9 (pg_demo_job\<lparr>Job_Parameters := [(''a'', ''x''), (''b'', ''y'')]\<rparr>) demo_repo"

lemma stored_demo_ok: "\<not> isl (fst stored_demo)"
  by code_simp


end
