(* ===== verification/Runner.thy ===== *)
theory Runner
  imports Services
begin

text \<open>
  \<open>internal/infrastructure/worker/runner.go\<close>: local authorisation and execution of a job on a worker.
  The shell is a parameter: a function from the command line and the timeout that returns how the
  process ended and may change the state \<open>'w\<close> of the host.
\<close>

section \<open>The runner\<close>

definition defaultBlockedTools :: "(string, bool) gomap" where
  "defaultBlockedTools = map (\<lambda>t. (t, True))
     [''rm'', ''dd'', ''mkfs'', ''fdisk'', ''shutdown'', ''reboot'', ''halt'', ''poweroff'',
      ''kill'', ''killall'', ''pkill'', ''chmod'', ''chown'', ''passwd'', ''useradd'', ''userdel'',
      ''groupadd'', ''iptables'', ''ip6tables'']"

record Runner =
  Runner_workerType :: string
  Runner_execTimeout :: Duration
  Runner_serviceConfigPath :: string
  Runner_serviceCatalog :: "ServiceCatalog option"
  Runner_blockedTools :: "(string, bool) gomap"

definition NewRunner :: "string \<Rightarrow> Runner" where
  "NewRunner workerType = \<lparr>Runner_workerType = workerType, Runner_execTimeout = 30 * Second,
     Runner_serviceConfigPath = DefaultServicesConfigPath, Runner_serviceCatalog = None,
     Runner_blockedTools = defaultBlockedTools\<rparr>"

definition SetExecTimeout :: "Duration \<Rightarrow> Runner \<Rightarrow> Runner" where
  "SetExecTimeout d r = r\<lparr>Runner_execTimeout := d\<rparr>"

definition SetServicesConfigPath :: "string \<Rightarrow> Runner \<Rightarrow> Runner" where
  "SetServicesConfigPath path r =
     (if TrimSpace path \<noteq> [] then r\<lparr>Runner_serviceConfigPath := path\<rparr> else r)"

text \<open>\<open>None\<close> is the nil map.\<close>

definition SetBlockedTools :: "(string, bool) gomap option \<Rightarrow> Runner \<Rightarrow> Runner" where
  "SetBlockedTools blocked r =
     (case blocked of None \<Rightarrow> r | Some b \<Rightarrow> r\<lparr>Runner_blockedTools := b\<rparr>)"

definition Runner_Load :: "file_system \<Rightarrow> Runner \<Rightarrow> unit res \<times> Runner" where
  "Runner_Load fs r =
     (case LoadServiceCatalog fs (Runner_serviceConfigPath r) of
        Inl e \<Rightarrow> (Inl (''load services config: '' @ e), r)
      | Inr catalog \<Rightarrow> (Inr (), r\<lparr>Runner_serviceCatalog := Some catalog\<rparr>))"

section \<open>Authorisation\<close>

definition preauthorized_sources :: "string list" where
  "preauthorized_sources = [''agent'', ''template'', ''yaml_job'', ''manual_job'', ''manual_dispatch'']"

definition blocked :: "(string, bool) gomap \<Rightarrow> string \<Rightarrow> bool" where
  "blocked m tool = (case map_of m tool of None \<Rightarrow> False | Some b \<Rightarrow> b)"

definition Authorize :: "Runner \<Rightarrow> Job \<Rightarrow> unit res" where
  "Authorize r job =
     (let workerType = NormalizeWorkerType (Runner_workerType r)
      in if \<not> WorkerCanRunType workerType (Job_WorkerType job)
         then Inl (''worker type '' @ quoted (Runner_workerType r) @ '' cannot run job type '' @
                quoted (Job_WorkerType job))
         else if TrimSpace (Job_Command job) = [] then Inl ''job has no command to execute''
         else if Job_SourceType job \<in> set preauthorized_sources then Inr ()
         else if Job_SourceType job = ''agent_shell''
         then (let tool = hd (Split (TrimSpace (Job_Command job)) (CHR '' ''))
               in if blocked (Runner_blockedTools r) tool then Inl (''blocked tool: '' @ tool) else Inr ())
         else Inl (''unknown job source type: '' @ Job_SourceType job))"

section \<open>Execution\<close>

text \<open>How a started process ends: it could not be started, it ended (output, whether \<open>Wait\<close> returned
  an error, exit code), or the timeout came first.\<close>

datatype shell_outcome =
    Sh_start_error string
  | Sh_exited string bool int
  | Sh_timeout

type_synonym 'w shell = "string \<Rightarrow> Duration \<Rightarrow> 'w \<Rightarrow> shell_outcome \<times> 'w"

definition executeShellCommand :: "'w shell \<Rightarrow> Runner \<Rightarrow> string \<Rightarrow> 'w \<Rightarrow> (bool \<times> string) \<times> 'w" where
  "executeShellCommand sh r cmd w =
     (case sh cmd (Runner_execTimeout r) w of
        (Sh_start_error e, w) \<Rightarrow> ((False, e), w)
      | (Sh_exited output err code, w) \<Rightarrow> (if err then ((False, output), w) else ((code = 0, output), w))
      | (Sh_timeout, w) \<Rightarrow>
          ((False, ''command timed out after '' @ Duration_String (Runner_execTimeout r)), w))"

definition worker_cloneStringMap :: "(string, string) gomap \<Rightarrow> (string, string) gomap" where
  "worker_cloneStringMap m = (if length m = 0 then [] else clone_map m)"

definition set_if :: "string \<Rightarrow> string \<Rightarrow> (string, string) gomap \<Rightarrow> (string, string) gomap" where
  "set_if k v p = (if v \<noteq> [] then AList.update k v p else p)"

definition resolveServiceProfile ::
  "Runner \<Rightarrow> (string, string) gomap \<Rightarrow> ((string, string) gomap \<times> RuntimeServiceProfile option) res" where
  "resolveServiceProfile r params =
     (let p = worker_cloneStringMap params;
          name = TrimSpace (param p ''ServiceProfile'')
      in if name = [] then Inr (p, None)
         else case Runner_serviceCatalog r of
             None \<Rightarrow> Inl ''services config is not loaded''
           | Some catalog \<Rightarrow>
               let serviceType = ToLower (TrimSpace (param p ''ServiceType''))
               in if serviceType = [] then Inl ''ServiceType is required when ServiceProfile is set''
                  else case Resolve catalog name serviceType of
                      Inl e \<Rightarrow> Inl e
                    | Inr profile \<Rightarrow>
                        let p = set_if ''Host'' (Profile_Host profile) p;
                            p = set_if ''Port'' (Profile_Port profile) p;
                            p = set_if ''User'' (Profile_User profile) p;
                            p = set_if ''URL'' (Profile_URL profile) p;
                            p = set_if ''ProcessName'' (Profile_Process profile)
                                  (set_if ''Process'' (Profile_Process profile) p);
                            p = set_if ''LogFile'' (Profile_LogFile profile) p;
                            p = set_if ''Unit'' (Profile_Unit profile) p
                        in Inr (p, Some profile))"

definition placeholder :: "string \<Rightarrow> string" where
  "placeholder k = ''{{.'' @ k @ ''}}''"

fun substituteParams :: "string \<Rightarrow> (string, string) gomap \<Rightarrow> string" where
  "substituteParams cmd [] = cmd"
| "substituteParams cmd ((k, v) # params) = substituteParams (ReplaceAll cmd (placeholder k) v) params"

definition Execute :: "'w shell \<Rightarrow> Runner \<Rightarrow> Job \<Rightarrow> 'w \<Rightarrow> (bool \<times> string) \<times> 'w" where
  "Execute sh r job w =
     (case Authorize r job of
        Inl e \<Rightarrow> ((False, ''authorization denied: '' @ e), w)
      | Inr _ \<Rightarrow>
          let cmd = TrimSpace (Job_Command job)
          in if cmd = [] then ((False, ''job has no command to execute''), w)
             else case resolveServiceProfile r (Job_Parameters job) of
                 Inl e \<Rightarrow> ((False, ''service profile: '' @ e), w)
               | Inr (params, _) \<Rightarrow> executeShellCommand sh r (substituteParams cmd params) w)"

section \<open>Lemmas\<close>

lemma NormalizeWorkerType_idem [simp]: "NormalizeWorkerType (NormalizeWorkerType t) = NormalizeWorkerType t"
  by (simp add: NormalizeWorkerType_def TrimSpace_ToLower_TrimSpace)

lemma WorkerCanRunType_normalized [simp]: "WorkerCanRunType (NormalizeWorkerType t) u = WorkerCanRunType t u"
  by (simp add: WorkerCanRunType_def)

lemma Authorize_command: "Authorize r job = Inr u \<Longrightarrow> TrimSpace (Job_Command job) \<noteq> []"
  by (auto simp: Authorize_def Let_def split: if_splits)

lemma ReplaceAll_placeholder: "\<not> Contains cmd ''{{.'' \<Longrightarrow> ReplaceAll cmd (placeholder k) v = cmd"
proof (rule ReplaceAll_absent)
  assume "\<not> Contains cmd ''{{.''"
  then show "\<not> Contains cmd (placeholder k)"
    unfolding Contains_iff placeholder_def by (metis append.assoc)
qed

lemma substituteParams_none: "\<not> Contains cmd ''{{.'' \<Longrightarrow> substituteParams cmd ps = cmd"
  by (induction ps) (auto simp: ReplaceAll_placeholder)

text \<open>The same runner with every password of its catalogue erased.\<close>

definition erase_passwords :: "Runner \<Rightarrow> Runner" where
  "erase_passwords r = r\<lparr>Runner_serviceCatalog := map_option
     (\<lambda>c. c\<lparr>Catalog_profiles := map (\<lambda>(k, p). (k, p\<lparr>Profile_Password := []\<rparr>)) (Catalog_profiles c)\<rparr>)
     (Runner_serviceCatalog r)\<rparr>"

lemma Resolve_erased:
  "Resolve (c\<lparr>Catalog_profiles := map (\<lambda>(k, p). (k, p\<lparr>Profile_Password := []\<rparr>)) (Catalog_profiles c)\<rparr>) n t =
   map_sum id (\<lambda>p. p\<lparr>Profile_Password := []\<rparr>) (Resolve c n t)"
proof -
  have "map_of (map (\<lambda>(k, p). (k, p\<lparr>Profile_Password := []\<rparr>)) m) n =
      map_option (\<lambda>p. p\<lparr>Profile_Password := []\<rparr>) (map_of m n)" for m :: "(string \<times> RuntimeServiceProfile) list"
    by (induction m) auto
  then show ?thesis by (auto simp: Resolve_def split: option.splits)
qed

lemma resolveServiceProfile_erased:
  "map_sum id fst (resolveServiceProfile (erase_passwords r) ps) = map_sum id fst (resolveServiceProfile r ps)"
  by (auto simp: resolveServiceProfile_def erase_passwords_def Resolve_erased Let_def
      split: option.splits sum.splits)

section \<open>Properties\<close>


text \<open>Nothing reaches the shell unless it was authorised: a refused job, or one whose service profile
  does not resolve, fails with the reason and leaves the host as it was, for every shell; an accepted
  job runs exactly one command line, its own command with the resolved parameters filled in.\<close>

lemma Execute_authorised:
  "Execute sh r job w =
     (case Authorize r job of
        Inl e \<Rightarrow> ((False, ''authorization denied: '' @ e), w)
      | Inr _ \<Rightarrow> (case resolveServiceProfile r (Job_Parameters job) of
          Inl e \<Rightarrow> ((False, ''service profile: '' @ e), w)
        | Inr (ps, _) \<Rightarrow>
            executeShellCommand sh r (substituteParams (TrimSpace (Job_Command job)) ps) w))"
  by (auto simp: Execute_def Let_def dest: Authorize_command split: sum.splits)

text \<open>The passwords of the worker-local catalogue never flow into a job: with all of them erased,
  every job has the same result, the same command line and the same effect on the host, whatever the
  shell does.\<close>

lemma Execute_ignores_passwords: "Execute sh (erase_passwords r) job w = Execute sh r job w"
proof -
  have a: "Authorize (erase_passwords r) job = Authorize r job"
    by (simp add: Authorize_def erase_passwords_def)
  have e: "executeShellCommand sh (erase_passwords r) = executeShellCommand sh r"
  proof -
    have t: "Runner_execTimeout (erase_passwords r) = Runner_execTimeout r"
      by (simp add: erase_passwords_def)
    show ?thesis unfolding fun_eq_iff executeShellCommand_def t by simp
  qed
  show ?thesis
    using resolveServiceProfile_erased[of r "Job_Parameters job"]
    by (auto simp: Execute_def a e Let_def split: sum.splits)
qed

text \<open>A process that does not end in time, or that ends with an error, is never reported as a
  success: \<open>Execute\<close> reports success only if the shell ended by itself with exit code 0.\<close>

lemma Execute_success:
  assumes "Execute sh r job w = ((True, out), w')"
  shows "\<exists>cmd. sh cmd (Runner_execTimeout r) w = (Sh_exited out False 0, w')"
  using assms
  by (auto simp: Execute_def executeShellCommand_def Let_def
      split: sum.splits if_splits shell_outcome.splits prod.splits)

definition sample_job :: Job where
  "sample_job = zero_Job\<lparr>Job_ID := ''job-000001'', Job_WorkerType := ''host'',
     Job_Command := ''df -h {{.Path}}'', Job_SourceType := ''template'', Job_Parameters := [(''Path'', ''/var'')]\<rparr>"

definition echo_shell :: "string list shell" where
  "echo_shell cmd d w = (Sh_exited cmd False 0, w @ [cmd])"

theorem Execute_success_witness:
  "Execute echo_shell (NewRunner ''host'') sample_job [] = ((True, ''df -h /var''), [''df -h /var'']) \<and>
   (\<exists>cmd. echo_shell cmd (Runner_execTimeout (NewRunner ''host'')) [] =
      (Sh_exited ''df -h /var'' False 0, [''df -h /var'']))"
proof -
  have run: "Execute echo_shell (NewRunner ''host'') sample_job [] = ((True, ''df -h /var''), [''df -h /var''])"
    by code_simp
  show ?thesis using run Execute_success[OF run] by blast
qed

text \<open>Substitution depends on the iteration order of the parameter map when a value holds a
  placeholder itself: the same job yields two different command lines. Without placeholders in the
  command the parameters have no effect.\<close>

lemma substituteParams_order:
  "substituteParams ''echo {{.A}}'' [(''A'', ''{{.B}}''), (''B'', ''x'')] = ''echo x'' \<and>
   substituteParams ''echo {{.A}}'' [(''B'', ''x''), (''A'', ''{{.B}}'')] = ''echo {{.B}}'' \<and>
   substituteParams ''uptime'' ps = ''uptime''"
proof (intro conjI)
  show "substituteParams ''uptime'' ps = ''uptime''"
    by (rule substituteParams_none) code_simp
qed code_simp+

end
