(* ===== verification/Worker_Client.thy ===== *)
theory Worker_Client
  imports Runner Hub
begin

text \<open>
  \<open>internal/infrastructure/worker/client.go\<close>: the worker process. It keeps a runner, receives the
  messages of the server stream and answers them. A job message starts a goroutine; the model keeps
  the jobs of the goroutines that have not finished (\<open>Client\_pending\<close>) and lets each finish at any
  later time, with the runner that is current then. The HTTP client of \<open>postJSON\<close> and the reading of
  \<open>/proc\<close> are outside the model.
\<close>

section \<open>The client\<close>

record Client =
  Client_serverURL :: string
  Client_grpcServerAddr :: string
  Client_workerToken :: string
  Client_name :: string
  Client_workerType :: string
  Client_pollInterval :: Duration
  Client_registeredID :: string
  Client_execTimeout :: Duration
  Client_hostCollectInterval :: Duration
  Client_logToDB :: bool
  Client_serviceConfigPath :: string
  Client_runner :: Runner
  Client_pending :: "Job list"

definition trim_right_slashes :: "string \<Rightarrow> string" where
  "trim_right_slashes s = rev (dropWhile (\<lambda>c. c = CHR ''/'') (rev s))"

definition NewClient :: "string \<Rightarrow> string \<Rightarrow> string \<Rightarrow> string \<Rightarrow> Duration \<Rightarrow> Client" where
  "NewClient serverURL workerToken name workerType pollInterval =
     \<lparr>Client_serverURL = trim_right_slashes serverURL, Client_grpcServerAddr = ''127.0.0.1:9090'',
      Client_workerToken = workerToken, Client_name = name, Client_workerType = workerType,
      Client_pollInterval = pollInterval, Client_registeredID = [],
      Client_execTimeout = 30 * Second, Client_hostCollectInterval = 60 * Second,
      Client_logToDB = False, Client_serviceConfigPath = DefaultServicesConfigPath,
      Client_runner = NewRunner workerType, Client_pending = []\<rparr>"

definition Client_SetExecTimeout :: "Duration \<Rightarrow> Client \<Rightarrow> Client" where
  "Client_SetExecTimeout d c =
     c\<lparr>Client_execTimeout := d, Client_runner := SetExecTimeout d (Client_runner c)\<rparr>"

definition SetGRPCServerAddr :: "string \<Rightarrow> Client \<Rightarrow> Client" where
  "SetGRPCServerAddr addr c =
     (let addr = TrimSpace addr in if addr \<noteq> [] then c\<lparr>Client_grpcServerAddr := addr\<rparr> else c)"

definition Client_SetServicesConfigPath :: "string \<Rightarrow> Client \<Rightarrow> Client" where
  "Client_SetServicesConfigPath path c =
     (if TrimSpace path \<noteq> []
      then c\<lparr>Client_serviceConfigPath := path,
             Client_runner := SetServicesConfigPath path (Client_runner c)\<rparr>
      else c)"

definition restartRunner :: "file_system \<Rightarrow> Client \<Rightarrow> unit res \<times> Client" where
  "restartRunner fs c =
     (let runner = NewRunner (Client_workerType c);
          runner = SetExecTimeout (Client_execTimeout c) runner;
          runner = SetServicesConfigPath (Client_serviceConfigPath c) runner
      in case Runner_Load fs runner of
           (Inl e, _) \<Rightarrow> (Inl e, c)
         | (Inr _, runner) \<Rightarrow> (Inr (), c\<lparr>Client_runner := runner\<rparr>))"

section \<open>Messages\<close>

definition protoJobToModel :: "PbJob option \<Rightarrow> Job" where
  "protoJobToModel job =
     (case job of
        None \<Rightarrow> zero_Job
      | Some j \<Rightarrow> zero_Job\<lparr>Job_ID := PbJob_Id j, Job_Name := PbJob_Name j,
          Job_WorkerType := PbJob_WorkerType j, Job_Command := PbJob_Command j,
          Job_TemplateCode := PbJob_TemplateCode j,
          Job_Parameters := worker_cloneStringMap (PbJob_Parameters j),
          Job_SourceType := PbJob_SourceType j\<rparr>)"

definition register_message :: "Client \<Rightarrow> WorkerEnvelope" where
  "register_message c = WorkerEnvelope_Register (Client_name c) (Client_workerType c)"

text \<open>The answer to the registration, the first message received.\<close>

definition on_registered :: "ServerEnvelope \<Rightarrow> Client \<Rightarrow> Client option" where
  "on_registered msg c =
     (case msg of ServerEnvelope_Registered wid name ty \<Rightarrow> Some (c\<lparr>Client_registeredID := wid\<rparr>)
      | _ \<Rightarrow> None)"

definition heartbeatEnvelope :: "HostInfo \<Rightarrow> Client \<Rightarrow> WorkerEnvelope" where
  "heartbeatEnvelope info c = WorkerEnvelope_Heartbeat (Client_registeredID c) (Some info)"

definition commandAck :: "string \<Rightarrow> bool \<Rightarrow> Client \<Rightarrow> WorkerEnvelope" where
  "commandAck command success c = WorkerEnvelope_CommandAck (Client_registeredID c) command success"

datatype after_message = Keep_running | Leave_stream | Exit_process

definition handleCommand ::
  "file_system \<Rightarrow> string \<Rightarrow> Client \<Rightarrow> after_message \<times> WorkerEnvelope list \<times> Client" where
  "handleCommand fs command c =
     (if command = ''stop'' then (Leave_stream, [commandAck command True c], c)
      else if command = ''restart''
      then (case restartRunner fs c of
              (Inl e, c) \<Rightarrow> (Keep_running, [commandAck command False c], c)
            | (Inr _, c) \<Rightarrow> (Keep_running, [commandAck command True c], c))
      else if command = ''force_stop'' then (Exit_process, [commandAck command True c], c)
      else (Keep_running, [], c))"

definition client_message ::
  "file_system \<Rightarrow> ServerEnvelope \<Rightarrow> Client \<Rightarrow> after_message \<times> WorkerEnvelope list \<times> Client" where
  "client_message fs msg c =
     (case msg of
        ServerEnvelope_Job j \<Rightarrow>
          (Keep_running, [], c\<lparr>Client_pending := Client_pending c @ [protoJobToModel j]\<rparr>)
      | ServerEnvelope_Command command \<Rightarrow> handleCommand fs command c
      | ServerEnvelope_Error e \<Rightarrow> (Keep_running, [], c)
      | _ \<Rightarrow> (Keep_running, [], c))"

definition executeJobLocally :: "'w shell \<Rightarrow> Job \<Rightarrow> Client \<Rightarrow> 'w \<Rightarrow> (bool \<times> string) \<times> 'w" where
  "executeJobLocally sh job c w = Execute sh (Client_runner c) job w"

definition authorizeJob :: "Job \<Rightarrow> Client \<Rightarrow> unit res" where
  "authorizeJob job c = Authorize (Client_runner c) job"

text \<open>The \<open>i\<close>-th unfinished goroutine runs its job and sends the result.\<close>

definition finish_job :: "'w shell \<Rightarrow> nat \<Rightarrow> Client \<Rightarrow> 'w \<Rightarrow> WorkerEnvelope list \<times> Client \<times> 'w" where
  "finish_job sh i c w =
     (if i < length (Client_pending c)
      then let job = Client_pending c ! i
           in case executeJobLocally sh job c w of ((success, output), w) \<Rightarrow>
              ([WorkerEnvelope_JobResult
                 \<lparr>PbJobResult_WorkerId = Client_registeredID c, PbJobResult_JobId = Job_ID job,
                  PbJobResult_Command = Job_Command job, PbJobResult_Success = success,
                  PbJobResult_Output = output, PbJobResult_LogToDb = Client_logToDB c\<rparr>],
               c\<lparr>Client_pending := take i (Client_pending c) @ drop (Suc i) (Client_pending c)\<rparr>, w)
      else ([], c, w))"

section \<open>A run of the worker\<close>

text \<open>
  States of the worker process with what it received and sent so far. The stream ends with
  \<open>Leave_stream\<close> and the process with \<open>Exit_process\<close>; only \<open>Keep_running\<close> continues.
\<close>

inductive worker_run ::
  "file_system \<Rightarrow> 'w shell \<Rightarrow> Client \<Rightarrow> 'w \<Rightarrow> ServerEnvelope list \<Rightarrow> WorkerEnvelope list \<Rightarrow> bool"
  for fs sh where
  worker_start: "Client_pending c = [] \<Longrightarrow> worker_run fs sh c w [] []"
| worker_message: "worker_run fs sh c w ins outs \<Longrightarrow> client_message fs m c = (Keep_running, acks, c') \<Longrightarrow>
    worker_run fs sh c' w (ins @ [m]) (outs @ acks)"
| worker_finish: "worker_run fs sh c w ins outs \<Longrightarrow> finish_job sh i c w = (sent, c', w') \<Longrightarrow>
    worker_run fs sh c' w' ins (outs @ sent)"
| worker_heartbeat: "worker_run fs sh c w ins outs \<Longrightarrow>
    worker_run fs sh c w ins (outs @ [heartbeatEnvelope info c])"

fun job_of_message :: "ServerEnvelope \<Rightarrow> string list" where
  "job_of_message (ServerEnvelope_Job j) = [Job_ID (protoJobToModel j)]"
| "job_of_message m = []"

fun job_of_result :: "WorkerEnvelope \<Rightarrow> string list" where
  "job_of_result (WorkerEnvelope_JobResult res) = [PbJobResult_JobId res]"
| "job_of_result m = []"

definition jobs_received :: "ServerEnvelope list \<Rightarrow> string list" where
  "jobs_received ins = concat (map job_of_message ins)"

definition jobs_reported :: "WorkerEnvelope list \<Rightarrow> string list" where
  "jobs_reported outs = concat (map job_of_result outs)"

lemma handleCommand_pending:
  "handleCommand fs cmd c = (a, acks, c') \<Longrightarrow> Client_pending c' = Client_pending c \<and> jobs_reported acks = []"
  by (auto simp: handleCommand_def restartRunner_def commandAck_def jobs_reported_def Let_def
      split: if_splits prod.splits sum.splits)

lemma client_message_pending:
  "client_message fs m c = (a, acks, c') \<Longrightarrow>
   map Job_ID (Client_pending c') = map Job_ID (Client_pending c) @ job_of_message m \<and> jobs_reported acks = []"
  by (cases m) (auto simp: client_message_def jobs_reported_def[of "[]"] dest: handleCommand_pending)

lemma finish_job_pending:
  "finish_job sh i c w = (sent, c', w') \<Longrightarrow>
   mset (map Job_ID (Client_pending c)) = mset (map Job_ID (Client_pending c')) + mset (jobs_reported sent)"
proof (cases "i < length (Client_pending c)")
  case True
  assume f: "finish_job sh i c w = (sent, c', w')"
  have "Client_pending c = take i (Client_pending c) @ Client_pending c ! i # drop (Suc i) (Client_pending c)"
    using True by (rule id_take_nth_drop)
  then have "mset (map Job_ID (Client_pending c)) =
      add_mset (Job_ID (Client_pending c ! i))
        (mset (map Job_ID (take i (Client_pending c) @ drop (Suc i) (Client_pending c))))"
    by (metis mset.simps(2) mset_append union_mset_add_mset_right map_append list.simps(9))
  then show ?thesis
    using f True by (auto simp: finish_job_def Let_def jobs_reported_def split: prod.splits)
next
  case False
  assume "finish_job sh i c w = (sent, c', w')"
  then show ?thesis using False by (auto simp: finish_job_def jobs_reported_def)
qed

lemma worker_run_accounts:
  "worker_run fs sh c w ins outs \<Longrightarrow>
   mset (jobs_received ins) = mset (jobs_reported outs) + mset (map Job_ID (Client_pending c))"
proof (induction rule: worker_run.induct)
  case (worker_start c w)
  then show ?case by (simp add: jobs_received_def jobs_reported_def)
next
  case (worker_message c w ins outs m acks c')
  then show ?case
    using client_message_pending[OF worker_message.hyps(2)]
    by (simp add: jobs_received_def jobs_reported_def)
next
  case (worker_finish c w ins outs i sent c' w')
  then show ?case
    using finish_job_pending[OF worker_finish.hyps(2)] by (simp add: jobs_reported_def)
next
  case (worker_heartbeat c w ins outs info)
  then show ?case by (simp add: jobs_reported_def heartbeatEnvelope_def)
qed

lemma clones:
  assumes "map_ok m"
  shows "map_of (worker_cloneStringMap m) k = map_of m k" "map_of (stream_cloneStringMap m) k = map_of m k"
  using map_of_clone[OF assms, of k] by (auto simp: worker_cloneStringMap_def stream_cloneStringMap_def)

lemma stream_clone_ok: "map_ok (stream_cloneStringMap m)"
  by (simp add: stream_cloneStringMap_def)

section \<open>Properties\<close>



text \<open>The wire keeps what the worker needs: the job a worker decodes from the message the server
  encoded has the same identifier, name, type, command, template and source, and the same value for
  every parameter.\<close>

lemma job_wire_roundtrip:
  assumes "map_ok (Job_Parameters job)"
  shows "let job' = protoJobToModel (Some (jobToProto job))
    in (Job_ID job', Job_Name job', Job_WorkerType job', Job_Command job', Job_TemplateCode job', Job_SourceType job') =
       (Job_ID job, Job_Name job, Job_WorkerType job, Job_Command job, Job_TemplateCode job, Job_SourceType job) \<and>
       map_of (Job_Parameters job') k = map_of (Job_Parameters job) k"
  using assms clones[OF assms] clones(1)[OF stream_clone_ok] by (simp add: protoJobToModel_def jobToProto_def Let_def)

theorem job_wire_roundtrip_witness:
  "map_of (Job_Parameters (protoJobToModel (Some (jobToProto sample_job)))) ''Path'' =
   map_of (Job_Parameters sample_job) ''Path''"
proof -
  have "map_ok (Job_Parameters sample_job)" by (simp add: sample_job_def map_ok_def)
  from job_wire_roundtrip[OF this, of "''Path''"] show ?thesis by (simp add: Let_def)
qed

text \<open>A restart that cannot load the services file is harmless: the worker answers that it failed and
  keeps its runner and all its state; a successful restart replaces only the runner.\<close>

lemma failed_restart_keeps_runner:
  "case handleCommand fs ''restart'' c of (next, acks, c') \<Rightarrow>
     next = Keep_running \<and> c'\<lparr>Client_runner := Client_runner c\<rparr> = c \<and>
     (acks = [commandAck ''restart'' (fst (restartRunner fs c) = Inr ()) c]) \<and>
     (fst (restartRunner fs c) = Inr () \<or> c' = c)"
  by (auto simp: handleCommand_def restartRunner_def commandAck_def Let_def split: prod.splits sum.splits)

end
