(* ===== verification/Worker_Process.thy ===== *)
theory Worker_Process
  imports Worker_Client Stream_Service Json
begin

text \<open>
  The rest of \<open>internal/infrastructure/worker/client.go\<close>, and \<open>CollectHostInfo\<close> of \<open>runner.go\<close>: the
  worker process from its start to its end. \<open>Run\<close> loads the runner and opens streams until one ends without an
  error; \<open>runGRPCStream\<close> dials, registers, and then receives messages while goroutines send heartbeats and results.
  The transport is a parameter, and the interleaving of the goroutines with the receive loop is a list of events.
  The last section joins the two ends of the stream.
\<close>

section \<open>Settings\<close>

definition NewAgent :: "string \<Rightarrow> string \<Rightarrow> string \<Rightarrow> string \<Rightarrow> Duration \<Rightarrow> Client" where
  "NewAgent serverURL workerToken name workerType pollInterval =
     NewClient serverURL workerToken name workerType pollInterval"

definition SetHostCollectInterval :: "Duration \<Rightarrow> Client \<Rightarrow> Client" where
  "SetHostCollectInterval d c = c\<lparr>Client_hostCollectInterval := d\<rparr>"

definition SetLogToDB :: "bool \<Rightarrow> Client \<Rightarrow> Client" where
  "SetLogToDB enabled c = c\<lparr>Client_logToDB := enabled\<rparr>"

section \<open>Host information\<close>

text \<open>\<open>fmt.Sscanf\<close> with the verb \<open>%f\<close> on a decimal number: an optional sign, digits and an optional fraction; what
  follows is ignored. The other notations of Go (exponents, hexadecimal, infinities) do not occur in
  \<open>/proc/stat\<close> and are not modelled.\<close>

definition Sscanf_f :: "string \<Rightarrow> float64 option" where
  "Sscanf_f s =
     (let neg = (s \<noteq> [] \<and> hd s = CHR ''-'');
          s = (if s \<noteq> [] \<and> (hd s = CHR ''-'' \<or> hd s = CHR ''+'') then tl s else s);
          whole = fst (digits s); rest = snd (digits s);
          frac = (if rest \<noteq> [] \<and> hd rest = CHR ''.'' then fst (digits (tl rest)) else []);
          v = of_nat (undec (whole @ frac)) / 10 ^ length frac
      in if whole @ frac = [] then None else Some (if neg then - v else v))"

text \<open>The fields after the label: their sum and the one at index 3.\<close>

fun cpu_fields :: "nat \<Rightarrow> string list \<Rightarrow> float64 \<Rightarrow> float64 \<Rightarrow> (float64 \<times> float64) option" where
  "cpu_fields i [] tot idle = Some (tot, idle)"
| "cpu_fields i (f # fs) tot idle =
     (case Sscanf_f f of
        None \<Rightarrow> None
      | Some v \<Rightarrow> cpu_fields (Suc i) fs (tot + v) (if i = 3 then v else idle))"

fun cpu_lines :: "string list \<Rightarrow> float64" where
  "cpu_lines [] = 0"
| "cpu_lines (line # lines) =
     (if \<not> HasPrefix line ''cpu '' then cpu_lines lines
      else let fields = Fields line
        in if length fields < 5 then 0
           else case cpu_fields 0 (tl fields) 0 0 of
               None \<Rightarrow> 0
             | Some (tot, idle) \<Rightarrow> if tot > 0 then (1 - idle / tot) * 100 else cpu_lines lines)"

text \<open>\<open>stat\<close> is the content of \<open>/proc/stat\<close>.\<close>

definition readCPUUsage :: "string res \<Rightarrow> float64" where
  "readCPUUsage stat =
     (case stat of Inl e \<Rightarrow> 0 | Inr data \<Rightarrow> cpu_lines (Split data (CHR 0x0A)))"

record Statfs_t =
  Statfs_Blocks :: "64 word"
  Statfs_Bfree :: "64 word"
  Statfs_Bsize :: "64 word"

definition readDiskUsage :: "Statfs_t res \<Rightarrow> float64" where
  "readDiskUsage statfs =
     (case statfs of
        Inl e \<Rightarrow> 0
      | Inr stat \<Rightarrow>
          let total = Statfs_Blocks stat * Statfs_Bsize stat;
              free = Statfs_Bfree stat * Statfs_Bsize stat
          in if total > 0 then of_nat (unat (total - free)) / of_nat (unat total) * 100 else 0)"

text \<open>What the operating system answers: the host name, the local address of a UDP socket (\<open>None\<close> when there is
  none), \<open>/proc/stat\<close> and the root file system.\<close>

record Host =
  Host_Hostname :: "string res"
  Host_UDPAddr :: "string option"
  Host_stat :: "string res"
  Host_statfs :: "Statfs_t res"

definition CollectHostInfo :: "Host \<Rightarrow> HostInfo" where
  "CollectHostInfo h =
     (let info = zero_HostInfo;
          info = (case Host_Hostname h of Inr n \<Rightarrow> info\<lparr>HostInfo_Hostname := n\<rparr> | Inl e \<Rightarrow> info);
          info = (case Host_UDPAddr h of Some a \<Rightarrow> info\<lparr>HostInfo_IPAddress := a\<rparr> | None \<Rightarrow> info)
      in info\<lparr>HostInfo_CPUUsage := readCPUUsage (Host_stat h), HostInfo_StorageUsage := readDiskUsage (Host_statfs h)\<rparr>)"

section \<open>Reporting over HTTP\<close>

text \<open>The HTTP client: method, URL, headers and body; an error where the request cannot be built or sent.\<close>

type_synonym 'n http_client = "string \<Rightarrow> string \<Rightarrow> (string \<times> string) list \<Rightarrow> string \<Rightarrow> 'n \<Rightarrow> (nat \<times> string) res \<times> 'n"

definition api_error :: "string \<Rightarrow> string" where
  "api_error body =
     (case json_value (2 * length body + 2) 10000 body of
        None \<Rightarrow> []
      | Some (v, _) \<Rightarrow>
          (case fst (decode_string_map v None) of
             None \<Rightarrow> []
           | Some m \<Rightarrow> (case map_of m ''error'' of Some e \<Rightarrow> e | None \<Rightarrow> [])))"

text \<open>\<open>target\<close>: the decoders and the initial value of the struct the answer is read into, \<open>None\<close> for nil.\<close>

definition postJSON ::
  "'n http_client \<Rightarrow> string \<Rightarrow> jval \<Rightarrow> ('t field_decoder list \<times> 't) option \<Rightarrow> Client \<Rightarrow> 'n \<Rightarrow> 't option res \<times> 'n" where
  "postJSON http path body target c n =
     (case http ''POST'' (Client_serverURL c @ path)
         [(''Content-Type'', ''application/json''), (''X-Worker-Token'', Client_workerToken c)] (json_print body) n of
        (Inl e, n) \<Rightarrow> (Inl e, n)
      | (Inr (status, answer), n) \<Rightarrow>
          if 400 \<le> status then (Inl (''request failed: '' @ api_error answer), n)
          else (case target of
              None \<Rightarrow> (Inr None, n)
            | Some (decoders, zero) \<Rightarrow>
                (case json_value (2 * length answer + 2) 10000 answer of
                   None \<Rightarrow> (Inl json_syntax, n)
                 | Some (v, _) \<Rightarrow>
                     (case decode_struct False decoders v zero of
                        (_, Some e) \<Rightarrow> (Inl e, n)
                      | (t, None) \<Rightarrow> (Inr (Some t), n)))))"

definition Client_complete :: "'n http_client \<Rightarrow> string \<Rightarrow> bool \<Rightarrow> string \<Rightarrow> Client \<Rightarrow> 'n \<Rightarrow> unit option res \<times> 'n" where
  "Client_complete http jobID success output c n =
     postJSON http (''/api/v1/workers/'' @ Client_registeredID c @ ''/jobs/'' @ jobID @ ''/complete'')
       (JObj [(''output'', JStr output), (''success'', JBool success)]) None c n"

definition executeJob :: "'w shell \<Rightarrow> 'n http_client \<Rightarrow> Job \<Rightarrow> Client \<Rightarrow> 'w \<Rightarrow> 'n \<Rightarrow> 'w \<times> 'n" where
  "executeJob sh http job c w n =
     (case executeJobLocally sh job c w of ((success, output), w) \<Rightarrow>
        (w, snd (Client_complete http (Job_ID job) success output c n)))"

section \<open>The stream\<close>

text \<open>The gRPC connection: creating it, opening the stream with the token in the metadata, sending, receiving and
  closing, on a network state of any type. The end of the stream is the error \<open>EOF\<close>.\<close>

record 'n transport =
  Grpc_NewClient :: "string \<Rightarrow> 'n \<Rightarrow> unit res \<times> 'n"
  Grpc_Stream :: "string \<Rightarrow> 'n \<Rightarrow> unit res \<times> 'n"
  Grpc_Send :: "WorkerEnvelope \<Rightarrow> 'n \<Rightarrow> unit res \<times> 'n"
  Grpc_Recv :: "'n \<Rightarrow> ServerEnvelope res \<times> 'n"
  Grpc_Close :: "'n \<Rightarrow> 'n"

text \<open>
  The state of the process. The goroutines of a stream that has ended go on executing their jobs, but can no longer
  send (\<open>Proc\_orphans\<close>). \<open>Proc\_done\<close> is the channel on which the heartbeat goroutine leaves its error before
  it ends.
\<close>

record ('w, 'n) Process =
  Proc_client :: Client
  Proc_orphans :: "Job list"
  Proc_done :: "error option"
  Proc_world :: 'w
  Proc_net :: 'n

text \<open>One step of the process: the ticker fires and the heartbeat carries what the host answers, a job of the stream or an orphan
  finishes, or the receive loop takes its next turn.\<close>

datatype event = Tick Host | Job_ends nat | Orphan_ends nat | Turn

datatype stream_end = Returned "unit res" | Exited | Unfinished

definition orphan_ends :: "'w shell \<Rightarrow> nat \<Rightarrow> ('w, 'n) Process \<Rightarrow> ('w, 'n) Process" where
  "orphan_ends sh i p =
     (let jobs = Proc_orphans p
      in if i < length jobs
         then p\<lparr>Proc_orphans := take i jobs @ drop (Suc i) jobs,
                Proc_world := snd (executeJobLocally sh (jobs ! i) (Proc_client p) (Proc_world p))\<rparr>
         else p)"

definition send_all :: "'n transport \<Rightarrow> WorkerEnvelope list \<Rightarrow> 'n \<Rightarrow> 'n" where
  "send_all tr msgs n = foldl (\<lambda>n msg. snd (Grpc_Send tr msg n)) n msgs"

definition tick :: "'n transport \<Rightarrow> Host \<Rightarrow> ('w, 'n) Process \<Rightarrow> ('w, 'n) Process" where
  "tick tr host p =
     (case Proc_done p of
        Some e \<Rightarrow> p
      | None \<Rightarrow>
          (case Grpc_Send tr (heartbeatEnvelope (CollectHostInfo host) (Proc_client p)) (Proc_net p) of
             (Inl e, n) \<Rightarrow> p\<lparr>Proc_done := Some e, Proc_net := n\<rparr>
           | (Inr _, n) \<Rightarrow> p\<lparr>Proc_net := n\<rparr>))"

definition job_ends :: "'n transport \<Rightarrow> 'w shell \<Rightarrow> nat \<Rightarrow> ('w, 'n) Process \<Rightarrow> ('w, 'n) Process" where
  "job_ends tr sh i p =
     (case finish_job sh i (Proc_client p) (Proc_world p) of (msgs, c, w) \<Rightarrow>
        p\<lparr>Proc_client := c, Proc_world := w, Proc_net := send_all tr msgs (Proc_net p)\<rparr>)"

definition turn ::
  "file_system \<Rightarrow> 'n transport \<Rightarrow> ('w, 'n) Process \<Rightarrow> stream_end \<times> ('w, 'n) Process" where
  "turn fs tr p =
     (case Proc_done p of
        Some e \<Rightarrow> (Returned (Inl e), p)
      | None \<Rightarrow>
          (case Grpc_Recv tr (Proc_net p) of
             (Inl e, n) \<Rightarrow> (Returned (Inl e), p\<lparr>Proc_net := n\<rparr>)
           | (Inr msg, n) \<Rightarrow>
               (case client_message fs msg (Proc_client p) of
                  (after, acks, c) \<Rightarrow>
                    ((case after of Keep_running \<Rightarrow> Unfinished | Leave_stream \<Rightarrow> Returned (Inr ()) | Exit_process \<Rightarrow> Exited),
                     p\<lparr>Proc_client := c, Proc_net := send_all tr acks n\<rparr>))))"

fun stream_loop ::
  "file_system \<Rightarrow> 'n transport \<Rightarrow> 'w shell \<Rightarrow> event list \<Rightarrow> ('w, 'n) Process \<Rightarrow> stream_end \<times> ('w, 'n) Process" where
  "stream_loop fs tr sh [] p = (Unfinished, p)"
| "stream_loop fs tr sh (Tick host # es) p = stream_loop fs tr sh es (tick tr host p)"
| "stream_loop fs tr sh (Job_ends i # es) p = stream_loop fs tr sh es (job_ends tr sh i p)"
| "stream_loop fs tr sh (Orphan_ends i # es) p = stream_loop fs tr sh es (orphan_ends sh i p)"
| "stream_loop fs tr sh (Turn # es) p =
     (case turn fs tr p of
        (Unfinished, p) \<Rightarrow> stream_loop fs tr sh es p
      | ended \<Rightarrow> ended)"

text \<open>Up to the first heartbeat. The heartbeat goroutine is started before it, but its ticker first fires ten seconds
  later.\<close>

definition open_stream ::
  "'n transport \<Rightarrow> Host \<Rightarrow> ('w, 'n) Process \<Rightarrow> unit res \<times> ('w, 'n) Process" where
  "open_stream tr host p =
     (let c = Proc_client p
      in case Grpc_Stream tr (Client_workerToken c) (Proc_net p) of
           (Inl e, n) \<Rightarrow> (Inl (''open worker stream: '' @ e), p\<lparr>Proc_net := n\<rparr>)
         | (Inr _, n) \<Rightarrow>
             (case Grpc_Send tr (register_message c) n of
                (Inl e, n) \<Rightarrow> (Inl (''send register: '' @ e), p\<lparr>Proc_net := n\<rparr>)
              | (Inr _, n) \<Rightarrow>
                  (case Grpc_Recv tr n of
                     (Inl e, n) \<Rightarrow> (Inl (''receive register response: '' @ e), p\<lparr>Proc_net := n\<rparr>)
                   | (Inr msg, n) \<Rightarrow>
                       (case on_registered msg c of
                          None \<Rightarrow> (Inl ''unexpected register response'', p\<lparr>Proc_net := n\<rparr>)
                        | Some c \<Rightarrow>
                            (case Grpc_Send tr (heartbeatEnvelope (CollectHostInfo host) c) n of
                               (Inl e, n) \<Rightarrow>
                                 (Inl (''send initial heartbeat: '' @ e), p\<lparr>Proc_client := c, Proc_net := n\<rparr>)
                             | (Inr _, n) \<Rightarrow> (Inr (), p\<lparr>Proc_client := c, Proc_net := n\<rparr>))))))"

text \<open>The deferred close; the jobs still in execution become orphans.\<close>

definition close_stream :: "'n transport \<Rightarrow> ('w, 'n) Process \<Rightarrow> ('w, 'n) Process" where
  "close_stream tr p =
     (let c = Proc_client p
      in p\<lparr>Proc_client := c\<lparr>Client_pending := []\<rparr>, Proc_orphans := Proc_orphans p @ Client_pending c,
           Proc_done := None, Proc_net := Grpc_Close tr (Proc_net p)\<rparr>)"

definition runGRPCStream ::
  "file_system \<Rightarrow> 'n transport \<Rightarrow> 'w shell \<Rightarrow> Host \<Rightarrow> event list \<Rightarrow> ('w, 'n) Process \<Rightarrow> stream_end \<times> ('w, 'n) Process" where
  "runGRPCStream fs tr sh host es p =
     (case Grpc_NewClient tr (Client_grpcServerAddr (Proc_client p)) (Proc_net p) of
        (Inl e, n) \<Rightarrow> (Returned (Inl (''create grpc client: '' @ e)), p\<lparr>Proc_net := n\<rparr>)
      | (Inr _, n) \<Rightarrow>
          (case open_stream tr host (p\<lparr>Proc_net := n\<rparr>) of
             (Inl e, p) \<Rightarrow> (Returned (Inl e), close_stream tr p)
           | (Inr _, p) \<Rightarrow>
               (case stream_loop fs tr sh es p of
                  (Returned r, p) \<Rightarrow> (Returned r, close_stream tr p)
                | (e, p) \<Rightarrow> (e, p))))"

text \<open>The life of the process: for every stream, the orphans that end while it waits to connect, what the host
  answers for the first heartbeat, and the events of the stream.\<close>

type_synonym session = "nat list \<times> Host \<times> event list"

fun sessions ::
  "file_system \<Rightarrow> 'n transport \<Rightarrow> 'w shell \<Rightarrow> session list \<Rightarrow> ('w, 'n) Process \<Rightarrow> stream_end \<times> ('w, 'n) Process" where
  "sessions fs tr sh [] p = (Unfinished, p)"
| "sessions fs tr sh ((earlier, host, es) # ss) p =
     (case runGRPCStream fs tr sh host es (fold (orphan_ends sh) earlier p) of
        (Returned (Inl e), p) \<Rightarrow> sessions fs tr sh ss p
      | ended \<Rightarrow> ended)"

definition Run ::
  "file_system \<Rightarrow> 'n transport \<Rightarrow> 'w shell \<Rightarrow> session list \<Rightarrow> Client \<Rightarrow> 'w \<Rightarrow> 'n \<Rightarrow> stream_end \<times> ('w, 'n) Process" where
  "Run fs tr sh ss c w n =
     (let p = \<lparr>Proc_client = c, Proc_orphans = [], Proc_done = None, Proc_world = w, Proc_net = n\<rparr>
      in case Runner_Load fs (Client_runner c) of
           (Inl e, _) \<Rightarrow> (Returned (Inl e), p)
         | (Inr _, runner) \<Rightarrow> sessions fs tr sh ss (p\<lparr>Proc_client := c\<lparr>Client_runner := runner\<rparr>\<rparr>))"

section \<open>Lemmas\<close>

lemma Split_subset: "x \<in> set (Split s d) \<Longrightarrow> set x \<subseteq> set s"
proof (induction s d arbitrary: x rule: Split.induct)
  case (1 d)
  then show ?case by simp
next
  case (2 c s d)
  then show ?case by (cases "Split s d") (force split: if_splits)+
qed

lemma span_word_subset: "set (fst (span_word s)) \<subseteq> set s \<and> set (snd (span_word s)) \<subseteq> set s"
  by (induction s rule: span_word.induct) (auto split: prod.splits if_splits)

lemma Sscanf_f_nonneg: "Sscanf_f s = Some v \<Longrightarrow> CHR ''-'' \<notin> set s \<Longrightarrow> 0 \<le> v"
  by (cases s) (auto simp: Sscanf_f_def Let_def split: if_splits)

lemma cpu_fields_bounds:
  assumes "cpu_fields i fs tot idle = Some (tot', idle')" "\<forall>f \<in> set fs. CHR ''-'' \<notin> set f" "0 \<le> idle" "idle \<le> tot"
  shows "0 \<le> idle' \<and> idle' \<le> tot'"
  using assms
proof (induction fs arbitrary: i tot idle)
  case (Cons f fs)
  then obtain v where v: "Sscanf_f f = Some v" by (cases "Sscanf_f f") auto
  then have "0 \<le> v" using Cons.prems(2) by (auto intro: Sscanf_f_nonneg)
  then show ?case using Cons.IH[of "Suc i" "tot + v" "if i = 3 then v else idle"] Cons.prems v by auto
qed simp

lemma percentage: "0 \<le> (a :: rat) \<Longrightarrow> a \<le> b \<Longrightarrow> 0 < b \<Longrightarrow> 0 \<le> (1 - a / b) * 100 \<and> (1 - a / b) * 100 \<le> 100"
  by (simp add: field_simps)

lemma Fields_subset: "f \<in> set (Fields s) \<Longrightarrow> set f \<subseteq> set s"
proof (induction s rule: Fields.induct)
  case (1 s)
  obtain pre where pre: "s = pre @ strip go_spaces s" using strip_suffix by blast
  show ?case
  proof (cases "strip go_spaces s")
    case Nil
    then show ?thesis using 1 by (simp add: Fields.simps[of s])
  next
    case (Cons c t)
    obtain w r where w: "span_word t = (w, r)" by (cases "span_word t")
    moreover have "set s = set pre \<union> insert c (set t)" using pre Cons by (metis set_append list.simps(15))
    ultimately have "set w \<subseteq> set s" "set r \<subseteq> set s" "c \<in> set s" using span_word_subset[of t] by auto
    then show ?thesis using "1.prems" "1.IH"[OF Cons w[symmetric]] Cons w by (auto simp: Fields.simps[of s])
  qed
qed

lemma cpu_lines_bounds: "\<forall>l \<in> set ls. CHR ''-'' \<notin> set l \<Longrightarrow> 0 \<le> cpu_lines ls \<and> cpu_lines ls \<le> 100"
proof (induction ls)
  case (Cons l ls)
  show ?case
  proof (cases "HasPrefix l ''cpu '' \<and> \<not> length (Fields l) < 5")
    case True
    have "\<forall>f \<in> set (tl (Fields l)). CHR ''-'' \<notin> set f"
      using Cons.prems Fields_subset[of _ l] list.set_sel(2)[of "Fields l"] True by fastforce
    then have "0 \<le> idle \<and> idle \<le> tot" if "cpu_fields 0 (tl (Fields l)) 0 0 = Some (tot, idle)" for tot idle
      using cpu_fields_bounds[OF that] by simp
    then show ?thesis using True Cons percentage by (auto simp: Let_def split: option.splits)
  next
    case False
    then show ?thesis using Cons by (auto simp: Let_def)
  qed
qed simp

lemma fraction: "a \<le> b \<Longrightarrow> 0 \<le> (of_nat a / of_nat b * 100 :: rat) \<and> (of_nat a / of_nat b * 100 :: rat) \<le> 100"
  by (cases "b = 0") (simp_all add: field_simps)

lemma readDiskUsage_bounds:
  assumes "Statfs_Bfree st \<le> Statfs_Blocks st" "unat (Statfs_Blocks st) * unat (Statfs_Bsize st) < 2 ^ 64"
  shows "0 \<le> readDiskUsage (Inr st) \<and> readDiskUsage (Inr st) \<le> 100"
proof -
  let ?total = "Statfs_Blocks st * Statfs_Bsize st" and ?free = "Statfs_Bfree st * Statfs_Bsize st"
  have f: "unat (Statfs_Bfree st) \<le> unat (Statfs_Blocks st)" using assms(1) by (simp add: word_le_nat_alt)
  then have "unat ?total = unat (Statfs_Blocks st) * unat (Statfs_Bsize st)"
    "unat ?free = unat (Statfs_Bfree st) * unat (Statfs_Bsize st)"
    using assms(2) le_less_trans[OF mult_le_mono1[OF f, of "unat (Statfs_Bsize st)"] assms(2)]
    by (simp_all add: unat_word_ariths)
  then have "?free \<le> ?total" using f by (simp add: word_le_nat_alt)
  then have "unat (?total - ?free) \<le> unat ?total" by (simp add: unat_sub)
  then show ?thesis using fraction[of "unat (?total - ?free)" "unat ?total"]
    by (auto simp: readDiskUsage_def Let_def word_less_nat_alt simp del: of_nat_unat)
qed

section \<open>Properties\<close>

text \<open>C40. The usages a worker reports are percentages: for a \<open>/proc/stat\<close> without negative numbers and a file system
  whose size in bytes fits 64 bits, both lie between 0 and 100; where a source cannot be read the value is 0.\<close>

theorem host_usage_bounded:
  assumes "\<And>data. Host_stat h = Inr data \<Longrightarrow> CHR ''-'' \<notin> set data"
    and "\<And>st. Host_statfs h = Inr st \<Longrightarrow>
      Statfs_Bfree st \<le> Statfs_Blocks st \<and> unat (Statfs_Blocks st) * unat (Statfs_Bsize st) < 2 ^ 64"
  shows "HostInfo_CPUUsage (CollectHostInfo h) \<in> {0..100} \<and> HostInfo_StorageUsage (CollectHostInfo h) \<in> {0..100} \<and>
    (Host_stat h = Inl e \<longrightarrow> HostInfo_CPUUsage (CollectHostInfo h) = 0) \<and>
    (Host_statfs h = Inl e \<longrightarrow> HostInfo_StorageUsage (CollectHostInfo h) = 0)"
proof -
  have cpu: "HostInfo_CPUUsage (CollectHostInfo h) = readCPUUsage (Host_stat h)"
    and disk: "HostInfo_StorageUsage (CollectHostInfo h) = readDiskUsage (Host_statfs h)"
    by (simp_all add: CollectHostInfo_def Let_def)
  have "0 \<le> readCPUUsage (Host_stat h) \<and> readCPUUsage (Host_stat h) \<le> 100"
    using assms(1) cpu_lines_bounds Split_subset by (fastforce simp: readCPUUsage_def split: sum.split)
  moreover have "0 \<le> readDiskUsage (Host_statfs h) \<and> readDiskUsage (Host_statfs h) \<le> 100"
    using assms(2) readDiskUsage_bounds by (cases "Host_statfs h") (auto simp: readDiskUsage_def)
  ultimately show ?thesis by (simp add: cpu disk) (simp add: readCPUUsage_def readDiskUsage_def)
qed

definition demo_host :: Host where
  "demo_host = \<lparr>Host_Hostname = Inr ''node'', Host_UDPAddr = None, Host_stat = Inr ''cpu  10 0 30 60'',
     Host_statfs = Inr \<lparr>Statfs_Blocks = 1000, Statfs_Bfree = 250, Statfs_Bsize = 4096\<rparr>\<rparr>"

theorem host_usage_bounded_witness:
  "HostInfo_CPUUsage (CollectHostInfo demo_host) \<in> {0..100} \<and> HostInfo_StorageUsage (CollectHostInfo demo_host) \<in> {0..100} \<and>
   HostInfo_CPUUsage (CollectHostInfo demo_host) = 40 \<and> HostInfo_StorageUsage (CollectHostInfo demo_host) = 75"
proof (intro conjI)
  have "CHR ''-'' \<notin> set data" if "Host_stat demo_host = Inr data" for data
    using that by (auto simp: demo_host_def)
  moreover have "Statfs_Bfree st \<le> Statfs_Blocks st \<and> unat (Statfs_Blocks st) * unat (Statfs_Bsize st) < 2 ^ 64"
    if "Host_statfs demo_host = Inr st" for st using that by (auto simp: demo_host_def)
  ultimately show "HostInfo_CPUUsage (CollectHostInfo demo_host) \<in> {0..100}"
    "HostInfo_StorageUsage (CollectHostInfo demo_host) \<in> {0..100}"
    using host_usage_bounded by blast+
  have "readCPUUsage (Inr ''cpu  10 0 30 60'') = 40" by code_simp
  then show "HostInfo_CPUUsage (CollectHostInfo demo_host) = 40" by (simp add: demo_host_def CollectHostInfo_def)
  show "HostInfo_StorageUsage (CollectHostInfo demo_host) = 75"
    by (simp add: demo_host_def CollectHostInfo_def readDiskUsage_def)
qed

section \<open>The end of the process\<close>

text \<open>The same transport with a log of the messages it delivered.\<close>

definition recorded :: "'n transport \<Rightarrow> ('n \<times> ServerEnvelope list) transport" where
  "recorded tr = \<lparr>
     Grpc_NewClient = (\<lambda>addr (n, l). map_prod id (\<lambda>n. (n, l)) (Grpc_NewClient tr addr n)),
     Grpc_Stream = (\<lambda>token (n, l). map_prod id (\<lambda>n. (n, l)) (Grpc_Stream tr token n)),
     Grpc_Send = (\<lambda>msg (n, l). map_prod id (\<lambda>n. (n, l)) (Grpc_Send tr msg n)),
     Grpc_Recv = (\<lambda>(n, l). case Grpc_Recv tr n of
         (Inl e, n) \<Rightarrow> (Inl e, n, l) | (Inr msg, n) \<Rightarrow> (Inr msg, n, l @ [msg])),
     Grpc_Close = (\<lambda>(n, l). (Grpc_Close tr n, l))\<rparr>"

abbreviation received :: "('w, 'n \<times> ServerEnvelope list) Process \<Rightarrow> ServerEnvelope list" where
  "received p \<equiv> snd (Proc_net p)"

lemma recorded_send [simp]: "snd (snd (Grpc_Send (recorded tr) msg n)) = snd n"
  by (cases n) (simp add: recorded_def)

lemma recorded_sent: "Grpc_Send (recorded tr) msg n = (x, a, l) \<Longrightarrow> l = snd n"
  using recorded_send[of tr msg n] by simp

lemma recorded_send_all [simp]: "snd (send_all (recorded tr) msgs n) = snd n"
  unfolding send_all_def by (induction msgs rule: rev_induct) auto

lemma recorded_close [simp]: "snd (Grpc_Close (recorded tr) n) = snd n"
  by (cases n) (simp add: recorded_def)

lemma recorded_recv:
  "Grpc_Recv (recorded tr) n =
     (case Grpc_Recv tr (fst n) of (Inl e, m) \<Rightarrow> (Inl e, m, snd n) | (Inr msg, m) \<Rightarrow> (Inr msg, m, snd n @ [msg]))"
  by (cases n) (simp add: recorded_def split: prod.split sum.split)

lemma received_steps [simp]:
  "received (tick (recorded tr) host p) = received p"
  "received (job_ends (recorded tr) sh i p) = received p"
  "received (orphan_ends sh i p) = received p"
  "received (close_stream (recorded tr) p) = received p"
  by (auto simp: tick_def job_ends_def orphan_ends_def close_stream_def Let_def
      split: option.splits prod.splits sum.splits dest: recorded_sent)

definition ended_by :: "stream_end \<Rightarrow> ServerEnvelope list \<Rightarrow> bool" where
  "ended_by e l \<longleftrightarrow>
     (case e of
        Returned (Inr _) \<Rightarrow> l \<noteq> [] \<and> last l = ServerEnvelope_Command ''stop''
      | Exited \<Rightarrow> l \<noteq> [] \<and> last l = ServerEnvelope_Command ''force_stop''
      | _ \<Rightarrow> True)"

lemma client_message_end:
  assumes "client_message fs msg c = (after, acks, c')"
  shows "(after = Leave_stream \<longrightarrow> msg = ServerEnvelope_Command ''stop'') \<and>
    (after = Exit_process \<longrightarrow> msg = ServerEnvelope_Command ''force_stop'')"
  using assms by (cases msg) (auto simp: client_message_def handleCommand_def split: if_splits prod.splits sum.splits)

lemma turn_end: "turn fs (recorded tr) p = (e, p') \<Longrightarrow> ended_by e (received p')"
  by (auto simp: turn_def recorded_recv ended_by_def
      split: option.splits prod.splits sum.splits after_message.splits dest: client_message_end)

lemma stream_loop_end: "stream_loop fs (recorded tr) sh es p = (e, p') \<Longrightarrow> ended_by e (received p')"
proof (induction es arbitrary: p)
  case Nil
  then show ?case by (simp add: ended_by_def)
next
  case (Cons ev es)
  then show ?case by (cases ev) (auto split: prod.splits stream_end.splits dest: turn_end)
qed

lemma runGRPCStream_end: "runGRPCStream fs (recorded tr) sh host es p = (e, p') \<Longrightarrow> ended_by e (received p')"
  by (auto simp: runGRPCStream_def split: prod.splits sum.splits stream_end.splits dest: stream_loop_end)
    (auto simp: ended_by_def)

lemma sessions_end:
  "sessions fs (recorded tr) sh ss p = (e, p') \<Longrightarrow> ended_by e (received p') \<and> (\<forall>err. e \<noteq> Returned (Inl err))"
proof (induction ss arbitrary: p)
  case Nil
  then show ?case by (auto simp: ended_by_def)
next
  case (Cons s ss)
  obtain earlier host es where s: "s = (earlier, host, es)" by (cases s)
  obtain e1 p1 where r: "runGRPCStream fs (recorded tr) sh host es (fold (orphan_ends sh) earlier p) = (e1, p1)"
    by fastforce
  show ?case using Cons.prems runGRPCStream_end[OF r] Cons.IH[of p1] r s
    by (auto split: stream_end.splits sum.splits)
qed

text \<open>C21. A worker gives up only when told to: whatever the transport does and however its goroutines interleave, \<open>Run\<close>
  fails only before it connects, when the services file cannot be loaded; it returns only after the command \<open>stop\<close>
  and the process exits only after \<open>force\_stop\<close>, each as the last message received. Every other end of a
  stream leads to the next connection.\<close>

theorem worker_ends_on_command:
  assumes "Run fs (recorded tr) sh ss c w (n, []) = (e, p)"
  shows "case e of
      Returned (Inl err) \<Rightarrow> fst (Runner_Load fs (Client_runner c)) = Inl err \<and> received p = [] \<and> Proc_world p = w
    | Returned (Inr _) \<Rightarrow> received p \<noteq> [] \<and> last (received p) = ServerEnvelope_Command ''stop''
    | Exited \<Rightarrow> received p \<noteq> [] \<and> last (received p) = ServerEnvelope_Command ''force_stop''
    | Unfinished \<Rightarrow> fst (Runner_Load fs (Client_runner c)) = Inr ()"
proof (cases "Runner_Load fs (Client_runner c)")
  case (Pair res runner)
  show ?thesis
  proof (cases res)
    case (Inl err)
    then show ?thesis using assms Pair by (auto simp: Run_def)
  next
    case (Inr u)
    then have "ended_by e (received p) \<and> (\<forall>err. e \<noteq> Returned (Inl err))"
      using assms Pair sessions_end by (fastforce simp: Run_def)
    then show ?thesis using Pair Inr by (auto simp: ended_by_def split: stream_end.splits sum.splits)
  qed
qed

text \<open>Messages and a shell for the witnesses: a transport that delivers a list of messages.\<close>

definition script_transport :: "ServerEnvelope list transport" where
  "script_transport = \<lparr>Grpc_NewClient = (\<lambda>addr n. (Inr (), n)), Grpc_Stream = (\<lambda>token n. (Inr (), n)),
     Grpc_Send = (\<lambda>msg n. (Inr (), n)),
     Grpc_Recv = (\<lambda>n. case n of [] \<Rightarrow> (Inl ''EOF'', []) | m # n \<Rightarrow> (Inr m, n)), Grpc_Close = (\<lambda>n. n)\<rparr>"

definition no_services :: file_system where
  "no_services = \<lparr>fs_stat = (\<lambda>p. Inr \<lparr>File_Regular = True, File_Perm = 384\<rparr>), fs_read = (\<lambda>p. Inr [])\<rparr>"

definition bare_host :: Host where
  "bare_host = \<lparr>Host_Hostname = Inr ''node'', Host_UDPAddr = None, Host_stat = Inl ''absent'', Host_statfs = Inl ''absent''\<rparr>"

text \<open>A stream that ends, a second one on which a job and then the command to stop arrive.\<close>

definition demo_sessions :: "session list" where
  "demo_sessions = [([], bare_host, [Turn, Turn]), ([0], bare_host, [Turn, Tick bare_host, Turn])]"

definition demo_script :: "ServerEnvelope list" where
  "demo_script = [ServerEnvelope_Error ''early'', ServerEnvelope_Registered ''w1'' ''node'' ''host'',
     ServerEnvelope_Job (Some (jobToProto sample_job)), ServerEnvelope_Command ''stop'']"

lemma no_services_load: "fst (Runner_Load no_services (NewRunner ty)) = Inr ()"
  by (simp add: Runner_Load_def no_services_def LoadServiceCatalog_def NewRunner_def scan_lines_def close_profile_def Let_def
      split: sum.split)

theorem worker_ends_on_command_witness:
  "case Run no_services (recorded script_transport) echo_shell demo_sessions (NewAgent ''u'' ''t'' ''node'' ''host'' 0)
     [] (demo_script, []) of
     (e, p) \<Rightarrow> e = Returned (Inr ()) \<and> last (received p) = ServerEnvelope_Command ''stop''"
proof -
  let ?run = "Run no_services (recorded script_transport) echo_shell demo_sessions (NewAgent ''u'' ''t'' ''node'' ''host'' 0)
     [] (demo_script, [])"
  obtain runner where l: "Runner_Load no_services (NewRunner ''host'') = (Inr (), runner)"
    using no_services_load by (metis prod.collapse)
  have "fst ?run = Returned (Inr ())"
    by (simp add: Run_def NewAgent_def NewClient_def l demo_sessions_def demo_script_def runGRPCStream_def open_stream_def
        close_stream_def on_registered_def turn_def tick_def client_message_def handleCommand_def send_all_def recorded_def
        script_transport_def orphan_ends_def)
  then obtain p where p: "?run = (Returned (Inr ()), p)" by (cases ?run) auto
  show ?thesis using worker_ends_on_command[OF p] p by simp
qed

section \<open>The two ends of the stream\<close>

lemma memory_completes:
  assumes "mem_ok r" "Mem_GetJob j r = Inr job" "Job_AssignedWorkerID job = w"
  shows "\<exists>new r'. Mem_CompleteJob now w j out ok r = (Inr new, r') \<and> Job_FinishedAt new = Some now \<and>
    (\<forall>k. k \<noteq> j \<longrightarrow> Mem_GetJob k r' = Mem_GetJob k r)"
  using assms by (auto simp: Mem_CompleteJob_def on_store_def CompleteJob_def Mem_GetJob_def GetJob_def Let_def
      update_conv split: option.splits)

lemma result_handled:
  assumes "mem_ok r" "Mem_GetJob (PbJobResult_JobId res) r = Inr job" "Job_AssignedWorkerID job = w"
  shows "\<exists>r' new. handleJobResult memory_repository now w res r = (Inr (), r') \<and>
    Mem_GetJob (PbJobResult_JobId res) r' = Inr new \<and> Job_Output new = PbJobResult_Output res \<and>
    Job_Status new = (if PbJobResult_Success res then JobStatusSuccess else JobStatusFailed) \<and>
    Job_FinishedAt new = Some now \<and> (\<forall>k. k \<noteq> PbJobResult_JobId res \<longrightarrow> Mem_GetJob k r' = Mem_GetJob k r)"
proof -
  obtain new r1 where c: "Mem_CompleteJob now w (PbJobResult_JobId res) (PbJobResult_Output res) (PbJobResult_Success res) r
        = (Inr new, r1)" "Job_FinishedAt new = Some now" "\<forall>k. k \<noteq> PbJobResult_JobId res \<longrightarrow> Mem_GetJob k r1 = Mem_GetJob k r"
    using memory_completes[OF assms] by blast
  show ?thesis using memory_complete[OF assms(1) c(1)] c memory_audit_job
    by (simp add: handleJobResult_def memory_repository_def Mem_AddWorkerLog_def Let_def)
qed

text \<open>C15. A pushed job is finished. Let the server hold a job assigned to a worker, and let the worker have received it and not yet
  finished it. When its goroutine ends, exactly one message is sent, and handling that message on the server stores the
  job as succeeded or failed, with the output and the outcome the worker's runner had for it, and leaves every other job alone.\<close>

theorem pushed_job_finishes:
  assumes "mem_ok r" "Mem_GetJob (Job_ID job) r = Inr job" "Job_AssignedWorkerID job = Client_registeredID c"
    and "i < length (Client_pending c)" "Client_pending c ! i = protoJobToModel (Some (jobToProto job))"
    and "Execute sh (Client_runner c) (protoJobToModel (Some (jobToProto job))) w = ((success, output), w')"
  shows "\<exists>msg c' r' new. finish_job sh i c w = ([msg], c', w') \<and>
    receive_message memory_repository now (Client_registeredID c) msg r = (Inr (), r') \<and>
    Mem_GetJob (Job_ID job) r' = Inr new \<and> Job_Output new = output \<and>
    Job_Status new = (if success then JobStatusSuccess else JobStatusFailed) \<and> Job_FinishedAt new = Some now \<and>
    (\<forall>k. k \<noteq> Job_ID job \<longrightarrow> Mem_GetJob k r' = Mem_GetJob k r)"
proof -
  let ?res = "\<lparr>PbJobResult_WorkerId = Client_registeredID c, PbJobResult_JobId = Job_ID job,
      PbJobResult_Command = Job_Command job, PbJobResult_Success = success, PbJobResult_Output = output,
      PbJobResult_LogToDb = Client_logToDB c\<rparr>"
  let ?c = "c\<lparr>Client_pending := take i (Client_pending c) @ drop (Suc i) (Client_pending c)\<rparr>"
  have sent: "finish_job sh i c w = ([WorkerEnvelope_JobResult ?res], ?c, w')"
    using assms(4-6) by (simp add: finish_job_def executeJobLocally_def protoJobToModel_def jobToProto_def)
  show ?thesis using result_handled[of r ?res job "Client_registeredID c" now] assms(1-3)
    by (intro exI[of _ "WorkerEnvelope_JobResult ?res"] exI[of _ ?c]) (auto simp: sent receive_message_def)
qed

definition pushed_job :: Job where
  "pushed_job = keyed_job\<lparr>Job_WorkerType := ''host'', Job_SourceType := ''template'', Job_AssignedWorkerID := ''w1''\<rparr>"

definition pushed_repo :: MemoryRepository where
  "pushed_repo = snd (Mem_CreateJob 5 pushed_job NewMemoryRepository)"

definition stored_job :: Job where
  "stored_job = projr (Mem_GetJob ''job-000001'' pushed_repo)"

definition busy_client :: Client where
  "busy_client = (NewAgent ''u'' ''t'' ''node'' ''host'' 0)
     \<lparr>Client_registeredID := ''w1'', Client_pending := [protoJobToModel (Some (jobToProto stored_job))]\<rparr>"

lemma pushed_repo_ok: "mem_ok pushed_repo"
proof -
  have "\<not> isl (fst (Mem_CreateJob 5 pushed_job NewMemoryRepository))" by code_simp
  then have "Mem_CreateJob 5 pushed_job NewMemoryRepository =
      (Inr (projr (fst (Mem_CreateJob 5 pushed_job NewMemoryRepository))), pushed_repo)"
    by (simp add: prod_eq_iff pushed_repo_def)
  moreover have "Job_IdempotencyKey pushed_job \<noteq> []" by (simp add: pushed_job_def keyed_job_def)
  ultimately show ?thesis using Mem_CreateJob_recorded[OF NewMemoryRepository_ok] by blast
qed

theorem pushed_job_finishes_witness:
  "\<exists>msg c' r' new. finish_job echo_shell 0 busy_client [] = ([msg], c', [''systemctl restart x'']) \<and>
     receive_message memory_repository 9 ''w1'' msg pushed_repo = (Inr (), r') \<and>
     Mem_GetJob ''job-000001'' r' = Inr new \<and> Job_Status new = JobStatusSuccess \<and> Job_Output new = ''systemctl restart x''"
proof -
  have s: "Job_ID stored_job = ''job-000001''" "Job_AssignedWorkerID stored_job = ''w1''"
    "\<not> isl (Mem_GetJob ''job-000001'' pushed_repo)" by code_simp+
  have x: "Execute echo_shell (NewRunner ''host'') (protoJobToModel (Some (jobToProto stored_job))) [] =
      ((True, ''systemctl restart x''), [''systemctl restart x''])" by code_simp
  have "Mem_GetJob (Job_ID stored_job) pushed_repo = Inr stored_job" using s by (simp add: stored_job_def)
  moreover have "Client_registeredID busy_client = ''w1''" "Client_runner busy_client = NewRunner ''host''"
    "Client_pending busy_client = [protoJobToModel (Some (jobToProto stored_job))]"
    by (simp_all add: busy_client_def NewAgent_def NewClient_def)
  ultimately show ?thesis
    using pushed_job_finishes[OF pushed_repo_ok, of stored_job busy_client 0 echo_shell "[]" True _ _ 9] s x by fastforce
qed

section \<open>Connecting\<close>

lemma memory_registers:
  assumes "mem_ok r"
  shows "\<exists>worker r'. Mem_RegisterWorker now name ty r = (Inr worker, r') \<and> Worker_Name worker = name \<and> Worker_WorkerType worker = ty"
proof (cases "find (\<lambda>w. Worker_Name w = name \<and> Worker_WorkerType w = ty) (ListWorkers (Mem_store r))")
  case None
  then show ?thesis by (simp add: Mem_RegisterWorker_def on_store_def RegisterWorker_def Let_def case_prod_beta)
next
  case (Some w)
  then have w: "w \<in> set (ListWorkers (Mem_store r))" "Worker_Name w = name" "Worker_WorkerType w = ty"
    by (auto simp: find_Some_iff)
  then obtain k where "(k, w) \<in> set (Store_workers (Mem_store r))" by (auto simp: ListWorkers_def)
  moreover have "table_ok ''worker'' Worker_ID (id_count (Mem_store r)) (Store_workers (Mem_store r))"
    using assms by (simp add: mem_ok_def store_ok_def)
  ultimately have "map_of (Store_workers (Mem_store r)) (Worker_ID w) = Some w" using table_ok_mem by metis
  then show ?thesis using Some w(2,3) by (simp add: Mem_RegisterWorker_def on_store_def HeartbeatWorker_def Let_def)
qed

text \<open>A worker and a server with the same token connect: the service accepts the worker's first message, registers a
  worker of its name and type, and its answer gives the client the identifier under which the hub now holds an
  open channel for it.\<close>

lemma worker_connects:
  assumes "mem_ok r" "hub_ok h" "Client_workerToken c = token"
    and "TrimSpace (Client_name c) \<noteq> []" "TrimSpace (Client_workerType c) \<noteq> []"
  shows "\<exists>msg worker ch r' h'.
    stream_open memory_repository token now (Some [Client_workerToken c]) (Inr (register_message c)) r h =
      (Inr (msg, worker, ch), r', h') \<and>
    on_registered msg c = Some (c\<lparr>Client_registeredID := Worker_ID worker\<rparr>) \<and>
    Worker_Name worker = Client_name c \<and> Worker_WorkerType worker = Client_workerType c \<and>
    hub_ok h' \<and> map_of (Hub_workers h') (Worker_ID worker) = Some ch \<and> chan_at h' ch = make_chan"
proof -
  obtain worker r1 where w: "Mem_RegisterWorker now (Client_name c) (Client_workerType c) r = (Inr worker, r1)"
    "Worker_Name worker = Client_name c" "Worker_WorkerType worker = Client_workerType c"
    using memory_registers[OF assms(1)] by blast
  obtain h' where h: "hub_register (Worker_ID worker) h = Inr (Hub_next h, h')" "hub_ok h'"
    "map_of (Hub_workers h') (Worker_ID worker) = Some (Hub_next h)" "chan_at h' (Hub_next h) = make_chan"
    using hub_register_ok[OF assms(2)] by blast
  show ?thesis using assms(3-5) w h
    by (simp add: stream_open_def service_authorize_def register_message_def memory_repository_def on_registered_def Let_def)
qed

theorem worker_connects_witness:
  "\<exists>msg worker ch r' h' c'.
     stream_open memory_repository ''t'' 5 (Some [''t'']) (Inr (register_message (NewAgent ''u'' ''t'' ''node'' ''host'' 0)))
       NewMemoryRepository NewHub = (Inr (msg, worker, ch), r', h') \<and>
     on_registered msg (NewAgent ''u'' ''t'' ''node'' ''host'' 0) = Some c' \<and> Client_registeredID c' = Worker_ID worker \<and>
     map_of (Hub_workers h') (Worker_ID worker) = Some ch"
proof -
  let ?c = "NewAgent ''u'' ''t'' ''node'' ''host'' 0"
  have "Client_workerToken ?c = ''t''" "TrimSpace (Client_name ?c) \<noteq> []" "TrimSpace (Client_workerType ?c) \<noteq> []" by code_simp+
  then show ?thesis using worker_connects[OF NewMemoryRepository_ok(1) NewHub_ok, of ?c "''t''" 5] by fastforce
qed

end
