(* ===== verification/Programs.thy ===== *)
theory Programs
  imports Http_Access Postgres_Props Worker_Process
begin

text \<open>
  The two programs, \<open>cmd/server/root.go\<close> and \<open>cmd/worker/root.go\<close>, with \<open>config/config.go\<close>: how the
  configuration is read and validated, and how the components are put together. The configuration library (flags,
  environment, file) is a record of what it answers. Listening on a port is a parameter. The shutdown is the list of
  calls it makes after the signal.
\<close>

section \<open>Configuration\<close>

text \<open>\<open>internal/config/config.go\<close>\<close>

record ServerConfig =
  ServerConfig_Addr :: string
  ServerConfig_WorkerGRPCAddr :: string
  ServerConfig_DBDSN :: string
  ServerConfig_AdminUsername :: string
  ServerConfig_AdminPassword :: string
  ServerConfig_AuthSecret :: string
  ServerConfig_WorkerSharedToken :: string
  ServerConfig_LLMBaseURL :: string
  ServerConfig_LLMAPIKey :: string
  ServerConfig_LLMModel :: string
  ServerConfig_AgentMaxSteps :: int
  ServerConfig_AgentInputTokenCostUSDPer1K :: float64
  ServerConfig_AgentOutputTokenCostUSDPer1K :: float64
  ServerConfig_ManagedConfigDir :: string
  ServerConfig_ManagedConfigSyncMode :: string

record WorkerConfig =
  WorkerConfig_ServerURL :: string
  WorkerConfig_GRPCServerAddr :: string
  WorkerConfig_WorkerToken :: string
  WorkerConfig_Name :: string
  WorkerConfig_Type :: string
  WorkerConfig_PollInterval :: Duration
  WorkerConfig_ExecTimeout :: Duration
  WorkerConfig_HostCollectInterval :: Duration
  WorkerConfig_LogToDB :: bool
  WorkerConfig_ServicesConfigPath :: string

text \<open>What viper answers: the outcome of reading a file (a given one, or the one found in the search path), and the
  value of a key after that.\<close>

datatype read_outcome = Read_done | Read_absent error | Read_failed error

record viper =
  Viper_ReadInConfig :: "string \<Rightarrow> read_outcome"
  Viper_GetString :: "string \<Rightarrow> string"
  Viper_GetInt :: "string \<Rightarrow> int"
  Viper_GetFloat64 :: "string \<Rightarrow> float64"
  Viper_GetDuration :: "string \<Rightarrow> Duration"
  Viper_GetBool :: "string \<Rightarrow> bool"

definition read_config_file :: "viper \<Rightarrow> string \<Rightarrow> unit res" where
  "read_config_file v configPath =
     (if configPath \<noteq> []
      then (case Viper_ReadInConfig v configPath of
              Read_done \<Rightarrow> Inr ()
            | Read_absent e \<Rightarrow> Inl (''read config file '' @ configPath @ '': '' @ e)
            | Read_failed e \<Rightarrow> Inl (''read config file '' @ configPath @ '': '' @ e))
      else (case Viper_ReadInConfig v [] of
              Read_done \<Rightarrow> Inr ()
            | Read_absent e \<Rightarrow> Inr ()
            | Read_failed e \<Rightarrow> Inl (''read config file: '' @ e)))"

definition server_config :: "viper \<Rightarrow> ServerConfig" where
  "server_config v =
     (let get = Viper_GetString v
      in \<lparr>ServerConfig_Addr = get ''addr'', ServerConfig_WorkerGRPCAddr = get ''worker.grpc_addr'',
          ServerConfig_DBDSN = get ''db.dsn'', ServerConfig_AdminUsername = get ''auth.admin_username'',
          ServerConfig_AdminPassword = get ''auth.admin_password'', ServerConfig_AuthSecret = get ''auth.secret'',
          ServerConfig_WorkerSharedToken = get ''auth.worker_token'', ServerConfig_LLMBaseURL = get ''agent.base_url'',
          ServerConfig_LLMAPIKey = get ''agent.api_key'', ServerConfig_LLMModel = get ''agent.model'',
          ServerConfig_AgentMaxSteps = Viper_GetInt v ''agent.max_steps'',
          ServerConfig_AgentInputTokenCostUSDPer1K = Viper_GetFloat64 v ''agent.input_token_cost_usd_per_1k'',
          ServerConfig_AgentOutputTokenCostUSDPer1K = Viper_GetFloat64 v ''agent.output_token_cost_usd_per_1k'',
          ServerConfig_ManagedConfigDir = get ''managed_config_dir'',
          ServerConfig_ManagedConfigSyncMode = get ''managed_config_sync_mode''\<rparr>)"

definition worker_config :: "viper \<Rightarrow> WorkerConfig" where
  "worker_config v =
     \<lparr>WorkerConfig_ServerURL = Viper_GetString v ''server_url'',
      WorkerConfig_GRPCServerAddr = Viper_GetString v ''grpc_server_addr'',
      WorkerConfig_WorkerToken = Viper_GetString v ''worker_token'', WorkerConfig_Name = Viper_GetString v ''worker_name'',
      WorkerConfig_Type = Viper_GetString v ''worker_type'', WorkerConfig_PollInterval = Viper_GetDuration v ''poll_interval'',
      WorkerConfig_ExecTimeout = Viper_GetDuration v ''exec_timeout'',
      WorkerConfig_HostCollectInterval = Viper_GetDuration v ''host_collect_interval'',
      WorkerConfig_LogToDB = Viper_GetBool v ''log_to_db'', WorkerConfig_ServicesConfigPath = Viper_GetString v ''services_config''\<rparr>"

definition unsafeSecretValue :: "string \<Rightarrow> bool" where
  "unsafeSecretValue value =
     (let value = ToLower (TrimSpace value)
      in value = [] \<or> Contains value ''<set-in-secret-manager>'' \<or> Contains value ''change-me'')"

definition unsafeWorkerToken :: "string \<Rightarrow> bool" where
  "unsafeWorkerToken value =
     (let value = ToLower (TrimSpace value)
      in value = [] \<or> Contains value ''<set-in-secret-manager>'' \<or> Contains value ''change-me'')"

text \<open>\<open>getenv\<close> is \<open>os.Getenv\<close>.\<close>

definition validateRuntimeConfig :: "(string \<Rightarrow> string) \<Rightarrow> ServerConfig \<Rightarrow> unit res" where
  "validateRuntimeConfig getenv cfg =
     (let missing =
            (if unsafeSecretValue (ServerConfig_AdminPassword cfg) then [''ADP_AUTH_ADMIN_PASSWORD''] else []) @
            (if unsafeSecretValue (ServerConfig_AuthSecret cfg) then [''ADP_AUTH_SECRET''] else []) @
            (if unsafeSecretValue (ServerConfig_WorkerSharedToken cfg) then [''ADP_AUTH_WORKER_TOKEN''] else []);
          mode = TrimSpace (ServerConfig_ManagedConfigSyncMode cfg)
      in if length missing > 0 then Inl (''required runtime secrets are missing: '' @ Join missing '', '')
         else if EqualFold (getenv ''ADP_ENV'') ''production'' \<and> TrimSpace (ServerConfig_DBDSN cfg) = []
         then Inl ''ADP_DB_DSN is required when ADP_ENV=production''
         else if mode \<noteq> [] \<and> mode \<noteq> ''missing'' \<and> mode \<noteq> ''enforce''
         then Inl (''managed config sync mode must be missing or enforce, got '' @ quoted mode)
         else Inr ())"

section \<open>The server\<close>

definition api_config :: "ServerConfig \<Rightarrow> Config" where
  "api_config cfg =
     \<lparr>Config_Addr = ServerConfig_Addr cfg, Config_AdminUsername = ServerConfig_AdminUsername cfg,
      Config_AdminPassword = ServerConfig_AdminPassword cfg, Config_AuthSecret = ServerConfig_AuthSecret cfg,
      Config_WorkerSharedToken = ServerConfig_WorkerSharedToken cfg, Config_LLMBaseURL = ServerConfig_LLMBaseURL cfg,
      Config_LLMAPIKey = ServerConfig_LLMAPIKey cfg, Config_LLMModel = ServerConfig_LLMModel cfg,
      Config_AgentMaxSteps = ServerConfig_AgentMaxSteps cfg,
      Config_AgentInputTokenCostUSDPer1K = ServerConfig_AgentInputTokenCostUSDPer1K cfg,
      Config_AgentOutputTokenCostUSDPer1K = ServerConfig_AgentOutputTokenCostUSDPer1K cfg,
      Config_ManagedConfigDir = ServerConfig_ManagedConfigDir cfg,
      Config_ManagedConfigSyncMode = ServerConfig_ManagedConfigSyncMode cfg\<rparr>"

text \<open>The database as user store of the authentication service. The service keeps its own copy of the repository
  record; it uses the table of users only, which no other method of the server touches.\<close>

definition postgres_users :: "Time \<Rightarrow> PostgresRepository UserStore" where
  "postgres_users now =
     \<lparr>us_CreateUser = Pg_CreateUser now, us_GetUser = Pg_GetUser, us_ListUsers = Pg_ListUsers,
      us_DeleteUser = Pg_DeleteUser, us_UpdatePassword = Pg_UpdatePassword now\<rparr>"

text \<open>The world of the server program: configuration, environment, the database behind a DSN, the listener, and what the
  handlers use with either repository.\<close>

record 'm server_world =
  World_viper :: viper
  World_getenv :: "string \<Rightarrow> string"
  World_database :: "string \<Rightarrow> Database"
  World_listen :: "string \<Rightarrow> unit res"
  World_memory :: "(MemoryRepository, unit, 'm) http_env"
  World_postgres :: "(PostgresRepository, PostgresRepository, 'm) http_env"

definition on_repository :: "'r Repository \<Rightarrow> ('r, 'd, 'm) http_env \<Rightarrow> ('r, 'd, 'm) http_env" where
  "on_repository repo env = env\<lparr>Http_agent := (Http_agent env)\<lparr>Env_repo := repo\<rparr>\<rparr>"

datatype running =
    Memory_server "(MemoryRepository, unit) Server"
  | Postgres_server "(PostgresRepository, PostgresRepository) Server"

text \<open>The end of \<open>runServe\<close>: a server that was constructed, and the port of the workers.\<close>

definition start_listening ::
  "'m server_world \<Rightarrow> ServerConfig \<Rightarrow> (('r, 'd) Server \<Rightarrow> running) \<Rightarrow> error option \<times> ('r, 'd) Server \<times> 'm \<Rightarrow> running res \<times> 'm" where
  "start_listening world cfg run svr =
     (case svr of
        (Some panic, _, m) \<Rightarrow> (Inl panic, m)
      | (None, s, m) \<Rightarrow>
          (case World_listen world (ServerConfig_WorkerGRPCAddr cfg) of
             Inl e \<Rightarrow> (Inl (''listen worker grpc '' @ ServerConfig_WorkerGRPCAddr cfg @ '': '' @ e), m)
           | Inr _ \<Rightarrow> (Inr (run s), m)))"

definition runServe :: "'m server_world \<Rightarrow> bool \<Rightarrow> Time \<Rightarrow> string \<Rightarrow> 'm \<Rightarrow> running res \<times> 'm" where
  "runServe world early now configPath m =
     (case read_config_file (World_viper world) configPath of
        Inl e \<Rightarrow> (Inl e, m)
      | Inr _ \<Rightarrow>
          let cfg = server_config (World_viper world)
          in case validateRuntimeConfig (World_getenv world) cfg of
               Inl e \<Rightarrow> (Inl e, m)
             | Inr _ \<Rightarrow>
                 if ServerConfig_DBDSN cfg \<noteq> []
                 then (case NewPostgresRepository now (World_database world (ServerConfig_DBDSN cfg)) of
                         Inl e \<Rightarrow> (Inl (''connect to database: '' @ e), m)
                       | Inr repo \<Rightarrow>
                           let env = on_repository postgres_repository (World_postgres world);
                               authService = SetUserStore (postgres_users now) (Auth_NewService (Http_bcrypt env) (Http_salt env)
                                 (ServerConfig_AdminUsername cfg) (ServerConfig_AdminPassword cfg) (ServerConfig_AuthSecret cfg));
                               users = snd (SeedUserStore authService repo)
                           in start_listening world cfg Postgres_server
                                (NewServer env early (api_config cfg) repo (Some authService) users m))
                 else let env = on_repository memory_repository (World_memory world);
                          authService = Auth_NewService (Http_bcrypt env) (Http_salt env)
                            (ServerConfig_AdminUsername cfg) (ServerConfig_AdminPassword cfg) (ServerConfig_AuthSecret cfg)
                      in start_listening world cfg Memory_server
                           (NewServer env early (api_config cfg) NewMemoryRepository (Some authService) () m))"

section \<open>Shutdown\<close>

datatype shutdown_call = Db_Ping | Grpc_GracefulStop | Grpc_Stop | Http_Shutdown | Db_Close

text \<open>\<open>grace\<close> is the time after which the open streams would have ended by themselves, \<open>None\<close> for never. Both waits
  end, since \<open>Stop\<close> ends every stream.\<close>

definition stopGRPCServer :: "Duration \<Rightarrow> Duration option \<Rightarrow> shutdown_call list" where
  "stopGRPCServer timeout grace =
     (case grace of
        Some t \<Rightarrow> if t < timeout then [Grpc_GracefulStop] else [Grpc_GracefulStop, Grpc_Stop]
      | None \<Rightarrow> [Grpc_GracefulStop, Grpc_Stop])"

definition grpc_stop_time :: "Duration \<Rightarrow> Duration option \<Rightarrow> Duration" where
  "grpc_stop_time timeout grace = (case grace of Some t \<Rightarrow> if t < timeout then t else timeout | None \<Rightarrow> timeout)"

text \<open>From the signal to the end of \<open>runServe\<close>. The deadline of five seconds starts before the streams are stopped;
  \<open>http\<close> is \<open>Server.Shutdown\<close> with the time that is left. The database is closed explicitly and once more by the
  deferred call.\<close>

definition shutdown :: "running \<Rightarrow> Duration option \<Rightarrow> (Duration \<Rightarrow> unit res) \<Rightarrow> unit res \<times> shutdown_call list" where
  "shutdown svr grace http =
     (http (5 * Second - grpc_stop_time (5 * Second) grace),
      (case svr of Postgres_server _ \<Rightarrow> [Db_Ping] | Memory_server _ \<Rightarrow> []) @
      stopGRPCServer (5 * Second) grace @ [Http_Shutdown] @
      (case svr of Postgres_server _ \<Rightarrow> [Db_Close, Db_Close] | Memory_server _ \<Rightarrow> []))"

section \<open>The worker\<close>

definition new_worker :: "WorkerConfig \<Rightarrow> Client" where
  "new_worker cfg =
     (let c = NewAgent (WorkerConfig_ServerURL cfg) (WorkerConfig_WorkerToken cfg) (WorkerConfig_Name cfg)
            (WorkerConfig_Type cfg) (WorkerConfig_PollInterval cfg);
          c = SetGRPCServerAddr (WorkerConfig_GRPCServerAddr cfg) c;
          c = Client_SetExecTimeout (WorkerConfig_ExecTimeout cfg) c;
          c = SetHostCollectInterval (WorkerConfig_HostCollectInterval cfg) c;
          c = SetLogToDB (WorkerConfig_LogToDB cfg) c
      in Client_SetServicesConfigPath (WorkerConfig_ServicesConfigPath cfg) c)"

text \<open>\<open>read\<close> is \<open>os.ReadFile\<close>. The token file wins over the other sources.\<close>

definition token_from_file :: "(string \<Rightarrow> string res) \<Rightarrow> string \<Rightarrow> string \<Rightarrow> string res" where
  "token_from_file read tokenFile token =
     (if TrimSpace tokenFile \<noteq> []
      then (case read tokenFile of
              Inl e \<Rightarrow> Inl (''read worker token file: '' @ e)
            | Inr contents \<Rightarrow> Inr (TrimSpace contents))
      else Inr token)"

definition runWorker ::
  "viper \<Rightarrow> (string \<Rightarrow> string res) \<Rightarrow> file_system \<Rightarrow> 'n transport \<Rightarrow> 'w shell \<Rightarrow> string \<Rightarrow> session list \<Rightarrow> 'w \<Rightarrow> 'n \<Rightarrow>
   error + stream_end \<times> ('w, 'n) Process" where
  "runWorker v read fs tr sh configPath ss w n =
     (case read_config_file v configPath of
        Inl e \<Rightarrow> Inl e
      | Inr _ \<Rightarrow>
          let cfg = worker_config v
          in case token_from_file read (TrimSpace (Viper_GetString v ''worker_token_file'')) (WorkerConfig_WorkerToken cfg) of
               Inl e \<Rightarrow> Inl e
             | Inr token \<Rightarrow>
                 if unsafeWorkerToken token
                 then Inl ''ADP_WORKER_TOKEN is required; supply it through a protected runtime secret''
                 else Inr (Run fs tr sh ss (new_worker (cfg\<lparr>WorkerConfig_WorkerToken := token\<rparr>)) w n))"

text \<open>The worker as a subcommand of the server, which has its flags only: \<open>cfg\<close> and \<open>tokenFile\<close> are their values.\<close>

definition runWorkerAsSubcommand ::
  "(string \<Rightarrow> string res) \<Rightarrow> file_system \<Rightarrow> 'n transport \<Rightarrow> 'w shell \<Rightarrow> WorkerConfig \<Rightarrow> string \<Rightarrow> session list \<Rightarrow> 'w \<Rightarrow> 'n \<Rightarrow>
   error + stream_end \<times> ('w, 'n) Process" where
  "runWorkerAsSubcommand read fs tr sh cfg tokenFile ss w n =
     (case token_from_file read tokenFile (WorkerConfig_WorkerToken cfg) of
        Inl e \<Rightarrow> Inl e
      | Inr token \<Rightarrow>
          if unsafeSecretValue token
          then Inl ''worker-token is required; supply it through a protected runtime secret''
          else Inr (Run fs tr sh ss (new_worker (cfg\<lparr>WorkerConfig_WorkerToken := token\<rparr>)) w n))"

section \<open>Lemmas\<close>

lemma apply_configs_config: "apply_configs yaml cfgs s = (e, s') \<Longrightarrow> Server_config s' = Server_config s"
  by (induction cfgs arbitrary: s)
    (auto simp: applyManagedConfig_def split: if_splits sum.splits option.splits prod.splits)

lemma sync_file_config: "sync_file repo yaml now enforce path kind content report s = (e, rep, s') \<Longrightarrow>
    Server_config s' = Server_config s"
  by (auto simp: sync_file_def save_config_def split: sum.splits if_splits prod.splits)

lemma sync_walk_config: "sync_walk repo yaml now enforce es report s = (e, rep, s') \<Longrightarrow> Server_config s' = Server_config s"
  by (induction es arbitrary: report s)
    (auto simp: sync_entry_def Let_def split: option.splits prod.splits sum.splits if_splits dest!: sync_file_config)

lemma load_configs_config: "Server_config (load_configs env s) = Server_config s"
proof -
  have "reloadManagedConfigs repo yaml t = (e, t') \<Longrightarrow> Server_config t' = Server_config t"
    for repo :: "'a Repository" and yaml e and t t' :: "('a, 'b) Server"
    by (auto simp: reloadManagedConfigs_def Let_def split: sum.splits dest: apply_configs_config)
  then have "Server_config (snd (reloadManagedConfigs repo yaml t)) = Server_config t"
    for repo :: "'a Repository" and yaml and t :: "('a, 'b) Server" by (metis prod.collapse)
  moreover have "syncManagedConfigs repo yaml walk now dir enforce t = (e, rep, t') \<Longrightarrow> Server_config t' = Server_config t"
    for repo :: "'a Repository" and yaml walk now dir enforce e rep and t t' :: "('a, 'b) Server"
    by (auto simp: syncManagedConfigs_def split: if_splits dest: sync_walk_config)
  ultimately show ?thesis by (auto simp: load_configs_def Let_def split: prod.splits)
qed

lemma NewServer_config: "NewServer env early cfg rp authSvc d m = (p, s, m') \<Longrightarrow> Server_config s = cfg"
proof -
  have bare: "Server_config (bare_server bc salt cfg rp authSvc d) = cfg" for bc salt
    by (simp add: bare_server_def Let_def)
  have resume: "resumeInterruptedAgentRuns agent s m = (p, s', m') \<Longrightarrow> Server_config s' = Server_config s"
    for agent s m p s' m'
    using resume_rules by (fastforce simp: rules_of_def)
  show "NewServer env early cfg rp authSvc d m = (p, s, m') \<Longrightarrow> Server_config s = cfg"
    by (auto simp: NewServer_def Let_def bare load_configs_config split: if_splits prod.splits dest!: resume)
qed

fun running_config :: "running \<Rightarrow> Config" where
  "running_config (Memory_server s) = Server_config s"
| "running_config (Postgres_server s) = Server_config s"

lemma started:
  assumes "start_listening world cfg run (NewServer env early c rp authSvc d m) = (Inr svr, m')"
  shows "\<exists>s. svr = run s \<and> Server_config s = c"
  using assms NewServer_config by (fastforce simp: start_listening_def split: prod.splits option.splits sum.splits)

lemma runServe_started:
  assumes "runServe world early now configPath m = (Inr svr, m')"
  shows "validateRuntimeConfig (World_getenv world) (server_config (World_viper world)) = Inr () \<and>
    running_config svr = api_config (server_config (World_viper world)) \<and>
    ((\<exists>s. svr = Postgres_server s) \<longleftrightarrow> ServerConfig_DBDSN (server_config (World_viper world)) \<noteq> [])"
  using assms by (auto simp: runServe_def Let_def split: sum.splits if_splits dest!: started)

text \<open>The worker streams and the HTTP server are stopped before the database is released, and streams that do not end
  in time are cut off.\<close>

lemma shutdown_order:
  assumes "snd (shutdown svr grace http) = before @ Db_Close # rest"
  shows "Grpc_GracefulStop \<in> set before \<and> Http_Shutdown \<in> set before \<and>
    ((\<forall>t. grace = Some t \<longrightarrow> 5 * Second \<le> t) \<longrightarrow> Grpc_Stop \<in> set before)"
  using assms
  by (cases svr; cases grace)
    (auto simp: shutdown_def stopGRPCServer_def Cons_eq_append_conv split: if_splits)

text \<open>With a connected worker, whose stream does not end by itself, stopping the streams uses up the deadline, and no time is
  left to finish the HTTP requests.\<close>

lemma shutdown_without_time: "fst (shutdown svr None http) = http 0"
  by (simp add: shutdown_def grpc_stop_time_def)

section \<open>Properties\<close>

text \<open>C19. A server that starts has real secrets: neither the administrator's password nor the signing secret nor the worker
  token is blank or a placeholder, in production it runs on the database, and, since the worker token is not empty, the
  stream service it starts admits no worker without presenting that token.\<close>

theorem server_starts_safely:
  assumes "runServe world early now configPath m = (Inr svr, m')"
  shows "let cfg = running_config svr; token = Config_WorkerSharedToken cfg
    in \<not> unsafeSecretValue (Config_AdminPassword cfg) \<and> \<not> unsafeSecretValue (Config_AuthSecret cfg) \<and>
       \<not> unsafeSecretValue token \<and>
       (EqualFold (World_getenv world ''ADP_ENV'') ''production'' \<longrightarrow> (\<exists>s. svr = Postgres_server s)) \<and>
       (service_authorize token md = Inr () \<longrightarrow> (\<exists>rest. md = Some (token # rest)))"
proof -
  let ?cfg = "server_config (World_viper world)"
  have v: "validateRuntimeConfig (World_getenv world) ?cfg = Inr ()" and c: "running_config svr = api_config ?cfg"
    and db: "(\<exists>s. svr = Postgres_server s) \<longleftrightarrow> ServerConfig_DBDSN ?cfg \<noteq> []"
    using runServe_started[OF assms] by auto
  have safe: "\<not> unsafeSecretValue (ServerConfig_AdminPassword ?cfg)" "\<not> unsafeSecretValue (ServerConfig_AuthSecret ?cfg)"
    "\<not> unsafeSecretValue (ServerConfig_WorkerSharedToken ?cfg)"
    using v by (auto simp: validateRuntimeConfig_def Let_def split: if_splits)
  have "TrimSpace [] = []" by code_simp
  then have "ServerConfig_WorkerSharedToken ?cfg \<noteq> []" using safe(3) by (auto simp: unsafeSecretValue_def ToLower_def)
  moreover have "EqualFold (World_getenv world ''ADP_ENV'') ''production'' \<longrightarrow> ServerConfig_DBDSN ?cfg \<noteq> []"
    using v \<open>TrimSpace [] = []\<close> by (auto simp: validateRuntimeConfig_def Let_def split: if_splits)
  ultimately show ?thesis using safe c db
    by (auto simp: api_config_def service_authorize_def neq_Nil_conv Let_def split: option.splits if_splits)
qed

definition pg_env :: "(PostgresRepository, nat) agent_env" where
  "pg_env = \<lparr>Env_repo = postgres_repository, Env_other = (\<lambda>s p. Tpl_exec_error []), Env_now = 9,
     Env_client = Some quick_model, Env_js = (\<lambda>_. ''{}''), Env_modelLatency = (\<lambda>_. 0), Env_toolLatency = (\<lambda>_. 0),
     Env_deadline = (\<lambda>_. False), Env_traceID = ''trace-1''\<rparr>"

definition pg_http :: "(PostgresRepository, PostgresRepository, nat) http_env" where
  "pg_http = \<lparr>Http_agent = pg_env, Http_bcrypt = marked_bcrypt, Http_salt = [], Http_yaml = demo_yaml,
     Http_yaml_job = (\<lambda>_. Inl []), Http_walk = (\<lambda>_. []), Http_remote_deploy = [], Http_executable = Inr ''/usr/bin/adp'',
     Http_resume = (\<lambda>i s. s), Http_uiFiles = (\<lambda>_. None), Http_assets = (\<lambda>_. not_found_page)\<rparr>"

definition demo_viper :: viper where
  "demo_viper = \<lparr>Viper_ReadInConfig = (\<lambda>_. Read_absent ''none''),
     Viper_GetString = (\<lambda>k. if k = ''db.dsn'' then ''postgres://db'' else if k = ''managed_config_sync_mode'' then ''missing''
       else ''s3cret''),
     Viper_GetInt = (\<lambda>_. 20), Viper_GetFloat64 = (\<lambda>_. 0), Viper_GetDuration = (\<lambda>_. 0), Viper_GetBool = (\<lambda>_. False)\<rparr>"

definition demo_world :: "nat server_world" where
  "demo_world = \<lparr>World_viper = demo_viper, World_getenv = (\<lambda>_. ''production''), World_database = (\<lambda>_. empty_db),
     World_listen = (\<lambda>_. Inr ()), World_memory = demo_http, World_postgres = pg_http\<rparr>"

theorem server_starts_safely_witness:
  "\<exists>s. fst (runServe demo_world False 9 [] 0) = Inr (Postgres_server s) \<and>
     \<not> unsafeSecretValue (Config_AuthSecret (Server_config s))"
proof -
  have "\<not> isl (fst (runServe demo_world False 9 [] 0))" by code_simp
  then obtain svr m' where r: "runServe demo_world False 9 [] 0 = (Inr svr, m')" by (metis isl_def prod.collapse sum.exhaust)
  have "EqualFold (World_getenv demo_world ''ADP_ENV'') ''production''" by (simp add: demo_world_def EqualFold_def)
  then show ?thesis using server_starts_safely[OF r, of None] r by (auto simp: Let_def)
qed

text \<open>C3. In production too a run of the agent, whatever the model answers and the database does, adds only commands that
  are renderings of registered modules the policy authorises; every other job in the database was there before and
  does the same work.\<close>

theorem production_run_modules_only:
  assumes "Env_repo env = postgres_repository"
    and "executePersistentRun env runID stream s m = (outcome, s', m')"
    and "Pg_GetJob j (Server_repo s') = Inr new"
  shows "(\<exists>old. Pg_GetJob j (Server_repo s) = Inr old \<and> same_work new old) \<or> module_work (Env_other env) s new"
  using run_repository.run_traced[OF pg_writes.run_repository_axioms assms(1,2)] assms(3)
  by (simp add: postgres_repository_def)

definition production_server :: "(PostgresRepository, PostgresRepository) Server" where
  "production_server = bare_server marked_bcrypt [] (Server_config demo_server) demo_repo None demo_repo"

theorem production_run_modules_only_witness:
  "let s' = fst (snd (executePersistentRun pg_env ''run-000001'' False production_server 0))
   in \<exists>new. Pg_GetJob ''job-000007'' (Server_repo s') = Inr new \<and>
      ((\<exists>old. Pg_GetJob ''job-000007'' (Server_repo production_server) = Inr old \<and> same_work new old) \<or>
       module_work (Env_other pg_env) production_server new)"
proof -
  let ?s' = "fst (snd (executePersistentRun pg_env ''run-000001'' False production_server 0))"
  have "\<not> isl (Pg_GetJob ''job-000007'' (Server_repo ?s'))" by code_simp
  then obtain new where new: "Pg_GetJob ''job-000007'' (Server_repo ?s') = Inr new"
    by (cases "Pg_GetJob ''job-000007'' (Server_repo ?s')") auto
  have env: "Env_repo pg_env = postgres_repository" by (simp add: pg_env_def)
  obtain outcome s' m' where run: "executePersistentRun pg_env ''run-000001'' False production_server 0 = (outcome, s', m')"
    by (metis prod.exhaust)
  then show ?thesis using production_run_modules_only[OF env run] new by (auto simp: Let_def)
qed

end
