(* ===== verification/Spec2Isabelle.thy ===== *)
theory Spec2Isabelle
  imports Dispatch Sensitive Policy Template Http_Access Stream_Session Postgres_Board Postgres_Props Programs
begin

text \<open>
  \<^bold>\<open>ADP, a controlled operations platform: a verification development.\<close>

  ADP has a server (\<open>cmd/server\<close>) and workers (\<open>cmd/worker\<close>). Users and an LLM agent create jobs on the
  server; risky jobs wait for a human decision; jobs are pushed over a gRPC stream to a worker, which
  authorises them again, runs them with its shell and streams the result back. The server keeps its
  state in a repository (in memory or PostgreSQL), records an audit trail and past incidents, and
  removes credentials from everything it logs, shows or hands to the model.

  \<^bold>\<open>Theories and the code they model\<close> (paths under \<open>src/internal\<close>):

  \<^item> \<open>Prelude\<close>: what the code uses of Go: \<open>strings\<close>, \<open>fmt\<close>, \<open>sort\<close> and maps. A string is the list of
    its bytes. A map is an association list with distinct keys; its order is the order of one
    iteration, and properties that must not depend on it say so. \<open>'a res\<close> is a result or an error.
  \<^item> \<open>Domain_Model\<close>: \<open>domain/model/model.go\<close> and \<open>worker_type.go\<close>, a record per struct, a string per
    constant; \<open>goval\<close> is the dynamic type \<open>any\<close> restricted to the values the program stores in it.
  \<^item> \<open>Sensitive\<close>: \<open>domain/model/sensitive.go\<close>. The regular expression is a backtracking matcher with
    Go's leftmost-first priority; \<open>SanitizeText\<close>, \<open>SanitizeMap\<close>, parameter validation.
  \<^item> \<open>Id_Source\<close>: the contract of a source of fresh identifiers, as a locale.
  \<^item> \<open>Scheduler_Store\<close>: \<open>infrastructure/scheduler/store.go\<close>, the record \<open>Store\<close> and one definition per
    method; \<open>store_op\<close> and \<open>store_exec\<close> are arbitrary sequences of calls.
  \<^item> \<open>Policy\<close>: \<open>domain/policy/engine.go\<close>. \<open>Template\<close>: \<open>domain/template/engine.go\<close> and \<open>module/\<close>.
  \<^item> \<open>Services\<close>: \<open>config/services.go\<close>. \<open>Runner\<close>: \<open>infrastructure/worker/runner.go\<close>. \<open>Worker_Client\<close>:
    \<open>infrastructure/worker/client.go\<close>, with the jobs in execution as a list of pending goroutines.
  \<^item> \<open>Wire\<close>: the messages of \<open>api/proto/adp/v1\<close>. \<open>Hub\<close>: \<open>infrastructure/workerstream/hub.go\<close>, channels
    with identity, capacity and closing. \<open>Stream_Service\<close>: \<open>infrastructure/workerstream/service.go\<close>.
  \<^item> \<open>Repository\<close>: \<open>infrastructure/db/repository.go\<close>, the interface as a record of methods and its laws
    as a locale. \<open>Memory_Repo\<close>: \<open>infrastructure/db/memory.go\<close>, which interprets it.
  \<^item> \<open>Llm\<close>: \<open>infrastructure/llm/client.go\<close>. \<open>Agent_Runtime\<close>: \<open>application/agent/runtime.go\<close>.
  \<^item> \<open>Json\<close> and \<open>Crypto\<close>: what the code uses of \<open>encoding/json\<close>, SHA-256, HMAC and base64.
    \<open>Auth\<close>: \<open>infrastructure/auth/service.go\<close>. \<open>Deploy\<close>: \<open>infrastructure/deploy/deploy.go\<close>.
  \<^item> \<open>Dispatch\<close>: what the store promises over histories of calls: dispatch without starvation, typed records.
  \<^item> \<open>Stream_Session\<close>: the send loop and the end of a stream of \<open>workerstream/service.go\<close>.
    \<open>Worker_Process\<close>: the rest of \<open>worker/client.go\<close>: host information, reporting over HTTP, the stream with its
    goroutines, reconnection; and the two ends of the stream joined.
  \<^item> \<open>Http_Base\<close>, \<open>Http_Jobs\<close>, \<open>Http_Workers\<close>, \<open>Http_Config\<close>, \<open>Http_Agent\<close>, \<open>Http_Runs\<close>,
    \<open>Http_Pages\<close>: \<open>interfaces/http\<close>. The record \<open>Server\<close> holds the state behind the handlers, and a
    handler maps a request and a server to a response and a server. \<open>Http_Agent\<close> holds the tools of the agent,
    \<open>Http_Runs\<close> the durable runs that call them through \<open>Agent_Runtime\<close>. \<open>Http_Server\<close>: construction,
    authentication and routing, with the multiplexer of \<open>net/http\<close> on clean, unescaped paths. \<open>Http_Access\<close>:
    who can do what through all routes.
  \<^item> \<open>Postgres_DB\<close>: the tables of \<open>infrastructure/db/schema.sql\<close> as lists of rows, statements on them, the
    constraints and limits of the columns. \<open>Postgres_Repo\<close>: every method of \<open>infrastructure/db/postgres.go\<close>,
    split where other callers can come between two statements. \<open>Postgres_Laws\<close>: it satisfies the
    contracts of \<open>Repository\<close> and \<open>Id_Source\<close>. \<open>Postgres_Board\<close>: refinement of an abstract board of jobs.
    \<open>Postgres_Props\<close>: restarts, concurrent creation, round trips.
  \<^item> \<open>Programs\<close>: \<open>config/config.go\<close> and, under \<open>src/cmd\<close>, \<open>server/root.go\<close> and \<open>worker/root.go\<close>: the
    configuration, its validation, and how the components are put together.

  \<^bold>\<open>State and effects.\<close> A struct with a mutex is a record; each method is a function that returns its
  result and the new record. A critical section is atomic; where a method has several, it is split
  (\<open>Mem_CreateJob\<close>, \<open>Pg_CreateJob\<close>, \<open>Pg_AssignNextJob\<close>) so that interleavings can be stated. Goroutines are steps
  of a relation (\<open>worker_run\<close>, \<open>hub_run\<close>) or events in a list (\<open>stream_loop\<close>, \<open>stream_select\<close>). The time is an
  argument of the methods that read the clock. What the program calls outside its own code (shell, file system, HTTP,
  gRPC transport, the language model) is an argument that acts on a state of any type.

  \<^bold>\<open>Interfaces.\<close> \<open>id_source\<close> is interpreted by the store and the PostgreSQL repository;
  \<open>job_repository\<close>, \<open>job_writes\<close> and \<open>run_repository\<close> by both repositories. What the HTTP handlers, the stream
  service and the agent rely on is proved once from these contracts and holds for both.

  \<^bold>\<open>What is shown.\<close> The store stays well formed and well typed under every sequence of calls, dispatches first come
  first served independently of map order and without starvation, moves jobs along the life cycle only, and leaves jobs that
  wait for approval alone. The PostgreSQL repository refines an abstract board of jobs, creates one job per idempotency key
  under every interleaving, reads jobs back as they were written, and issues fresh identifiers after a
  restart. Sanitised text holds no match of the secret pattern. The hub never panics
  and delivers in order; a worker reports each job once, its report finishes the job on the server, and the worker process ends
  only on command; tokens and job ownership are enforced on the stream. The worker's authorisation is characterised exactly.
  Agent runs stay within their step budget, act on listed workers only, emit sanitised events, and create only jobs of
  registered modules, on either repository. Over HTTP only administrators change the rules, and requests without a token are
  refused. A server that starts has real secrets. Properties of kind \<open>error\<close> state what the code does where it deviates
  from its intention.

  \<^bold>\<open>Bounds and fuel.\<close> Identifiers come from a 64-bit counter; freshness is stated while fewer than
  \<open>2 ^ 64\<close> were issued. The final loop of the stream decoder has fuel one more than the number of
  collected calls; more fuel gives the same result. The JSON parser has fuel twice the length of
  the text plus two and Go's nesting limit of 10000. The agent loop terminates by its step limit. All
  other recursions are structural or have a measure.

  \<^bold>\<open>Parameters.\<close> bcrypt, the YAML parser, the SSH library, the file system, the environment, the configuration library, the
  language model, the embedded files and the goroutine that resumes a run after an approval are arguments; the hypotheses
  about them are named in the statements that need them. Of the database, connection faults, the wording of
  constraint errors, the text a JSONB column returns and the resolution of times are fields of \<open>Database\<close>.

  \<^bold>\<open>Not modelled.\<close> Generated protocol code has no logic of its own. The live chunks of a streamed agent run are not
  modelled, its persisted events and its final answer are. Log lines, the declarations of flags, listening on a port and
  the delivery of signals are left out. The other isolation effects of the database, such as a statement that sees part of
  another one, do not occur: each statement is atomic.
\<close>

end
